(* ===== verification/Zre_Prelude.thy ===== *)
theory Zre_Prelude
  imports Complex_Main "HOL-Library.AList" "HOL-Library.Word"
begin

section \<open>Prelude: exceptions, effects, dictionaries\<close>

text \<open>
  What every component of the model shares.

  \<^item> \<open>exn\<close>: the Python exceptions that the modelled code raises, catches or lets escape.
  \<^item> \<open>('s, 'a) prog\<close>: a statement or expression of the source with effects. It runs on a state
    and gives back a state together with a value (\<open>Inr\<close>) or the exception that left it
    (\<open>Inl\<close>). The state reached before a \<open>raise\<close> is kept, as Python keeps it.
  \<^item> \<open>keeps\<close> and \<open>triple\<close>: the two judgements in which the components' lemmas are stated,
    with one rule per statement form collected in \<open>keeps_rules\<close> and \<open>triple_rules\<close>.
  \<^item> dictionaries: a Python \<open>dict\<close> iterates in insertion order, and assigning to a key that is
    present keeps its place. Association lists with \<open>AList.update\<close> and \<open>AList.delete\<close> do exactly
    that; the locale \<open>dict\<close> states the interface the components use.
\<close>

subsection \<open>Bytes and exceptions\<close>

type_synonym byte = "8 word"
type_synonym bytes = "byte list"

text \<open>A Python \<open>str\<close> is a list of code points.\<close>

type_synonym pystr = "nat list"

text \<open>Literals: \<open>blit ''ZRE''\<close> is \<open>b"ZRE"\<close> and \<open>lit ''tcp''\<close> is \<open>"tcp"\<close>.\<close>

definition blit :: "string \<Rightarrow> bytes" where
  "blit s = map of_char s"

definition lit :: "string \<Rightarrow> pystr" where
  "lit s = map of_char s"

datatype exn =
    ValueError
  | UnicodeError        \<comment> \<open>\<open>UnicodeDecodeError\<close> and \<open>UnicodeEncodeError\<close>, subclasses of \<open>ValueError\<close>\<close>
  | IndexError
  | KeyError
  | StructError         \<comment> \<open>\<open>struct.error\<close>\<close>
  | RuntimeError
  | OSError
  | ZMQError
  | AssertionError
  | AttributeError
  | TypeError
  | TimeoutExpired      \<comment> \<open>this one and the next of \<open>subprocess\<close>\<close>
  | CalledProcessError
  | UUIDCollisionError pystr
  | CollisionExit pystr   \<comment> \<open>raised by the example programs\<close>

definition is_value_error :: "exn \<Rightarrow> bool" where
  "is_value_error e \<longleftrightarrow> e = ValueError \<or> e = UnicodeError"

lemma is_value_error_simps [simp]:
  "is_value_error ValueError" "is_value_error UnicodeError"
  "\<not> is_value_error IndexError" "\<not> is_value_error KeyError"
  "\<not> is_value_error StructError" "\<not> is_value_error RuntimeError"
  "\<not> is_value_error OSError" "\<not> is_value_error ZMQError"
  "\<not> is_value_error AssertionError" "\<not> is_value_error AttributeError" "\<not> is_value_error TypeError"
  "\<not> is_value_error TimeoutExpired" "\<not> is_value_error CalledProcessError"
  "\<not> is_value_error (CollisionExit d)"
  "\<not> is_value_error (UUIDCollisionError d)"
  by (simp_all add: is_value_error_def)

subsection \<open>Statements with state and exceptions\<close>

type_synonym ('s, 'a) prog = "'s \<Rightarrow> (exn + 'a) \<times> 's"

definition ret :: "'a \<Rightarrow> ('s, 'a) prog" where
  "ret x = (\<lambda>s. (Inr x, s))"

definition throw :: "exn \<Rightarrow> ('s, 'a) prog" where
  "throw e = (\<lambda>s. (Inl e, s))"

definition andThen :: "('s, 'a) prog \<Rightarrow> ('a \<Rightarrow> ('s, 'b) prog) \<Rightarrow> ('s, 'b) prog" where
  "andThen m k = (\<lambda>s. case m s of (Inl e, s') \<Rightarrow> (Inl e, s') | (Inr x, s') \<Rightarrow> k x s')"

text \<open>The sequence \<open>m; k\<close>.\<close>

definition thenDo :: "('s, 'a) prog \<Rightarrow> ('s, 'b) prog \<Rightarrow> ('s, 'b) prog" where
  "thenDo m k = andThen m (\<lambda>_. k)"

definition gets :: "('s \<Rightarrow> 'a) \<Rightarrow> ('s, 'a) prog" where
  "gets f = (\<lambda>s. (Inr (f s), s))"

definition modify :: "('s \<Rightarrow> 's) \<Rightarrow> ('s, unit) prog" where
  "modify f = (\<lambda>s. (Inr (), f s))"

text \<open>A pure computation that may raise, run as a statement.\<close>

definition lift_exn :: "exn + 'a \<Rightarrow> ('s, 'a) prog" where
  "lift_exn r = (\<lambda>s. (r, s))"

definition only_if :: "bool \<Rightarrow> ('s, unit) prog \<Rightarrow> ('s, unit) prog" where
  "only_if b m = (if b then m else ret ())"

text \<open>\<open>for x in xs: f(x)\<close>. An exception ends the loop.\<close>

primrec for_each :: "('a \<Rightarrow> ('s, unit) prog) \<Rightarrow> 'a list \<Rightarrow> ('s, unit) prog" where
  "for_each f [] = ret ()"
| "for_each f (x # xs) = thenDo (f x) (for_each f xs)"

text \<open>\<open>try: m except E: h\<close>, for the exceptions \<open>E\<close> that \<open>p\<close> selects.\<close>

definition catch :: "(exn \<Rightarrow> bool) \<Rightarrow> ('s, 'a) prog \<Rightarrow> (exn \<Rightarrow> ('s, 'a) prog) \<Rightarrow> ('s, 'a) prog" where
  "catch p m h = (\<lambda>s. case m s of
      (Inl e, s') \<Rightarrow> (if p e then h e s' else (Inl e, s'))
    | (Inr x, s') \<Rightarrow> (Inr x, s'))"

text \<open>\<open>with contextlib.suppress(E): m\<close>.\<close>

definition suppress :: "(exn \<Rightarrow> bool) \<Rightarrow> ('s, unit) prog \<Rightarrow> ('s, unit) prog" where
  "suppress p m = catch p m (\<lambda>_. ret ())"

text \<open>\<open>try: m finally: f\<close>: \<open>f\<close> runs however \<open>m\<close> ends, and a raise of its own wins.\<close>

definition try_finally :: "('s, 'a) prog \<Rightarrow> ('s, unit) prog \<Rightarrow> ('s, 'a) prog" where
  "try_finally m f = (\<lambda>s. case m s of (r, s') \<Rightarrow>
     (case f s' of (Inl e, s'') \<Rightarrow> (Inl e, s'') | (Inr _, s'') \<Rightarrow> (r, s'')))"

definition any_exception :: "exn \<Rightarrow> bool" where
  "any_exception e = True"

text \<open>Pure computations that may raise, chained.\<close>

fun obind :: "exn + 'a \<Rightarrow> ('a \<Rightarrow> exn + 'b) \<Rightarrow> exn + 'b" where
  "obind (Inl e) k = Inl e"
| "obind (Inr x) k = k x"

lemma obind_Inr: "obind m k = Inr y \<longleftrightarrow> (\<exists>x. m = Inr x \<and> k x = Inr y)"
  by (cases m) auto

lemma obind_assoc: "obind (obind m f) g = obind m (\<lambda>x. obind (f x) g)"
  by (cases m) auto

lemma run_simps [simp]:
  "ret x s = (Inr x, s)"
  "throw e s = (Inl e, s)"
  "gets f s = (Inr (f s), s)"
  "modify g s = (Inr (), g s)"
  "lift_exn r s = (r, s)"
  by (simp_all add: ret_def throw_def gets_def modify_def lift_exn_def)

lemma run_andThen:
  "andThen m k s = (case m s of (Inl e, s') \<Rightarrow> (Inl e, s') | (Inr x, s') \<Rightarrow> k x s')"
  by (simp add: andThen_def)

lemma run_thenDo:
  "thenDo m k s = (case m s of (Inl e, s') \<Rightarrow> (Inl e, s') | (Inr x, s') \<Rightarrow> k s')"
  by (simp add: thenDo_def andThen_def)

lemma run_andThen_simps [simp]:
  "andThen (ret x) k s = k x s"
  "andThen (throw e) k s = (Inl e, s)"
  "andThen (gets f) k s = k (f s) s"
  "andThen (modify g) k' s = k' () (g s)"
  "thenDo (ret x) k'' s = k'' s"
  "thenDo (throw e) k'' s = (Inl e, s)"
  "thenDo (modify g) k'' s = k'' (g s)"
  by (simp_all add: run_andThen run_thenDo)

lemma andThen_Inr: "m s = (Inr x, s') \<Longrightarrow> andThen m k s = k x s'"
  by (simp add: run_andThen)

lemma andThen_Inl: "m s = (Inl e, s') \<Longrightarrow> andThen m k s = (Inl e, s')"
  by (simp add: run_andThen)

lemma thenDo_Inr: "m s = (Inr x, s') \<Longrightarrow> thenDo m k s = k s'"
  by (simp add: run_thenDo)

lemma thenDo_Inl: "m s = (Inl e, s') \<Longrightarrow> thenDo m k s = (Inl e, s')"
  by (simp add: run_thenDo)

text \<open>A sequence that ends normally went through its last part.\<close>

lemma andThen_InrE:
  assumes "andThen m k s = (Inr y, s')"
  obtains x s1 where "m s = (Inr x, s1)" "k x s1 = (Inr y, s')"
  using assms by (auto simp: run_andThen split: prod.splits sum.splits)

lemma thenDo_InrE:
  assumes "thenDo m k s = (Inr y, s')"
  obtains x s1 where "m s = (Inr x, s1)" "k s1 = (Inr y, s')"
  using assms by (auto simp: run_thenDo split: prod.splits sum.splits)

lemma only_if_simps [simp]: "only_if True m = m" "only_if False m = ret ()"
  by (simp_all add: only_if_def)

lemma for_each_append: "for_each f (xs @ ys) s = thenDo (for_each f xs) (for_each f ys) s"
  by (induction xs arbitrary: s) (auto simp: run_thenDo split: prod.splits sum.splits)

subsection \<open>Judgements on statements\<close>

text \<open>\<open>keeps I m\<close>: whatever way \<open>m\<close> ends, the property \<open>I\<close> of the state survives it.\<close>

definition keeps :: "('s \<Rightarrow> bool) \<Rightarrow> ('s, 'a) prog \<Rightarrow> bool" where
  "keeps I m \<longleftrightarrow> (\<forall>s. I s \<longrightarrow> I (snd (m s)))"

text \<open>\<open>triple P m Q R\<close>: from a state in \<open>P\<close>, a normal end satisfies \<open>Q\<close> and a raise \<open>R\<close>.\<close>

definition triple ::
  "('s \<Rightarrow> bool) \<Rightarrow> ('s, 'a) prog \<Rightarrow> ('a \<Rightarrow> 's \<Rightarrow> bool) \<Rightarrow> (exn \<Rightarrow> 's \<Rightarrow> bool) \<Rightarrow> bool" where
  "triple P m Q R \<longleftrightarrow>
     (\<forall>s. P s \<longrightarrow> (case m s of (Inr x, s') \<Rightarrow> Q x s' | (Inl e, s') \<Rightarrow> R e s'))"

text \<open>\<open>never_raises m\<close>: the statement always ends normally.\<close>

definition never_raises :: "('s, 'a) prog \<Rightarrow> bool" where
  "never_raises m \<longleftrightarrow> (\<forall>s. \<exists>x s'. m s = (Inr x, s'))"

named_theorems keeps_rules "rules that reduce keeps to the parts of a statement"
named_theorems triple_rules "rules that reduce triple to the parts of a statement"
named_theorems total_rules "rules that reduce never_raises to the parts of a statement"

lemma keepsI: "(\<And>s. I s \<Longrightarrow> I (snd (m s))) \<Longrightarrow> keeps I m"
  by (simp add: keeps_def)

lemma keepsD: "keeps I m \<Longrightarrow> I s \<Longrightarrow> m s = (r, s') \<Longrightarrow> I s'"
  by (metis keeps_def snd_conv)

lemma keeps_ret [keeps_rules]: "keeps I (ret x)"
  and keeps_throw [keeps_rules]: "keeps I (throw e)"
  and keeps_gets [keeps_rules]: "keeps I (gets f)"
  and keeps_lift [keeps_rules]: "keeps I (lift_exn r)"
  by (simp_all add: keeps_def)

lemma keeps_andThen [keeps_rules]:
  assumes "keeps I m" and "\<And>x. keeps I (k x)"
  shows "keeps I (andThen m k)"
proof (rule keepsI)
  fix s assume "I s"
  obtain r s' where m: "m s = (r, s')" by fastforce
  from assms(1) \<open>I s\<close> m have "I s'" by (rule keepsD)
  with assms(2) show "I (snd (andThen m k s))"
    by (cases r) (auto simp: run_andThen m keeps_def)
qed

lemma keeps_thenDo [keeps_rules]: "keeps I m \<Longrightarrow> keeps I k \<Longrightarrow> keeps I (thenDo m k)"
  by (simp add: thenDo_def keeps_andThen)

lemma keeps_if [keeps_rules]:
  "(b \<Longrightarrow> keeps I m) \<Longrightarrow> (\<not> b \<Longrightarrow> keeps I k) \<Longrightarrow> keeps I (if b then m else k)"
  by simp

lemma keeps_only_if [keeps_rules]: "(b \<Longrightarrow> keeps I m) \<Longrightarrow> keeps I (only_if b m)"
  by (simp add: only_if_def keeps_ret)

lemma keeps_for_each [keeps_rules]:
  "(\<And>x. x \<in> set xs \<Longrightarrow> keeps I (f x)) \<Longrightarrow> keeps I (for_each f xs)"
  by (induction xs) (auto intro: keeps_ret keeps_thenDo)

lemma keeps_catch [keeps_rules]:
  "keeps I m \<Longrightarrow> (\<And>e. keeps I (h e)) \<Longrightarrow> keeps I (catch p m h)"
  unfolding keeps_def catch_def
  by (simp add: split_beta split: sum.split)

lemma keeps_suppress [keeps_rules]: "keeps I m \<Longrightarrow> keeps I (suppress p m)"
  by (simp add: suppress_def keeps_catch keeps_ret)

lemma keeps_finally [keeps_rules]: "keeps I m \<Longrightarrow> keeps I f \<Longrightarrow> keeps I (try_finally m f)"
  unfolding keeps_def try_finally_def
  by (simp add: split_beta split: sum.split)

text \<open>After a \<open>finally\<close> part that never raises, its own effect holds, whatever happened before.\<close>

lemma finally_state:
  assumes "never_raises f"
  shows "snd (try_finally m f s) = snd (f (snd (m s)))" "fst (try_finally m f s) = fst (m s)"
proof -
  obtain x s' where "f (snd (m s)) = (Inr x, s')" using assms unfolding never_raises_def by blast
  then show "snd (try_finally m f s) = snd (f (snd (m s)))" "fst (try_finally m f s) = fst (m s)"
    by (simp_all add: try_finally_def split_beta)
qed

lemma keeps_option [keeps_rules]:
  "(v = None \<Longrightarrow> keeps I m) \<Longrightarrow> (\<And>x. v = Some x \<Longrightarrow> keeps I (k x)) \<Longrightarrow>
   keeps I (case v of None \<Rightarrow> m | Some x \<Rightarrow> k x)"
  by (cases v) auto

lemma keeps_prod [keeps_rules]:
  "(\<And>x y. v = (x, y) \<Longrightarrow> keeps I (k x y)) \<Longrightarrow> keeps I (case v of (x, y) \<Rightarrow> k x y)"
  by (cases v) auto

lemma keeps_sum [keeps_rules]:
  "(\<And>x. v = Inl x \<Longrightarrow> keeps I (m x)) \<Longrightarrow> (\<And>x. v = Inr x \<Longrightarrow> keeps I (k x)) \<Longrightarrow>
   keeps I (case v of Inl x \<Rightarrow> m x | Inr x \<Rightarrow> k x)"
  by (cases v) auto

lemma keeps_list [keeps_rules]:
  "(v = [] \<Longrightarrow> keeps I m) \<Longrightarrow> (\<And>x xs. v = x # xs \<Longrightarrow> keeps I (k x xs)) \<Longrightarrow>
   keeps I (case v of [] \<Rightarrow> m | x # xs \<Rightarrow> k x xs)"
  by (cases v) auto

lemma keeps_let [keeps_rules]: "keeps I (m v) \<Longrightarrow> keeps I (let x = v in m x)"
  by simp

lemma keeps_modify: "(\<And>s. I s \<Longrightarrow> I (f s)) \<Longrightarrow> keeps I (modify f)"
  by (simp add: keeps_def)

lemma keeps_conj: "keeps I m \<Longrightarrow> keeps J m \<Longrightarrow> keeps (\<lambda>s. I s \<and> J s) m"
  by (simp add: keeps_def)

lemma tripleI:
  "(\<And>s. P s \<Longrightarrow> (case m s of (Inr x, s') \<Rightarrow> Q x s' | (Inl e, s') \<Rightarrow> R e s')) \<Longrightarrow> triple P m Q R"
  by (simp add: triple_def)

lemma triple_Inr: "triple P m Q R \<Longrightarrow> P s \<Longrightarrow> m s = (Inr x, s') \<Longrightarrow> Q x s'"
  by (fastforce simp: triple_def)

lemma triple_Inl: "triple P m Q R \<Longrightarrow> P s \<Longrightarrow> m s = (Inl e, s') \<Longrightarrow> R e s'"
  by (fastforce simp: triple_def)

lemma triple_conseq:
  assumes "triple P' m Q' R'" and "\<And>s. P s \<Longrightarrow> P' s"
    and "\<And>x s. Q' x s \<Longrightarrow> Q x s" and "\<And>e s. R' e s \<Longrightarrow> R e s"
  shows "triple P m Q R"
  using assms unfolding triple_def by (fastforce split: prod.splits sum.splits)

lemma triple_ret [triple_rules]: "(\<And>s. P s \<Longrightarrow> Q x s) \<Longrightarrow> triple P (ret x) Q R"
  by (simp add: triple_def)

lemma triple_throw [triple_rules]: "(\<And>s. P s \<Longrightarrow> R e s) \<Longrightarrow> triple P (throw e) Q R"
  by (simp add: triple_def)

lemma triple_gets: "(\<And>s. P s \<Longrightarrow> Q (f s) s) \<Longrightarrow> triple P (gets f) Q R"
  by (simp add: triple_def)

lemma triple_modify: "(\<And>s. P s \<Longrightarrow> Q () (f s)) \<Longrightarrow> triple P (modify f) Q R"
  by (simp add: triple_def)

lemma triple_andThen:
  assumes "triple P m Q' R" and "\<And>x. triple (Q' x) (k x) Q R"
  shows "triple P (andThen m k) Q R"
proof (rule tripleI)
  fix s assume P: "P s"
  obtain r s' where m: "m s = (r, s')" by fastforce
  show "case andThen m k s of (Inr x, s') \<Rightarrow> Q x s' | (Inl e, s') \<Rightarrow> R e s'"
  proof (cases r)
    case (Inl e)
    with m assms(1) P have "R e s'" by (auto dest: triple_Inl)
    with m Inl show ?thesis by (simp add: run_andThen)
  next
    case (Inr x)
    with m assms(1) P have "Q' x s'" by (auto dest: triple_Inr)
    with assms(2) show ?thesis by (simp add: run_andThen m Inr triple_def)
  qed
qed

lemma triple_thenDo: "triple P m (\<lambda>_. Q') R \<Longrightarrow> triple Q' k Q R \<Longrightarrow> triple P (thenDo m k) Q R"
  by (simp add: thenDo_def triple_andThen)

lemma triple_for_each:
  assumes "\<And>x. x \<in> set xs \<Longrightarrow> triple I (f x) (\<lambda>_. I) R"
  shows "triple I (for_each f xs) (\<lambda>_. I) R"
  using assms by (induction xs) (auto intro: triple_ret triple_thenDo)

lemma triple_keeps: "keeps I m \<Longrightarrow> triple I m (\<lambda>_. I) (\<lambda>_. I)"
  unfolding keeps_def triple_def by (simp add: split_beta split: sum.split)

lemma never_raises_simps [total_rules]:
  "never_raises (ret x)" "never_raises (gets f)" "never_raises (modify g)"
  by (simp_all add: never_raises_def)

lemma never_raises_andThen [total_rules]:
  "never_raises m \<Longrightarrow> (\<And>x. never_raises (k x)) \<Longrightarrow> never_raises (andThen m k)"
  unfolding never_raises_def by (metis andThen_Inr)

lemma never_raises_thenDo [total_rules]:
  "never_raises m \<Longrightarrow> never_raises k \<Longrightarrow> never_raises (thenDo m k)"
  by (simp add: thenDo_def never_raises_andThen)

lemma never_raises_if [total_rules]:
  "(b \<Longrightarrow> never_raises m) \<Longrightarrow> (\<not> b \<Longrightarrow> never_raises k) \<Longrightarrow> never_raises (if b then m else k)"
  by simp

lemma never_raises_only_if [total_rules]: "(b \<Longrightarrow> never_raises m) \<Longrightarrow> never_raises (only_if b m)"
  by (simp add: only_if_def never_raises_simps)

lemma never_raises_option [total_rules]:
  "never_raises m \<Longrightarrow> (\<And>x. never_raises (k x)) \<Longrightarrow>
   never_raises (case v of None \<Rightarrow> m | Some x \<Rightarrow> k x)"
  by (cases v) auto

lemma never_raises_for_each [total_rules]:
  "(\<And>x. x \<in> set xs \<Longrightarrow> never_raises (f x)) \<Longrightarrow> never_raises (for_each f xs)"
  by (induction xs) (auto intro: total_rules)

lemma never_raises_suppress [total_rules]: "never_raises (suppress any_exception m)"
  unfolding never_raises_def suppress_def catch_def any_exception_def
  by (simp add: split_beta ret_def split: sum.split)

subsection \<open>Dictionaries in insertion order\<close>

abbreviation dict_get :: "('k \<times> 'v) list \<Rightarrow> 'k \<Rightarrow> 'v option" where
  "dict_get \<equiv> map_of"

abbreviation dict_set :: "'k \<Rightarrow> 'v \<Rightarrow> ('k \<times> 'v) list \<Rightarrow> ('k \<times> 'v) list" where
  "dict_set \<equiv> AList.update"

abbreviation dict_pop :: "'k \<Rightarrow> ('k \<times> 'v) list \<Rightarrow> ('k \<times> 'v) list" where
  "dict_pop \<equiv> AList.delete"

definition keys :: "('k \<times> 'v) list \<Rightarrow> 'k list" where
  "keys d = map fst d"

definition is_dict :: "('k \<times> 'v) list \<Rightarrow> bool" where
  "is_dict d \<longleftrightarrow> distinct (keys d)"

text \<open>What the components need of a dictionary: lookups after each update, and key order.\<close>

locale dict =
  fixes get :: "'d \<Rightarrow> 'k \<Rightarrow> 'v option"
    and put :: "'k \<Rightarrow> 'v \<Rightarrow> 'd \<Rightarrow> 'd"
    and pop :: "'k \<Rightarrow> 'd \<Rightarrow> 'd"
    and key_list :: "'d \<Rightarrow> 'k list"
    and inv :: "'d \<Rightarrow> bool"
  assumes get_put: "get (put k v d) k' = (if k' = k then Some v else get d k')"
    and get_pop: "get (pop k d) k' = (if k' = k then None else get d k')"
    and mem_key_list: "k \<in> set (key_list d) \<longleftrightarrow> get d k \<noteq> None"
    and key_list_put: "key_list (put k v d) =
          (if k \<in> set (key_list d) then key_list d else key_list d @ [k])"
    and key_list_pop: "key_list (pop k d) = filter (\<lambda>k'. k' \<noteq> k) (key_list d)"
    and inv_put: "inv d \<Longrightarrow> inv (put k v d)"
    and inv_pop: "inv d \<Longrightarrow> inv (pop k d)"
begin

lemma put_put_get: "get (put k v (put k v' d)) = get (put k v d)"
  by (auto simp: fun_eq_iff get_put)

lemma pop_absent: "k \<notin> set (key_list d) \<Longrightarrow> key_list (pop k d) = key_list d"
  by (auto simp: key_list_pop filter_id_conv)

lemma pop_put_keys: "k \<notin> set (key_list d) \<Longrightarrow> key_list (pop k (put k v d)) = key_list d"
  by (auto simp: key_list_pop key_list_put filter_id_conv)

lemma pop_then_get: "get (pop k d) k' = Some v \<Longrightarrow> k' \<noteq> k \<and> get d k' = Some v"
  by (simp add: get_pop split: if_splits)

end

lemma keys_update: "keys (dict_set k v d) = (if k \<in> set (keys d) then keys d else keys d @ [k])"
  by (simp add: keys_def AList.update_keys)

lemma keys_delete: "keys (dict_pop k d) = filter (\<lambda>k'. k' \<noteq> k) (keys d)"
  by (auto simp: keys_def AList.delete_keys removeAll_filter_not_eq intro: filter_cong)

lemma mem_keys: "k \<in> set (keys d) \<longleftrightarrow> map_of d k \<noteq> None"
  by (induction d) (auto simp: keys_def)

lemma is_dict_update: "is_dict d \<Longrightarrow> is_dict (dict_set k v d)"
  by (simp add: is_dict_def keys_update)

lemma is_dict_delete: "is_dict d \<Longrightarrow> is_dict (dict_pop k d)"
  by (simp add: is_dict_def keys_delete)

interpretation alist: dict map_of AList.update AList.delete keys is_dict
  by unfold_locales
    (auto simp: AList.update_conv' AList.delete_conv' mem_keys keys_update keys_delete
      is_dict_update is_dict_delete)

lemma dict_mem: "is_dict d \<Longrightarrow> (k, v) \<in> set d \<longleftrightarrow> map_of d k = Some v"
  by (auto simp: is_dict_def keys_def)

lemma set_dict_set:
  "is_dict d \<Longrightarrow> set (dict_set k v d) = insert (k, v) {x \<in> set d. fst x \<noteq> k}"
  using is_dict_update [of d k v]
  by (auto simp: dict_mem alist.get_put split: if_splits)

lemma set_dict_pop: "set (dict_pop k d) = {x \<in> set d. fst x \<noteq> k}"
  by (auto simp: AList.delete_eq)

subsection \<open>Lists\<close>

definition slice :: "nat \<Rightarrow> nat \<Rightarrow> 'a list \<Rightarrow> 'a list" where
  \<comment> \<open>the Python slice \<open>xs[i:j]\<close> for \<open>0 <= i\<close> and \<open>0 <= j\<close>: cut at the end of \<open>xs\<close>\<close>
  "slice i j xs = take (j - i) (drop i xs)"

lemma length_slice: "length (slice i j xs) = min (j - i) (length xs - i)"
  by (simp add: slice_def min.commute)

lemma slice_append [simp]:
  "slice (length pre) (length pre + length x) (pre @ x @ post) = x"
  "slice (length pre) (length pre + length x) (pre @ x) = x"
  by (simp_all add: slice_def)

lemma slice_at: "length pre = i \<Longrightarrow> j = i + length x \<Longrightarrow> slice i j (pre @ x @ post) = x"
  by (simp add: slice_def)

lemma slice_full: "i + n \<le> length xs \<Longrightarrow> length (slice i (i + n) xs) = n"
  by (simp add: length_slice)

end
