(* ===== verification/Zre_Text.thy ===== *)
theory Zre_Text
  imports Zre_Prelude
begin

section \<open>Python text: UTF-8, hexadecimal, integers, splitting\<close>

text \<open>
  The parts of Python's \<open>str\<close>, \<open>bytes\<close> and \<open>int\<close> that the node uses: \<open>str.encode\<close>,
  \<open>bytes.decode\<close> (strict and \<open>errors="replace"\<close>), \<open>bytes.hex\<close>, \<open>bytes.fromhex\<close>, \<open>int(str)\<close>,
  the decimal rendering of an integer in an f-string, \<open>repr\<close> of a \<open>bytes\<close> value, and the
  splitting and stripping methods. ASCII is modelled completely; what the Unicode character
  database says of other code points is the record \<open>pyrt\<close>, an argument of the operations that
  look at it.

  The locale \<open>codec\<close> states the round-trip contract of an encoder and a decoder that may raise.
  It is interpreted here for UTF-8, hexadecimal and decimal integers, and in the wire-format
  theories for the ZRE and ZGS messages.
\<close>

subsection \<open>The round-trip contract\<close>

locale codec =
  fixes enc :: "'a \<Rightarrow> exn + 'b"
    and dec :: "'b \<Rightarrow> exn + 'a"
    and valid :: "'a \<Rightarrow> bool"
  assumes round_trip: "valid x \<Longrightarrow> \<exists>b. enc x = Inr b \<and> dec b = Inr x"
begin

lemma enc_defined: "valid x \<Longrightarrow> \<exists>b. enc x = Inr b"
  using round_trip by blast

lemma dec_enc: "valid x \<Longrightarrow> enc x = Inr b \<Longrightarrow> dec b = Inr x"
  using round_trip by fastforce

lemma enc_inj: "valid x \<Longrightarrow> valid y \<Longrightarrow> enc x = enc y \<Longrightarrow> x = y"
  by (metis round_trip Inr_inject)

end

subsection \<open>UTF-8\<close>

text \<open>
  \<open>utf8_char\<close> encodes one code point; a surrogate (or a value past \<open>0x10FFFF\<close>, which no
  Python \<open>str\<close> holds) has no encoding.
\<close>

definition is_scalar :: "nat \<Rightarrow> bool" where
  "is_scalar c \<longleftrightarrow> c < 55296 \<or> 57344 \<le> c \<and> c < 1114112"

definition utf8_char :: "nat \<Rightarrow> nat list" where
  "utf8_char c =
    (if c < 128 then [c]
     else if c < 2048 then [192 + c div 64, 128 + c mod 64]
     else if c < 65536 then [224 + c div 4096, 128 + c div 64 mod 64, 128 + c mod 64]
     else [240 + c div 262144, 128 + c div 4096 mod 64, 128 + c div 64 mod 64, 128 + c mod 64])"

definition utf8_encode :: "pystr \<Rightarrow> exn + bytes" where
  "utf8_encode s =
    (if list_all is_scalar s then Inr (map of_nat (concat (map utf8_char s)))
     else Inl UnicodeError)"

definition is_cont :: "nat \<Rightarrow> bool" where
  "is_cont b \<longleftrightarrow> 128 \<le> b \<and> b < 192"

definition second_ok :: "nat \<Rightarrow> nat \<Rightarrow> bool" where
  "second_ok b1 b2 \<longleftrightarrow> is_cont b2 \<and> (b1 = 224 \<longrightarrow> 160 \<le> b2) \<and> (b1 = 237 \<longrightarrow> b2 < 160) \<and>
     (b1 = 240 \<longrightarrow> 144 \<le> b2) \<and> (b1 = 244 \<longrightarrow> b2 < 144)"

text \<open>
  The decoder reads the longest prefix of a well-formed sequence; where it stops early, that
  prefix (at least one byte) is one error, here \<open>None\<close>, and decoding resumes after it.
\<close>

fun utf8_scan :: "nat list \<Rightarrow> nat option list" where
  "utf8_scan [] = []"
| "utf8_scan (b1 # bs) =
    (if b1 < 128 then Some b1 # utf8_scan bs
     else if 194 \<le> b1 \<and> b1 < 224 then
       (case bs of
          [] \<Rightarrow> [None]
        | b2 # r2 \<Rightarrow>
            if is_cont b2 then Some ((b1 - 192) * 64 + (b2 - 128)) # utf8_scan r2
            else None # utf8_scan bs)
     else if 224 \<le> b1 \<and> b1 < 240 then
       (case bs of
          [] \<Rightarrow> [None]
        | b2 # r2 \<Rightarrow>
            if \<not> second_ok b1 b2 then None # utf8_scan bs
            else (case r2 of
               [] \<Rightarrow> [None]
             | b3 # r3 \<Rightarrow>
                 if is_cont b3
                 then Some ((b1 - 224) * 4096 + (b2 - 128) * 64 + (b3 - 128)) # utf8_scan r3
                 else None # utf8_scan r2))
     else if 240 \<le> b1 \<and> b1 < 245 then
       (case bs of
          [] \<Rightarrow> [None]
        | b2 # r2 \<Rightarrow>
            if \<not> second_ok b1 b2 then None # utf8_scan bs
            else (case r2 of
               [] \<Rightarrow> [None]
             | b3 # r3 \<Rightarrow>
                 if \<not> is_cont b3 then None # utf8_scan r2
                 else (case r3 of
                    [] \<Rightarrow> [None]
                  | b4 # r4 \<Rightarrow>
                      if is_cont b4
                      then Some ((b1 - 240) * 262144 + (b2 - 128) * 4096 + (b3 - 128) * 64
                             + (b4 - 128)) # utf8_scan r4
                      else None # utf8_scan r3)))
     else None # utf8_scan bs)"

definition utf8_decode_replace :: "bytes \<Rightarrow> pystr" where
  "utf8_decode_replace bs =
     map (\<lambda>c. case c of None \<Rightarrow> 65533 | Some c \<Rightarrow> c) (utf8_scan (map unat bs))"

definition utf8_decode :: "bytes \<Rightarrow> exn + pystr" where
  "utf8_decode bs =
    (let cs = utf8_scan (map unat bs)
     in if None \<in> set cs then Inl UnicodeError else Inr (map the cs))"

lemma scalar_cases:
  assumes "is_scalar c"
  obtains "c < 128" | "128 \<le> c" "c < 2048" | "2048 \<le> c" "c < 65536" "c < 55296 \<or> 57344 \<le> c"
    | "65536 \<le> c" "c < 1114112"
  using assms unfolding is_scalar_def by linarith

text \<open>Base-64 digits of a code point.\<close>

lemma base64_digits:
  fixes c :: nat
  defines "q1 \<equiv> c div 64" and "q2 \<equiv> c div 4096" and "q3 \<equiv> c div 262144"
  shows "c = q1 * 64 + c mod 64" and "q1 = q2 * 64 + q1 mod 64" and "q2 = q3 * 64 + q2 mod 64"
proof -
  have q2: "q2 = q1 div 64" and q3: "q3 = q2 div 64"
    by (simp_all add: q1_def q2_def q3_def div_mult2_eq [symmetric])
  show "c = q1 * 64 + c mod 64" unfolding q1_def by simp
  show "q1 = q2 * 64 + q1 mod 64" unfolding q2 by simp
  show "q2 = q3 * 64 + q2 mod 64" unfolding q3 by simp
qed

lemma mod_64: "(x :: nat) mod 64 < 64"
  by simp

lemma utf8_scan_2:
  assumes "128 \<le> c" and "c < 2048"
  shows "utf8_scan (utf8_char c @ r) = Some c # utf8_scan r"
proof -
  have "194 \<le> 192 + c div 64" "192 + c div 64 < 224"
    using assms base64_digits(1) [of c] mod_64 [of c] by linarith+
  moreover have "is_cont (128 + c mod 64)" by (simp add: is_cont_def)
  ultimately show ?thesis using assms by (simp add: utf8_char_def)
qed

lemma utf8_scan_3:
  assumes "2048 \<le> c" and "c < 65536" and "c < 55296 \<or> 57344 \<le> c"
  shows "utf8_scan (utf8_char c @ r) = Some c # utf8_scan r"
proof -
  note digits = base64_digits [of c] mod_64 [of c] mod_64 [of "c div 64"]
  have lead: "224 + c div 4096 < 240"
    using assms by (simp add: div_less_iff_less_mult)
  have "c div 4096 = 0 \<Longrightarrow> 32 \<le> c div 64 mod 64" "c div 4096 = 13 \<Longrightarrow> c div 64 mod 64 < 32"
    using digits assms by linarith+
  then have second: "second_ok (224 + c div 4096) (128 + c div 64 mod 64)"
    using lead by (auto simp: second_ok_def is_cont_def)
  have third: "is_cont (128 + c mod 64)" by (simp add: is_cont_def)
  have "c div 4096 * 4096 + c div 64 mod 64 * 64 + c mod 64 = c"
    using digits by linarith
  with assms lead second third show ?thesis by (simp add: utf8_char_def)
qed

lemma utf8_scan_4:
  assumes "65536 \<le> c" and "c < 1114112"
  shows "utf8_scan (utf8_char c @ r) = Some c # utf8_scan r"
proof -
  note digits = base64_digits [of c] mod_64 [of c] mod_64 [of "c div 64"] mod_64 [of "c div 4096"]
  have lead: "240 + c div 262144 < 245"
    using assms by (simp add: div_less_iff_less_mult)
  have "c div 262144 = 0 \<Longrightarrow> 16 \<le> c div 4096 mod 64" "c div 262144 = 4 \<Longrightarrow> c div 4096 mod 64 < 16"
    using digits assms by linarith+
  then have second: "second_ok (240 + c div 262144) (128 + c div 4096 mod 64)"
    using lead by (auto simp: second_ok_def is_cont_def)
  have third: "is_cont (128 + c div 64 mod 64)" "is_cont (128 + c mod 64)"
    by (simp_all add: is_cont_def)
  have "c div 262144 * 262144 + c div 4096 mod 64 * 4096 + c div 64 mod 64 * 64 + c mod 64 = c"
    using digits by linarith
  with assms lead second third show ?thesis by (simp add: utf8_char_def)
qed

lemma utf8_scan_char:
  assumes "is_scalar c"
  shows "utf8_scan (utf8_char c @ r) = Some c # utf8_scan r"
  using assms
proof (cases rule: scalar_cases)
  case 1
  then show ?thesis by (simp add: utf8_char_def)
qed (simp_all add: utf8_scan_2 utf8_scan_3 utf8_scan_4)

lemma utf8_scan_encoded:
  "list_all is_scalar s \<Longrightarrow> utf8_scan (concat (map utf8_char s)) = map Some s"
  by (induction s) (auto simp: utf8_scan_char)

lemma utf8_char_bytes: "is_scalar c \<Longrightarrow> b \<in> set (utf8_char c) \<Longrightarrow> b < 256"
  by (auto simp: utf8_char_def is_scalar_def div_less_iff_less_mult split: if_splits)

lemma utf8_unat:
  "list_all is_scalar s \<Longrightarrow>
   map unat (map (of_nat :: nat \<Rightarrow> byte) (concat (map utf8_char s))) = concat (map utf8_char s)"
  by (rule map_idI [of _ "unat \<circ> of_nat", unfolded map_map [symmetric]])
     (auto simp: list_all_iff unat_of_nat intro!: mod_less dest: utf8_char_bytes)

lemma decode_replace_encode: "utf8_encode s = Inr b \<Longrightarrow> utf8_decode_replace b = s"
  by (auto simp: utf8_encode_def utf8_decode_replace_def utf8_scan_encoded utf8_unat comp_def
      simp del: map_map split: if_splits)
     (simp add: comp_def)

interpretation utf8: codec utf8_encode utf8_decode "list_all is_scalar"
  by unfold_locales
     (auto simp: utf8_encode_def utf8_decode_def utf8_scan_encoded utf8_unat comp_def
       simp del: map_map, simp add: comp_def)

lemma scalar_ascii: "c < 128 \<Longrightarrow> is_scalar c"
  by (simp add: is_scalar_def)

definition ascii :: "pystr \<Rightarrow> bool" where
  "ascii s \<longleftrightarrow> list_all (\<lambda>c. c < 128) s"

lemma ascii_simps [simp]:
  "ascii []" "ascii (c # s) \<longleftrightarrow> c < 128 \<and> ascii s" "ascii (s @ t) \<longleftrightarrow> ascii s \<and> ascii t"
  by (simp_all add: ascii_def)

lemma utf8_encode_ascii: "ascii s \<Longrightarrow> utf8_encode s = Inr (map of_nat s)"
proof -
  assume "ascii s"
  then have "list_all is_scalar s" "concat (map utf8_char s) = s"
    by (induction s) (auto simp: scalar_ascii utf8_char_def)
  then show ?thesis by (simp add: utf8_encode_def)
qed

text \<open>Decoding ASCII bytes is the identity, with or without replacement.\<close>

lemma utf8_decode_replace_ascii:
  "ascii s \<Longrightarrow> utf8_decode_replace (map of_nat s) = s"
  by (rule decode_replace_encode, rule utf8_encode_ascii)

subsection \<open>What the Python runtime knows of Unicode\<close>

text \<open>
  \<open>rt_upper\<close> and \<open>rt_lower\<close> are \<open>str.upper\<close> and \<open>str.lower\<close> on strings with a non-ASCII
  character, \<open>rt_digit\<close> and \<open>rt_space\<close> what \<open>int\<close> accepts beyond ASCII, and
  \<open>rt_max_digits\<close> the limit of \<open>int\<close> on the number of digits (0 for none).
\<close>

record pyrt =
  rt_upper :: "pystr \<Rightarrow> pystr"
  rt_lower :: "pystr \<Rightarrow> pystr"
  rt_digit :: "nat \<Rightarrow> nat option"
  rt_space :: "nat \<Rightarrow> bool"
  rt_max_digits :: nat

definition ascii_upper :: "nat \<Rightarrow> nat" where
  "ascii_upper c = (if 97 \<le> c \<and> c \<le> 122 then c - 32 else c)"

definition ascii_lower :: "nat \<Rightarrow> nat" where
  "ascii_lower c = (if 65 \<le> c \<and> c \<le> 90 then c + 32 else c)"

definition str_upper :: "pyrt \<Rightarrow> pystr \<Rightarrow> pystr" where
  "str_upper R s = (if ascii s then map ascii_upper s else rt_upper R s)"

definition str_lower :: "pyrt \<Rightarrow> pystr \<Rightarrow> pystr" where
  "str_lower R s = (if ascii s then map ascii_lower s else rt_lower R s)"

subsection \<open>Hexadecimal\<close>

definition hexdigit :: "nat \<Rightarrow> nat" where
  "hexdigit d = (if d < 10 then 48 + d else 87 + d)"

definition hexval :: "nat \<Rightarrow> nat option" where
  "hexval c =
    (if 48 \<le> c \<and> c \<le> 57 then Some (c - 48)
     else if 97 \<le> c \<and> c \<le> 102 then Some (c - 87)
     else if 65 \<le> c \<and> c \<le> 70 then Some (c - 55)
     else None)"

text \<open>\<open>bytes.hex()\<close>.\<close>

definition hex_byte :: "byte \<Rightarrow> pystr" where
  "hex_byte b = [hexdigit (unat b div 16), hexdigit (unat b mod 16)]"

definition bytes_hex :: "bytes \<Rightarrow> pystr" where
  "bytes_hex bs = concat (map hex_byte bs)"

definition ascii_space :: "nat \<Rightarrow> bool" where
  "ascii_space c \<longleftrightarrow> c = 32 \<or> 9 \<le> c \<and> c \<le> 13"

text \<open>\<open>bytes.fromhex(s)\<close>: white space is skipped between bytes, not inside one.\<close>

fun bytes_fromhex :: "pystr \<Rightarrow> exn + bytes" where
  "bytes_fromhex [] = Inr []"
| "bytes_fromhex (c # cs) =
    (if ascii_space c then bytes_fromhex cs
     else (case cs of
        [] \<Rightarrow> Inl ValueError
      | d # ds \<Rightarrow>
          (case (hexval c, hexval d) of
             (Some x, Some y) \<Rightarrow>
               obind (bytes_fromhex ds) (\<lambda>bs. Inr (of_nat (16 * x + y) # bs))
           | _ \<Rightarrow> Inl ValueError)))"

lemma hexval_hexdigit: "d < 16 \<Longrightarrow> hexval (hexdigit d) = Some d"
  by (auto simp: hexval_def hexdigit_def)

lemma hexdigit_not_space: "d < 16 \<Longrightarrow> \<not> ascii_space (hexdigit d)"
  by (auto simp: ascii_space_def hexdigit_def)

lemma hexdigit_ascii: "d < 16 \<Longrightarrow> hexdigit d < 128"
  by (auto simp: hexdigit_def)

lemma byte_nibbles: "unat (b :: byte) div 16 < 16" "unat (b :: byte) mod 16 < 16"
proof -
  have "unat b < 256" using unsigned_less [of b] by simp
  then show "unat b div 16 < 16" "unat b mod 16 < 16" by auto
qed

lemma fromhex_hex_byte: "bytes_fromhex (hex_byte b @ s) = obind (bytes_fromhex s) (\<lambda>bs. Inr (b # bs))"
proof -
  have "(of_nat (16 * (unat b div 16) + unat b mod 16) :: byte) = b"
    by (simp only: mult_div_mod_eq) simp
  then show ?thesis
    using byte_nibbles [of b]
    by (simp add: hex_byte_def hexdigit_not_space hexval_hexdigit del: of_nat_add of_nat_mult)
qed

lemma fromhex_hex: "bytes_fromhex (bytes_hex bs) = Inr bs"
  by (induction bs) (auto simp: bytes_hex_def fromhex_hex_byte)

lemma length_bytes_hex: "length (bytes_hex bs) = 2 * length bs"
  by (induction bs) (auto simp: bytes_hex_def hex_byte_def)

lemma ascii_bytes_hex: "ascii (bytes_hex bs)"
  by (induction bs) (auto simp: bytes_hex_def hex_byte_def hexdigit_ascii byte_nibbles)

interpretation hex: codec "\<lambda>bs. Inr (bytes_hex bs)" bytes_fromhex "\<lambda>_. True"
  by unfold_locales (simp add: fromhex_hex)

lemma bytes_hex_inj: "bytes_hex a = bytes_hex b \<Longrightarrow> a = b"
  by (rule hex.enc_inj) simp_all

text \<open>Upper-casing a lower-case hexadecimal string loses nothing.\<close>

lemma lower_upper_hexdigit: "d < 16 \<Longrightarrow> ascii_lower (ascii_upper (hexdigit d)) = hexdigit d"
  by (auto simp: ascii_lower_def ascii_upper_def hexdigit_def)

lemma upper_ascii: "ascii s \<Longrightarrow> ascii (map ascii_upper s)"
  by (induction s) (auto simp: ascii_upper_def)

lemma lower_upper_hex: "str_lower R (str_upper R (bytes_hex bs)) = bytes_hex bs"
proof -
  have "map ascii_lower (map ascii_upper (bytes_hex bs)) = bytes_hex bs"
    by (induction bs) (auto simp: bytes_hex_def hex_byte_def lower_upper_hexdigit byte_nibbles)
  moreover have "ascii (map ascii_upper (bytes_hex bs))"
    by (intro upper_ascii ascii_bytes_hex)
  ultimately show ?thesis by (simp add: str_lower_def str_upper_def ascii_bytes_hex)
qed

subsection \<open>Decimal integers\<close>

fun show_nat :: "nat \<Rightarrow> pystr" where
  "show_nat n = (if n < 10 then [48 + n] else show_nat (n div 10) @ [48 + n mod 10])"

declare show_nat.simps [simp del]

text \<open>\<open>f"{i}"\<close>.\<close>

definition show_int :: "int \<Rightarrow> pystr" where
  "show_int i = (if i < 0 then 45 # show_nat (nat (- i)) else show_nat (nat i))"

definition is_digit :: "nat \<Rightarrow> bool" where
  "is_digit c \<longleftrightarrow> 48 \<le> c \<and> c \<le> 57"

text \<open>The digits of a literal, single underscores between them allowed.\<close>

fun scan_digits :: "pystr \<Rightarrow> bool \<Rightarrow> nat \<Rightarrow> nat option" where
  "scan_digits [] prev acc = (if prev then Some acc else None)"
| "scan_digits (c # cs) prev acc =
    (if is_digit c then scan_digits cs True (acc * 10 + (c - 48))
     else if c = 95 \<and> prev then scan_digits cs False acc
     else None)"

definition to_ascii_digits :: "pyrt \<Rightarrow> pystr \<Rightarrow> pystr" where
  "to_ascii_digits R s =
    (if ascii s then s
     else map (\<lambda>c. if c < 127 then c else if rt_space R c then 32
                   else (case rt_digit R c of Some d \<Rightarrow> 48 + d | None \<Rightarrow> 63)) s)"

definition strip_spaces :: "pystr \<Rightarrow> pystr" where
  "strip_spaces s = rev (dropWhile ascii_space (rev (dropWhile ascii_space s)))"

definition unsigned_int :: "pyrt \<Rightarrow> pystr \<Rightarrow> exn + nat" where
  "unsigned_int R s =
    (case scan_digits s False 0 of
       None \<Rightarrow> Inl ValueError
     | Some n \<Rightarrow> (if rt_max_digits R \<noteq> 0 \<and> rt_max_digits R < length (filter is_digit s)
                   then Inl ValueError else Inr n))"

text \<open>\<open>int(s)\<close>.\<close>

definition py_int :: "pyrt \<Rightarrow> pystr \<Rightarrow> exn + int" where
  "py_int R s =
    (case strip_spaces (to_ascii_digits R s) of
       [] \<Rightarrow> Inl ValueError
     | c # cs \<Rightarrow>
         if c = 45 then obind (unsigned_int R cs) (\<lambda>n. Inr (- int n))
         else if c = 43 then obind (unsigned_int R cs) (\<lambda>n. Inr (int n))
         else obind (unsigned_int R (c # cs)) (\<lambda>n. Inr (int n)))"

lemma digit_char: "d < 10 \<Longrightarrow> is_digit (48 + d)"
  by (simp add: is_digit_def)

text \<open>\<open>int(s, 16)\<close> for a string without white space: sign, \<open>0x\<close> prefix, digits, underscores.\<close>

fun scan_hex :: "pystr \<Rightarrow> bool \<Rightarrow> nat \<Rightarrow> nat option" where
  "scan_hex [] prev acc = (if prev then Some acc else None)"
| "scan_hex (c # cs) prev acc =
    (case hexval c of
       Some d \<Rightarrow> scan_hex cs True (acc * 16 + d)
     | None \<Rightarrow> if c = 95 \<and> prev then scan_hex cs False acc else None)"

definition unsigned_hex :: "pystr \<Rightarrow> exn + int" where
  "unsigned_hex s =
    (case (if take 2 s = [48, 120] \<or> take 2 s = [48, 88]
           then scan_hex (drop 2 s) (take 1 (drop 2 s) = [95]) 0 else scan_hex s False 0) of
       None \<Rightarrow> Inl ValueError | Some n \<Rightarrow> Inr (int n))"

definition py_int16 :: "pystr \<Rightarrow> exn + int" where
  "py_int16 s =
    (case s of
       [] \<Rightarrow> Inl ValueError
     | c # cs \<Rightarrow> if c = 45 then obind (unsigned_hex cs) (\<lambda>n. Inr (- n))
                 else if c = 43 then unsigned_hex cs else unsigned_hex s)"

lemma show_nat_digits: "list_all is_digit (show_nat n)"
  by (induction n rule: show_nat.induct) (subst show_nat.simps, auto simp: digit_char)

lemma show_nat_nonempty: "show_nat n \<noteq> []"
  by (subst show_nat.simps) simp

lemma scan_digits_append:
  "list_all is_digit s \<Longrightarrow>
   scan_digits (s @ [c]) b acc = (case scan_digits s True acc of
     Some n \<Rightarrow> scan_digits [c] True n | None \<Rightarrow> None)"
  by (induction s arbitrary: b acc) (auto simp: is_digit_def)

lemma scan_show_nat: "scan_digits (show_nat n) b 0 = Some n"
proof (induction n arbitrary: b rule: show_nat.induct)
  case (1 n)
  show ?case
  proof (cases "n < 10")
    case True
    then show ?thesis by (subst show_nat.simps) (simp add: is_digit_def)
  next
    case False
    with "1" have "scan_digits (show_nat (n div 10)) True 0 = Some (n div 10)" by simp
    with False show ?thesis
      by (subst show_nat.simps) (simp add: scan_digits_append show_nat_digits is_digit_def)
  qed
qed

lemma digit_ascii: "list_all is_digit s \<Longrightarrow> ascii s"
  by (auto simp: list_all_iff ascii_def is_digit_def)

lemma strip_spaces_id:
  "s \<noteq> [] \<Longrightarrow> \<not> ascii_space (hd s) \<Longrightarrow> \<not> ascii_space (last s) \<Longrightarrow> strip_spaces s = s"
proof -
  assume s: "s \<noteq> []" "\<not> ascii_space (hd s)" "\<not> ascii_space (last s)"
  then have "dropWhile ascii_space s = s" by (cases s) auto
  moreover have "dropWhile ascii_space (rev s) = rev s"
    using s by (cases s rule: rev_cases) auto
  ultimately show ?thesis by (simp add: strip_spaces_def)
qed

lemma digit_not_space: "is_digit c \<Longrightarrow> \<not> ascii_space c"
  by (auto simp: is_digit_def ascii_space_def)

definition digits_fit :: "pyrt \<Rightarrow> int \<Rightarrow> bool" where
  "digits_fit R i \<longleftrightarrow> rt_max_digits R = 0 \<or> length (show_nat (nat \<bar>i\<bar>)) \<le> rt_max_digits R"

lemma unsigned_show:
  "digits_fit R i \<Longrightarrow> unsigned_int R (show_nat (nat \<bar>i\<bar>)) = Inr (nat \<bar>i\<bar>)"
  using show_nat_digits [of "nat \<bar>i\<bar>"]
  by (auto simp: unsigned_int_def scan_show_nat digits_fit_def list_all_iff filter_id_conv
      cong: filter_cong)

lemma py_int_show: "digits_fit R i \<Longrightarrow> py_int R (show_int i) = Inr i"
proof -
  assume fit: "digits_fit R i"
  let ?s = "show_nat (nat \<bar>i\<bar>)"
  have digits: "list_all is_digit ?s" and ne: "?s \<noteq> []"
    by (simp_all add: show_nat_digits show_nat_nonempty)
  then obtain c cs where s: "?s = c # cs" by (cases ?s) auto
  with digits have c: "is_digit c" by simp
  have last: "is_digit (last ?s)" using digits ne by (simp add: list_all_iff)
  show ?thesis
  proof (cases "i < 0")
    case True
    then have show_i: "show_int i = 45 # ?s" by (simp add: show_int_def)
    have "strip_spaces (45 # ?s) = 45 # ?s"
      using last ne digit_not_space by (intro strip_spaces_id) (auto simp: ascii_space_def)
    moreover have "ascii (45 # ?s)" using digits by (simp add: digit_ascii)
    ultimately show ?thesis
      using True unsigned_show [OF fit] by (simp add: show_i py_int_def to_ascii_digits_def)
  next
    case False
    then have show_i: "show_int i = ?s" and nat_i: "show_nat (nat i) = c # cs"
      using s by (simp_all add: show_int_def)
    have "strip_spaces ?s = ?s"
      using last ne c by (intro strip_spaces_id) (auto simp: s digit_not_space)
    moreover have "ascii ?s" using digits by (rule digit_ascii)
    moreover have "c \<noteq> 45" "c \<noteq> 43" using c by (auto simp: is_digit_def)
    moreover have "unsigned_int R (c # cs) = Inr (nat \<bar>i\<bar>)"
      using unsigned_show [OF fit] by (simp only: s)
    ultimately show ?thesis
      using False by (simp add: show_i py_int_def to_ascii_digits_def nat_i)
  qed
qed

interpretation decimal: codec "\<lambda>i. Inr (show_int i)" "py_int R" "digits_fit R" for R
  by unfold_locales (simp add: py_int_show)

lemma show_int_ascii: "ascii (show_int i)"
  using show_nat_digits [THEN digit_ascii] by (auto simp: show_int_def)

subsection \<open>Splitting and stripping\<close>

text \<open>\<open>s.split(sep, 1)\<close>: the parts before and after the first \<open>sep\<close>, if there is one.\<close>

fun split_once :: "pystr \<Rightarrow> pystr \<Rightarrow> (pystr \<times> pystr) option" where
  "split_once sep [] = (if sep = [] then Some ([], []) else None)"
| "split_once sep (c # cs) =
    (if take (length sep) (c # cs) = sep then Some ([], drop (length sep) (c # cs))
     else map_option (\<lambda>(a, b). (c # a, b)) (split_once sep cs))"

text \<open>\<open>s.partition(c)\<close> and \<open>s.rpartition(c)\<close> for a one-character separator, which is dropped.\<close>

definition partition_at :: "nat \<Rightarrow> pystr \<Rightarrow> pystr \<times> pystr" where
  "partition_at c s = (takeWhile (\<lambda>x. x \<noteq> c) s, drop 1 (dropWhile (\<lambda>x. x \<noteq> c) s))"

definition rpartition_at :: "nat \<Rightarrow> pystr \<Rightarrow> pystr \<times> pystr" where
  "rpartition_at c s =
    (if c \<in> set s
     then (rev (drop 1 (dropWhile (\<lambda>x. x \<noteq> c) (rev s))), rev (takeWhile (\<lambda>x. x \<noteq> c) (rev s)))
     else ([], s))"

definition lstrip_chars :: "pystr \<Rightarrow> pystr \<Rightarrow> pystr" where
  "lstrip_chars cs s = dropWhile (\<lambda>x. x \<in> set cs) s"

definition strip_chars :: "pystr \<Rightarrow> pystr \<Rightarrow> pystr" where
  "strip_chars cs s = rev (lstrip_chars cs (rev (lstrip_chars cs s)))"

definition starts_with :: "'a list \<Rightarrow> 'a list \<Rightarrow> bool" where
  "starts_with p s \<longleftrightarrow> take (length p) s = p"

text \<open>\<open>s.split()\<close>: the words between runs of white space.\<close>

definition py_space :: "pyrt \<Rightarrow> nat \<Rightarrow> bool" where
  "py_space R c \<longleftrightarrow> ascii_space c \<or> 28 \<le> c \<and> c \<le> 31 \<or> 128 \<le> c \<and> rt_space R c"

fun split_words :: "pyrt \<Rightarrow> pystr \<Rightarrow> pystr \<Rightarrow> pystr list" where
  "split_words R word [] = (if word = [] then [] else [rev word])"
| "split_words R word (c # cs) =
    (if py_space R c
     then (if word = [] then split_words R [] cs else rev word # split_words R [] cs)
     else split_words R (c # word) cs)"

lemma partition_at_found: "c \<notin> set a \<Longrightarrow> partition_at c (a @ c # b) = (a, b)"
  by (auto simp: partition_at_def takeWhile_append dropWhile_append)

lemma rpartition_at_found: "c \<notin> set b \<Longrightarrow> rpartition_at c (a @ c # b) = (a, b)"
  by (auto simp: rpartition_at_def takeWhile_append dropWhile_append)

lemma strip_chars_id:
  "set cs \<inter> set s = {} \<Longrightarrow> strip_chars cs s = s"
proof -
  assume disjoint: "set cs \<inter> set s = {}"
  then have "lstrip_chars cs s = s"
    by (cases s) (auto simp: lstrip_chars_def)
  moreover have "lstrip_chars cs (rev s) = rev s"
    using disjoint by (cases s rule: rev_cases) (auto simp: lstrip_chars_def)
  ultimately show ?thesis by (simp add: strip_chars_def)
qed

lemma lstrip_chars_id: "s = [] \<or> hd s \<notin> set cs \<Longrightarrow> lstrip_chars cs s = s"
  by (auto simp: lstrip_chars_def dropWhile_eq_self_iff)

subsection \<open>\<open>repr\<close> of a bytes value\<close>

definition repr_byte :: "nat \<Rightarrow> nat \<Rightarrow> pystr" where
  "repr_byte quote b =
    (if b = quote \<or> b = 92 then [92, b]
     else if b = 9 then [92, 116] else if b = 10 then [92, 110] else if b = 13 then [92, 114]
     else if b < 32 \<or> 127 \<le> b then [92, 120, hexdigit (b div 16), hexdigit (b mod 16)]
     else [b])"

text \<open>\<open>f"{value}"\<close> of a \<open>bytes\<close> object: the \<open>b'...'\<close> literal.\<close>

definition bytes_repr :: "bytes \<Rightarrow> pystr" where
  "bytes_repr bs =
    (let ns = map unat bs;
         quote = (if 39 \<in> set ns \<and> 34 \<notin> set ns then 34 else 39)
     in 98 # quote # concat (map (repr_byte quote) ns) @ [quote])"

text \<open>A runtime that knows nothing beyond ASCII, for concrete examples.\<close>

definition plain_rt :: pyrt where
  "plain_rt = \<lparr>rt_upper = id, rt_lower = id, rt_digit = (\<lambda>_. None), rt_space = (\<lambda>_. False),
     rt_max_digits = 4300\<rparr>"

end
