(* ===== verification/Zre_Endpoint.thy ===== *)
theory Zre_Endpoint
  imports Zre_Text
begin

section \<open>Wire strings and TCP endpoints\<close>

text \<open>
  The module-level helpers of \<open>zre/node.py\<close> on names and addresses: \<open>_wire_string\<close>,
  \<open>_tcp_address\<close>, \<open>_split_endpoint\<close>, and \<open>ZreNode._split_hub_endpoint\<close>. The main facts: a wire
  string is at most 255 bytes or a \<open>ValueError\<close>, and splitting an endpoint gives back the host
  and port it was built from, for IPv4 addresses and names, IPv6 literals with and without
  brackets, and link-local addresses with a zone.
\<close>

text \<open>Arguments declared \<open>str | bytes\<close>.\<close>

datatype pyval = PyStr pystr | PyBytes bytes

fun to_bytes :: "pyval \<Rightarrow> exn + bytes" where
  "to_bytes (PyStr s) = utf8_encode s"
| "to_bytes (PyBytes b) = Inr b"

definition MAX_STRING_BYTES :: nat where
  "MAX_STRING_BYTES = 255"

definition wire_string :: "pyval \<Rightarrow> exn + bytes" where
  "wire_string v =
     obind (to_bytes v)
       (\<lambda>raw. if MAX_STRING_BYTES < length raw then Inl ValueError else Inr raw)"

definition tcp_address :: "pystr \<Rightarrow> int \<Rightarrow> pystr" where
  "tcp_address addr port =
    (let host = strip_chars (lit ''[]'') addr
     in if 58 \<in> set host \<and> 37 \<notin> set host
        then lit ''tcp://['' @ host @ lit '']:'' @ show_int port
        else lit ''tcp://'' @ addr @ lit '':'' @ show_int port)"

definition split_endpoint :: "pyrt \<Rightarrow> pystr \<Rightarrow> exn + (pystr \<times> int)" where
  "split_endpoint R ep =
    (case split_once (lit ''://'') ep of
       None \<Rightarrow> Inl IndexError
     | Some (_, without_scheme) \<Rightarrow>
         if starts_with (lit ''['') without_scheme then
           (let (host, remainder) = partition_at 93 (drop 1 without_scheme)
            in obind (py_int R (lstrip_chars (lit '':'') remainder)) (\<lambda>port. Inr (host, port)))
         else
           (let (host, port) = rpartition_at 58 without_scheme
            in obind (py_int R port) (\<lambda>port. Inr (takeWhile (\<lambda>c. c \<noteq> 37) host, port))))"

definition split_hub_endpoint :: "pyrt \<Rightarrow> pystr \<Rightarrow> exn + (pystr \<times> int)" where
  "split_hub_endpoint R ep =
    (let without_scheme = (case split_once (lit ''://'') ep of None \<Rightarrow> ep | Some (_, w) \<Rightarrow> w);
         (host, port) = rpartition_at 58 without_scheme;
         bare = strip_chars (lit ''[]'') host
     in obind (py_int R port)
          (\<lambda>port. Inr (if bare = [] then lit ''127.0.0.1'' else bare, port)))"

subsection \<open>Literals\<close>

lemma lit_tcp: "lit ''tcp://'' = [116, 99, 112, 58, 47, 47]"
  and lit_tcp_bracket: "lit ''tcp://['' = [116, 99, 112, 58, 47, 47, 91]"
  and lit_bracket_colon: "lit '']:'' = [93, 58]"
  and lit_colon: "lit '':'' = [58]"
  and lit_bracket: "lit ''['' = [91]"
  and lit_brackets: "lit ''[]'' = [91, 93]"
  and lit_scheme: "lit ''://'' = [58, 47, 47]"
  by (simp_all add: lit_def)

lemmas lit_simps = lit_tcp lit_tcp_bracket lit_bracket_colon lit_colon lit_bracket lit_brackets
  lit_scheme

subsection \<open>Properties\<close>

lemma wire_string_length: "wire_string v = Inr b \<Longrightarrow> length b \<le> 255"
  by (auto simp: wire_string_def obind_Inr MAX_STRING_BYTES_def split: if_splits)

lemma wire_string_bytes:
  "wire_string (PyBytes b) = (if length b \<le> 255 then Inr b else Inl ValueError)"
  by (simp add: wire_string_def MAX_STRING_BYTES_def)

lemma wire_string_error:
  "wire_string v = Inl e \<Longrightarrow> is_value_error e"
  by (cases v) (auto simp: wire_string_def utf8_encode_def split: if_splits)

lemma split_tcp: "split_once (lit ''://'') (lit ''tcp://'' @ s) = Some (lit ''tcp'', s)"
  by (simp add: lit_simps) (simp add: lit_def)

lemma show_int_no: "c < 45 \<or> c = 46 \<or> c = 47 \<or> 57 < c \<Longrightarrow> c \<notin> set (show_int i)"
proof -
  assume c: "c < 45 \<or> c = 46 \<or> c = 47 \<or> 57 < c"
  have "c \<notin> set (show_nat n)" for n
    using show_nat_digits [of n] c by (auto simp: list_all_iff is_digit_def)
  with c show ?thesis by (auto simp: show_int_def)
qed

lemma show_int_nonempty: "show_int i \<noteq> []"
  by (simp add: show_int_def show_nat_nonempty)

lemma lstrip_colon_port: "lstrip_chars [58] (58 # show_int i) = show_int i"
proof -
  have "58 \<notin> set (show_int i)" by (simp add: show_int_no)
  then have "hd (show_int i) \<noteq> 58" using show_int_nonempty [of i] by (cases "show_int i") auto
  then show ?thesis
    by (simp add: lstrip_chars_def dropWhile_eq_self_iff)
qed

text \<open>A bracketed IPv6 literal.\<close>

lemma split_endpoint_bracketed:
  assumes "93 \<notin> set host" and "digits_fit R port"
  shows "split_endpoint R (lit ''tcp://['' @ host @ lit '']:'' @ show_int port) = Inr (host, port)"
proof -
  have ep: "lit ''tcp://['' @ host @ lit '']:'' @ show_int port =
      lit ''tcp://'' @ (91 # host @ 93 # 58 # show_int port)"
    by (simp add: lit_simps)
  show ?thesis
    unfolding split_endpoint_def ep split_tcp using assms
    by (simp add: lit_simps starts_with_def partition_at_found lstrip_colon_port py_int_show)
qed

text \<open>A name, an IPv4 address or an address with a zone: the zone is dropped.\<close>

lemma split_endpoint_plain:
  assumes "host = [] \<or> hd host \<noteq> 91" and "digits_fit R port"
  shows "split_endpoint R (lit ''tcp://'' @ host @ lit '':'' @ show_int port) =
    Inr (takeWhile (\<lambda>c. c \<noteq> 37) host, port)"
proof -
  have "\<not> starts_with [91] (host @ 58 # show_int port)"
    using assms(1) by (cases host) (auto simp: starts_with_def)
  moreover have "rpartition_at 58 (host @ 58 # show_int port) = (host, show_int port)"
    by (rule rpartition_at_found) (simp add: show_int_no)
  ultimately show ?thesis
    unfolding split_endpoint_def split_tcp
    by (simp add: lit_simps py_int_show [OF assms(2)])
qed

lemma split_endpoint_no_scheme:
  "split_once (lit ''://'') ep = None \<Longrightarrow> split_endpoint R ep = Inl IndexError"
  by (simp add: split_endpoint_def)

end
