(* ===== verification/Zre_Codec.thy ===== *)
theory Zre_Codec
  imports Zre_Endpoint
begin

section \<open>The ZRE wire format (RFC 36)\<close>

text \<open>
  The class \<open>Codec\<close> of \<open>zre/node.py\<close>: the field writers \<open>_s\<close> and \<open>_l\<close>, the bounds-checked field
  readers \<open>_rs\<close> and \<open>_rl\<close>, the three encoders and \<open>decode\<close>. Lengths and numbers are written by
  \<open>struct.pack\<close> and \<open>bytes([n])\<close>, whose range errors are part of the model.

  The locale \<open>wire_field\<close> is the contract between a writer and a reader of one field: what was
  written at some place of a buffer is read back there, whatever surrounds it. Its loops lemma
  gives the group list and the header table of \<open>HELLO\<close>, and its instances the message
  round trips.
\<close>

definition ZRE_SIGNATURE :: nat where "ZRE_SIGNATURE = 43681"  \<comment> \<open>\<open>0xAAA0 | 1\<close>\<close>
definition ZRE_VERSION :: nat where "ZRE_VERSION = 2"

definition HELLO :: nat where "HELLO = 1"
definition WHISPER :: nat where "WHISPER = 2"
definition SHOUT :: nat where "SHOUT = 3"
definition JOIN :: nat where "JOIN = 4"
definition LEAVE :: nat where "LEAVE = 5"
definition PING :: nat where "PING = 6"
definition PING_OK :: nat where "PING_OK = 7"
definition ELECT :: nat where "ELECT = 8"
definition LEADER :: nat where "LEADER = 9"
definition GOODBYE :: nat where "GOODBYE = 10"

lemmas command_defs = HELLO_def WHISPER_def SHOUT_def JOIN_def LEAVE_def PING_def PING_OK_def
  ELECT_def LEADER_def GOODBYE_def

subsection \<open>Numbers\<close>

text \<open>Big-endian, as \<open>struct\<close> writes and reads \<open>!B\<close>, \<open>!H\<close> and \<open>!I\<close> (one, two, four bytes).\<close>

primrec be_bytes :: "nat \<Rightarrow> nat \<Rightarrow> bytes" where
  "be_bytes 0 n = []"
| "be_bytes (Suc k) n = of_nat (n div 256 ^ k) # be_bytes k n"

definition be_nat :: "bytes \<Rightarrow> nat" where
  "be_nat bs = foldl (\<lambda>acc b. acc * 256 + unat b) 0 bs"

definition pack :: "nat \<Rightarrow> int \<Rightarrow> exn + bytes" where
  "pack k i = (if 0 \<le> i \<and> i < 256 ^ k then Inr (be_bytes k (nat i)) else Inl StructError)"

text \<open>\<open>bytes([n])\<close>.\<close>

definition byte_of :: "nat \<Rightarrow> exn + bytes" where
  "byte_of n = (if n < 256 then Inr [of_nat n] else Inl ValueError)"

lemma length_be_bytes [simp]: "length (be_bytes k n) = k"
  by (induction k) auto

lemma be_bytes_small: "be_bytes 1 n = [of_nat n]" "be_bytes 2 n = [of_nat (n div 256), of_nat n]"
  by (simp_all add: numeral_2_eq_2)

lemma unat_byte: "n < 256 \<Longrightarrow> unat (of_nat n :: byte) = n"
  by (simp add: unat_of_nat)

lemma foldl_be_bytes:
  "foldl (\<lambda>acc b. acc * 256 + unat b) acc (be_bytes k n) = acc * 256 ^ k + n mod 256 ^ k"
proof (induction k arbitrary: acc)
  case 0
  show ?case by simp
next
  case (Suc k)
  have "n mod 256 ^ Suc k = 256 ^ k * (n div 256 ^ k mod 256) + n mod 256 ^ k"
    by (simp add: mod_mult2_eq [symmetric] mult.commute)
  moreover have "foldl (\<lambda>acc b. acc * 256 + unat b) acc (be_bytes (Suc k) n) =
      (acc * 256 + n div 256 ^ k mod 256) * 256 ^ k + n mod 256 ^ k"
    by (simp add: Suc unat_of_nat)
  ultimately show ?case by (simp add: algebra_simps)
qed

lemma be_nat_bytes: "n < 256 ^ k \<Longrightarrow> be_nat (be_bytes k n) = n"
  by (simp add: be_nat_def foldl_be_bytes)

lemma be_nat_less: "be_nat bs < 256 ^ length bs"
proof (induction bs rule: rev_induct)
  case Nil
  then show ?case by (simp add: be_nat_def)
next
  case (snoc b bs)
  have "unat b < 256" using unsigned_less [of b] by simp
  with snoc show ?case by (simp add: be_nat_def)
qed

subsection \<open>Short and long strings\<close>

definition codec_s :: "bytes \<Rightarrow> pyval \<Rightarrow> exn + bytes" where
  "codec_s buf v =
     obind (to_bytes v) (\<lambda>value.
     obind (byte_of (length value)) (\<lambda>l. Inr (buf @ l @ value)))"

definition codec_l :: "bytes \<Rightarrow> pyval \<Rightarrow> exn + bytes" where
  "codec_l buf v =
     obind (to_bytes v) (\<lambda>value.
     obind (pack 4 (int (length value))) (\<lambda>l. Inr (buf @ l @ value)))"

definition codec_rs :: "bytes \<Rightarrow> nat \<Rightarrow> bytes option \<times> nat" where
  "codec_rs data off =
    (if length data \<le> off then (None, off)
     else (let len = unat (data ! off); off = off + 1; end' = off + len
           in if end' \<le> length data then (Some (slice off end' data), end') else (None, off)))"

definition codec_rl :: "bytes \<Rightarrow> nat \<Rightarrow> bytes option \<times> nat" where
  "codec_rl data off =
    (if length data < off + 4 then (None, off)
     else (let len = be_nat (slice off (off + 4) data); off = off + 4; end' = off + len
           in if end' \<le> length data then (Some (slice off end' data), end') else (None, off)))"

text \<open>
  The loops of the source: \<open>for x in xs: buf = put(buf, x)\<close>, and a counted loop of reads that
  gives up at the first field that is cut short.
\<close>

primrec write_all :: "(bytes \<Rightarrow> 'a \<Rightarrow> exn + bytes) \<Rightarrow> bytes \<Rightarrow> 'a list \<Rightarrow> exn + bytes" where
  "write_all put buf [] = Inr buf"
| "write_all put buf (x # xs) = obind (put buf x) (\<lambda>buf. write_all put buf xs)"

primrec read_n ::
  "(bytes \<Rightarrow> nat \<Rightarrow> 'a option \<times> nat) \<Rightarrow> nat \<Rightarrow> bytes \<Rightarrow> nat \<Rightarrow> ('a list \<times> nat) option" where
  "read_n get 0 data off = Some ([], off)"
| "read_n get (Suc n) data off =
    (case get data off of
       (None, _) \<Rightarrow> None
     | (Some x, off) \<Rightarrow>
         (case read_n get n data off of
            None \<Rightarrow> None
          | Some (xs, off) \<Rightarrow> Some (x # xs, off)))"

subsection \<open>The contract of a field\<close>

locale wire_field =
  fixes put :: "bytes \<Rightarrow> 'a \<Rightarrow> exn + bytes"
    and get :: "bytes \<Rightarrow> nat \<Rightarrow> 'b option \<times> nat"
    and fits :: "'a \<Rightarrow> bool"
    and abs :: "'a \<Rightarrow> 'b"
  assumes put_get:
    "fits x \<Longrightarrow> \<exists>w. (\<forall>buf. put buf x = Inr (buf @ w)) \<and>
       (\<forall>pre post. get (pre @ w @ post) (length pre) = (Some (abs x), length pre + length w))"
    and put_fits: "put buf x = Inr buf' \<Longrightarrow> fits x"
    and get_progress: "get data off = (Some y, off') \<Longrightarrow> off < off' \<and> off' \<le> length data"
    and get_extend: "get data off = (Some y, off') \<Longrightarrow> get (data @ rest) off = (Some y, off')"
begin

lemma loop_round_trip:
  "list_all fits xs \<Longrightarrow>
   \<exists>w. (\<forall>buf. write_all put buf xs = Inr (buf @ w)) \<and>
     (\<forall>pre post. read_n get (length xs) (pre @ w @ post) (length pre) =
        Some (map abs xs, length pre + length w))"
proof (induction xs)
  case Nil
  show ?case by (rule exI [of _ "[]"]) simp
next
  case (Cons x xs)
  from Cons.prems obtain w where
      put: "\<And>buf. put buf x = Inr (buf @ w)"
    and get: "\<And>pre post. get (pre @ w @ post) (length pre) = (Some (abs x), length pre + length w)"
    using put_get [of x] by auto
  from Cons obtain v where
      out: "\<And>buf. write_all put buf xs = Inr (buf @ v)"
    and again: "\<And>pre post. read_n get (length xs) (pre @ v @ post) (length pre) =
        Some (map abs xs, length pre + length v)"
    by auto
  have "read_n get (length (x # xs)) (pre @ (w @ v) @ post) (length pre) =
      Some (map abs (x # xs), length pre + length (w @ v))" for pre post
    using get [of pre "v @ post"] again [of "pre @ w" post] by simp
  then show ?case
    by (intro exI [of _ "w @ v"]) (simp add: put out)
qed

lemma put_frame:
  assumes "put buf x = Inr buf'"
  obtains w where "buf' = buf @ w"
    and "\<And>pre post. get (pre @ w @ post) (length pre) = (Some (abs x), length pre + length w)"
proof -
  from put_fits [OF assms] obtain w where w: "\<And>buf. put buf x = Inr (buf @ w)"
    "\<And>pre post. get (pre @ w @ post) (length pre) = (Some (abs x), length pre + length w)"
    using put_get [of x] by auto
  from w(1) [of buf] assms have "buf' = buf @ w" by simp
  from that [OF this w(2)] show thesis .
qed

lemma loop_fits: "write_all put buf xs = Inr buf' \<Longrightarrow> list_all fits xs"
  by (induction xs arbitrary: buf) (auto simp: obind_Inr dest: put_fits)

lemma loop_frame:
  assumes "write_all put buf xs = Inr buf'"
  obtains w where "buf' = buf @ w"
    and "\<And>pre post. read_n get (length xs) (pre @ w @ post) (length pre) =
        Some (map abs xs, length pre + length w)"
proof -
  from loop_round_trip [OF loop_fits [OF assms]] obtain w where
      w: "\<And>buf. write_all put buf xs = Inr (buf @ w)"
    "\<And>pre post. read_n get (length xs) (pre @ w @ post) (length pre) =
        Some (map abs xs, length pre + length w)"
    by auto
  from w(1) [of buf] assms have "buf' = buf @ w" by simp
  from that [OF this w(2)] show thesis .
qed

lemma loop_progress:
  "read_n get n data off = Some (ys, off') \<Longrightarrow>
   length ys = n \<and> off + n \<le> off' \<and> (0 < n \<longrightarrow> off' \<le> length data)"
proof (induction n arbitrary: off ys)
  case 0
  then show ?case by simp
next
  case (Suc n)
  then obtain y o1 ys1 where g: "get data off = (Some y, o1)"
    and l: "read_n get n data o1 = Some (ys1, off')" and ys: "ys = y # ys1"
    by (auto split: prod.splits option.splits)
  from get_progress [OF g] Suc.IH [OF l] l ys show ?case by (cases n) auto
qed

lemma loop_extend:
  "read_n get n data off = Some (ys, off') \<Longrightarrow> read_n get n (data @ rest) off = Some (ys, off')"
  by (induction n arbitrary: off ys) (auto simp: get_extend split: prod.splits option.splits)

end

subsection \<open>The instances\<close>

definition fits_s :: "pyval \<Rightarrow> bool" where
  "fits_s v \<longleftrightarrow> (\<exists>b. to_bytes v = Inr b \<and> length b \<le> 255)"

definition fits_l :: "pyval \<Rightarrow> bool" where
  "fits_l v \<longleftrightarrow> (\<exists>b. to_bytes v = Inr b \<and> length b < 256 ^ 4)"

definition the_bytes :: "pyval \<Rightarrow> bytes" where
  "the_bytes v = (case to_bytes v of Inr b \<Rightarrow> b | Inl _ \<Rightarrow> [])"

lemma the_bytes_simps [simp]: "the_bytes (PyBytes b) = b"
  by (simp add: the_bytes_def)

lemma fits_simps [simp]:
  "fits_s (PyBytes b) \<longleftrightarrow> length b \<le> 255"
  "fits_l (PyBytes b) \<longleftrightarrow> length b < 256 ^ 4"
  by (simp_all add: fits_s_def fits_l_def)

interpretation short: wire_field codec_s codec_rs fits_s the_bytes
proof
  fix x assume "fits_s x"
  then obtain b where b: "to_bytes x = Inr b" "length b \<le> 255" by (auto simp: fits_s_def)
  let ?w = "of_nat (length b) # b"
  have "codec_s buf x = Inr (buf @ ?w)" for buf
    using b by (simp add: codec_s_def byte_of_def)
  moreover have "codec_rs (pre @ ?w @ post) (length pre) = (Some (the_bytes x), length pre + length ?w)"
    for pre post
    using b by (simp add: codec_rs_def the_bytes_def unat_of_nat nth_append slice_def)
  ultimately show "\<exists>w. (\<forall>buf. codec_s buf x = Inr (buf @ w)) \<and>
      (\<forall>pre post. codec_rs (pre @ w @ post) (length pre) = (Some (the_bytes x), length pre + length w))"
    by blast
next
  show "codec_s buf x = Inr buf' \<Longrightarrow> fits_s x" for buf x buf'
    by (auto simp: codec_s_def obind_Inr byte_of_def fits_s_def split: if_splits)
next
  fix data off y off' rest
  assume "codec_rs data off = (Some y, off')"
  then show "off < off' \<and> off' \<le> length data" "codec_rs (data @ rest) off = (Some y, off')"
    by (auto simp: codec_rs_def Let_def nth_append slice_def split: if_splits)
qed

interpretation long: wire_field codec_l codec_rl fits_l the_bytes
proof
  fix x assume "fits_l x"
  then obtain b where b: "to_bytes x = Inr b" "length b < 256 ^ 4" by (auto simp: fits_l_def)
  let ?w = "be_bytes 4 (length b) @ b"
  have "codec_l buf x = Inr (buf @ ?w)" for buf
    using b by (simp add: codec_l_def pack_def)
  moreover have "codec_rl (pre @ ?w @ post) (length pre) = (Some (the_bytes x), length pre + length ?w)"
    for pre post
    using b by (simp add: codec_rl_def the_bytes_def be_nat_bytes slice_def Let_def del: power_numeral)
  ultimately show "\<exists>w. (\<forall>buf. codec_l buf x = Inr (buf @ w)) \<and>
      (\<forall>pre post. codec_rl (pre @ w @ post) (length pre) = (Some (the_bytes x), length pre + length w))"
    by blast
next
  show "codec_l buf x = Inr buf' \<Longrightarrow> fits_l x" for buf x buf'
    by (auto simp: codec_l_def obind_Inr pack_def fits_l_def split: if_splits)
next
  fix data off y off' rest
  assume "codec_rl data off = (Some y, off')"
  then show "off < off' \<and> off' \<le> length data" "codec_rl (data @ rest) off = (Some y, off')"
    by (auto simp: codec_rl_def Let_def slice_def split: if_splits)
qed

text \<open>
  Fixed-width numbers: \<open>buf += struct.pack(fmt, n)\<close>, and the check that the width is there
  followed by \<open>struct.unpack\<close>.
\<close>

definition put_num :: "nat \<Rightarrow> bytes \<Rightarrow> int \<Rightarrow> exn + bytes" where
  "put_num k buf n = obind (pack k n) (\<lambda>w. Inr (buf @ w))"

definition read_num :: "nat \<Rightarrow> bytes \<Rightarrow> nat \<Rightarrow> nat option \<times> nat" where
  "read_num k data off =
    (if length data < off + k then (None, off)
     else (Some (be_nat (slice off (off + k) data)), off + k))"

definition fits_num :: "nat \<Rightarrow> int \<Rightarrow> bool" where
  "fits_num k n \<longleftrightarrow> 0 \<le> n \<and> n < 256 ^ k"

lemma wire_field_num: "0 < k \<Longrightarrow> wire_field (put_num k) (read_num k) (fits_num k) nat"
proof (unfold_locales, goal_cases)
  case (1 x)
  then have x: "0 \<le> x" "x < 256 ^ k" by (auto simp: fits_num_def)
  then have "nat x < 256 ^ k" by (simp add: nat_less_iff)
  then have "read_num k (pre @ be_bytes k (nat x) @ post) (length pre) =
      (Some (nat x), length pre + length (be_bytes k (nat x)))" for pre post
    by (simp add: read_num_def be_nat_bytes slice_def)
  moreover have "put_num k buf x = Inr (buf @ be_bytes k (nat x))" for buf
    using x by (simp add: put_num_def pack_def)
  ultimately show ?case by blast
qed (auto simp: read_num_def put_num_def pack_def fits_num_def slice_def split: if_splits)

interpretation u32: wire_field "put_num 4" "read_num 4" "fits_num 4" nat
  by (rule wire_field_num) simp

interpretation u8: wire_field "put_num 1" "read_num 1" "fits_num 1" nat
  by (rule wire_field_num) simp

text \<open>One header of the table: a short string for the name, a long one for the value.\<close>

definition put_header :: "bytes \<Rightarrow> pyval \<times> pyval \<Rightarrow> exn + bytes" where
  "put_header buf kv = (case kv of (key, value) \<Rightarrow> obind (codec_s buf key) (\<lambda>buf. codec_l buf value))"

definition read_header :: "bytes \<Rightarrow> nat \<Rightarrow> (bytes \<times> bytes) option \<times> nat" where
  "read_header data off =
    (case codec_rs data off of
       (None, off) \<Rightarrow> (None, off)
     | (Some key, off) \<Rightarrow>
         (case codec_rl data off of
            (None, off) \<Rightarrow> (None, off)
          | (Some value, off) \<Rightarrow> (Some (key, value), off)))"

definition fits_header :: "pyval \<times> pyval \<Rightarrow> bool" where
  "fits_header kv \<longleftrightarrow> fits_s (fst kv) \<and> fits_l (snd kv)"

interpretation header: wire_field put_header read_header fits_header "map_prod the_bytes the_bytes"
proof
  fix x assume "fits_header x"
  then obtain k v where x: "x = (k, v)" "fits_s k" "fits_l v" by (cases x) (auto simp: fits_header_def)
  obtain w1 where w1: "\<And>buf. codec_s buf k = Inr (buf @ w1)"
      "\<And>pre post. codec_rs (pre @ w1 @ post) (length pre) = (Some (the_bytes k), length pre + length w1)"
    using short.put_get [OF x(2)] by auto
  obtain w2 where w2: "\<And>buf. codec_l buf v = Inr (buf @ w2)"
      "\<And>pre post. codec_rl (pre @ w2 @ post) (length pre) = (Some (the_bytes v), length pre + length w2)"
    using long.put_get [OF x(3)] by auto
  have "read_header (pre @ (w1 @ w2) @ post) (length pre) =
      (Some (map_prod the_bytes the_bytes x), length pre + length (w1 @ w2))" for pre post
    using w1(2) [of pre "w2 @ post"] w2(2) [of "pre @ w1" post]
    by (simp add: read_header_def x(1))
  then show "\<exists>w. (\<forall>buf. put_header buf x = Inr (buf @ w)) \<and>
      (\<forall>pre post. read_header (pre @ w @ post) (length pre) =
        (Some (map_prod the_bytes the_bytes x), length pre + length w))"
    by (intro exI [of _ "w1 @ w2"]) (simp add: put_header_def x(1) w1(1) w2(1))
next
  show "put_header buf x = Inr buf' \<Longrightarrow> fits_header x" for buf x buf'
    by (auto simp: put_header_def obind_Inr fits_header_def split: prod.splits
        intro: short.put_fits long.put_fits)
next
  fix data off y off'
  assume "read_header data off = (Some y, off')"
  then obtain k o1 v where "codec_rs data off = (Some k, o1)" "codec_rl data o1 = (Some v, off')"
    by (auto simp: read_header_def split: prod.splits option.splits)
  then show "off < off' \<and> off' \<le> length data"
    using short.get_progress long.get_progress by fastforce
next
  fix data off y off' rest
  assume "read_header data off = (Some y, off')"
  then show "read_header (data @ rest) off = (Some y, off')"
    by (auto simp: read_header_def short.get_extend long.get_extend split: prod.splits option.splits)
qed

subsection \<open>Encoders\<close>

text \<open>\<open>struct.pack("!HBBH", ZRE_SIGNATURE, cmd, ZRE_VERSION, seq)\<close>.\<close>

definition zre_header :: "nat \<Rightarrow> int \<Rightarrow> exn + bytes" where
  "zre_header cmd seq =
     obind (pack 2 (int ZRE_SIGNATURE)) (\<lambda>sig.
     obind (pack 1 (int cmd)) (\<lambda>c.
     obind (pack 1 (int ZRE_VERSION)) (\<lambda>v.
     obind (pack 2 seq) (\<lambda>q. Inr (sig @ c @ v @ q)))))"

definition encode_hello ::
  "int \<Rightarrow> pyval \<Rightarrow> pyval list \<Rightarrow> int \<Rightarrow> pyval \<Rightarrow> (pyval \<times> pyval) list \<Rightarrow> exn + bytes" where
  "encode_hello seq endpoint groups status name headers =
     obind (zre_header HELLO seq) (\<lambda>buf.
     obind (codec_s buf endpoint) (\<lambda>buf.
     obind (put_num 4 buf (int (length groups))) (\<lambda>buf.
     obind (write_all codec_l buf groups) (\<lambda>buf.
     obind (put_num 1 buf status) (\<lambda>buf.
     obind (codec_s buf name) (\<lambda>buf.
     obind (put_num 4 buf (int (length headers))) (\<lambda>buf.
     write_all put_header buf headers)))))))"

definition encode_simple :: "nat \<Rightarrow> int \<Rightarrow> bytes option \<Rightarrow> int option \<Rightarrow> exn + bytes" where
  "encode_simple cmd seq grp status =
     obind (zre_header cmd seq) (\<lambda>buf.
     obind (case grp of None \<Rightarrow> Inr buf | Some g \<Rightarrow> codec_s buf (PyBytes g)) (\<lambda>buf.
     case status of None \<Rightarrow> Inr buf | Some st \<Rightarrow> put_num 1 buf st))"

definition encode_election :: "nat \<Rightarrow> int \<Rightarrow> pyval \<Rightarrow> pyval \<Rightarrow> exn + bytes" where
  "encode_election cmd seq grp peer_id =
     obind (zre_header cmd seq) (\<lambda>buf.
     obind (codec_s buf grp) (\<lambda>buf. codec_s buf peer_id))"

subsection \<open>The decoder\<close>

text \<open>The \<open>dict\<close> of fields that \<open>decode\<close> fills; a key that is absent is \<open>None\<close>.\<close>

record fields =
  f_endpoint :: "bytes option"
  f_groups :: "bytes list option"
  f_status :: "nat option"
  f_name :: "bytes option"
  f_headers :: "(bytes \<times> bytes) list option"
  f_group :: "bytes option"
  f_challenger :: "bytes option"
  f_leader :: "bytes option"

definition no_fields :: fields where
  "no_fields = \<lparr>f_endpoint = None, f_groups = None, f_status = None, f_name = None,
     f_headers = None, f_group = None, f_challenger = None, f_leader = None\<rparr>"

text \<open>The group loop checks the length field's room before it calls \<open>_rl\<close>.\<close>

definition read_group :: "bytes \<Rightarrow> nat \<Rightarrow> bytes option \<times> nat" where
  "read_group data off = (if length data < off + 4 then (None, off) else codec_rl data off)"

definition decode_hello :: "bytes \<Rightarrow> nat \<Rightarrow> fields option" where
  "decode_hello data off =
    (case codec_rs data off of (None, _) \<Rightarrow> None | (Some endpoint, off) \<Rightarrow>
    (case read_num 4 data off of (None, _) \<Rightarrow> None | (Some group_count, off) \<Rightarrow>
    (case read_n read_group group_count data off of None \<Rightarrow> None | Some (groups, off) \<Rightarrow>
    (case read_num 1 data off of (None, _) \<Rightarrow> None | (Some status, off) \<Rightarrow>
    (case codec_rs data off of (None, _) \<Rightarrow> None | (Some name, off) \<Rightarrow>
    (case read_num 4 data off of (None, _) \<Rightarrow> None | (Some header_count, off) \<Rightarrow>
    (case read_n read_header header_count data off of None \<Rightarrow> None | Some (pairs, _) \<Rightarrow>
       Some (no_fields\<lparr>f_endpoint := Some endpoint, f_groups := Some groups,
         f_status := Some status, f_name := Some name,
         f_headers := Some (fold (\<lambda>(k, v). dict_set k v) pairs [])\<rparr>))))))))"

definition decode_fields :: "nat \<Rightarrow> bytes \<Rightarrow> fields option" where
  "decode_fields cmd data =
    (if cmd = HELLO then decode_hello data 6
     else if cmd = SHOUT \<or> cmd = JOIN \<or> cmd = LEAVE then
       (case codec_rs data 6 of (None, _) \<Rightarrow> None | (Some grp, off) \<Rightarrow>
          if cmd = JOIN \<or> cmd = LEAVE then
            (if length data \<le> off then None
             else Some (no_fields\<lparr>f_group := Some grp, f_status := Some (unat (data ! off))\<rparr>))
          else Some (no_fields\<lparr>f_group := Some grp\<rparr>))
     else if cmd = ELECT \<or> cmd = LEADER then
       (case codec_rs data 6 of (None, _) \<Rightarrow> None | (Some grp, off) \<Rightarrow>
          (case codec_rs data off of (None, _) \<Rightarrow> None | (Some challenger, _) \<Rightarrow>
             if cmd = ELECT
             then Some (no_fields\<lparr>f_group := Some grp, f_challenger := Some challenger\<rparr>)
             else Some (no_fields\<lparr>f_group := Some grp, f_leader := Some challenger\<rparr>)))
     else Some no_fields)"

definition decode :: "bytes \<Rightarrow> (nat \<times> nat \<times> nat \<times> fields) option" where
  "decode data =
    (if length data < 6 then None
     else if be_nat (slice 0 2 data) \<noteq> ZRE_SIGNATURE then None
     else (let cmd = unat (data ! 2); ver = unat (data ! 3)
           in if ver \<noteq> ZRE_VERSION then None
              else (let seq = be_nat (slice 4 6 data)
                    in case decode_fields cmd data of
                         None \<Rightarrow> None
                       | Some extra \<Rightarrow> Some (cmd, ver, seq, extra))))"

interpretation group_field: wire_field codec_l read_group fits_l the_bytes
proof -
  have "read_group = codec_rl"
    by (auto simp: fun_eq_iff read_group_def codec_rl_def)
  then show "wire_field codec_l read_group fits_l the_bytes"
    using long.wire_field_axioms by simp
qed

subsection \<open>Round trips\<close>

lemma zre_header_bytes:
  assumes "zre_header cmd seq = Inr h"
  shows "h = be_bytes 2 ZRE_SIGNATURE @ be_bytes 1 cmd @ be_bytes 1 ZRE_VERSION @ be_bytes 2 (nat seq)"
    and "cmd < 256" and "nat seq < 256 ^ 2"
  using assms by (auto simp: zre_header_def obind_Inr pack_def split: if_splits)

lemma length_zre_header: "zre_header cmd seq = Inr h \<Longrightarrow> length h = 6"
  by (auto dest: zre_header_bytes(1))

lemma decode_header:
  assumes "zre_header cmd seq = Inr h"
  shows "decode (h @ body) =
    (case decode_fields cmd (h @ body) of
       None \<Rightarrow> None | Some extra \<Rightarrow> Some (cmd, ZRE_VERSION, nat seq, extra))"
proof -
  note h = zre_header_bytes [OF assms]
  have sig: "be_nat (slice 0 2 (h @ body)) = ZRE_SIGNATURE"
    using be_nat_bytes [of ZRE_SIGNATURE 2] by (simp add: h(1) slice_def ZRE_SIGNATURE_def)
  have cmd: "unat ((h @ body) ! 2) = cmd"
    using unat_byte [OF h(2)] by (simp add: h(1) be_bytes_small del: unsigned_of_nat)
  have ver: "unat ((h @ body) ! 3) = ZRE_VERSION"
    by (simp add: h(1) be_bytes_small ZRE_VERSION_def)
  have seq: "be_nat (slice 4 6 (h @ body)) = nat seq"
    using be_nat_bytes [OF h(3)] by (simp add: h(1) slice_def)
  show ?thesis
    using length_zre_header [OF assms] by (simp add: decode_def Let_def sig cmd ver seq)
qed

lemma fold_dict_set_distinct:
  "distinct (map fst ps) \<Longrightarrow> set (map fst ps) \<inter> set (map fst d) = {} \<Longrightarrow>
   fold (\<lambda>(k, v). dict_set k v) ps d = d @ ps"
proof (induction ps arbitrary: d)
  case Nil
  then show ?case by simp
next
  case (Cons p ps)
  obtain k v where p: "p = (k, v)" by fastforce
  have "AList.update k v d = d @ [(k, v)]" if "k \<notin> fst ` set d" for d :: "('a \<times> 'b) list"
    using that by (induction d) auto
  then show ?case
    using Cons.prems Cons.IH [of "d @ [(k, v)]"] by (auto simp: p)
qed

text \<open>What \<open>HELLO\<close> carries comes out of \<open>decode\<close>: the header table as a dictionary.\<close>

lemma decode_hello_written:
  assumes "encode_hello seq endpoint groups status name headers = Inr w"
  shows "decode w = Some (HELLO, ZRE_VERSION, nat seq, no_fields\<lparr>
     f_endpoint := Some (the_bytes endpoint), f_groups := Some (map the_bytes groups),
     f_status := Some (nat status), f_name := Some (the_bytes name),
     f_headers := Some (fold (\<lambda>(k, v). dict_set k v)
        (map (map_prod the_bytes the_bytes) headers) [])\<rparr>)"
proof -
  from assms obtain h b1 b2 b3 b4 b5 b6 where
      h: "zre_header HELLO seq = Inr h" and b1: "codec_s h endpoint = Inr b1"
    and b2: "put_num 4 b1 (int (length groups)) = Inr b2"
    and b3: "write_all codec_l b2 groups = Inr b3"
    and b4: "put_num 1 b3 status = Inr b4" and b5: "codec_s b4 name = Inr b5"
    and b6: "put_num 4 b5 (int (length headers)) = Inr b6"
    and w: "write_all put_header b6 headers = Inr w"
    by (auto simp: encode_hello_def obind_Inr)
  obtain w1 where b1: "b1 = h @ w1" and r1: "\<And>post. codec_rs (h @ w1 @ post) (length h) =
      (Some (the_bytes endpoint), length h + length w1)"
    using short.put_frame [OF b1] by metis
  obtain w2 where b2: "b2 = b1 @ w2" and r2: "\<And>post. read_num 4 (b1 @ w2 @ post) (length b1) =
      (Some (length groups), length b1 + length w2)"
    using u32.put_frame [OF b2] by (metis nat_int)
  obtain w3 where b3: "b3 = b2 @ w3" and r3: "\<And>post. read_n read_group (length groups)
      (b2 @ w3 @ post) (length b2) = Some (map the_bytes groups, length b2 + length w3)"
    using group_field.loop_frame [OF b3] by metis
  obtain w4 where b4: "b4 = b3 @ w4" and r4: "\<And>post. read_num 1 (b3 @ w4 @ post) (length b3) =
      (Some (nat status), length b3 + length w4)"
    using u8.put_frame [OF b4] by metis
  obtain w5 where b5: "b5 = b4 @ w5" and r5: "\<And>post. codec_rs (b4 @ w5 @ post) (length b4) =
      (Some (the_bytes name), length b4 + length w5)"
    using short.put_frame [OF b5] by metis
  obtain w6 where b6: "b6 = b5 @ w6" and r6: "\<And>post. read_num 4 (b5 @ w6 @ post) (length b5) =
      (Some (length headers), length b5 + length w6)"
    using u32.put_frame [OF b6] by (metis nat_int)
  obtain w7 where w: "w = b6 @ w7" and r7: "\<And>post. read_n read_header (length headers)
      (b6 @ w7 @ post) (length b6) = Some (map (map_prod the_bytes the_bytes) headers,
      length b6 + length w7)"
    using header.loop_frame [OF w] by metis
  note r1' = r1 [of "w2 @ w3 @ w4 @ w5 @ w6 @ w7"] and r2' = r2 [of "w3 @ w4 @ w5 @ w6 @ w7"]
    and r3' = r3 [of "w4 @ w5 @ w6 @ w7"] and r4' = r4 [of "w5 @ w6 @ w7"]
    and r5' = r5 [of "w6 @ w7"] and r6' = r6 [of w7] and r7' = r7 [of "[]"]
  have len: "length h = 6" by (rule length_zre_header [OF h])
  have "w = h @ (w1 @ w2 @ w3 @ w4 @ w5 @ w6 @ w7)"
    by (simp add: w b6 b5 b4 b3 b2 b1)
  moreover have "decode_hello w 6 = Some (no_fields\<lparr>
      f_endpoint := Some (the_bytes endpoint), f_groups := Some (map the_bytes groups),
      f_status := Some (nat status), f_name := Some (the_bytes name),
      f_headers := Some (fold (\<lambda>(k, v). dict_set k v)
        (map (map_prod the_bytes the_bytes) headers) [])\<rparr>)"
    using r1' r2' r3' r4' r5' r6' r7'
    by (simp add: decode_hello_def w b6 b5 b4 b3 b2 b1 len add.assoc)
  ultimately show ?thesis
    using decode_header [OF h, of "w1 @ w2 @ w3 @ w4 @ w5 @ w6 @ w7"]
    by (simp add: decode_fields_def)
qed

lemma decode_simple_plain:
  assumes "encode_simple cmd seq None None = Inr w"
    and "cmd \<notin> {HELLO, SHOUT, JOIN, LEAVE, ELECT, LEADER}"
  shows "decode w = Some (cmd, ZRE_VERSION, nat seq, no_fields)"
proof -
  from assms(1) have "zre_header cmd seq = Inr w" by (simp add: encode_simple_def obind_Inr)
  from decode_header [OF this, of "[]"] assms(2) show ?thesis
    by (simp add: decode_fields_def)
qed

lemma decode_simple_shout:
  assumes "encode_simple SHOUT seq (Some grp) None = Inr w"
  shows "decode w = Some (SHOUT, ZRE_VERSION, nat seq, no_fields\<lparr>f_group := Some grp\<rparr>)"
proof -
  from assms obtain h where h: "zre_header SHOUT seq = Inr h"
    and w: "codec_s h (PyBytes grp) = Inr w"
    by (auto simp: encode_simple_def obind_Inr)
  obtain w1 where "w = h @ w1" and "codec_rs (h @ w1 @ []) (length h) =
      (Some (the_bytes (PyBytes grp)), length h + length w1)"
    using short.put_frame [OF w] by metis
  with decode_header [OF h, of w1] length_zre_header [OF h] show ?thesis
    by (simp add: decode_fields_def command_defs)
qed

lemma decode_simple_membership:
  assumes "encode_simple cmd seq (Some grp) (Some st) = Inr w" and "cmd = JOIN \<or> cmd = LEAVE"
  shows "decode w = Some (cmd, ZRE_VERSION, nat seq,
     no_fields\<lparr>f_group := Some grp, f_status := Some (nat st)\<rparr>)"
proof -
  from assms(1) obtain h b1 where h: "zre_header cmd seq = Inr h"
    and b1: "codec_s h (PyBytes grp) = Inr b1" and w: "put_num 1 b1 st = Inr w"
    by (auto simp: encode_simple_def obind_Inr)
  obtain w1 where b1: "b1 = h @ w1" and r1: "\<And>post. codec_rs (h @ w1 @ post) (length h) =
      (Some (the_bytes (PyBytes grp)), length h + length w1)"
    using short.put_frame [OF b1] by metis
  from w have st: "0 \<le> st" "st < 256" and w: "w = b1 @ [of_nat (nat st)]"
    by (auto simp: put_num_def pack_def obind_Inr split: if_splits)
  have "unat (w ! length b1) = nat st"
    using st unat_byte [of "nat st"] by (simp add: w del: unsigned_of_nat of_nat_nat)
  then show ?thesis
    using decode_header [OF h, of "w1 @ [of_nat (nat st)]"] length_zre_header [OF h] assms(2)
      r1 [of "[of_nat (nat st)]"]
    by (auto simp: decode_fields_def command_defs w b1)
qed

lemma decode_election_written:
  assumes "encode_election cmd seq grp ident = Inr w" and "cmd = ELECT \<or> cmd = LEADER"
  shows "decode w = Some (cmd, ZRE_VERSION, nat seq,
     (if cmd = ELECT
      then no_fields\<lparr>f_group := Some (the_bytes grp), f_challenger := Some (the_bytes ident)\<rparr>
      else no_fields\<lparr>f_group := Some (the_bytes grp), f_leader := Some (the_bytes ident)\<rparr>))"
proof -
  from assms(1) obtain h b1 where h: "zre_header cmd seq = Inr h"
    and b1: "codec_s h grp = Inr b1" and w: "codec_s b1 ident = Inr w"
    by (auto simp: encode_election_def obind_Inr)
  obtain w1 where b1: "b1 = h @ w1" and r1: "\<And>post. codec_rs (h @ w1 @ post) (length h) =
      (Some (the_bytes grp), length h + length w1)"
    using short.put_frame [OF b1] by metis
  obtain w2 where w: "w = b1 @ w2" and r2: "\<And>post. codec_rs (b1 @ w2 @ post) (length b1) =
      (Some (the_bytes ident), length b1 + length w2)"
    using short.put_frame [OF w] by metis
  have len: "length h = 6" by (rule length_zre_header [OF h])
  have r1': "codec_rs (h @ w1 @ w2) 6 = (Some (the_bytes grp), 6 + length w1)"
    using r1 [of w2] by (simp add: len)
  have r2': "codec_rs (h @ w1 @ w2) (6 + length w1) = (Some (the_bytes ident), 6 + length w1 + length w2)"
    using r2 [of "[]"] by (simp add: len b1)
  have "decode w = (case decode_fields cmd (h @ w1 @ w2) of
      None \<Rightarrow> None | Some extra \<Rightarrow> Some (cmd, ZRE_VERSION, nat seq, extra))"
    using decode_header [OF h, of "w1 @ w2"] by (simp add: w b1)
  then show ?thesis
    using assms(2) by (elim disjE) (simp_all add: decode_fields_def r1' r2' command_defs)
qed

end
