(* ===== verification/Zre_Gossip_Codec.thy ===== *)
theory Zre_Gossip_Codec
  imports Zre_Codec
begin

section \<open>The ZGS.1 wire format (zgossip)\<close>

text \<open>
  \<open>zgs_encode\<close> and \<open>zgs_decode\<close> of \<open>zre/gossip.py\<close>. The decoder's answer \<open>None\<close> for a malformed
  frame is \<open>Inr None\<close>; reading \<open>body[4]\<close> of a four-byte frame is the \<open>IndexError\<close> Python raises.
\<close>

definition ZGS_SIGNATURE :: bytes where "ZGS_SIGNATURE = [0xAA, 0xA0]"
definition ZGS_VERSION :: nat where "ZGS_VERSION = 1"
definition ZGS_HELLO :: nat where "ZGS_HELLO = 1"
definition ZGS_PUBLISH :: nat where "ZGS_PUBLISH = 2"
definition ZGS_PING :: nat where "ZGS_PING = 3"
definition ZGS_PONG :: nat where "ZGS_PONG = 4"
definition ZGS_INVALID :: nat where "ZGS_INVALID = 5"
definition MAX_LONGSTR_BYTES :: nat where "MAX_LONGSTR_BYTES = 65535"

lemmas zgs_command_defs = ZGS_HELLO_def ZGS_PUBLISH_def ZGS_PING_def ZGS_PONG_def ZGS_INVALID_def

definition opt_bytes :: "pyval option \<Rightarrow> exn + bytes option" where
  "opt_bytes v = (case v of None \<Rightarrow> Inr None | Some v \<Rightarrow> obind (to_bytes v) (\<lambda>b. Inr (Some b)))"

definition zgs_encode :: "nat \<Rightarrow> pyval option \<Rightarrow> pyval option \<Rightarrow> int \<Rightarrow> exn + bytes" where
  "zgs_encode command key value ttl =
     obind (byte_of command) (\<lambda>c.
     let body = ZGS_SIGNATURE @ c @ [of_nat ZGS_VERSION]
     in if command = ZGS_PUBLISH then
          obind (opt_bytes key) (\<lambda>raw_key.
          obind (opt_bytes value) (\<lambda>raw_value.
          case (raw_key, raw_value) of
            (Some k, Some v) \<Rightarrow>
              if \<not> (1 \<le> length k \<and> length k \<le> MAX_STRING_BYTES) then Inl ValueError
              else if MAX_LONGSTR_BYTES < length v then Inl ValueError
              else
                obind (byte_of (length k)) (\<lambda>kl.
                obind (pack 4 (int (length v))) (\<lambda>vl.
                obind (pack 4 ttl) (\<lambda>t. Inr (body @ kl @ k @ vl @ v @ t))))
          | _ \<Rightarrow> Inl ValueError))
        else Inr body)"

record zgs_message =
  z_command :: nat
  z_key :: "bytes option"
  z_value :: "bytes option"
  z_ttl :: "nat option"

definition zgs_decode :: "bytes \<Rightarrow> exn + zgs_message option" where
  "zgs_decode body =
    (if length body < 4 then Inr None
     else if slice 0 2 body \<noteq> ZGS_SIGNATURE \<or> unat (body ! 3) \<noteq> ZGS_VERSION then Inr None
     else
       (let command = unat (body ! 2);
            message = \<lparr>z_command = command, z_key = None, z_value = None, z_ttl = None\<rparr>
        in if command = ZGS_PUBLISH then
             (if length body \<le> 4 then Inl IndexError
              else
                (let key_len = unat (body ! 4);
                     key = slice 5 (5 + key_len) body;
                     offset = 5 + key_len
                 in if length key \<noteq> key_len then Inr None
                    else if length body < offset + 4 then Inr None
                    else
                      (let value_len = be_nat (slice offset (offset + 4) body);
                           offset = offset + 4;
                           value = slice offset (offset + value_len) body
                       in if length value \<noteq> value_len then Inr None
                          else
                            (let offset = offset + value_len
                             in if length body < offset + 4 then Inr None
                                else Inr (Some (message\<lparr>z_key := Some key, z_value := Some value,
                                  z_ttl := Some (be_nat (slice offset (offset + 4) body))\<rparr>))))))
           else if command \<notin> {ZGS_HELLO, ZGS_PING, ZGS_PONG, ZGS_INVALID} then Inr None
           else Inr (Some message)))"

text \<open>The tuples that \<open>zgs_encode\<close> accepts.\<close>

definition zgs_tuple_ok :: "bytes \<Rightarrow> bytes \<Rightarrow> bool" where
  "zgs_tuple_ok key value \<longleftrightarrow> 1 \<le> length key \<and> length key \<le> 255 \<and> length value \<le> 65535"

definition zgs_publish :: "bytes \<Rightarrow> bytes \<Rightarrow> int \<Rightarrow> exn + bytes" where
  "zgs_publish key value ttl = zgs_encode ZGS_PUBLISH (Some (PyBytes key)) (Some (PyBytes value)) ttl"

lemma zgs_publish_bytes:
  "zgs_publish key value ttl =
    (if \<not> zgs_tuple_ok key value then Inl ValueError
     else if 0 \<le> ttl \<and> ttl < 256 ^ 4 then
       Inr (ZGS_SIGNATURE @ [2, 1, of_nat (length key)] @ key @ be_bytes 4 (length value) @ value
         @ be_bytes 4 (nat ttl))
     else Inl StructError)"
  by (auto simp: zgs_publish_def zgs_encode_def zgs_tuple_ok_def opt_bytes_def byte_of_def pack_def
      ZGS_PUBLISH_def ZGS_VERSION_def MAX_STRING_BYTES_def MAX_LONGSTR_BYTES_def)

lemma zgs_encode_plain:
  "command \<noteq> ZGS_PUBLISH \<Longrightarrow> command < 256 \<Longrightarrow>
   zgs_encode command key value ttl = Inr (ZGS_SIGNATURE @ [of_nat command, 1])"
  by (simp add: zgs_encode_def byte_of_def ZGS_VERSION_def)

lemma zgs_decode_publish:
  assumes "zgs_publish key value ttl = Inr w"
  shows "zgs_decode w = Inr (Some \<lparr>z_command = ZGS_PUBLISH, z_key = Some key, z_value = Some value,
    z_ttl = Some (nat ttl)\<rparr>)"
proof -
  from assms have ok: "zgs_tuple_ok key value" and ttl: "nat ttl < 256 ^ 4"
    and w: "w = [0xAA, 0xA0, 2, 1, of_nat (length key)] @ key @ be_bytes 4 (length value) @ value
      @ be_bytes 4 (nat ttl)"
    by (auto simp: zgs_publish_bytes ZGS_SIGNATURE_def split: if_splits)
  from ok have klen: "unat (of_nat (length key) :: byte) = length key"
    by (intro unat_byte) (simp add: zgs_tuple_ok_def)
  from ok have vlen: "be_nat (be_bytes 4 (length value)) = length value"
    by (intro be_nat_bytes) (simp add: zgs_tuple_ok_def)
  have part1: "slice 5 (5 + length key) w = key"
    and parts: "slice (5 + length key) (5 + length key + 4) w = be_bytes 4 (length value)"
      "slice (9 + length key) (9 + length key + length value) w = value"
      "slice (9 + length key + length value) (9 + length key + length value + 4) w =
         be_bytes 4 (nat ttl)"
    using slice_at [of "[0xAA, 0xA0, 2, 1, of_nat (length key)]" 5 _ key]
      slice_at [of "[0xAA, 0xA0, 2, 1, of_nat (length key)] @ key" "5 + length key" _
        "be_bytes 4 (length value)"]
      slice_at [of "[0xAA, 0xA0, 2, 1, of_nat (length key)] @ key @ be_bytes 4 (length value)"
        "9 + length key" _ "value"]
      slice_at [of "[0xAA, 0xA0, 2, 1, of_nat (length key)] @ key @ be_bytes 4 (length value) @ value"
        "9 + length key + length value" _ "be_bytes 4 (nat ttl)" "[]"]
    by (simp_all add: w)
  have heads: "slice 0 2 w = ZGS_SIGNATURE" "w ! 2 = 2" "w ! 3 = 1" "w ! 4 = of_nat (length key)"
    "length w = 13 + length key + length value"
    by (simp_all add: w slice_def ZGS_SIGNATURE_def)
  show ?thesis
    using be_nat_bytes [OF ttl] klen vlen part1 parts heads
    by (simp add: zgs_decode_def Let_def ZGS_PUBLISH_def ZGS_VERSION_def add.commute
        add.left_commute del: unsigned_of_nat)
qed

lemma zgs_decode_raises:
  "zgs_decode body = Inl e \<longleftrightarrow>
     e = IndexError \<and> body = ZGS_SIGNATURE @ [of_nat ZGS_PUBLISH, of_nat ZGS_VERSION]"
proof
  assume raised: "zgs_decode body = Inl e"
  then have "e = IndexError" "length body = 4" and sig: "slice 0 2 body = ZGS_SIGNATURE"
    and ver: "unat (body ! 3) = ZGS_VERSION" and cmd: "unat (body ! 2) = ZGS_PUBLISH"
    by (auto simp: zgs_decode_def Let_def split: if_splits)
  then obtain a b c d where body: "body = [a, b, c, d]"
    by (auto simp: length_Suc_conv numeral_eq_Suc)
  have "c = of_nat (unat c)" "d = of_nat (unat d)" by simp_all
  with sig ver cmd \<open>e = IndexError\<close> show "e = IndexError \<and>
      body = ZGS_SIGNATURE @ [of_nat ZGS_PUBLISH, of_nat ZGS_VERSION]"
    by (simp add: body slice_def ZGS_SIGNATURE_def)
next
  assume "e = IndexError \<and> body = ZGS_SIGNATURE @ [of_nat ZGS_PUBLISH, of_nat ZGS_VERSION]"
  then show "zgs_decode body = Inl e"
    by (simp add: zgs_decode_def slice_def ZGS_SIGNATURE_def ZGS_PUBLISH_def ZGS_VERSION_def)
qed

end
