(* ===== verification/Zre_Wire_Properties.thy ===== *)
theory Zre_Wire_Properties
  imports Zre_Gossip_Codec
begin

section \<open>What the wire formats guarantee\<close>

text \<open>
  The properties of the two codecs and of the endpoint syntax: when an encoder succeeds and that the
  decoder then gives back what was encoded, that the decoder is total, never reads past the end
  and produces no more than the datagram holds, and the one frame on which \<open>zgs_decode\<close> raises.
\<close>

subsection \<open>When the encoders succeed\<close>

definition hello_ok ::
  "int \<Rightarrow> bytes \<Rightarrow> bytes list \<Rightarrow> int \<Rightarrow> bytes \<Rightarrow> (bytes \<times> bytes) list \<Rightarrow> bool" where
  "hello_ok seq endpoint groups status name headers \<longleftrightarrow>
     0 \<le> seq \<and> seq < 256 ^ 2 \<and> length endpoint \<le> 255 \<and> length groups < 256 ^ 4
     \<and> list_all (\<lambda>g. length g < 256 ^ 4) groups \<and> 0 \<le> status \<and> status < 256
     \<and> length name \<le> 255 \<and> length headers < 256 ^ 4
     \<and> list_all (\<lambda>(k, v). length k \<le> 255 \<and> length v < 256 ^ 4) headers"

definition encode_hello_bytes ::
  "int \<Rightarrow> bytes \<Rightarrow> bytes list \<Rightarrow> int \<Rightarrow> bytes \<Rightarrow> (bytes \<times> bytes) list \<Rightarrow> exn + bytes" where
  "encode_hello_bytes seq endpoint groups status name headers =
     encode_hello seq (PyBytes endpoint) (map PyBytes groups) status (PyBytes name)
       (map (map_prod PyBytes PyBytes) headers)"

lemma zre_header_defined: "(\<exists>h. zre_header cmd seq = Inr h) \<longleftrightarrow> cmd < 256 \<and> 0 \<le> seq \<and> seq < 256 ^ 2"
  by (auto simp: zre_header_def pack_def ZRE_SIGNATURE_def ZRE_VERSION_def)

lemma header_fits_bytes:
  "list_all fits_header (map (map_prod PyBytes PyBytes) hs) \<longleftrightarrow>
   list_all (\<lambda>(k, v). length k \<le> 255 \<and> length v < 256 ^ 4) hs"
  by (induction hs) (auto simp: fits_header_def)

lemma group_fits_bytes:
  "list_all fits_l (map PyBytes gs) \<longleftrightarrow> list_all (\<lambda>g. length g < 256 ^ 4) gs"
  by (induction gs) auto

lemma put_defined:
  "(\<exists>b. codec_s buf (PyBytes x) = Inr b) \<longleftrightarrow> length x \<le> 255"
  "(\<exists>b. put_num k buf n = Inr b) \<longleftrightarrow> fits_num k n"
  by (auto simp: codec_s_def byte_of_def put_num_def pack_def fits_num_def)

lemma loops_defined:
  "(\<exists>b. write_all codec_l buf vs = Inr b) \<longleftrightarrow> list_all fits_l vs"
  "(\<exists>b. write_all put_header buf ps = Inr b) \<longleftrightarrow> list_all fits_header ps"
  using long.loop_round_trip [of vs] long.loop_fits [of buf vs]
    header.loop_round_trip [of ps] header.loop_fits [of buf ps] by blast+

lemma obind_defined: "(\<exists>y. obind m k = Inr y) \<longleftrightarrow> (\<exists>x. m = Inr x \<and> (\<exists>y. k x = Inr y))"
  by (cases m) auto

lemma encode_hello_defined:
  "(\<exists>w. encode_hello_bytes seq ep gs st nm hs = Inr w) \<longleftrightarrow> hello_ok seq ep gs st nm hs"
proof -
  have count: "fits_num 4 (int (length xs)) \<longleftrightarrow> length xs < 256 ^ 4" for xs :: "'a list"
    by (simp add: fits_num_def)
  have step: "(\<exists>x. m = Inr x \<and> P) \<longleftrightarrow> (\<exists>x. m = Inr x) \<and> P" for m :: "exn + bytes" and P
    by blast
  show ?thesis
    unfolding encode_hello_bytes_def encode_hello_def obind_defined loops_defined put_defined step
      length_map count zre_header_defined header_fits_bytes group_fits_bytes
    by (auto simp: hello_ok_def fits_num_def HELLO_def)
qed

lemma pairs_of_bytes: "map (map_prod the_bytes the_bytes) (map (map_prod PyBytes PyBytes) hs) = hs"
  by (induction hs) auto

lemma groups_of_bytes: "map the_bytes (map PyBytes gs) = gs"
  by (induction gs) auto

lemma hello_decodes:
  assumes "is_dict hs" and "hello_ok seq ep gs st nm hs"
  shows "\<exists>w. encode_hello_bytes seq ep gs st nm hs = Inr w \<and>
    decode w = Some (HELLO, ZRE_VERSION, nat seq, no_fields\<lparr>f_endpoint := Some ep,
      f_groups := Some gs, f_status := Some (nat st), f_name := Some nm, f_headers := Some hs\<rparr>)"
proof -
  from assms(2) obtain w where w: "encode_hello_bytes seq ep gs st nm hs = Inr w"
    using encode_hello_defined by blast
  have "fold (\<lambda>(k, v). dict_set k v) hs [] = hs"
    using fold_dict_set_distinct [of hs "[]"] assms(1) by (simp add: is_dict_def keys_def)
  with w decode_hello_written [OF w [unfolded encode_hello_bytes_def]] show ?thesis
    by (simp only: pairs_of_bytes groups_of_bytes the_bytes_simps) blast
qed

text \<open>
  C9: a HELLO frame is produced exactly when every field fits its wire format, and decoding it
  gives back the sequence number, endpoint, groups, status, name and header dictionary.
\<close>

theorem hello_round_trip:
  assumes "is_dict hs"
  shows "case encode_hello_bytes seq ep gs st nm hs of
      Inr w \<Rightarrow> hello_ok seq ep gs st nm hs \<and>
        decode w = Some (HELLO, ZRE_VERSION, nat seq, no_fields\<lparr>f_endpoint := Some ep,
          f_groups := Some gs, f_status := Some (nat st), f_name := Some nm, f_headers := Some hs\<rparr>)
    | Inl _ \<Rightarrow> \<not> hello_ok seq ep gs st nm hs"
  using hello_decodes [OF assms, of seq ep gs st nm] encode_hello_defined [of seq ep gs st nm hs]
  by (cases "hello_ok seq ep gs st nm hs") (auto split: sum.split)

lemma hello_round_trip_witness:
  "case encode_hello_bytes 7 [1] [[67, 72]] 2 [97] [([88], [1, 2])] of
      Inr w \<Rightarrow> hello_ok 7 [1] [[67, 72]] 2 [97] [([88], [1, 2])] \<and>
        decode w = Some (HELLO, ZRE_VERSION, nat 7, no_fields\<lparr>f_endpoint := Some [1],
          f_groups := Some [[67, 72]], f_status := Some (nat 2), f_name := Some [97],
          f_headers := Some [([88], [1, 2])]\<rparr>)
    | Inl _ \<Rightarrow> \<not> hello_ok 7 [1] [[67, 72]] 2 [97] [([88], [1, 2])]"
  by (rule hello_round_trip) (simp add: is_dict_def keys_def)

subsection \<open>Commands of a group and of an election\<close>

lemma encode_simple_defined:
  "(\<exists>w. encode_simple cmd seq (Some g) st = Inr w) \<longleftrightarrow>
     cmd < 256 \<and> 0 \<le> seq \<and> seq < 256 ^ 2 \<and> length g \<le> 255
     \<and> (case st of None \<Rightarrow> True | Some n \<Rightarrow> 0 \<le> n \<and> n < 256)"
proof -
  have step: "(\<exists>x. m = Inr x \<and> P) \<longleftrightarrow> (\<exists>x. m = Inr x) \<and> P" for m :: "exn + bytes" and P
    by blast
  have done': "(\<exists>y. (Inr b :: exn + bytes) = Inr y) \<longleftrightarrow> True" for b
    by simp
  show ?thesis
    unfolding encode_simple_def obind_defined
    by (cases st) (simp_all only: option.case put_defined done' simp_thms step zre_header_defined
        fits_num_def power_one_right, auto)
qed

lemma encode_election_defined:
  "(\<exists>w. encode_election cmd seq (PyBytes g) (PyBytes i) = Inr w) \<longleftrightarrow>
     cmd < 256 \<and> 0 \<le> seq \<and> seq < 256 ^ 2 \<and> length g \<le> 255 \<and> length i \<le> 255"
proof -
  have step: "(\<exists>x. m = Inr x \<and> P) \<longleftrightarrow> (\<exists>x. m = Inr x) \<and> P" for m :: "exn + bytes" and P
    by blast
  show ?thesis
    unfolding encode_election_def obind_defined put_defined step zre_header_defined by blast
qed

text \<open>
  JOIN and LEAVE carry the group and the status byte, SHOUT the group: a frame exists exactly
  when the group has at most 255 bytes and the status is a byte, and it decodes to what was sent.
\<close>

theorem membership_round_trip:
  assumes "cmd \<in> {JOIN, LEAVE} \<and> status \<noteq> None \<or> cmd = SHOUT \<and> status = None"
    and "0 \<le> seq" and "seq < 256 ^ 2"
  shows "if length g \<le> 255 \<and> (\<forall>st. status = Some st \<longrightarrow> 0 \<le> st \<and> st < 256)
    then \<exists>w. encode_simple cmd seq (Some g) status = Inr w \<and>
      decode w = Some (cmd, ZRE_VERSION, nat seq,
        no_fields\<lparr>f_group := Some g, f_status := map_option nat status\<rparr>)
    else \<exists>e. encode_simple cmd seq (Some g) status = Inl e"
proof -
  from assms(1) have cmd: "cmd < 256" by (auto simp: command_defs)
  show ?thesis
  proof (cases "encode_simple cmd seq (Some g) status")
    case (Inl e)
    then have "\<not> (\<exists>w. encode_simple cmd seq (Some g) status = Inr w)" by simp
    with encode_simple_defined [of cmd seq g status] cmd assms(2,3) Inl show ?thesis
      by (auto split: option.splits)
  next
    case (Inr w)
    then have "\<exists>w. encode_simple cmd seq (Some g) status = Inr w" by blast
    with encode_simple_defined [of cmd seq g status] have fits:
      "length g \<le> 255 \<and> (\<forall>st. status = Some st \<longrightarrow> 0 \<le> st \<and> st < 256)"
      by (auto split: option.splits)
    have "decode w = Some (cmd, ZRE_VERSION, nat seq,
        no_fields\<lparr>f_group := Some g, f_status := map_option nat status\<rparr>)"
      using assms(1) Inr
      by (cases status) (auto simp: decode_simple_shout decode_simple_membership no_fields_def)
    with fits Inr show ?thesis by simp
  qed
qed

lemma membership_round_trip_witness:
  "if length ([67, 72] :: bytes) \<le> 255 \<and> (\<forall>st. Some (3 :: int) = Some st \<longrightarrow> 0 \<le> st \<and> st < 256)
   then \<exists>w. encode_simple JOIN 9 (Some [67, 72]) (Some 3) = Inr w \<and>
      decode w = Some (JOIN, ZRE_VERSION, nat 9,
        no_fields\<lparr>f_group := Some [67, 72], f_status := map_option nat (Some 3)\<rparr>)
   else \<exists>e. encode_simple JOIN 9 (Some [67, 72]) (Some 3) = Inl e"
  by (rule membership_round_trip) simp_all

lemma election_frame:
  assumes "cmd \<in> {ELECT, LEADER}" and "0 \<le> seq" and "seq < 256 ^ 2"
    and "length g \<le> 255" and "length ident \<le> 255"
  shows "\<exists>w. encode_election cmd seq (PyBytes g) (PyBytes ident) = Inr w \<and>
      decode w = Some (cmd, ZRE_VERSION, nat seq,
        if cmd = ELECT then no_fields\<lparr>f_group := Some g, f_challenger := Some ident\<rparr>
        else no_fields\<lparr>f_group := Some g, f_leader := Some ident\<rparr>)"
proof -
  from encode_election_defined [of cmd seq g ident] assms
  obtain w where "encode_election cmd seq (PyBytes g) (PyBytes ident) = Inr w"
    by (auto simp: command_defs)
  with decode_election_written [OF this] assms(1) show ?thesis by auto
qed



subsection \<open>The decoder on arbitrary bytes\<close>

text \<open>What a read consumes: the prefix and the field itself.\<close>

lemma codec_rs_size: "codec_rs data off = (Some y, off') \<Longrightarrow> off' = off + 1 + length y"
  by (auto simp: codec_rs_def Let_def length_slice split: if_splits)

lemma codec_rl_size: "codec_rl data off = (Some y, off') \<Longrightarrow> off' = off + 4 + length y"
  by (auto simp: codec_rl_def Let_def length_slice split: if_splits)

lemma read_groups_size:
  "read_n read_group n data off = Some (gs, off') \<Longrightarrow>
   off' = off + sum_list (map (\<lambda>g. 4 + length g) gs)"
proof (induction n arbitrary: off gs)
  case 0
  then show ?case by simp
next
  case (Suc n)
  then obtain g o1 gs' where g: "read_group data off = (Some g, o1)"
    and l: "read_n read_group n data o1 = Some (gs', off')" and gs: "gs = g # gs'"
    by (auto split: prod.splits option.splits)
  from g have "o1 = off + 4 + length g"
    by (auto simp: read_group_def codec_rl_size split: if_splits)
  with Suc.IH [OF l] gs show ?case by simp
qed

lemma read_headers_size:
  "read_n read_header n data off = Some (hs, off') \<Longrightarrow>
   off' = off + sum_list (map (\<lambda>(k, v). 5 + length k + length v) hs)"
proof (induction n arbitrary: off hs)
  case 0
  then show ?case by simp
next
  case (Suc n)
  then obtain kv o1 hs' where kv: "read_header data off = (Some kv, o1)"
    and l: "read_n read_header n data o1 = Some (hs', off')" and hs: "hs = kv # hs'"
    by (auto split: prod.splits option.splits)
  from kv have "o1 = off + (case kv of (k, v) \<Rightarrow> 5 + length k + length v)"
    by (auto simp: read_header_def dest!: codec_rl_size codec_rs_size split: prod.splits option.splits)
  with Suc.IH [OF l] hs show ?case by simp
qed

text \<open>The bytes that the decoded fields take up.\<close>

definition fields_size :: "fields \<Rightarrow> nat" where
  "fields_size x =
     (case f_endpoint x of None \<Rightarrow> 0 | Some b \<Rightarrow> length b)
   + (case f_groups x of None \<Rightarrow> 0 | Some gs \<Rightarrow> sum_list (map (\<lambda>g. 4 + length g) gs))
   + (case f_name x of None \<Rightarrow> 0 | Some b \<Rightarrow> length b)
   + (case f_headers x of None \<Rightarrow> 0 | Some hs \<Rightarrow> sum_list (map (\<lambda>(k, v). 5 + length k + length v) hs))
   + (case f_group x of None \<Rightarrow> 0 | Some b \<Rightarrow> length b)
   + (case f_challenger x of None \<Rightarrow> 0 | Some b \<Rightarrow> length b)
   + (case f_leader x of None \<Rightarrow> 0 | Some b \<Rightarrow> length b)"

lemma dict_set_size:
  "sum_list (map f (dict_set k v d)) \<le> sum_list (map f d) + (f (k, v) :: nat)"
  by (induction d) auto

lemma dict_of_size:
  "sum_list (map f (fold (\<lambda>(k, v). dict_set k v) ps d)) \<le> sum_list (map f d) + sum_list (map f ps)"
  for f :: "'a \<times> 'b \<Rightarrow> nat"
proof (induction ps arbitrary: d)
  case Nil
  then show ?case by simp
next
  case (Cons p ps)
  obtain k v where p: "p = (k, v)" by fastforce
  from Cons [of "dict_set k v d"] dict_set_size [of f k v d] show ?case by (simp add: p)
qed

lemma read_headers_end:
  "read_n read_header n data off = Some (hs, off') \<Longrightarrow> off \<le> length data \<Longrightarrow> off' \<le> length data"
  using header.loop_progress [of n data off hs off'] by (cases n) auto

lemma decode_hello_size:
  assumes "decode_hello data off = Some x"
  shows "off + fields_size x \<le> length data"
proof -
  from assms obtain ep o1 gc o2 gs o3 st o4 nm o5 hc o6 ps o7 where
      r: "codec_rs data off = (Some ep, o1)" "read_num 4 data o1 = (Some gc, o2)"
        "read_n read_group gc data o2 = Some (gs, o3)" "read_num 1 data o3 = (Some st, o4)"
        "codec_rs data o4 = (Some nm, o5)" "read_num 4 data o5 = (Some hc, o6)"
        "read_n read_header hc data o6 = Some (ps, o7)"
    and x: "x = no_fields\<lparr>f_endpoint := Some ep, f_groups := Some gs, f_status := Some st,
        f_name := Some nm, f_headers := Some (fold (\<lambda>(k, v). dict_set k v) ps [])\<rparr>"
    by (auto simp: decode_hello_def split: prod.splits option.splits)
  note sizes = codec_rs_size [OF r(1)] read_groups_size [OF r(3)] codec_rs_size [OF r(5)]
    read_headers_size [OF r(7)]
  have nums: "o2 = o1 + 4" "o4 = o3 + 1" "o6 = o5 + 4" "o6 \<le> length data"
    using r(2,4,6) by (auto simp: read_num_def split: if_splits)
  have "o7 \<le> length data" using read_headers_end [OF r(7)] nums by simp
  moreover have "fields_size x \<le> length ep + sum_list (map (\<lambda>g. 4 + length g) gs) + length nm
      + sum_list (map (\<lambda>(k, v). 5 + length k + length v) ps)"
    using dict_of_size [of "\<lambda>(k, v). 5 + length k + length v" ps "[]"]
    by (simp add: fields_size_def x no_fields_def)
  ultimately show ?thesis using sizes nums by linarith
qed

lemma decode_hello_extend:
  assumes "decode_hello data off = Some x"
  shows "decode_hello (data @ rest) off = Some x"
proof -
  from assms obtain ep o1 gc o2 gs o3 st o4 nm o5 hc o6 ps o7 where
      r: "codec_rs data off = (Some ep, o1)" "read_num 4 data o1 = (Some gc, o2)"
        "read_n read_group gc data o2 = Some (gs, o3)" "read_num 1 data o3 = (Some st, o4)"
        "codec_rs data o4 = (Some nm, o5)" "read_num 4 data o5 = (Some hc, o6)"
        "read_n read_header hc data o6 = Some (ps, o7)"
    and x: "x = no_fields\<lparr>f_endpoint := Some ep, f_groups := Some gs, f_status := Some st,
        f_name := Some nm, f_headers := Some (fold (\<lambda>(k, v). dict_set k v) ps [])\<rparr>"
    by (auto simp: decode_hello_def split: prod.splits option.splits)
  note r' = r(1,5) [THEN short.get_extend] r(2,6) [THEN u32.get_extend] r(4) [THEN u8.get_extend]
    r(3) [THEN group_field.loop_extend] r(7) [THEN header.loop_extend]
  show ?thesis by (simp add: decode_hello_def r' x del: One_nat_def)
qed

text \<open>The remaining commands: at most two short strings and a byte.\<close>

lemma decode_fields_cases:
  assumes "decode_fields cmd data = Some x"
  obtains (hello) "cmd = HELLO" "decode_hello data 6 = Some x"
  | (grp) g off where "cmd \<in> {SHOUT, JOIN, LEAVE}" "codec_rs data 6 = (Some g, off)"
      "f_group x = Some g" "cmd \<noteq> SHOUT \<Longrightarrow> off < length data"
      "x = no_fields\<lparr>f_group := Some g,
         f_status := (if cmd = SHOUT then None else Some (unat (data ! off)))\<rparr>"
  | (election) g off i off' where "cmd \<in> {ELECT, LEADER}" "codec_rs data 6 = (Some g, off)"
      "codec_rs data off = (Some i, off')"
      "x = (if cmd = ELECT then no_fields\<lparr>f_group := Some g, f_challenger := Some i\<rparr>
            else no_fields\<lparr>f_group := Some g, f_leader := Some i\<rparr>)"
  | (plain) "cmd \<notin> {HELLO, SHOUT, JOIN, LEAVE, ELECT, LEADER}" "x = no_fields"
proof -
  consider "cmd = HELLO" | "cmd \<in> {JOIN, LEAVE}" | "cmd = SHOUT" | "cmd \<in> {ELECT, LEADER}"
    | "cmd \<notin> {HELLO, SHOUT, JOIN, LEAVE, ELECT, LEADER}" by blast
  then show thesis
  proof cases
    case 1
    with assms show ?thesis by (intro hello) (simp_all add: decode_fields_def)
  next
    case 2
    with assms obtain g off where "codec_rs data 6 = (Some g, off)" "off < length data"
      "x = no_fields\<lparr>f_group := Some g, f_status := Some (unat (data ! off))\<rparr>"
      by (auto simp: decode_fields_def command_defs split: prod.splits option.splits if_splits)
    with 2 show ?thesis by (intro grp) (auto simp: command_defs)
  next
    case 3
    with assms obtain g off where "codec_rs data 6 = (Some g, off)"
      "x = no_fields\<lparr>f_group := Some g\<rparr>"
      by (auto simp: decode_fields_def command_defs split: prod.splits option.splits)
    with 3 show ?thesis by (intro grp) (auto simp: no_fields_def)
  next
    case 4
    with assms obtain g off i off' where "codec_rs data 6 = (Some g, off)"
      "codec_rs data off = (Some i, off')"
      "x = (if cmd = ELECT then no_fields\<lparr>f_group := Some g, f_challenger := Some i\<rparr>
            else no_fields\<lparr>f_group := Some g, f_leader := Some i\<rparr>)"
      by (auto simp: decode_fields_def command_defs split: prod.splits option.splits)
    with 4 show ?thesis by (intro election) auto
  next
    case 5
    with assms show ?thesis by (intro plain) (simp_all add: decode_fields_def)
  qed
qed

lemma decode_fields_size:
  assumes "decode_fields cmd data = Some x" and "6 \<le> length data"
  shows "6 + fields_size x \<le> length data"
  using assms(1)
proof (cases rule: decode_fields_cases)
  case hello
  then show ?thesis using decode_hello_size [of data 6 x] by simp
next
  case (grp g off)
  from codec_rs_size [OF grp(2)] short.get_progress [OF grp(2)] show ?thesis
    by (simp add: grp(5) fields_size_def no_fields_def)
next
  case (election g off i off')
  from codec_rs_size [OF election(2)] codec_rs_size [OF election(3)]
    short.get_progress [OF election(3)] show ?thesis
    by (simp add: election(4) fields_size_def no_fields_def)
next
  case plain
  with assms(2) show ?thesis by (simp add: fields_size_def no_fields_def)
qed

lemma decode_fields_extend:
  assumes "decode_fields cmd data = Some x"
  shows "decode_fields cmd (data @ rest) = Some x"
  using assms
proof (cases rule: decode_fields_cases)
  case hello
  then show ?thesis using decode_hello_extend [of data 6 x rest] by (simp add: decode_fields_def)
next
  case (grp g off)
  from short.get_extend [OF grp(2), of rest] grp(1,4,5) show ?thesis
    by (auto simp: decode_fields_def nth_append command_defs no_fields_def)
next
  case (election g off i off')
  note r = short.get_extend [OF election(2), of rest] short.get_extend [OF election(3), of rest]
  from election(1) show ?thesis
    by (elim insertE emptyE) (simp_all add: decode_fields_def command_defs r election(4))
next
  case plain
  then show ?thesis by (simp add: decode_fields_def)
qed

lemma decode_Some:
  "decode data = Some m \<longleftrightarrow>
     6 \<le> length data \<and> be_nat (slice 0 2 data) = ZRE_SIGNATURE \<and> unat (data ! 3) = ZRE_VERSION
     \<and> (\<exists>x. decode_fields (unat (data ! 2)) data = Some x
          \<and> m = (unat (data ! 2), ZRE_VERSION, be_nat (slice 4 6 data), x))"
  by (auto simp: decode_def Let_def split: option.splits)

lemmas decode_run = decode_def decode_fields_def codec_rs_def be_nat_def slice_def command_defs
  ZRE_SIGNATURE_def ZRE_VERSION_def

text \<open>
  C24: whatever bytes arrive, a decoded message has the version checked, a 16-bit sequence number,
  and fields that together are no longer than the datagram: a forged count or length makes the
  decoder give up, never read past the end or build more than was sent.
\<close>

theorem decode_within_datagram:
  assumes "decode data = Some (cmd, ver, seq, x)"
  shows "ver = ZRE_VERSION \<and> cmd < 256 \<and> seq < 65536 \<and> 6 + fields_size x \<le> length data"
proof (intro conjI)
  from assms have len: "6 \<le> length data" and c: "cmd = unat (data ! 2)"
    and q: "seq = be_nat (slice 4 6 data)" and f: "decode_fields (unat (data ! 2)) data = Some x"
    and "ver = ZRE_VERSION"
    by (auto simp: decode_Some)
  show "ver = ZRE_VERSION" by fact
  show "cmd < 256" using unsigned_less [of "data ! 2"] by (simp add: c)
  have "length (slice 4 6 data) = 2" using len by (simp add: length_slice)
  then show "seq < 65536" using be_nat_less [of "slice 4 6 data"] by (simp add: q)
  show "6 + fields_size x \<le> length data" by (rule decode_fields_size [OF f len])
qed

lemma decode_within_datagram_witness:
  "6 + fields_size (no_fields\<lparr>f_group := Some [67], f_status := Some 5\<rparr>)
     \<le> length ([0xAA, 0xA1, 4, 2, 0, 9, 1, 67, 5] :: bytes)"
proof -
  have "decode [0xAA, 0xA1, 4, 2, 0, 9, 1, 67, 5] =
      Some (4, 2, 9, no_fields\<lparr>f_group := Some [67], f_status := Some 5\<rparr>)"
    by (simp add: decode_run)
  from decode_within_datagram [OF this] show ?thesis by blast
qed

text \<open>
  Bytes after the last field are ignored, as the protocol asks of a receiver that meets a
  longer message of a later version.
\<close>

theorem decode_ignores_trailing_bytes:
  assumes "decode data = Some m"
  shows "decode (data @ rest) = Some m"
proof -
  from assms obtain x where "6 \<le> length data" "be_nat (slice 0 2 data) = ZRE_SIGNATURE"
      "unat (data ! 3) = ZRE_VERSION" "decode_fields (unat (data ! 2)) data = Some x"
      "m = (unat (data ! 2), ZRE_VERSION, be_nat (slice 4 6 data), x)"
    unfolding decode_Some by blast
  then show ?thesis
    using decode_fields_extend [of "unat (data ! 2)" data x rest]
    by (simp add: decode_Some slice_def nth_append)
qed

lemma decode_ignores_trailing_bytes_witness:
  "decode ([0xAA, 0xA1, 6, 2, 0, 9] @ [1, 2, 3]) = Some (6, 2, 9, no_fields)"
  by (rule decode_ignores_trailing_bytes) (simp add: decode_run)

subsection \<open>Gossip frames\<close>

text \<open>
  C29: \<open>zgs_encode\<close> makes a PUBLISH frame of 13 bytes more than key and value exactly for a key of 1
  to 255 bytes, a value of at most 65535 and a 32-bit lifetime, and \<open>zgs_decode\<close> reads the same
  tuple back from it.
\<close>

theorem zgs_round_trip:
  "if zgs_tuple_ok key value \<and> 0 \<le> ttl \<and> ttl < 256 ^ 4
   then \<exists>w. zgs_publish key value ttl = Inr w \<and> length w = 13 + length key + length value
      \<and> zgs_decode w = Inr (Some \<lparr>z_command = ZGS_PUBLISH, z_key = Some key,
           z_value = Some value, z_ttl = Some (nat ttl)\<rparr>)
   else \<exists>e. zgs_publish key value ttl = Inl e"
proof (cases "zgs_tuple_ok key value \<and> 0 \<le> ttl \<and> ttl < 256 ^ 4")
  case True
  then obtain w where w: "zgs_publish key value ttl = Inr w"
    and len: "length w = 13 + length key + length value"
    by (simp add: zgs_publish_bytes ZGS_SIGNATURE_def)
  from w len zgs_decode_publish [OF w] True show ?thesis by simp
next
  case False
  then show ?thesis unfolding zgs_publish_bytes by auto
qed

text \<open>
  C30: \<open>zgs_decode\<close> answers \<open>None\<close> for a malformed frame, as its documentation says, but for one:
  the four bytes of a PUBLISH header with nothing after them make it raise \<open>IndexError\<close>.
\<close>

theorem zgs_decode_index_error:
  "zgs_decode body = Inl e \<longleftrightarrow>
     e = IndexError \<and> body = ZGS_SIGNATURE @ [of_nat ZGS_PUBLISH, of_nat ZGS_VERSION]"
  by (rule zgs_decode_raises)

subsection \<open>Endpoints\<close>

lemma split_tcp_address:
  assumes "set host \<inter> {91, 93} = {}" and "digits_fit R port"
  shows "split_endpoint R (tcp_address host port) = Inr (takeWhile (\<lambda>c. c \<noteq> 37) host, port)"
    and "58 \<in> set host \<Longrightarrow> 37 \<notin> set host \<Longrightarrow>
      split_endpoint R (tcp_address ([91] @ host @ [93]) port) = Inr (host, port)"
proof -
  have strip: "strip_chars [91, 93] host = host"
    using assms(1) by (intro strip_chars_id) (auto simp: disjoint_iff hd_in_set)
  have hd: "host = [] \<or> hd host \<noteq> 91" using assms(1) by (cases host) auto
  have "93 \<notin> set host" using assms(1) by auto
  note bracketed = split_endpoint_bracketed [OF this assms(2)]
  show "split_endpoint R (tcp_address host port) = Inr (takeWhile (\<lambda>c. c \<noteq> 37) host, port)"
  proof (cases "58 \<in> set host \<and> 37 \<notin> set host")
    case True
    then have tw: "takeWhile (\<lambda>c. c \<noteq> 37) host = host" by (auto simp: takeWhile_eq_all_conv)
    from True show ?thesis
      using bracketed by (simp add: tcp_address_def lit_brackets strip Let_def tw)
  next
    case False
    with split_endpoint_plain [OF hd assms(2)] show ?thesis
      by (auto simp: tcp_address_def lit_brackets strip Let_def)
  qed
  assume "58 \<in> set host" and "37 \<notin> set host"
  moreover have "strip_chars [91, 93] ([91] @ host @ [93]) = host"
  proof -
    have "dropWhile (\<lambda>c. c \<in> set [91, 93]) (host @ [93]) = host @ [93]" if "host \<noteq> []"
      using assms(1) that by (cases host) auto
    moreover have "dropWhile (\<lambda>c. c \<in> set [91, 93]) (rev host) = rev host"
      using assms(1) by (cases "rev host") (auto simp: rev_eq_Cons_iff)
    ultimately show ?thesis
      by (cases "host = []") (auto simp: strip_chars_def lstrip_chars_def)
  qed
  ultimately show "split_endpoint R (tcp_address ([91] @ host @ [93]) port) = Inr (host, port)"
    using bracketed by (simp add: tcp_address_def lit_brackets Let_def)
qed

text \<open>
  Splitting the endpoint that \<open>_tcp_address\<close> made gives back its host and port: for names,
  IPv4 addresses and IPv6 literals, with or without the brackets; a zone id is cut off.
\<close>

theorem endpoint_round_trip:
  assumes "set host \<inter> {91, 93} = {}" and "digits_fit R port"
  shows "split_endpoint R (tcp_address host port) = Inr (takeWhile (\<lambda>c. c \<noteq> 37) host, port)
    \<and> (58 \<in> set host \<and> 37 \<notin> set host \<longrightarrow>
        split_endpoint R (tcp_address ([91] @ host @ [93]) port) = Inr (host, port))"
  using split_tcp_address [OF assms] by blast

lemma endpoint_round_trip_witness:
  "split_endpoint plain_rt (tcp_address ([91] @ [58, 58, 49] @ [93]) 5670) = Inr ([58, 58, 49], 5670)"
  using endpoint_round_trip [of "[58, 58, 49]" plain_rt 5670]
  by (simp add: digits_fit_def plain_rt_def show_nat.simps)

end
