(* ===== verification/Zre_World.thy ===== *)
theory Zre_World
  imports Zre_Text
begin

section \<open>The outside world: sockets, clock, network interfaces\<close>

text \<open>
  pyzmq, the operating system and the clock are not part of the program. They are the record
  \<open>env\<close> of functions: whether a \<open>connect\<close> succeeds, what a non-blocking send returns, what the
  clock says. Each gets the history of everything the program did and observed so far, so no
  behaviour of theirs is excluded. The program's side is the record \<open>world\<close>: the history, the
  socket handles given out, and the sockets open in the \<open>zmq.Context\<close>. Both the node and the
  gossip hub extend it.
\<close>

datatype sock_type = DEALER | ROUTER | UDP

datatype sockopt =
    OptIdentity bytes | OptSndHwm nat | OptSndTimeo nat | OptLinger nat | OptIpv6
  | OptCurvePublic bytes | OptCurveSecret bytes | OptCurveServerKey bytes | OptCurveServer
  | OptRouterMandatory | OptRouterHandover | OptZapDomain pystr
  | OptReuseAddr | OptReusePort | OptBroadcast

datatype send_result = SendOk | SendAgain | SendError

datatype io =
    IoOpen nat sock_type
  | IoOpt nat sockopt
  | IoConnect nat pystr bool
  | IoBind nat pystr "pystr option"
  | IoSend nat "bytes list" send_result
  | IoUdpBind nat pystr int bool
  | IoClose nat
  | IoUdpSend nat bytes "pystr \<times> int"
  | IoTime real

record env =
  e_rt :: pyrt
  e_connect :: "io list \<Rightarrow> nat \<Rightarrow> pystr \<Rightarrow> bool"
  e_bind :: "io list \<Rightarrow> nat \<Rightarrow> pystr \<Rightarrow> pystr option"
  e_send :: "io list \<Rightarrow> nat \<Rightarrow> bytes list \<Rightarrow> send_result"
  e_udp_bind :: "io list \<Rightarrow> nat \<Rightarrow> pystr \<Rightarrow> int \<Rightarrow> bool"
  e_time :: "io list \<Rightarrow> real"
  e_set_key :: "io list \<Rightarrow> bytes \<Rightarrow> nat"
  e_z85_encode :: "bytes \<Rightarrow> bytes"
  e_z85_decode :: "bytes \<Rightarrow> exn + bytes"
  e_inet_aton :: "pystr \<Rightarrow> 32 word option"
  e_iface_addr :: "bytes \<Rightarrow> 32 word option"
  e_iface_mask :: "bytes \<Rightarrow> 32 word option"
  e_gethostbyname :: "pystr \<Rightarrow> pystr option"
  e_local_addr :: "io list \<Rightarrow> pystr \<Rightarrow> int \<Rightarrow> pystr option"
  e_routes :: "io list \<Rightarrow> pystr list option"

record world =
  w_hist :: "io list"      \<comment> \<open>newest first\<close>
  w_next_sock :: nat
  w_socks :: "nat list"    \<comment> \<open>open sockets\<close>

text \<open>Python iterates over a \<open>set\<close> in hash order: some order, unknown to the program.\<close>

definition set_iter :: "env \<Rightarrow> io list \<Rightarrow> bytes list \<Rightarrow> bytes list" where
  "set_iter E hist xs = sort_key (e_set_key E hist) xs"

lemma set_set_iter [simp]: "set (set_iter E hist xs) = set xs"
  by (simp add: set_iter_def)

lemma distinct_set_iter [simp]: "distinct (set_iter E hist xs) = distinct xs"
  by (simp add: set_iter_def)

lemma length_set_iter [simp]: "length (set_iter E hist xs) = length xs"
  by (simp add: set_iter_def)

lemma set_iter_Nil [simp]: "set_iter E hist [] = []"
  by (simp add: set_iter_def)

subsection \<open>System calls\<close>

definition io_log :: "io \<Rightarrow> 'a world_scheme \<Rightarrow> 'a world_scheme" where
  "io_log i s = s\<lparr>w_hist := i # w_hist s\<rparr>"

definition new_socket :: "sock_type \<Rightarrow> ('a world_scheme, nat) prog" where
  "new_socket t = (\<lambda>s. (Inr (w_next_sock s),
     s\<lparr>w_hist := IoOpen (w_next_sock s) t # w_hist s, w_next_sock := Suc (w_next_sock s),
       w_socks := w_next_sock s # w_socks s\<rparr>))"

definition set_opt :: "nat \<Rightarrow> sockopt \<Rightarrow> ('a world_scheme, unit) prog" where
  "set_opt h opt = modify (io_log (IoOpt h opt))"

definition close_socket :: "nat \<Rightarrow> ('a world_scheme, unit) prog" where
  "close_socket h = modify (\<lambda>s. s\<lparr>w_hist := IoClose h # w_hist s,
     w_socks := removeAll h (w_socks s)\<rparr>)"

text \<open>UDP sockets are the operating system's; the \<open>zmq.Context\<close> does not know them.\<close>

definition new_udp :: "('a world_scheme, nat) prog" where
  "new_udp = (\<lambda>s. (Inr (w_next_sock s),
     s\<lparr>w_hist := IoOpen (w_next_sock s) UDP # w_hist s, w_next_sock := Suc (w_next_sock s)\<rparr>))"

definition close_udp :: "nat \<Rightarrow> ('a world_scheme, unit) prog" where
  "close_udp h = modify (io_log (IoClose h))"

text \<open>\<open>sock.connect(addr)\<close>: \<open>False\<close> is a \<open>ZMQError\<close>.\<close>

definition connect_socket :: "env \<Rightarrow> nat \<Rightarrow> pystr \<Rightarrow> ('a world_scheme, bool) prog" where
  "connect_socket E h addr = (\<lambda>s.
     let ok = e_connect E (w_hist s) h addr in (Inr ok, io_log (IoConnect h addr ok) s))"

text \<open>\<open>sock.bind(addr)\<close> and the resolved \<open>LAST_ENDPOINT\<close>; \<open>None\<close> is a \<open>ZMQError\<close>.\<close>

definition bind_socket :: "env \<Rightarrow> nat \<Rightarrow> pystr \<Rightarrow> ('a world_scheme, pystr option) prog" where
  "bind_socket E h addr = (\<lambda>s.
     let r = e_bind E (w_hist s) h addr in (Inr r, io_log (IoBind h addr r) s))"

text \<open>Binding a UDP socket to an address and port; \<open>False\<close> is an \<open>OSError\<close>.\<close>

definition udp_bind :: "env \<Rightarrow> nat \<Rightarrow> pystr \<Rightarrow> int \<Rightarrow> ('a world_scheme, bool) prog" where
  "udp_bind E h addr port = (\<lambda>s.
     let ok = e_udp_bind E (w_hist s) h addr port in (Inr ok, io_log (IoUdpBind h addr port ok) s))"

text \<open>\<open>sock.send_multipart(frames, zmq.NOBLOCK)\<close>.\<close>

definition send_multipart :: "env \<Rightarrow> nat \<Rightarrow> bytes list \<Rightarrow> ('a world_scheme, send_result) prog" where
  "send_multipart E h frames = (\<lambda>s.
     let r = e_send E (w_hist s) h frames in (Inr r, io_log (IoSend h frames r) s))"

text \<open>\<open>loop.time()\<close> and \<open>time.monotonic()\<close>, in seconds.\<close>

definition read_clock :: "env \<Rightarrow> ('a world_scheme, real) prog" where
  "read_clock E = (\<lambda>s. let t = e_time E (w_hist s) in (Inr t, io_log (IoTime t) s))"

definition udp_send :: "env \<Rightarrow> nat \<Rightarrow> bytes \<Rightarrow> pystr \<times> int \<Rightarrow> ('a world_scheme, unit) prog" where
  \<comment> \<open>\<open>with suppress(Exception): sock.sendto(data, target)\<close>\<close>
  "udp_send E h data target = modify (io_log (IoUdpSend h data target))"

subsection \<open>What was sent\<close>

text \<open>The frames handed to a socket, oldest first, whatever the socket did with them.\<close>

fun io_send :: "nat \<Rightarrow> io \<Rightarrow> bytes list option" where
  "io_send h (IoSend h' frames _) = (if h' = h then Some frames else None)"
| "io_send h _ = None"

definition sends_of :: "nat \<Rightarrow> io list \<Rightarrow> bytes list list" where
  "sends_of h hist = rev (List.map_filter (io_send h) hist)"

lemma sends_of_simps [simp]:
  "sends_of h [] = []"
  "sends_of h (IoSend h' fr r # hist) = (if h' = h then sends_of h hist @ [fr] else sends_of h hist)"
  "sends_of h (IoOpen n ty # hist) = sends_of h hist"
  "sends_of h (IoOpt n opt # hist) = sends_of h hist"
  "sends_of h (IoConnect n a ok # hist) = sends_of h hist"
  "sends_of h (IoBind n a p # hist) = sends_of h hist"
  "sends_of h (IoUdpBind n a q ok # hist) = sends_of h hist"
  "sends_of h (IoClose n # hist) = sends_of h hist"
  "sends_of h (IoUdpSend n d tg # hist) = sends_of h hist"
  "sends_of h (IoTime t # hist) = sends_of h hist"
  by (simp_all add: sends_of_def List.map_filter_simps)

text \<open>The messages that left on a socket.\<close>

fun io_delivered :: "io \<Rightarrow> (nat \<times> bytes list) option" where
  "io_delivered (IoSend h frames SendOk) = Some (h, frames)"
| "io_delivered _ = None"

definition delivered :: "io list \<Rightarrow> (nat \<times> bytes list) list" where
  "delivered hist = rev (List.map_filter io_delivered hist)"

lemma delivered_simps [simp]:
  "delivered [] = []"
  "delivered (IoSend h fr SendOk # hist) = delivered hist @ [(h, fr)]"
  "delivered (IoSend h fr SendAgain # hist) = delivered hist"
  "delivered (IoSend h fr SendError # hist) = delivered hist"
  "delivered (IoOpen n ty # hist) = delivered hist"
  "delivered (IoOpt n opt # hist) = delivered hist"
  "delivered (IoConnect n a ok # hist) = delivered hist"
  "delivered (IoBind n a p # hist) = delivered hist"
  "delivered (IoUdpBind n a q ok # hist) = delivered hist"
  "delivered (IoClose n # hist) = delivered hist"
  "delivered (IoUdpSend n d tg # hist) = delivered hist"
  "delivered (IoTime t # hist) = delivered hist"
  by (simp_all add: delivered_def List.map_filter_simps)

lemmas syscall_defs = new_socket_def new_udp_def close_udp_def set_opt_def close_socket_def connect_socket_def
  bind_socket_def send_multipart_def read_clock_def udp_send_def udp_bind_def io_log_def

lemma syscalls_total [total_rules]:
  "never_raises (new_socket t)" "never_raises (set_opt h opt)" "never_raises (close_socket h)"
  "never_raises (connect_socket E h addr)" "never_raises (bind_socket E h addr)"
  "never_raises (send_multipart E h frames)" "never_raises (read_clock E)"
  "never_raises (udp_send E h data target)" "never_raises (udp_bind E h addr port)"
  "never_raises new_udp" "never_raises (close_udp h)"
  by (simp_all add: never_raises_def syscall_defs Let_def)

subsection \<open>A calm world, for concrete examples\<close>

text \<open>Every connect, bind and send succeeds, the clock stands at 100, there are no interfaces.\<close>

definition calm :: env where
  "calm = \<lparr>e_rt = plain_rt, e_connect = (\<lambda>_ _ _. True),
     e_bind = (\<lambda>_ _ _. Some (lit ''tcp://0.0.0.0:49152'')), e_send = (\<lambda>_ _ _. SendOk),
     e_udp_bind = (\<lambda>_ _ _ _. True), e_time = (\<lambda>_. 100), e_set_key = (\<lambda>_ _. 0),
     e_z85_encode = (\<lambda>b. b), e_z85_decode = (\<lambda>b. Inr (take 32 b)), e_inet_aton = (\<lambda>_. None),
     e_iface_addr = (\<lambda>_. None), e_iface_mask = (\<lambda>_. None), e_gethostbyname = (\<lambda>_. None),
     e_local_addr = (\<lambda>_ _ _. None), e_routes = (\<lambda>_. None)\<rparr>"

lemma calm_simps [simp]:
  "e_rt calm = plain_rt" "e_connect calm hist h addr = True" "e_send calm hist h frames = SendOk"
  "e_bind calm hist h addr = Some (lit ''tcp://0.0.0.0:49152'')"
  "e_udp_bind calm hist h addr port = True" "e_time calm hist = 100" "e_inet_aton calm ip = None"
  "e_set_key calm hist x = 0" "e_z85_encode calm b = b" "e_z85_decode calm b = Inr (take 32 b)"
  "e_iface_addr calm i = None" "e_iface_mask calm i = None" "e_gethostbyname calm host = None"
  "e_local_addr calm hist ip port = None" "e_routes calm hist = None"
  by (simp_all add: calm_def)

lemma set_iter_calm [simp]: "set_iter calm hist xs = xs"
proof -
  have "sorted (map (e_set_key calm hist) xs)"
    by (induction xs) simp_all
  then show ?thesis unfolding set_iter_def by (rule sort_key_id_if_sorted)
qed

end
