(* ===== verification/Zre_Hub.thy ===== *)
theory Zre_Hub
  imports Zre_Gossip_Codec Zre_World
begin

section \<open>The gossip hub\<close>

text \<open>
  The class \<open>GossipHub\<close> of \<open>zre/gossip.py\<close>: a table of tuples with expiry, the tuples accepted and
  not yet handed to the owner, and the routing ids of the clients seen. The hub runs on the
  \<open>world\<close>, so what it sends is in the history. A call of \<open>handle_socket\<close> takes the messages that
  are waiting on the ROUTER socket as an argument.
\<close>

record hub =
  h_socket :: "nat option"
  h_tuples :: "(bytes \<times> bytes \<times> real) list"
  h_pending :: "(bytes \<times> bytes) list"
  h_clients :: "bytes list"      \<comment> \<open>a Python set, in order of insertion\<close>

record hub_state = world +
  hs :: hub

definition new_hub :: hub where
  "new_hub = \<lparr>h_socket = None, h_tuples = [], h_pending = [], h_clients = []\<rparr>"

definition upd_hub :: "(hub \<Rightarrow> hub) \<Rightarrow> (hub_state, unit) prog" where
  "upd_hub f = modify (\<lambda>s. s\<lparr>hs := f (hs s)\<rparr>)"

definition hub_bind :: "env \<Rightarrow> pystr \<Rightarrow> (hub_state, pystr) prog" where
  "hub_bind E endpoint =
     andThen (gets (h_socket \<circ> hs)) (\<lambda>old.
     if old \<noteq> None then throw RuntimeError
     else
       andThen (new_socket ROUTER) (\<lambda>sock.
       thenDo (set_opt sock (OptLinger 0))
       (andThen (bind_socket E sock endpoint) (\<lambda>r.
        case r of
          None \<Rightarrow> thenDo (close_socket sock) (throw ZMQError)
        | Some resolved \<Rightarrow>
            thenDo (upd_hub (\<lambda>h. h\<lparr>h_socket := Some sock\<rparr>)) (ret resolved)))))"

definition hub_unpublish :: "pyval \<Rightarrow> (hub_state, unit) prog" where
  "hub_unpublish key =
     andThen (lift_exn (to_bytes key)) (\<lambda>raw.
     upd_hub (\<lambda>h. h\<lparr>h_tuples := dict_pop raw (h_tuples h)\<rparr>))"

definition hub_deliveries :: "(hub_state, (bytes \<times> bytes) list) prog" where
  "hub_deliveries =
     andThen (gets (h_pending \<circ> hs)) (\<lambda>pending.
     thenDo (upd_hub (\<lambda>h. h\<lparr>h_pending := []\<rparr>)) (ret pending))"

text \<open>\<open>tuples()\<close>: the stored tuples decoded; keys that decode alike are merged.\<close>

definition hub_tuples :: "hub \<Rightarrow> (pystr \<times> pystr) list" where
  "hub_tuples h = fold (\<lambda>(key, value, _).
     dict_set (utf8_decode_replace key) (utf8_decode_replace value)) (h_tuples h) []"

definition hub_send :: "env \<Rightarrow> bytes \<Rightarrow> bytes \<Rightarrow> (hub_state, unit) prog" where
  "hub_send E routing_id body =
     andThen (gets (h_socket \<circ> hs)) (\<lambda>sock.
     case sock of
       None \<Rightarrow> throw AssertionError
     | Some h \<Rightarrow> andThen (send_multipart E h [routing_id, body]) (\<lambda>_. ret ()))"

definition hub_accept :: "env \<Rightarrow> bytes \<Rightarrow> bytes \<Rightarrow> int \<Rightarrow> real \<Rightarrow> (hub_state, unit) prog" where
  "hub_accept E key value ttl now =
     andThen (gets (\<lambda>s. dict_get (h_tuples (hs s)) key)) (\<lambda>stored.
     if (case stored of Some (v, _) \<Rightarrow> v = value | None \<Rightarrow> False) then ret ()
     else
       (let expiry = (if 0 < ttl then now + of_int ttl / 1000 else 0)
        in thenDo (upd_hub (\<lambda>h. h\<lparr>h_tuples := dict_set key (value, expiry) (h_tuples h),
                                h_pending := h_pending h @ [(key, value)]\<rparr>))
          (andThen (gets (\<lambda>s. set_iter E (w_hist s) (h_clients (hs s)))) (\<lambda>clients.
           for_each (\<lambda>routing_id.
             andThen (lift_exn (zgs_publish key value ttl)) (\<lambda>body. hub_send E routing_id body))
             clients))))"

definition hub_publish :: "env \<Rightarrow> pyval \<Rightarrow> pyval \<Rightarrow> int \<Rightarrow> (hub_state, unit) prog" where
  "hub_publish E key value ttl =
     andThen (lift_exn (to_bytes key)) (\<lambda>raw_key.
     andThen (lift_exn (to_bytes value)) (\<lambda>raw_value.
     andThen (read_clock E) (\<lambda>now. hub_accept E raw_key raw_value ttl now)))"

definition expired :: "real \<Rightarrow> bytes \<times> bytes \<times> real \<Rightarrow> bool" where
  "expired now t = (case t of (_, _, expiry) \<Rightarrow> expiry \<noteq> 0 \<and> expiry < now)"

definition hub_reap :: "real \<Rightarrow> (hub_state, unit) prog" where
  "hub_reap now =
     andThen (gets (\<lambda>s. map fst (filter (expired now) (h_tuples (hs s))))) (\<lambda>dead.
     for_each (\<lambda>key. upd_hub (\<lambda>h. h\<lparr>h_tuples := dict_pop key (h_tuples h)\<rparr>)) dead)"

definition insert_last :: "'a \<Rightarrow> 'a list \<Rightarrow> 'a list" where
  "insert_last x xs = (if x \<in> set xs then xs else xs @ [x])"

text \<open>One inbound message: the body of the loop of \<open>handle_socket\<close>.\<close>

definition hub_answer :: "env \<Rightarrow> real \<Rightarrow> bytes \<Rightarrow> zgs_message \<Rightarrow> (hub_state, unit) prog" where
  "hub_answer E now routing_id m =
    (if z_command m = ZGS_HELLO then
       andThen (gets (h_tuples \<circ> hs)) (\<lambda>tuples.
       for_each (\<lambda>(key, value, _).
         andThen (lift_exn (zgs_publish key value 0)) (\<lambda>b. hub_send E routing_id b)) tuples)
     else if z_command m = ZGS_PUBLISH then
       (case (z_key m, z_value m, z_ttl m) of
          (Some key, Some value, Some ttl) \<Rightarrow> hub_accept E key value (int ttl) now
        | _ \<Rightarrow> throw KeyError)
     else if z_command m = ZGS_PING then
       andThen (lift_exn (zgs_encode ZGS_PONG None None 0)) (\<lambda>b. hub_send E routing_id b)
     else if z_command m = ZGS_INVALID then
       andThen (lift_exn (zgs_encode ZGS_INVALID None None 0)) (\<lambda>b. hub_send E routing_id b)
     else ret ())"

definition hub_handle_message :: "env \<Rightarrow> real \<Rightarrow> bytes list \<Rightarrow> (hub_state, unit) prog" where
  "hub_handle_message E now frames =
    (case frames of
       [routing_id, body] \<Rightarrow>
         thenDo (upd_hub (\<lambda>h. h\<lparr>h_clients := insert_last routing_id (h_clients h)\<rparr>))
         (andThen (lift_exn (zgs_decode body)) (\<lambda>message.
          case message of None \<Rightarrow> ret () | Some m \<Rightarrow> hub_answer E now routing_id m))
     | _ \<Rightarrow> ret ())"

definition hub_handle_socket :: "env \<Rightarrow> bytes list list \<Rightarrow> (hub_state, (bytes \<times> bytes) list) prog" where
  "hub_handle_socket E inbound =
     andThen (gets (h_socket \<circ> hs)) (\<lambda>sock.
     if sock = None then ret []
     else
       andThen (read_clock E) (\<lambda>now.
       thenDo (hub_reap now)
       (thenDo (for_each (hub_handle_message E now) inbound) hub_deliveries)))"

definition hub_close :: "(hub_state, unit) prog" where
  "hub_close =
     andThen (gets (h_socket \<circ> hs)) (\<lambda>sock.
     case sock of
       None \<Rightarrow> ret ()
     | Some h \<Rightarrow> thenDo (close_socket h) (upd_hub (\<lambda>hb. hb\<lparr>h_socket := None\<rparr>)))"

text \<open>
  The stand-alone hub, \<open>_run_hub\<close>. The argument \<open>polls\<close> is what the poller says, round by round:
  \<open>None\<close> is a \<open>ZMQError\<close>, a list the messages that wait (none: no event). The program has no end of
  its own; after the last round it is interrupted, and the \<open>finally\<close> part runs.
\<close>

definition hub_poll_round :: "env \<Rightarrow> bytes list list option \<Rightarrow> (hub_state, unit) prog" where
  "hub_poll_round E poll =
    (case poll of
       None \<Rightarrow> ret ()
     | Some [] \<Rightarrow> ret ()
     | Some inbound \<Rightarrow> andThen (hub_handle_socket E inbound) (\<lambda>_. ret ()))"

definition run_hub_program ::
  "env \<Rightarrow> pystr \<Rightarrow> int \<Rightarrow> bytes list list option list \<Rightarrow> (hub_state, unit) prog" where
  "run_hub_program E host port polls =
     andThen (hub_bind E (lit ''tcp://'' @ host @ lit '':'' @ show_int port)) (\<lambda>_.
     try_finally (for_each (hub_poll_round E) polls) hub_close)"

subsection \<open>Sends\<close>

lemma run_hub_send:
  assumes "h_socket (hs s) = Some h"
  shows "hub_send E rid body s =
    (Inr (), s\<lparr>w_hist := IoSend h [rid, body] (e_send E (w_hist s) h [rid, body]) # w_hist s\<rparr>)"
  using assms by (simp add: hub_send_def run_andThen send_multipart_def io_log_def Let_def)

text \<open>A loop that sends one ready-made body to each client of a list.\<close>

lemma run_hub_sends:
  assumes "h_socket (hs s) = Some h"
  shows "\<exists>sent. for_each (\<lambda>(rid, body). hub_send E rid body) targets s =
      (Inr (), s\<lparr>w_hist := sent @ w_hist s\<rparr>)
    \<and> (\<forall>h'. sends_of h' (sent @ w_hist s) =
         sends_of h' (w_hist s) @ (if h' = h then map (\<lambda>(rid, body). [rid, body]) targets else []))"
  using assms
proof (induction targets arbitrary: s)
  case Nil
  then show ?case by (intro exI [of _ "[]"]) simp
next
  case (Cons t targets)
  obtain rid body where t: "t = (rid, body)" by fastforce
  let ?i = "IoSend h [rid, body] (e_send E (w_hist s) h [rid, body])"
  let ?s = "s\<lparr>w_hist := ?i # w_hist s\<rparr>"
  from Cons.prems have "h_socket (hs ?s) = Some h" by simp
  from Cons.IH [OF this] obtain sent where
      run: "for_each (\<lambda>(rid, body). hub_send E rid body) targets ?s = (Inr (), ?s\<lparr>w_hist := sent @ w_hist ?s\<rparr>)"
    and sends: "\<And>h'. sends_of h' (sent @ w_hist ?s) = sends_of h' (w_hist ?s) @
        (if h' = h then map (\<lambda>(rid, body). [rid, body]) targets else [])"
    by blast
  show ?case
    using run sends Cons.prems
    by (intro exI [of _ "sent @ [?i]"]) (auto simp: t run_thenDo run_hub_send)
qed

text \<open>Encoding in the loop, as the source does, is encoding beforehand when nothing raises.\<close>

lemma for_each_lift:
  assumes "\<And>x. x \<in> set xs \<Longrightarrow> f x = Inr (g x)"
  shows "for_each (\<lambda>x. andThen (lift_exn (f x)) (\<lambda>b. k x b)) xs = for_each (\<lambda>x. k x (g x)) xs"
proof -
  have "andThen (lift_exn (f x)) (\<lambda>b. k x b) = k x (g x)" if "x \<in> set xs" for x
    using assms [OF that] by (simp add: fun_eq_iff run_andThen)
  then show ?thesis by (induction xs) simp_all
qed

lemma for_each_map: "for_each f (map g xs) = for_each (\<lambda>x. f (g x)) xs"
  by (induction xs) simp_all

subsection \<open>The table as an abstract store\<close>

text \<open>
  The contract of a gossip table, whoever keeps it: accepting a tuple makes its value the
  table's, and the tuple goes to the owner exactly when it changed the table.
\<close>

locale tuple_store =
  fixes table :: "'s \<Rightarrow> 'k \<Rightarrow> 'v option"
    and news :: "'s \<Rightarrow> ('k \<times> 'v) list"
    and accept :: "'k \<Rightarrow> 'v \<Rightarrow> 'x \<Rightarrow> 's \<Rightarrow> 's"  \<comment> \<open>\<open>'x\<close> is the tuple's lifetime\<close>
  assumes table_accept: "table (accept k v x s) = (table s)(k \<mapsto> v)"
    and news_accept: "news (accept k v x s) =
          (if table s k = Some v then news s else news s @ [(k, v)])"
begin

definition accept_all :: "('k \<times> 'v \<times> 'x) list \<Rightarrow> 's \<Rightarrow> 's" where
  "accept_all kvs s = fold (\<lambda>(k, v, x). accept k v x) kvs s"

lemma accept_all_simps:
  "accept_all [] s = s"
  "accept_all ((k, v, x) # kvs) s = accept_all kvs (accept k v x s)"
  by (simp_all add: accept_all_def)

lemma table_all:
  "table (accept_all kvs s) = table s ++ map_of (rev (map (\<lambda>(k, v, _). (k, v)) kvs))"
proof (induction kvs arbitrary: s)
  case Nil
  then show ?case by (simp add: accept_all_simps)
next
  case (Cons kv kvs)
  then show ?case
    by (cases kv) (auto simp: accept_all_simps table_accept map_add_def fun_eq_iff split: option.splits)
qed

lemma news_again: "news (accept k v x (accept k v y s)) = news (accept k v y s)"
  by (simp add: news_accept table_accept)

lemma news_prefix:
  "\<exists>fresh. news (accept_all kvs s) = news s @ fresh \<and> set fresh \<subseteq> set (map (\<lambda>(k, v, _). (k, v)) kvs)"
proof (induction kvs arbitrary: s)
  case Nil
  then show ?case by (simp add: accept_all_simps)
next
  case (Cons kv kvs)
  obtain k v x where kv: "kv = (k, v, x)" by (cases kv)
  from Cons [of "accept k v x s"] obtain fresh where
      "news (accept_all kvs (accept k v x s)) = news (accept k v x s) @ fresh"
      "set fresh \<subseteq> set (map (\<lambda>(k, v, _). (k, v)) kvs)" by blast
  then show ?case
    by (cases "table s k = Some v") (auto simp: kv news_accept accept_all_simps)
qed

text \<open>A tuple that the table did not hold before is delivered.\<close>

lemma news_first:
  assumes "table s k \<noteq> Some v" and "(k, v) \<in> set (map (\<lambda>(k, v, _). (k, v)) kvs)"
  shows "(k, v) \<in> set (news (accept_all kvs s))"
  using assms
proof (induction kvs arbitrary: s)
  case Nil
  then show ?case by simp
next
  case (Cons kv kvs)
  obtain k' v' x where kv: "kv = (k', v', x)" by (cases kv)
  obtain fresh where fresh: "news (accept_all kvs (accept k' v' x s)) = news (accept k' v' x s) @ fresh"
    using news_prefix by blast
  show ?case
  proof (cases "(k', v') = (k, v)")
    case True
    with Cons.prems fresh show ?thesis by (auto simp: kv news_accept accept_all_simps)
  next
    case False
    show ?thesis
    proof (cases "table (accept k' v' x s) k = Some v")
      case True
      with False Cons.prems show ?thesis by (auto simp: table_accept split: if_splits)
    next
      case unchanged: False
      from Cons.prems(2) False have "(k, v) \<in> set (map (\<lambda>(k, v, _). (k, v)) kvs)" by (auto simp: kv)
      with Cons.IH [OF unchanged] show ?thesis by (simp add: kv accept_all_simps)
    qed
  qed
qed

end

definition hub_table :: "hub_state \<Rightarrow> bytes \<Rightarrow> bytes option" where
  "hub_table s key = map_option fst (dict_get (h_tuples (hs s)) key)"

definition hub_news :: "hub_state \<Rightarrow> (bytes \<times> bytes) list" where
  "hub_news s = h_pending (hs s)"

text \<open>The state part of \<open>_accept\<close>, before the broadcast.\<close>

definition hub_store :: "bytes \<Rightarrow> bytes \<Rightarrow> int \<Rightarrow> real \<Rightarrow> hub \<Rightarrow> hub" where
  "hub_store key value ttl now h =
    (if map_option fst (dict_get (h_tuples h) key) = Some value then h
     else h\<lparr>h_tuples := dict_set key (value, if 0 < ttl then now + of_int ttl / 1000 else 0) (h_tuples h),
            h_pending := h_pending h @ [(key, value)]\<rparr>)"

text \<open>A program that leaves the hub's own state alone.\<close>

definition hub_frame :: "(hub_state, 'a) prog \<Rightarrow> bool" where
  "hub_frame m \<longleftrightarrow> (\<forall>h. keeps (\<lambda>s. hs s = h) m)"

lemma hub_frame_send: "hub_frame (hub_send E rid body)"
  unfolding hub_frame_def hub_send_def send_multipart_def
  by (intro allI keeps_rules) (auto simp: keeps_def io_log_def Let_def)

lemma hub_frame_for_each:
  "(\<And>x. x \<in> set xs \<Longrightarrow> hub_frame (f x)) \<Longrightarrow> hub_frame (for_each f xs)"
  by (simp add: hub_frame_def keeps_for_each)

lemma hub_frame_lift: "(\<And>b. hub_frame (k b)) \<Longrightarrow> hub_frame (andThen (lift_exn r) k)"
  by (simp add: hub_frame_def keeps_andThen keeps_lift)

lemma hub_frameD: "hub_frame m \<Longrightarrow> hs (snd (m s)) = hs s"
  by (simp add: hub_frame_def keeps_def)

lemma hs_hub_accept: "hs (snd (hub_accept E key value ttl now s)) = hub_store key value ttl now (hs s)"
proof -
  have loop: "hs (snd (for_each (\<lambda>rid. andThen (lift_exn (zgs_publish key value ttl))
      (hub_send E rid)) xs t)) = hs t" for xs t
    by (intro hub_frameD hub_frame_for_each hub_frame_lift hub_frame_send)
  show ?thesis
    by (auto simp: hub_accept_def hub_store_def upd_hub_def Let_def loop split: option.splits prod.splits)
qed

interpretation gossip_hub:
  tuple_store hub_table hub_news "\<lambda>k v ttl s. snd (hub_accept E k v ttl now s)" for E now
  by unfold_locales
     (auto simp: hub_table_def hub_news_def hs_hub_accept hub_store_def alist.get_put fun_eq_iff)

text \<open>The same contract on the hub's own state.\<close>

definition table_of :: "hub \<Rightarrow> bytes \<Rightarrow> bytes option" where
  "table_of h key = map_option fst (dict_get (h_tuples h) key)"

interpretation stored: tuple_store table_of h_pending "\<lambda>k v ttl. hub_store k v ttl now" for now
  by unfold_locales (auto simp: table_of_def hub_store_def alist.get_put fun_eq_iff)

subsection \<open>Broadcast and snapshot\<close>

lemma run_hub_accept:
  assumes sock: "h_socket (hs s) = Some h" and w: "zgs_publish key value ttl = Inr w"
    and fresh: "hub_table s key \<noteq> Some value"
  shows "\<exists>sent. hub_accept E key value ttl now s =
      (Inr (), s\<lparr>hs := hub_store key value ttl now (hs s), w_hist := sent @ w_hist s\<rparr>)
    \<and> sends_of h (sent @ w_hist s) = sends_of h (w_hist s) @
        map (\<lambda>rid. [rid, w]) (set_iter E (w_hist s) (h_clients (hs s)))"
proof -
  let ?s = "s\<lparr>hs := hub_store key value ttl now (hs s)\<rparr>"
  let ?targets = "map (\<lambda>rid. (rid, w)) (set_iter E (w_hist s) (h_clients (hs s)))"
  have store: "hub_store key value ttl now (hs s) =
      (hs s)\<lparr>h_tuples := dict_set key (value, if 0 < ttl then now + of_int ttl / 1000 else 0) (h_tuples (hs s)),
        h_pending := h_pending (hs s) @ [(key, value)]\<rparr>"
    using fresh by (simp add: hub_store_def hub_table_def)
  then have "h_socket (hs ?s) = Some h" using sock by simp
  from run_hub_sends [OF this, of E ?targets] obtain sent where
      run: "for_each (\<lambda>(rid, body). hub_send E rid body) ?targets ?s = (Inr (), ?s\<lparr>w_hist := sent @ w_hist ?s\<rparr>)"
    and sends: "sends_of h (sent @ w_hist ?s) = sends_of h (w_hist ?s) @ map (\<lambda>(rid, body). [rid, body]) ?targets"
    by force
  have loop: "for_each (\<lambda>rid. andThen (lift_exn (zgs_publish key value ttl)) (\<lambda>body. hub_send E rid body)) xs =
      for_each (\<lambda>(rid, body). hub_send E rid body) (map (\<lambda>rid. (rid, w)) xs)" for xs
    by (simp add: for_each_lift [of _ _ "\<lambda>_. w"] w for_each_map)
  have "hub_accept E key value ttl now s = for_each (\<lambda>(rid, body). hub_send E rid body) ?targets ?s"
    using fresh by (auto simp: hub_accept_def upd_hub_def hub_table_def store Let_def loop
        split: option.splits prod.splits)
  with run sends show ?thesis by (intro exI [of _ sent]) (simp add: comp_def)
qed

lemma run_hub_hello:
  assumes sock: "h_socket (hs s) = Some h"
    and ok: "\<And>key value expiry. (key, value, expiry) \<in> set (h_tuples (hs s)) \<Longrightarrow> zgs_tuple_ok key value"
    and decoded: "zgs_decode body = Inr (Some m)" "z_command m = ZGS_HELLO"
  shows "\<exists>sent. hub_handle_message E now [rid, body] s =
      (Inr (), s\<lparr>hs := (hs s)\<lparr>h_clients := insert_last rid (h_clients (hs s))\<rparr>, w_hist := sent @ w_hist s\<rparr>)
    \<and> sends_of h (sent @ w_hist s) = sends_of h (w_hist s) @
        map (\<lambda>(key, value, _). [rid, projr (zgs_publish key value 0)]) (h_tuples (hs s))"
proof -
  let ?s = "s\<lparr>hs := (hs s)\<lparr>h_clients := insert_last rid (h_clients (hs s))\<rparr>\<rparr>"
  let ?enc = "\<lambda>(key, value, _). projr (zgs_publish key value 0)"
  let ?targets = "map (\<lambda>t. (rid, ?enc t)) (h_tuples (hs s))"
  have enc: "(case t of (key, value, _ :: real) \<Rightarrow> zgs_publish key value 0) = Inr (?enc t)"
    if "t \<in> set (h_tuples (hs s))" for t
  proof -
    obtain key v expiry where t: "t = (key, v, expiry)" by (cases t)
    with that ok have "zgs_tuple_ok key v" by blast
    with t show ?thesis by (simp add: zgs_publish_bytes)
  qed
  have "h_socket (hs ?s) = Some h" using sock by simp
  from run_hub_sends [OF this, of E ?targets] obtain sent where
      run: "for_each (\<lambda>(rid, body). hub_send E rid body) ?targets ?s = (Inr (), ?s\<lparr>w_hist := sent @ w_hist ?s\<rparr>)"
    and sends: "sends_of h (sent @ w_hist ?s) = sends_of h (w_hist ?s) @ map (\<lambda>(rid, body). [rid, body]) ?targets"
    by force
  have "for_each (\<lambda>(key, value, _). andThen (lift_exn (zgs_publish key value 0)) (\<lambda>b. hub_send E rid b))
        (h_tuples (hs s)) = for_each (\<lambda>(rid, body). hub_send E rid body) ?targets"
    using for_each_lift [of "h_tuples (hs s)" "\<lambda>(key, value, _). zgs_publish key value 0" ?enc
        "\<lambda>_ b. hub_send E rid b", OF enc]
    by (simp add: for_each_map split_def)
  then have "hub_handle_message E now [rid, body] s = for_each (\<lambda>(rid, body). hub_send E rid body) ?targets ?s"
    using decoded by (simp add: hub_handle_message_def hub_answer_def upd_hub_def run_andThen)
  with run sends show ?thesis
    by (intro exI [of _ sent]) (simp add: comp_def split_def)
qed

end
