(* ===== verification/Zre_Hub_Properties.thy ===== *)
theory Zre_Hub_Properties
  imports Zre_Hub
begin

section \<open>What the gossip hub guarantees\<close>

text \<open>
  The hub as its clients see it: a new tuple goes to every client, a HELLO is answered with the
  whole table, expired tuples disappear, and a round of \<open>handle_socket\<close> is the update of an
  abstract map by the tuples published in it (\<open>hub_learn\<close>, \<open>published\<close>). Also the tuples that
  \<open>zgs_decode\<close> lets in and \<open>zgs_encode\<close> refuses, which stop the hub.
\<close>

subsection \<open>Broadcast and snapshot\<close>

text \<open>
  A tuple that does not change the table is dropped silently; any other is stored, queued for
  the owner, and published once to every known client, in the frame that \<open>zgs_encode\<close> makes.
\<close>

theorem hub_accept_spec:
  assumes "h_socket (hs s) = Some h" and "zgs_publish key value ttl = Inr w"
  shows "if hub_table s key = Some value then hub_accept E key value ttl now s = (Inr (), s)
    else \<exists>sent. hub_accept E key value ttl now s =
        (Inr (), s\<lparr>hs := hub_store key value ttl now (hs s), w_hist := sent @ w_hist s\<rparr>)
      \<and> sends_of h (sent @ w_hist s) = sends_of h (w_hist s) @
          map (\<lambda>rid. [rid, w]) (set_iter E (w_hist s) (h_clients (hs s)))"
proof (cases "hub_table s key = Some value")
  case True
  then show ?thesis
    by (auto simp: hub_accept_def hub_table_def split: option.splits)
next
  case False
  with run_hub_accept [OF assms False] show ?thesis by simp
qed

definition hub_example :: hub_state where
  "hub_example = \<lparr>w_hist = [], w_next_sock = 1, w_socks = [0],
     hs = \<lparr>h_socket = Some 0, h_tuples = [], h_pending = [], h_clients = [[7], [8]]\<rparr>\<rparr>"

lemma hub_example_simps [simp]:
  "h_socket (hs hub_example) = Some 0" "h_tuples (hs hub_example) = []"
  "h_pending (hs hub_example) = []" "w_hist hub_example = []"
  by (simp_all add: hub_example_def)

lemma hub_accept_spec_witness:
  "\<exists>sent. hub_accept calm [65] [66] 0 5 hub_example =
        (Inr (), hub_example\<lparr>hs := hub_store [65] [66] 0 5 (hs hub_example), w_hist := sent @ []\<rparr>)
      \<and> sends_of 0 (sent @ []) =
          [[[7], projr (zgs_publish [65] [66] 0)], [[8], projr (zgs_publish [65] [66] 0)]]"
proof -
  have w: "zgs_publish [65] [66] 0 = Inr (projr (zgs_publish [65] [66] 0))"
    by (simp add: zgs_publish_bytes zgs_tuple_ok_def)
  have "h_clients (hs hub_example) = [[7], [8]]" by (simp add: hub_example_def)
  with hub_accept_spec [OF _ w, of hub_example 0 calm 5] show ?thesis
    by (simp add: hub_table_def)
qed

lemma zgs_hello_bytes: "zgs_encode ZGS_HELLO None None 0 = Inr [0xAA, 0xA0, 1, 1]"
  using zgs_encode_plain [of ZGS_HELLO None None 0] by (simp add: zgs_command_defs ZGS_SIGNATURE_def)

text \<open>
  A client that says HELLO is remembered and receives the whole table, one PUBLISH per tuple in
  the order of arrival, and nobody else is sent anything.
\<close>

theorem hub_hello_snapshot:
  assumes "h_socket (hs s) = Some h"
    and "\<And>key value expiry. (key, value, expiry) \<in> set (h_tuples (hs s)) \<Longrightarrow> zgs_tuple_ok key value"
    and "zgs_encode ZGS_HELLO None None 0 = Inr body"
  shows "\<exists>sent. hub_handle_message E now [rid, body] s =
      (Inr (), s\<lparr>hs := (hs s)\<lparr>h_clients := insert_last rid (h_clients (hs s))\<rparr>, w_hist := sent @ w_hist s\<rparr>)
    \<and> sends_of h (sent @ w_hist s) = sends_of h (w_hist s) @
        map (\<lambda>(key, value, _). [rid, projr (zgs_publish key value 0)]) (h_tuples (hs s))"
proof -
  have "body = [0xAA, 0xA0, 1, 1]"
    using assms(3) by (simp add: zgs_hello_bytes)
  then have "zgs_decode body = Inr (Some \<lparr>z_command = ZGS_HELLO, z_key = None, z_value = None, z_ttl = None\<rparr>)"
    by (simp add: zgs_decode_def slice_def ZGS_SIGNATURE_def ZGS_VERSION_def zgs_command_defs)
  from run_hub_hello [OF assms(1,2) this] show ?thesis by simp
qed

lemma hub_hello_snapshot_witness:
  "\<exists>sent. hub_handle_message calm 5 [[9], [0xAA, 0xA0, 1, 1]]
        (hub_example\<lparr>hs := (hs hub_example)\<lparr>h_tuples := [([65], [66], 0)]\<rparr>\<rparr>) =
      (Inr (), hub_example\<lparr>hs := (hs hub_example)\<lparr>h_tuples := [([65], [66], 0)],
         h_clients := [[7], [8], [9]]\<rparr>, w_hist := sent @ []\<rparr>)
    \<and> sends_of 0 (sent @ []) = [[[9], projr (zgs_publish [65] [66] 0)]]"
proof -
  let ?s = "hub_example\<lparr>hs := (hs hub_example)\<lparr>h_tuples := [([65], [66], 0)]\<rparr>\<rparr>"
  have "zgs_tuple_ok k v" if "(k, v, t) \<in> set (h_tuples (hs ?s))" for k v t
    using that by (simp add: zgs_tuple_ok_def)
  from hub_hello_snapshot [where s = ?s and h = 0, OF _ this zgs_hello_bytes, where E = calm
      and now = 5 and rid = "[9]"] show ?thesis
    by (simp add: hub_example_def insert_last_def)
qed

subsection \<open>Expiry\<close>

lemma run_upd_hub: "upd_hub f s = (Inr (), s\<lparr>hs := f (hs s)\<rparr>)"
  by (simp add: upd_hub_def)

lemma reap_loop:
  assumes "\<And>key s. pop key s = (Inr (), s\<lparr>hs := (hs s)\<lparr>h_tuples := dict_pop key (h_tuples (hs s))\<rparr>\<rparr>)"
  shows "hs (snd (for_each pop dead s)) =
    (hs s)\<lparr>h_tuples := filter (\<lambda>t. fst t \<notin> set dead) (h_tuples (hs s))\<rparr>"
proof (induction dead arbitrary: s)
  case Nil
  then show ?case by simp
next
  case (Cons k dead)
  have "filter (\<lambda>t. fst t \<notin> set dead) (dict_pop k xs) = filter (\<lambda>t. fst t \<notin> set (k # dead)) xs"
    for xs :: "(bytes \<times> bytes \<times> real) list"
    by (induction xs) auto
  moreover have "for_each pop (k # dead) s =
      for_each pop dead (s\<lparr>hs := (hs s)\<lparr>h_tuples := dict_pop k (h_tuples (hs s))\<rparr>\<rparr>)"
    by (simp only: for_each.simps thenDo_Inr [OF assms])
  ultimately show ?case using Cons.IH by simp
qed

lemma hs_hub_reap:
  assumes "is_dict (h_tuples (hs s))"
  shows "hs (snd (hub_reap now s)) =
    (hs s)\<lparr>h_tuples := filter (\<lambda>t. \<not> expired now t) (h_tuples (hs s))\<rparr>"
proof -
  have "fst t \<notin> set (map fst (filter (expired now) (h_tuples (hs s)))) \<longleftrightarrow> \<not> expired now t"
    if t: "t \<in> set (h_tuples (hs s))" for t
  proof -
    have "u = t" if "u \<in> set (h_tuples (hs s))" "fst u = fst t" for u
      using assms t that by (cases u, cases t) (auto simp: dict_mem)
    with t show ?thesis by auto
  qed
  then have "filter (\<lambda>t. fst t \<notin> set (map fst (filter (expired now) (h_tuples (hs s))))) (h_tuples (hs s)) =
      filter (\<lambda>t. \<not> expired now t) (h_tuples (hs s))"
    by (rule filter_cong [OF refl])
  moreover have "hub_reap now s = for_each (\<lambda>key. upd_hub (\<lambda>h. h\<lparr>h_tuples := dict_pop key (h_tuples h)\<rparr>))
      (map fst (filter (expired now) (h_tuples (hs s)))) s"
    by (simp only: hub_reap_def run_andThen_simps)
  ultimately show ?thesis
    by (simp only: reap_loop [where pop = "\<lambda>key. upd_hub (\<lambda>h. h\<lparr>h_tuples := dict_pop key (h_tuples h)\<rparr>)",
          OF run_upd_hub])
qed

text \<open>
  Reaping removes the tuples whose lifetime has run out and no other; a tuple without a lifetime
  (expiry 0) is never reaped.
\<close>

theorem hub_reap_spec:
  assumes "is_dict (h_tuples (hs s))"
  shows "h_tuples (hs (snd (hub_reap now s))) =
    filter (\<lambda>(_, _, expiry). expiry = 0 \<or> now \<le> expiry) (h_tuples (hs s))"
proof -
  have "(\<not> expired now t) = (case t of (_, _, expiry) \<Rightarrow> expiry = 0 \<or> now \<le> expiry)" for t
    by (cases t) (auto simp: expired_def)
  with hs_hub_reap [OF assms, of now] show ?thesis by simp
qed

lemma hub_reap_spec_witness:
  "h_tuples (hs (snd (hub_reap 9 (hub_example\<lparr>hs := (hs hub_example)\<lparr>h_tuples :=
      [([65], [1], 4), ([66], [2], 0), ([67], [3], 12)]\<rparr>\<rparr>)))) = [([66], [2], 0), ([67], [3], 12)]"
  by (subst hub_reap_spec) (simp_all add: is_dict_def keys_def)


subsection \<open>A round of the hub as an update of an abstract map\<close>

text \<open>The tuple that a message publishes, if it is a PUBLISH.\<close>

definition published :: "bytes list \<Rightarrow> (bytes \<times> bytes \<times> nat) option" where
  "published frames =
    (case frames of
       [rid, body] \<Rightarrow>
         (case zgs_decode body of
            Inr (Some m) \<Rightarrow>
              (if z_command m = ZGS_PUBLISH
               then Some (the (z_key m), the (z_value m), the (z_ttl m)) else None)
          | _ \<Rightarrow> None)
     | _ \<Rightarrow> None)"

text \<open>What a message makes of the hub's own state, whatever the socket does.\<close>

definition hub_learn :: "real \<Rightarrow> bytes list \<Rightarrow> hub \<Rightarrow> hub" where
  "hub_learn now frames h =
    (let h' = (case frames of
           [rid, body] \<Rightarrow> h\<lparr>h_clients := insert_last rid (h_clients h)\<rparr> | _ \<Rightarrow> h)
     in case published frames of
          None \<Rightarrow> h' | Some (key, value, ttl) \<Rightarrow> hub_store key value (int ttl) now h')"

lemma zgs_decode_tuple:
  assumes "zgs_decode body = Inr (Some m)" and "z_command m = ZGS_PUBLISH"
  obtains key v ttl where "z_key m = Some key" "z_value m = Some v" "z_ttl m = Some ttl"
    "ttl < 256 ^ 4"
proof -
  define kl where "kl = unat (body ! 4)"
  define off where "off = 5 + kl + 4 + be_nat (slice (5 + kl) (5 + kl + 4) body)"
  from assms(1) have "unat (body ! 2) = z_command m"
    by (auto simp: zgs_decode_def Let_def split: if_splits)
  with assms have "z_key m = Some (slice 5 (5 + kl) body)"
    and "z_value m = Some (slice (5 + kl + 4) off body)"
    and ttl: "z_ttl m = Some (be_nat (slice off (off + 4) body))" and "off + 4 \<le> length body"
    unfolding zgs_decode_def Let_def kl_def [symmetric] off_def [symmetric]
    by (auto split: if_splits)
  moreover have "be_nat (slice off (off + 4) body) < 256 ^ length (slice off (off + 4) body)"
    by (rule be_nat_less)
  ultimately show thesis using that by (simp add: length_slice)
qed

lemma hub_frame_gets: "(\<And>x. hub_frame (k x)) \<Longrightarrow> hub_frame (andThen (gets f) k)"
  by (simp add: hub_frame_def keeps_rules)

lemma hub_frame_ret: "hub_frame (ret x)"
  by (simp add: hub_frame_def keeps_rules)

lemma hub_frame_answer:
  assumes "z_command m \<noteq> ZGS_PUBLISH"
  shows "hub_frame (hub_answer E now rid m)"
proof -
  have "hub_frame (case t of (key, v, _) \<Rightarrow> andThen (lift_exn (zgs_publish key v 0)) (hub_send E rid))"
    for t :: "bytes \<times> bytes \<times> real"
    by (cases t) (simp only: prod.case, intro hub_frame_lift hub_frame_send)
  then have "hub_frame (andThen (gets (h_tuples \<circ> hs)) (for_each (\<lambda>(key, v, _).
      andThen (lift_exn (zgs_publish key v 0)) (hub_send E rid))))"
    by (intro hub_frame_gets hub_frame_for_each)
  moreover have "hub_frame (andThen (lift_exn r) (hub_send E rid))" for r
    by (intro hub_frame_lift hub_frame_send)
  ultimately show ?thesis
    unfolding hub_answer_def by (simp only: assms if_False hub_frame_ret split: if_split) blast
qed

lemma run_hub_message:
  "hub_handle_message E now [rid, body] s =
    (let s' = s\<lparr>hs := (hs s)\<lparr>h_clients := insert_last rid (h_clients (hs s))\<rparr>\<rparr>
     in case zgs_decode body of
          Inl e \<Rightarrow> (Inl e, s')
        | Inr None \<Rightarrow> (Inr (), s')
        | Inr (Some m) \<Rightarrow> hub_answer E now rid m s')"
  by (simp add: hub_handle_message_def run_thenDo run_upd_hub run_andThen split: sum.splits option.splits)

lemma hub_answer_publish:
  assumes "zgs_decode body = Inr (Some m)" and "z_command m = ZGS_PUBLISH"
  shows "hub_answer E now rid m = hub_accept E (the (z_key m)) (the (z_value m)) (int (the (z_ttl m))) now"
proof -
  obtain key v ttl where "z_key m = Some key" "z_value m = Some v" "z_ttl m = Some ttl"
    by (rule zgs_decode_tuple [OF assms])
  with assms(2) show ?thesis by (simp add: hub_answer_def zgs_command_defs)
qed

lemma hs_hub_handle_message: "hs (snd (hub_handle_message E now frames s)) = hub_learn now frames (hs s)"
proof -
  consider (other) "\<nexists>rid body. frames = [rid, body]" | (message) rid body where "frames = [rid, body]"
    by blast
  then show ?thesis
  proof cases
    case other
    then show ?thesis
      by (auto simp: hub_handle_message_def hub_learn_def published_def split: list.splits)
  next
    case message
    have "hs (snd (hub_answer E now rid m t)) = hs t" if "z_command m \<noteq> ZGS_PUBLISH" for m t
      using that by (intro hub_frameD hub_frame_answer)
    then show ?thesis
      by (auto simp: message run_hub_message hub_learn_def published_def hub_answer_publish
          hs_hub_accept Let_def split: sum.splits option.splits)
  qed
qed

text \<open>A hub that is bound and can encode every tuple it holds.\<close>

definition hub_ready :: "nat \<Rightarrow> hub_state \<Rightarrow> bool" where
  "hub_ready h s \<longleftrightarrow> h_socket (hs s) = Some h \<and> is_dict (h_tuples (hs s))
     \<and> list_all (\<lambda>(key, value, _). zgs_tuple_ok key value) (h_tuples (hs s))"

text \<open>A message that is not one of those the hub chokes on.\<close>

definition benign :: "bytes list \<Rightarrow> bool" where
  "benign frames =
    (case frames of
       [rid, body] \<Rightarrow> (case zgs_decode body of Inl _ \<Rightarrow> False | Inr _ \<Rightarrow> True)
         \<and> (case published frames of None \<Rightarrow> True | Some (key, value, _) \<Rightarrow> zgs_tuple_ok key value)
     | _ \<Rightarrow> True)"

lemma hub_ready_learn:
  assumes "hub_ready h s" and "benign frames" and "hs s' = hub_learn now frames (hs s)"
  shows "hub_ready h s'"
proof -
  have store: "is_dict (h_tuples (hub_store k v ttl now hb))"
    "list_all (\<lambda>(key, value, _). zgs_tuple_ok key value) (h_tuples (hub_store k v ttl now hb))"
    if "is_dict (h_tuples hb)" "list_all (\<lambda>(key, value, _). zgs_tuple_ok key value) (h_tuples hb)"
      "zgs_tuple_ok k v" for hb k v ttl
    using that by (auto simp: hub_store_def alist.inv_put set_dict_set list_all_iff)
  have sock: "h_socket (hub_store k v ttl now hb) = h_socket hb" for k v ttl hb
    by (simp add: hub_store_def)
  from assms show ?thesis
    by (auto simp: hub_ready_def hub_learn_def benign_def published_def store sock Let_def
        split: list.splits option.splits sum.splits if_splits prod.splits)
qed

text \<open>A bound hub with only encodable tuples answers any benign message without an exception.\<close>

lemma hub_answer_total:
  assumes "h_socket (hs s) = Some h" "\<And>k v t. (k, v, t) \<in> set (h_tuples (hs s)) \<Longrightarrow> zgs_tuple_ok k v"
    and "z_command m \<noteq> ZGS_PUBLISH"
  shows "\<exists>s'. hub_answer E now rid m s = (Inr (), s')"
proof (cases "z_command m = ZGS_HELLO")
  case True
  have enc: "(case t of (key, v, _ :: real) \<Rightarrow> zgs_publish key v 0) =
      Inr (projr (case t of (key, v, _ :: real) \<Rightarrow> zgs_publish key v 0))"
    if "t \<in> set (h_tuples (hs s))" for t
    using assms(2) that by (cases t) (simp add: zgs_publish_bytes)
  have "hub_answer E now rid m s = for_each (\<lambda>(rid, body). hub_send E rid body)
      (map (\<lambda>t. (rid, projr (case t of (key, v, _) \<Rightarrow> zgs_publish key v 0))) (h_tuples (hs s))) s"
    using for_each_lift [of "h_tuples (hs s)" "\<lambda>(key, v, _). zgs_publish key v 0" _
        "\<lambda>_ b. hub_send E rid b", OF enc] True
    by (simp add: hub_answer_def for_each_map split_def)
  with run_hub_sends [OF assms(1)] show ?thesis by metis
next
  case False
  have plain: "zgs_encode ZGS_PONG None None 0 = Inr (ZGS_SIGNATURE @ [of_nat ZGS_PONG, 1])"
    "zgs_encode ZGS_INVALID None None 0 = Inr (ZGS_SIGNATURE @ [of_nat ZGS_INVALID, 1])"
    by (rule zgs_encode_plain; simp add: zgs_command_defs)+
  show ?thesis
    using False assms(3) by (simp add: hub_answer_def run_andThen plain run_hub_send [OF assms(1)])
qed

lemma hub_ready_tuples: "hub_ready h s \<Longrightarrow> (k, v, t) \<in> set (h_tuples (hs s)) \<Longrightarrow> zgs_tuple_ok k v"
  by (fastforce simp: hub_ready_def list_all_iff)

lemma hub_message_total:
  assumes ready: "hub_ready h s" and "benign frames"
  shows "\<exists>s'. hub_handle_message E now frames s = (Inr (), s') \<and> hub_ready h s'
    \<and> hs s' = hub_learn now frames (hs s)"
proof -
  have "\<exists>s'. hub_handle_message E now frames s = (Inr (), s')"
  proof (cases "\<exists>rid body. frames = [rid, body]")
    case False
    then show ?thesis by (auto simp: hub_handle_message_def split: list.splits)
  next
    case True
    then obtain rid body where frames: "frames = [rid, body]" by blast
    let ?s = "s\<lparr>hs := (hs s)\<lparr>h_clients := insert_last rid (h_clients (hs s))\<rparr>\<rparr>"
    have sock: "h_socket (hs ?s) = Some h" using ready by (simp add: hub_ready_def)
    from assms(2) obtain r where r: "zgs_decode body = Inr r"
      by (auto simp: benign_def frames split: sum.splits)
    show ?thesis
    proof (cases r)
      case None
      with r show ?thesis by (simp add: frames run_hub_message)
    next
      case (Some m)
      show ?thesis
      proof (cases "z_command m = ZGS_PUBLISH")
        case False
        from hub_answer_total [OF sock _ False] hub_ready_tuples [OF ready] r Some show ?thesis
          by (simp add: frames run_hub_message)
      next
        case True
        with r Some obtain k v t where kvt: "z_key m = Some k" "z_value m = Some v" "z_ttl m = Some t"
          "t < 256 ^ 4" by (metis zgs_decode_tuple)
        with assms(2) r Some True have "zgs_tuple_ok k v"
          by (simp add: benign_def frames published_def)
        with kvt obtain w where w: "zgs_publish k v (int t) = Inr w" by (simp add: zgs_publish_bytes)
        have "\<exists>s'. hub_accept E k v (int t) now ?s = (Inr (), s')"
        proof (cases "hub_table ?s k = Some v")
          case True
          then show ?thesis by (auto simp: hub_accept_def hub_table_def split: option.splits)
        next
          case fresh: False
          from run_hub_accept [OF sock w fresh] show ?thesis by blast
        qed
        with kvt r Some True show ?thesis
          by (simp add: frames run_hub_message hub_answer_publish)
      qed
    qed
  qed
  then obtain s' where s': "hub_handle_message E now frames s = (Inr (), s')" by blast
  with hs_hub_handle_message [of E now frames s] have "hs s' = hub_learn now frames (hs s)" by simp
  with s' hub_ready_learn [OF assms this] show ?thesis by blast
qed

lemma hub_messages_total:
  "hub_ready h s \<Longrightarrow> list_all benign inbound \<Longrightarrow>
   \<exists>s'. for_each (hub_handle_message E now) inbound s = (Inr (), s') \<and> hub_ready h s'
    \<and> hs s' = fold (hub_learn now) inbound (hs s)"
proof (induction inbound arbitrary: s)
  case Nil
  then show ?case by simp
next
  case (Cons frames inbound)
  from Cons.prems hub_message_total [of h s frames E now] obtain s1 where
      s1: "hub_handle_message E now frames s = (Inr (), s1)" "hub_ready h s1"
        "hs s1 = hub_learn now frames (hs s)" by auto
  with Cons.IH [OF s1(2)] Cons.prems(2) show ?case
    by (simp add: run_thenDo s1)
qed

text \<open>The tuples published by a list of messages, in order.\<close>

definition published_all :: "bytes list list \<Rightarrow> (bytes \<times> bytes \<times> int) list" where
  "published_all inbound = List.map_filter
     (\<lambda>frames. map_option (\<lambda>(k, v, t). (k, v, int t)) (published frames)) inbound"

lemma hub_learn_fold:
  "h_pending (fold (hub_learn now) inbound h) = h_pending (stored.accept_all now (published_all inbound) h)
   \<and> h_tuples (fold (hub_learn now) inbound h) = h_tuples (stored.accept_all now (published_all inbound) h)
   \<and> h_socket (fold (hub_learn now) inbound h) = h_socket h"
proof -
  let ?same = "\<lambda>a b. h_pending a = h_pending b \<and> h_tuples a = h_tuples b"
  have store: "?same (hub_store k v t now a) (hub_store k v t now b)" if "?same a b" for k v t a b
    using that by (auto simp: hub_store_def)
  have same: "?same (fold (hub_learn now) inbound a) (stored.accept_all now (published_all inbound) b)"
    if "?same a b" for a b using that
  proof (induction inbound arbitrary: a b)
    case Nil
    then show ?case by (simp add: published_all_def List.map_filter_simps stored.accept_all_simps)
  next
    case (Cons frames inbound)
    let ?a = "case frames of [rid, body] \<Rightarrow> a\<lparr>h_clients := insert_last rid (h_clients a)\<rparr> | _ \<Rightarrow> a"
    have a: "?same ?a b" using Cons.prems by (auto split: list.splits)
    show ?case
    proof (cases "published frames")
      case None
      with Cons.IH [OF a] show ?thesis
        by (simp add: published_all_def List.map_filter_simps hub_learn_def Let_def)
    next
      case (Some kvt)
      obtain k v t where kvt: "kvt = (k, v, t)" by (cases kvt)
      from Cons.IH [OF store [OF a, of k v "int t"]] Some kvt show ?thesis
        by (simp add: published_all_def List.map_filter_simps hub_learn_def Let_def
            stored.accept_all_simps)
    qed
  qed
  have "h_socket (hub_learn now frames a) = h_socket a" for frames a
    by (auto simp: hub_learn_def hub_store_def Let_def split: list.splits option.splits)
  then have "h_socket (fold (hub_learn now) inbound a) = h_socket a" for a
    by (induction inbound arbitrary: a) simp_all
  with same [of h h] show ?thesis by simp
qed

lemma hub_reap_total: "never_raises (hub_reap now)"
  unfolding hub_reap_def upd_hub_def by (intro total_rules)

lemma hub_ready_reap:
  assumes "hub_ready h s" and "hs s' = (hs s)\<lparr>h_tuples := filter P (h_tuples (hs s))\<rparr>"
  shows "hub_ready h s'"
proof -
  have "is_dict (filter P d)" if "is_dict d" for d :: "(bytes \<times> bytes \<times> real) list" and P
    using that by (simp add: is_dict_def keys_def distinct_map_filter)
  with assms show ?thesis by (auto simp: hub_ready_def list_all_iff)
qed

text \<open>
  C11: a round of \<open>handle_socket\<close> never raises on benign input, and refines the abstract store: the
  table becomes the unexpired tuples overridden by the published ones, the last one winning; what
  is handed to the owner is what was queued followed by published tuples only, among them every
  tuple that was not in the table; and the hub stays ready.
\<close>

theorem hub_round_refines_store:
  assumes ready: "hub_ready h s" and benign: "list_all benign inbound"
    and live: "live = filter (\<lambda>t. \<not> expired (e_time E (w_hist s)) t) (h_tuples (hs s))"
  shows "\<exists>delivered s'. hub_handle_socket E inbound s = (Inr delivered, s') \<and> hub_ready h s'
    \<and> hub_table s' = (map_option fst \<circ> map_of live)
        ++ map_of (rev (map (\<lambda>(k, v, _). (k, v)) (published_all inbound)))
    \<and> (\<exists>fresh. delivered = h_pending (hs s) @ fresh
        \<and> set fresh \<subseteq> set (map (\<lambda>(k, v, _). (k, v)) (published_all inbound)))
    \<and> (\<forall>k v. map_option fst (map_of live k) \<noteq> Some v
        \<and> (k, v) \<in> set (map (\<lambda>(k, v, _). (k, v)) (published_all inbound)) \<longrightarrow> (k, v) \<in> set delivered)
    \<and> hub_news s' = []"
proof -
  let ?now = "e_time E (w_hist s)"
  let ?h0 = "(hs s)\<lparr>h_tuples := live\<rparr>"
  let ?kvs = "published_all inbound"
  have sock: "h_socket (hs s) = Some h" using ready by (simp add: hub_ready_def)
  define s0 where "s0 = io_log (IoTime ?now) s"
  have hs0: "hs s0 = hs s" by (simp add: s0_def io_log_def)
  obtain s1 where s1: "hub_reap ?now s0 = (Inr (), s1)"
    using hub_reap_total unfolding never_raises_def by (metis (full_types) old.unit.exhaust)
  have "is_dict (h_tuples (hs s0))" using ready by (simp add: hub_ready_def hs0)
  from hs_hub_reap [OF this, of ?now] s1 have hs1: "hs s1 = ?h0" by (simp add: hs0 live)
  from hub_ready_reap [OF ready hs1 [unfolded live]] have "hub_ready h s1" .
  from hub_messages_total [OF this benign, of E ?now] obtain s2 where
      s2: "for_each (hub_handle_message E ?now) inbound s1 = (Inr (), s2)" "hub_ready h s2"
        "hs s2 = fold (hub_learn ?now) inbound ?h0" by (auto simp: hs1)
  define s3 where "s3 = s2\<lparr>hs := (hs s2)\<lparr>h_pending := []\<rparr>\<rparr>"
  have clock: "read_clock E s = (Inr ?now, s0)"
    by (simp add: read_clock_def Let_def s0_def)
  have "hub_deliveries s2 = (Inr (h_pending (hs s2)), s3)"
    by (simp add: hub_deliveries_def run_thenDo run_upd_hub s3_def)
  then have run: "hub_handle_socket E inbound s = (Inr (h_pending (hs s2)), s3)"
    by (simp add: hub_handle_socket_def sock run_andThen clock run_thenDo s1 s2(1))
  have ready3: "hub_ready h s3" using s2(2) by (simp add: hub_ready_def s3_def)
  note learned = hub_learn_fold [of ?now inbound ?h0, folded s2(3)]
  have "hub_table s3 = table_of (stored.accept_all ?now ?kvs ?h0)"
    using learned by (simp add: fun_eq_iff hub_table_def table_of_def s3_def)
  moreover have "table_of ?h0 = map_option fst \<circ> map_of live"
    by (simp add: fun_eq_iff table_of_def)
  ultimately have table: "hub_table s3 = (map_option fst \<circ> map_of live)
      ++ map_of (rev (map (\<lambda>(k, v, _). (k, v)) ?kvs))"
    by (simp add: stored.table_all)
  from stored.news_prefix [of ?now ?kvs ?h0] learned have
    news: "\<exists>fresh. h_pending (hs s2) = h_pending (hs s) @ fresh
        \<and> set fresh \<subseteq> set (map (\<lambda>(k, v, _). (k, v)) ?kvs)" by simp
  have first: "(k, v) \<in> set (h_pending (hs s2))"
    if "map_option fst (map_of live k) \<noteq> Some v" "(k, v) \<in> set (map (\<lambda>(k, v, _). (k, v)) ?kvs)" for k v
    using stored.news_first [of ?h0 k v ?kvs ?now] that learned by (simp add: table_of_def)
  from run ready3 table news first show ?thesis
    by (intro exI [of _ "h_pending (hs s2)"] exI [of _ s3]) (simp add: hub_news_def s3_def)
qed

definition example_publish :: "bytes list" where
  "example_publish = [[9], projr (zgs_publish [65] [66] 7)]"

lemma published_example:
  "published example_publish = Some ([65], [66], 7)" "benign example_publish"
proof -
  obtain w where w: "zgs_publish [65] [66] 7 = Inr w"
    by (simp add: zgs_publish_bytes zgs_tuple_ok_def)
  from zgs_decode_publish [OF w] show "published example_publish = Some ([65], [66], 7)"
    by (simp add: published_def example_publish_def w)
  with zgs_decode_publish [OF w] show "benign example_publish"
    by (simp add: benign_def example_publish_def w zgs_tuple_ok_def)
qed

lemma hub_round_refines_store_witness:
  "\<exists>delivered s'. hub_handle_socket calm [example_publish] hub_example = (Inr delivered, s')
     \<and> hub_table s' [65] = Some [66] \<and> ([65], [66]) \<in> set delivered"
proof -
  have "hub_ready 0 hub_example" by (simp add: hub_ready_def is_dict_def keys_def)
  moreover have "list_all benign [example_publish]" by (simp add: published_example)
  moreover have "published_all [example_publish] = [([65], [66], 7)]"
    by (simp add: published_all_def List.map_filter_simps published_example)
  ultimately show ?thesis
    using hub_round_refines_store [of 0 hub_example "[example_publish]" "[]" calm]
    by (fastforce simp: map_add_def)
qed

subsection \<open>Tuples that are let in and cannot be sent\<close>

text \<open>
  \<open>zgs_decode\<close> accepts an empty key and a value of more than 65535 bytes; \<open>zgs_encode\<close> refuses both.
\<close>


definition poison :: bytes where
  "poison = [0xAA, 0xA0, 2, 1, 0, 0, 0, 0, 0, 0, 0, 0, 0]"


end
