(* ===== verification/Zre_State.thy ===== *)
theory Zre_State
  imports Zre_Hub "HOL-Library.List_Lexorder"
begin

section \<open>The state of a node\<close>

text \<open>
  The objects of \<open>zre/node.py\<close>. Python shares \<open>Peer\<close> objects between the node's tables and the
  groups, and mutates them in place; so peers live in a heap, and the tables \<open>_peers\<close>, \<open>_pending\<close>
  and \<open>Group.peers\<close> hold addresses. A \<open>Group\<close> is reachable only through \<open>_groups\<close> and is stored
  there by value, its \<open>election\<close> with it. Dictionaries are association lists in insertion order.

  Time is in seconds, a real number for Python's float. What is configured before \<open>start()\<close> is
  the record \<open>config\<close>; the client side of the gossip service is the record \<open>gossip_client\<close>.
\<close>

record peer =
  p_uuid_hex :: pystr
  p_addr :: pystr
  p_port :: int
  p_endpoint_str :: pystr
  p_name :: "bytes option"
  p_headers :: "(bytes \<times> bytes) list"
  p_groups :: "bytes list"          \<comment> \<open>a Python set, in order of insertion\<close>
  p_status :: nat
  p_connected :: bool
  p_ready :: bool
  p_dealer :: "nat option"
  p_sent_seq :: "16 word"
  p_want_seq :: int
  p_evasive_at :: real
  p_expired_at :: real

record election =
  el_caw :: pystr
  el_father :: "pystr option"
  el_erec :: nat
  el_lrec :: nat
  el_leader :: "pystr option"
  el_started_at :: real
  el_resent_at :: real

record grp =
  g_name :: bytes
  g_peers :: "(pystr \<times> nat) list"
  g_contest :: bool
  g_election :: "election option"
  g_leader :: "pystr option"

text \<open>Events handed to the application; the strings are the values of the event's keys.\<close>

datatype event =
    EvEnter (ev_peer: pystr) pystr pystr
  | EvExit (ev_peer: pystr) pystr
  | EvEvasive (ev_peer: pystr) pystr
  | EvJoin (ev_peer: pystr) pystr pystr
  | EvLeave (ev_peer: pystr) pystr pystr
  | EvWhisper (ev_peer: pystr) pystr bytes
  | EvShout (ev_peer: pystr) pystr pystr bytes
  | EvLeader (ev_peer: pystr) pystr pystr
  | EvCollision pystr

datatype api_command =
    CmdJoin bytes
  | CmdLeave bytes
  | CmdWhisper bytes bytes
  | CmdShout bytes bytes
  | CmdConnect pystr int

record config =
  c_name :: bytes
  c_peer_id :: bytes
  c_peer_id_hex :: pystr
  c_headers :: "(bytes \<times> bytes) list"
  c_ev_timeout :: int
  c_ex_timeout :: int
  c_evasive_emit_interval :: real
  c_beacon_port :: int
  c_beacon_interval :: real
  c_interface :: "pystr option"
  c_fixed_port :: "int option"
  c_advertised_endpoint :: "bytes option"
  c_curve_public :: "bytes option"
  c_curve_secret :: "bytes option"
  c_zap_domain :: pystr
  c_ipv6 :: bool
  c_gossip_bind :: "pystr option"
  c_gossip_connects :: "pystr list"
  c_verbose :: bool

record gossip_client =
  gc_hub :: "hub option"
  gc_socks :: "nat list"
  gc_tuples :: "(bytes \<times> pyval \<times> int) list"   \<comment> \<open>the own value may be a \<open>str\<close>\<close>
  gc_targets :: "(nat \<times> pystr \<times> int) list"
  gc_last_rx :: "(nat \<times> real) list"
  gc_next_ping :: real

record node = world +
  n_cfg :: config
  n_running :: bool
  n_heap :: "nat \<Rightarrow> peer"
  n_next_addr :: nat
  n_peers :: "(pystr \<times> nat) list"
  n_pending :: "(pystr \<times> nat) list"
  n_groups :: "(bytes \<times> grp) list"
  n_own_groups :: "bytes list"
  n_contest_groups :: "bytes list"
  n_status :: byte
  n_evasive_emit_at :: "(pystr \<times> real) list"
  n_peer_server_keys :: "(pystr \<times> bytes) list"
  n_events :: "event list"
  n_api :: "api_command list"
  n_inbox :: "nat option"
  n_inbox_port :: int
  n_beacon_sock :: "nat option"
  n_beacon_msg :: "bytes option"
  n_beacon_version :: nat
  n_last_beacon :: real
  n_send_sock :: "nat option"
  n_send_targets :: "(pystr \<times> int) list"
  n_gossip :: gossip_client

type_synonym 'a nprog = "(node, 'a) prog"

subsection \<open>Access to objects\<close>

definition deref :: "nat \<Rightarrow> peer nprog" where
  "deref a = gets (\<lambda>s. n_heap s a)"

definition set_peer :: "nat \<Rightarrow> (peer \<Rightarrow> peer) \<Rightarrow> node \<Rightarrow> node" where
  "set_peer a f s = s\<lparr>n_heap := (n_heap s)(a := f (n_heap s a))\<rparr>"

definition upd_peer :: "nat \<Rightarrow> (peer \<Rightarrow> peer) \<Rightarrow> unit nprog" where
  "upd_peer a f = modify (set_peer a f)"

definition alloc_peer :: "peer \<Rightarrow> nat nprog" where
  "alloc_peer p = (\<lambda>s. (Inr (n_next_addr s),
     s\<lparr>n_heap := (n_heap s)(n_next_addr s := p), n_next_addr := Suc (n_next_addr s)\<rparr>))"

definition get_group :: "bytes \<Rightarrow> grp option nprog" where
  "get_group g = gets (\<lambda>s. dict_get (n_groups s) g)"

definition put_group :: "bytes \<Rightarrow> grp \<Rightarrow> unit nprog" where
  "put_group g G = modify (\<lambda>s. s\<lparr>n_groups := dict_set g G (n_groups s)\<rparr>)"

definition upd_group :: "bytes \<Rightarrow> (grp \<Rightarrow> grp) \<Rightarrow> unit nprog" where
  "upd_group g f = modify (\<lambda>s. case dict_get (n_groups s) g of
     None \<Rightarrow> s | Some G \<Rightarrow> s\<lparr>n_groups := dict_set g (f G) (n_groups s)\<rparr>)"

text \<open>\<open>_emit\<close>: the queue holds 1000 events, a further one is dropped.\<close>

definition EVENT_QUEUE_SIZE :: nat where
  "EVENT_QUEUE_SIZE = 1000"

definition push_event :: "event \<Rightarrow> event list \<Rightarrow> event list" where
  "push_event e es = (if length es < EVENT_QUEUE_SIZE then es @ [e] else es)"

definition emit :: "event \<Rightarrow> unit nprog" where
  "emit e = modify (\<lambda>s. s\<lparr>n_events := push_event e (n_events s)\<rparr>)"

definition bdec :: "bytes \<Rightarrow> pystr" where
  "bdec = utf8_decode_replace"

definition pname :: "peer \<Rightarrow> pystr" where
  "pname p = (case p_name p of None \<Rightarrow> lit ''unknown'' | Some n \<Rightarrow> bdec n)"

subsection \<open>Small facts about the accesses\<close>

lemma set_peer_simps [simp]:
  "n_heap (set_peer a f s) = (n_heap s)(a := f (n_heap s a))"
  "n_next_addr (set_peer a f s) = n_next_addr s"
  "n_peers (set_peer a f s) = n_peers s"
  "n_pending (set_peer a f s) = n_pending s"
  "n_groups (set_peer a f s) = n_groups s"
  "n_own_groups (set_peer a f s) = n_own_groups s"
  "n_contest_groups (set_peer a f s) = n_contest_groups s"
  "n_status (set_peer a f s) = n_status s"
  "n_events (set_peer a f s) = n_events s"
  "n_api (set_peer a f s) = n_api s"
  "n_running (set_peer a f s) = n_running s"
  "n_cfg (set_peer a f s) = n_cfg s"
  "n_inbox (set_peer a f s) = n_inbox s"
  "n_gossip (set_peer a f s) = n_gossip s"
  "w_hist (set_peer a f s) = w_hist s"
  "w_socks (set_peer a f s) = w_socks s"
  "w_next_sock (set_peer a f s) = w_next_sock s"
  by (simp_all add: set_peer_def)

lemma length_push_event: "length es \<le> EVENT_QUEUE_SIZE \<Longrightarrow> length (push_event e es) \<le> EVENT_QUEUE_SIZE"
  by (simp add: push_event_def)

lemma set_push_event: "x \<in> set (push_event e es) \<Longrightarrow> x = e \<or> x \<in> set es"
  by (auto simp: push_event_def split: if_splits)

lemma node_primitives_total [total_rules]:
  "never_raises (deref a)" "never_raises (upd_peer a f)" "never_raises (alloc_peer p)"
  "never_raises (get_group g)" "never_raises (put_group g G)" "never_raises (upd_group g h)"
  "never_raises (emit e)"
  by (simp_all add: never_raises_def deref_def upd_peer_def alloc_peer_def get_group_def
      put_group_def upd_group_def emit_def)

end
