(* ===== verification/Zre_Peer.thy ===== *)
theory Zre_Peer
  imports Zre_State
begin

section \<open>Peers\<close>

text \<open>
  The methods of the class \<open>Peer\<close>. \<open>self\<close> is the address of the object. A DEALER socket is
  created by \<open>connect\<close> and closed by \<open>disconnect\<close>; messages carry the connection's own sequence
  number.
\<close>

definition new_peer :: "pystr \<Rightarrow> pystr \<Rightarrow> int \<Rightarrow> peer" where
  "new_peer uuid_hex addr port =
     \<lparr>p_uuid_hex = uuid_hex, p_addr = addr, p_port = port,
      p_endpoint_str = tcp_address addr port, p_name = None, p_headers = [], p_groups = [],
      p_status = 0, p_connected = False, p_ready = False, p_dealer = None, p_sent_seq = 0,
      p_want_seq = 0, p_evasive_at = 0, p_expired_at = 0\<rparr>"

definition peer_disconnect :: "nat \<Rightarrow> unit nprog" where
  "peer_disconnect a =
     andThen (deref a) (\<lambda>p.
     thenDo (case p_dealer p of
               None \<Rightarrow> ret ()
             | Some h \<Rightarrow> thenDo (close_socket h) (upd_peer a (\<lambda>p. p\<lparr>p_dealer := None\<rparr>)))
       (upd_peer a (\<lambda>p. p\<lparr>p_connected := False, p_ready := False\<rparr>)))"

text \<open>Closing the half-made socket on the two failure paths of \<open>connect\<close>.\<close>

definition drop_dealer :: "nat \<Rightarrow> nat \<Rightarrow> bool nprog" where
  "drop_dealer a h =
     thenDo (close_socket h) (thenDo (upd_peer a (\<lambda>p. p\<lparr>p_dealer := None\<rparr>)) (ret False))"

definition peer_connect ::
  "env \<Rightarrow> nat \<Rightarrow> bytes \<Rightarrow> bytes option \<Rightarrow> bytes option \<Rightarrow> bytes option \<Rightarrow> bool nprog" where
  "peer_connect E a our_uuid server_key public_key secret_key =
     andThen (deref a) (\<lambda>p.
     if p_connected p then ret True
     else
       andThen (new_socket DEALER) (\<lambda>h.
       thenDo (upd_peer a (\<lambda>p. p\<lparr>p_dealer := Some h\<rparr>))
       (thenDo (for_each (set_opt h)
          [OptIdentity (1 # our_uuid), OptSndHwm 1000, OptSndTimeo 0, OptLinger 0])
       (thenDo (only_if (58 \<in> set (strip_chars (lit ''[]'') (p_addr p))) (set_opt h OptIpv6))
       (if server_key \<noteq> None \<and> (public_key = None \<or> secret_key = None) then drop_dealer a h
        else
          thenDo (case (server_key, public_key, secret_key) of
                    (Some sk, Some pk, Some seck) \<Rightarrow>
                      for_each (set_opt h)
                        [OptCurvePublic pk, OptCurveSecret seck, OptCurveServerKey sk]
                  | _ \<Rightarrow> ret ())
          (andThen (connect_socket E h (tcp_address (p_addr p) (p_port p))) (\<lambda>ok.
           if ok then thenDo (upd_peer a (\<lambda>p. p\<lparr>p_connected := True\<rparr>)) (ret True)
           else drop_dealer a h)))))))"

definition next_seq :: "nat \<Rightarrow> int nprog" where
  "next_seq a =
     thenDo (upd_peer a (\<lambda>p. p\<lparr>p_sent_seq := p_sent_seq p + 1\<rparr>))
       (andThen (deref a) (\<lambda>p. ret (uint (p_sent_seq p))))"

text \<open>\<open>send\<close>: an encoded frame, no sequence number. Both \<open>Again\<close> and \<open>ZMQError\<close> give \<open>False\<close>.\<close>

definition peer_send :: "env \<Rightarrow> nat \<Rightarrow> bytes \<Rightarrow> bytes list \<Rightarrow> bool nprog" where
  "peer_send E a data parts =
     andThen (deref a) (\<lambda>p.
     case (p_connected p, p_dealer p) of
       (True, Some h) \<Rightarrow> andThen (send_multipart E h (data # parts)) (\<lambda>r. ret (r = SendOk))
     | _ \<Rightarrow> ret False)"

definition send_encoded :: "env \<Rightarrow> nat \<Rightarrow> (int \<Rightarrow> exn + bytes) \<Rightarrow> bytes list \<Rightarrow> bool nprog" where
  "send_encoded E a encode parts =
     andThen (deref a) (\<lambda>p.
     case (p_connected p, p_dealer p) of
       (True, Some h) \<Rightarrow>
         andThen (next_seq a) (\<lambda>q.
         andThen (lift_exn (encode q)) (\<lambda>frame.
         andThen (send_multipart E h (frame # parts)) (\<lambda>r.
         case r of
           SendOk \<Rightarrow> ret True
         | SendAgain \<Rightarrow> thenDo (peer_disconnect a) (ret False)
         | SendError \<Rightarrow> ret False)))
     | _ \<Rightarrow> ret False)"

definition send_cmd ::
  "env \<Rightarrow> nat \<Rightarrow> nat \<Rightarrow> bytes option \<Rightarrow> int option \<Rightarrow> bytes list \<Rightarrow> bool nprog" where
  "send_cmd E a cmd grp status parts =
     send_encoded E a (\<lambda>q. encode_simple cmd q grp status) parts"

definition send_election :: "env \<Rightarrow> nat \<Rightarrow> nat \<Rightarrow> bytes \<Rightarrow> bytes \<Rightarrow> bool nprog" where
  "send_election E a cmd grp identity =
     send_encoded E a (\<lambda>q. encode_election cmd q (PyBytes grp) (PyBytes identity)) []"

definition refresh_peer :: "real \<Rightarrow> int \<Rightarrow> int \<Rightarrow> peer \<Rightarrow> peer" where
  "refresh_peer now ev_ms ex_ms p =
     p\<lparr>p_evasive_at := now + of_int ev_ms / 1000, p_expired_at := now + of_int ex_ms / 1000\<rparr>"

text \<open>\<open>refresh\<close> with the node's timeouts, as every caller passes them.\<close>

definition refresh :: "nat \<Rightarrow> real \<Rightarrow> unit nprog" where
  "refresh a now =
     andThen (gets n_cfg) (\<lambda>c. upd_peer a (refresh_peer now (c_ev_timeout c) (c_ex_timeout c)))"

definition check_seq :: "nat \<Rightarrow> nat \<Rightarrow> int \<Rightarrow> bool nprog" where
  "check_seq a cmd q =
     thenDo (upd_peer a (\<lambda>p. p\<lparr>p_want_seq := (if cmd = HELLO then 1 else p_want_seq p + 1)\<rparr>))
       (andThen (deref a) (\<lambda>p. ret (p_want_seq p \<noteq> q)))"

subsection \<open>Groups\<close>

text \<open>The class \<open>Group\<close>, for the group stored under its name.\<close>

definition new_group :: "bytes \<Rightarrow> grp" where
  "new_group name = \<lparr>g_name = name, g_peers = [], g_contest = False, g_election = None,
     g_leader = None\<rparr>"

definition group_join :: "bytes \<Rightarrow> nat \<Rightarrow> unit nprog" where
  "group_join g a =
     andThen (deref a) (\<lambda>p.
     upd_group g (\<lambda>G. G\<lparr>g_peers := dict_set (p_uuid_hex p) a (g_peers G)\<rparr>))"

definition group_leave :: "bytes \<Rightarrow> nat \<Rightarrow> unit nprog" where
  "group_leave g a =
     andThen (deref a) (\<lambda>p.
     upd_group g (\<lambda>G. G\<lparr>g_peers := dict_pop (p_uuid_hex p) (g_peers G)\<rparr>))"

definition group_send :: "env \<Rightarrow> grp \<Rightarrow> (int \<Rightarrow> exn + bytes) \<Rightarrow> bytes list \<Rightarrow> unit nprog" where
  "group_send E G encode parts =
     for_each (\<lambda>a.
       andThen (deref a) (\<lambda>p.
       only_if (p_connected p) (andThen (send_encoded E a encode parts) (\<lambda>_. ret ()))))
       (map snd (g_peers G))"

end
