(* ===== verification/Zre_Peer_Properties.thy ===== *)
theory Zre_Peer_Properties
  imports Zre_Peer
begin

section \<open>What a connection guarantees\<close>

text \<open>
  The outgoing side of one peer: numbering of messages, the outcomes of a send, connecting and
  disconnecting without losing a socket, and the receiver's check of sequence numbers.
\<close>

subsection \<open>One send\<close>

text \<open>The peer after \<open>disconnect\<close>.\<close>

definition torn_down :: "peer \<Rightarrow> peer" where
  "torn_down p = p\<lparr>p_dealer := None, p_connected := False, p_ready := False\<rparr>"

lemma run_peer_disconnect:
  "peer_disconnect a s = (Inr (), set_peer a torn_down
     (case p_dealer (n_heap s a) of
        None \<Rightarrow> s
      | Some h \<Rightarrow> s\<lparr>w_hist := IoClose h # w_hist s, w_socks := removeAll h (w_socks s)\<rparr>))"
proof (cases "p_dealer (n_heap s a)")
  case None
  then have "torn_down (n_heap s a) = (n_heap s a)\<lparr>p_connected := False, p_ready := False\<rparr>"
    by (cases "n_heap s a") (simp add: torn_down_def)
  with None show ?thesis
    by (simp add: peer_disconnect_def deref_def upd_peer_def set_peer_def run_thenDo)
next
  case (Some h)
  then show ?thesis
    by (simp add: peer_disconnect_def deref_def upd_peer_def set_peer_def torn_down_def
        close_socket_def run_thenDo)
qed

definition stamped :: "nat \<Rightarrow> node \<Rightarrow> node" where
  "stamped a = set_peer a (\<lambda>p. p\<lparr>p_sent_seq := p_sent_seq p + 1\<rparr>)"

lemma run_send_encoded:
  "send_encoded E a encode parts s =
    (case (p_connected (n_heap s a), p_dealer (n_heap s a)) of
       (True, Some h) \<Rightarrow>
         (case encode (uint (p_sent_seq (n_heap s a) + 1)) of
            Inl e \<Rightarrow> (Inl e, stamped a s)
          | Inr frame \<Rightarrow>
              (let r = e_send E (w_hist s) h (frame # parts);
                   s' = io_log (IoSend h (frame # parts) r) (stamped a s)
               in case r of
                    SendOk \<Rightarrow> (Inr True, s')
                  | SendAgain \<Rightarrow> (Inr False, snd (peer_disconnect a s'))
                  | SendError \<Rightarrow> (Inr False, s')))
     | _ \<Rightarrow> (Inr False, s))"
  by (simp add: send_encoded_def deref_def next_seq_def upd_peer_def run_andThen run_thenDo
      stamped_def send_multipart_def run_peer_disconnect Let_def
      split: option.split bool.split sum.split send_result.split)

text \<open>
  The outcome of one send. Without a connection nothing happens. With one, the next 16-bit
  sequence number is consumed and the frame with that number is handed to the peer's own DEALER;
  a full queue (EAGAIN) closes that DEALER and marks the peer disconnected, any other error leaves
  the connection alone.
\<close>

theorem send_encoded_spec:
  "send_encoded E a encode parts s =
    (case (p_connected (n_heap s a), p_dealer (n_heap s a)) of
       (True, Some h) \<Rightarrow>
         (let q = p_sent_seq (n_heap s a) + 1; p = (n_heap s a)\<lparr>p_sent_seq := q\<rparr>
          in case encode (uint q) of
               Inl e \<Rightarrow> (Inl e, s\<lparr>n_heap := (n_heap s)(a := p)\<rparr>)
             | Inr frame \<Rightarrow>
                 (case e_send E (w_hist s) h (frame # parts) of
                    SendOk \<Rightarrow> (Inr True, s\<lparr>n_heap := (n_heap s)(a := p),
                      w_hist := IoSend h (frame # parts) SendOk # w_hist s\<rparr>)
                  | SendError \<Rightarrow> (Inr False, s\<lparr>n_heap := (n_heap s)(a := p),
                      w_hist := IoSend h (frame # parts) SendError # w_hist s\<rparr>)
                  | SendAgain \<Rightarrow> (Inr False, s\<lparr>n_heap := (n_heap s)(a := torn_down p),
                      w_hist := IoClose h # IoSend h (frame # parts) SendAgain # w_hist s,
                      w_socks := removeAll h (w_socks s)\<rparr>)))
     | _ \<Rightarrow> (Inr False, s))"
  by (simp add: run_send_encoded stamped_def set_peer_def io_log_def run_peer_disconnect
      torn_down_def Let_def split: option.split bool.split sum.split send_result.split)

subsection \<open>A sequence of sends\<close>

definition send_all :: "env \<Rightarrow> nat \<Rightarrow> ((int \<Rightarrow> exn + bytes) \<times> bytes list) list \<Rightarrow> unit nprog" where
  "send_all E a messages =
     for_each (\<lambda>(encode, parts). andThen (send_encoded E a encode parts) (\<lambda>_. ret ())) messages"

text \<open>The messages with their numbers, the first one being the successor of \<open>q\<close>.\<close>

fun numbered :: "16 word \<Rightarrow> ((int \<Rightarrow> exn + bytes) \<times> bytes list) list \<Rightarrow> bytes list list" where
  "numbered q [] = []"
| "numbered q ((encode, parts) # messages) =
     (projr (encode (uint (q + 1))) # parts) # numbered (q + 1) messages"

lemma numbered_nth:
  "i < length messages \<Longrightarrow> numbered q messages ! i =
     projr (fst (messages ! i) (uint (q + of_nat (Suc i)))) # snd (messages ! i)"
proof (induction messages arbitrary: q i)
  case Nil
  then show ?case by simp
next
  case (Cons m messages)
  then show ?case
    by (cases m; cases i) (simp_all add: algebra_simps)
qed

lemma length_numbered [simp]: "length (numbered q messages) = length messages"
  by (induction messages arbitrary: q) auto

text \<open>A message that can be encoded with every 16-bit number.\<close>

definition encodable :: "(int \<Rightarrow> exn + bytes) \<times> bytes list \<Rightarrow> bool" where
  "encodable m \<longleftrightarrow> (\<forall>q. 0 \<le> q \<and> q < 65536 \<longrightarrow> (\<exists>b. fst m q = Inr b))"

lemma send_all_run:
  assumes "p_connected (n_heap s a)" and "p_dealer (n_heap s a) = Some h"
    and "\<And>hist frames. e_send E hist h frames = SendOk"
    and "list_all encodable messages"
  shows "\<exists>s'. send_all E a messages s = (Inr (), s')
    \<and> sends_of h (w_hist s') = sends_of h (w_hist s) @ numbered (p_sent_seq (n_heap s a)) messages
    \<and> p_sent_seq (n_heap s' a) = p_sent_seq (n_heap s a) + of_nat (length messages)"
  using assms(1,2,4)
proof (induction messages arbitrary: s)
  case Nil
  then show ?case by (simp add: send_all_def)
next
  case (Cons m messages)
  obtain encode parts where m: "m = (encode, parts)" by fastforce
  let ?q = "p_sent_seq (n_heap s a) + 1"
  have "uint ?q < 2 ^ 16" using uint_lt2p [of ?q] by simp
  then obtain b where b: "encode (uint ?q) = Inr b"
    using Cons.prems(3) by (auto simp: m encodable_def)
  let ?s = "io_log (IoSend h (b # parts) SendOk) (stamped a s)"
  have run: "send_encoded E a encode parts s = (Inr True, ?s)"
    using Cons.prems(1,2) by (simp add: run_send_encoded b assms(3))
  have s: "p_connected (n_heap ?s a)" "p_dealer (n_heap ?s a) = Some h"
    "p_sent_seq (n_heap ?s a) = ?q" "w_hist ?s = IoSend h (b # parts) SendOk # w_hist s"
    using Cons.prems(1,2) by (simp_all add: io_log_def stamped_def)
  have rest: "list_all encodable messages" using Cons.prems(3) by simp
  from Cons.IH [of ?s, OF s(1,2) rest] obtain s' where
      "send_all E a messages ?s = (Inr (), s')"
      "sends_of h (w_hist s') = sends_of h (w_hist ?s) @ numbered ?q messages"
      "p_sent_seq (n_heap s' a) = ?q + of_nat (length messages)"
    by (auto simp: s)
  then show ?case
    by (simp add: send_all_def m run_thenDo run_andThen run s b add.assoc)
qed

text \<open>
  C23: the messages to one peer carry consecutive sequence numbers, the first after the
  connection 1, counting modulo 65536, with no gap and no repetition, and in the order in which
  they were sent.
\<close>

theorem messages_are_numbered:
  assumes "p_connected (n_heap s a)" and "p_dealer (n_heap s a) = Some h"
    and "\<And>hist frames. e_send E hist h frames = SendOk"
    and "list_all encodable messages"
  shows "\<exists>s' frames. send_all E a messages s = (Inr (), s')
    \<and> sends_of h (w_hist s') = sends_of h (w_hist s) @ frames \<and> length frames = length messages
    \<and> (\<forall>i < length messages. frames ! i =
          projr (fst (messages ! i) ((uint (p_sent_seq (n_heap s a)) + int i + 1) mod 65536))
            # snd (messages ! i))"
proof -
  let ?q = "p_sent_seq (n_heap s a)"
  have "uint (?q + of_nat (Suc i)) = (uint ?q + int i + 1) mod 65536" for i
  proof -
    have "uint (?q + of_nat (Suc i)) = (uint ?q + uint (of_nat (Suc i) :: 16 word)) mod 2 ^ 16"
      by (simp add: uint_word_ariths)
    also have "uint (of_nat (Suc i) :: 16 word) = int (Suc i) mod 2 ^ 16"
      by (simp add: unsigned_of_nat take_bit_eq_mod zmod_int del: of_nat_Suc)
    finally show ?thesis by (simp add: mod_simps algebra_simps)
  qed
  note number = this
  from send_all_run [of s a h E messages] assms obtain s' where
      run: "send_all E a messages s = (Inr (), s')"
    and sent: "sends_of h (w_hist s') = sends_of h (w_hist s) @ numbered ?q messages" by blast
  have "\<forall>i < length messages. numbered ?q messages ! i =
      projr (fst (messages ! i) ((uint ?q + int i + 1) mod 65536)) # snd (messages ! i)"
    by (simp add: numbered_nth number del: of_nat_Suc)
  with run sent show ?thesis by (metis length_numbered)
qed

subsection \<open>Connecting\<close>

text \<open>The socket of a peer that is dialled, with its options, newest first.\<close>

definition dialled_options :: "peer \<Rightarrow> bytes \<Rightarrow> (bytes \<times> bytes \<times> bytes) option \<Rightarrow> sockopt list" where
  "dialled_options p our_uuid curve =
     [OptIdentity (1 # our_uuid), OptSndHwm 1000, OptSndTimeo 0, OptLinger 0]
     @ (if 58 \<in> set (strip_chars (lit ''[]'') (p_addr p)) then [OptIpv6] else [])
     @ (case curve of None \<Rightarrow> []
        | Some (server, public, secret) \<Rightarrow>
            [OptCurvePublic public, OptCurveSecret secret, OptCurveServerKey server])"

lemma run_set_opts:
  "for_each (set_opt h) opts s = (Inr (), s\<lparr>w_hist := rev (map (IoOpt h) opts) @ w_hist s\<rparr>)"
  by (induction opts arbitrary: s) (simp_all add: set_opt_def io_log_def)

text \<open>The three key arguments as the code uses them: no key, all three, or a server key alone.\<close>

definition curve_of :: "bytes option \<Rightarrow> bytes option \<Rightarrow> bytes option \<Rightarrow> (bytes \<times> bytes \<times> bytes) option option" where
  "curve_of server_key public_key secret_key =
    (case server_key of
       None \<Rightarrow> Some None
     | Some server \<Rightarrow>
         (case (public_key, secret_key) of
            (Some public, Some secret) \<Rightarrow> Some (Some (server, public, secret))
          | _ \<Rightarrow> None))"

lemma run_peer_connect:
  assumes "\<not> p_connected (n_heap s a)"
  shows "peer_connect E a our_uuid server_key public_key secret_key s =
    (let p = n_heap s a; h = w_next_sock s; addr = tcp_address (p_addr p) (p_port p);
         opened = (\<lambda>c. rev (map (IoOpt h) (dialled_options p our_uuid c)) @ IoOpen h DEALER # w_hist s)
     in case curve_of server_key public_key secret_key of
          None \<Rightarrow> (Inr False, s\<lparr>w_hist := IoClose h # opened None, w_next_sock := Suc h,
              w_socks := removeAll h (w_socks s), n_heap := (n_heap s)(a := p\<lparr>p_dealer := None\<rparr>)\<rparr>)
        | Some c \<Rightarrow>
            (if e_connect E (opened c) h addr
             then (Inr True, s\<lparr>w_hist := IoConnect h addr True # opened c, w_next_sock := Suc h,
                 w_socks := h # w_socks s,
                 n_heap := (n_heap s)(a := p\<lparr>p_dealer := Some h, p_connected := True\<rparr>)\<rparr>)
             else (Inr False, s\<lparr>w_hist := IoClose h # IoConnect h addr False # opened c,
                 w_next_sock := Suc h, w_socks := removeAll h (w_socks s),
                 n_heap := (n_heap s)(a := p\<lparr>p_dealer := None\<rparr>)\<rparr>)))"
proof -
  let ?h = "w_next_sock s"
  let ?p = "n_heap s a"
  let ?base = "dialled_options ?p our_uuid None"
  define s1 where "s1 = s\<lparr>w_next_sock := Suc ?h, w_socks := ?h # w_socks s,
    n_heap := (n_heap s)(a := ?p\<lparr>p_dealer := Some ?h\<rparr>),
    w_hist := rev (map (IoOpt ?h) ?base) @ IoOpen ?h DEALER # w_hist s\<rparr>"
  have opened: "peer_connect E a our_uuid server_key public_key secret_key s =
      (if server_key \<noteq> None \<and> (public_key = None \<or> secret_key = None) then drop_dealer a ?h
        else
          thenDo (case (server_key, public_key, secret_key) of
                    (Some sk, Some pk, Some seck) \<Rightarrow>
                      for_each (set_opt ?h)
                        [OptCurvePublic pk, OptCurveSecret seck, OptCurveServerKey sk]
                  | _ \<Rightarrow> ret ())
          (andThen (connect_socket E ?h (tcp_address (p_addr ?p) (p_port ?p))) (\<lambda>ok.
           if ok then thenDo (upd_peer a (\<lambda>p. p\<lparr>p_connected := True\<rparr>)) (ret True)
           else drop_dealer a ?h))) s1"
    using assms
    by (simp add: peer_connect_def deref_def new_socket_def run_andThen run_thenDo upd_peer_def
        set_peer_def run_set_opts s1_def dialled_options_def only_if_def set_opt_def io_log_def)
  have drop: "drop_dealer a ?h (s1\<lparr>w_hist := hist\<rparr>) = (Inr False, s\<lparr>w_hist := IoClose ?h # hist,
      w_next_sock := Suc ?h, w_socks := removeAll ?h (w_socks s), n_heap := (n_heap s)(a := ?p\<lparr>p_dealer := None\<rparr>)\<rparr>)"
    for hist
    by (simp add: drop_dealer_def close_socket_def upd_peer_def set_peer_def s1_def run_thenDo)
  have drop1: "drop_dealer a ?h s1 = drop_dealer a ?h (s1\<lparr>w_hist := w_hist s1\<rparr>)" by simp
  have dial: "andThen (connect_socket E ?h addr) (\<lambda>ok.
      if ok then thenDo (upd_peer a (\<lambda>p. p\<lparr>p_connected := True\<rparr>)) (ret True) else drop_dealer a ?h)
      (s1\<lparr>w_hist := hist\<rparr>) =
    (if e_connect E hist ?h addr
     then (Inr True, s\<lparr>w_hist := IoConnect ?h addr True # hist, w_next_sock := Suc ?h,
         w_socks := ?h # w_socks s, n_heap := (n_heap s)(a := ?p\<lparr>p_dealer := Some ?h, p_connected := True\<rparr>)\<rparr>)
     else drop_dealer a ?h (s1\<lparr>w_hist := IoConnect ?h addr False # hist\<rparr>))" for addr hist
    by (simp add: run_andThen connect_socket_def io_log_def Let_def run_thenDo upd_peer_def
        set_peer_def s1_def)
  have hist1: "w_hist s1 = rev (map (IoOpt ?h) ?base) @ IoOpen ?h DEALER # w_hist s"
    by (simp add: s1_def)
  have dial1: "andThen (connect_socket E ?h addr) k s1 = andThen (connect_socket E ?h addr) k (s1\<lparr>w_hist := w_hist s1\<rparr>)"
    for addr and k :: "bool \<Rightarrow> bool nprog" by simp
  show ?thesis
  proof (cases "server_key \<noteq> None \<and> (public_key = None \<or> secret_key = None)")
    case True
    then have "curve_of server_key public_key secret_key = None"
      by (auto simp: curve_of_def split: option.splits)
    with True show ?thesis
      unfolding opened by (simp add: drop1 drop Let_def hist1)
  next
    case False
    then consider (plain) "server_key = None" | (curve) sk pk seck where
      "server_key = Some sk" "public_key = Some pk" "secret_key = Some seck" by auto
    then show ?thesis
    proof cases
      case plain
      then show ?thesis
        unfolding opened by (simp add: curve_of_def dial1 dial drop hist1 Let_def)
    next
      case curve
      have "rev (map (IoOpt ?h) (dialled_options ?p our_uuid (Some (sk, pk, seck)))) =
          rev (map (IoOpt ?h) [OptCurvePublic pk, OptCurveSecret seck, OptCurveServerKey sk])
          @ rev (map (IoOpt ?h) ?base)"
        by (simp add: dialled_options_def)
      with curve show ?thesis
        unfolding opened by (simp add: curve_of_def run_thenDo run_set_opts dial drop hist1 Let_def del: for_each.simps)
    qed
  qed
qed

text \<open>
  C22: connecting a peer is idempotent, and otherwise all or nothing: either one new DEALER is open,
  configured before it was connected and owned by the peer, or no socket is left open and the
  peer owns none; a server key without our own key pair is refused.
\<close>

theorem connect_outcome:
  assumes "w_next_sock s \<notin> set (w_socks s)"
  shows "if p_connected (n_heap s a)
    then peer_connect E a our_uuid server_key public_key secret_key s = (Inr True, s)
    else \<exists>done s'. peer_connect E a our_uuid server_key public_key secret_key s = (Inr done, s')
      \<and> (\<forall>b. b \<noteq> a \<longrightarrow> n_heap s' b = n_heap s b)
      \<and> (if done
         then \<exists>c. curve_of server_key public_key secret_key = Some c
            \<and> w_hist s' = IoConnect (w_next_sock s) (tcp_address (p_addr (n_heap s a)) (p_port (n_heap s a))) True
                # rev (map (IoOpt (w_next_sock s)) (dialled_options (n_heap s a) our_uuid c))
                @ IoOpen (w_next_sock s) DEALER # w_hist s
            \<and> w_socks s' = w_next_sock s # w_socks s
            \<and> p_connected (n_heap s' a) \<and> p_dealer (n_heap s' a) = Some (w_next_sock s)
         else w_socks s' = w_socks s \<and> \<not> p_connected (n_heap s' a) \<and> p_dealer (n_heap s' a) = None)"
proof (cases "p_connected (n_heap s a)")
  case True
  then show ?thesis by (simp add: peer_connect_def deref_def)
next
  case False
  have "removeAll (w_next_sock s) (w_socks s) = w_socks s" using assms by simp
  with False run_peer_connect [OF False, of E our_uuid server_key public_key secret_key] show ?thesis
    by (auto simp: Let_def split: option.splits if_splits)
qed

text \<open>A node with one peer, for the examples.\<close>

definition example_cfg :: config where
  "example_cfg = \<lparr>c_name = [97], c_peer_id = replicate 16 1, c_peer_id_hex = bytes_hex (replicate 16 1),
     c_headers = [], c_ev_timeout = 5000, c_ex_timeout = 30000, c_evasive_emit_interval = 20,
     c_beacon_port = 5670, c_beacon_interval = 1, c_interface = None, c_fixed_port = None,
     c_advertised_endpoint = None, c_curve_public = None, c_curve_secret = None,
     c_zap_domain = lit ''global'', c_ipv6 = False, c_gossip_bind = None, c_gossip_connects = [],
     c_verbose = False\<rparr>"

definition example_peer :: peer where
  "example_peer = (new_peer (lit ''02'') (lit ''10.0.0.2'') 5000)
     \<lparr>p_connected := True, p_dealer := Some 0, p_ready := True\<rparr>"

definition example_node :: node where
  "example_node =
     \<lparr>w_hist = [], w_next_sock = 1, w_socks = [0], n_cfg = example_cfg, n_running = True,
      n_heap = (\<lambda>_. new_peer [] [] 0)(0 := example_peer), n_next_addr = 1,
      n_peers = [(lit ''02'', 0)], n_pending = [],
      n_groups = [], n_own_groups = [], n_contest_groups = [], n_status = 0,
      n_evasive_emit_at = [], n_peer_server_keys = [], n_events = [], n_api = [],
      n_inbox = None, n_inbox_port = 49152, n_beacon_sock = None, n_beacon_msg = None,
      n_beacon_version = 1, n_last_beacon = 0, n_send_sock = None, n_send_targets = [],
      n_gossip = \<lparr>gc_hub = None, gc_socks = [], gc_tuples = [], gc_targets = [], gc_last_rx = [],
        gc_next_ping = 0\<rparr>\<rparr>"

lemma example_node_simps [simp]:
  "n_heap example_node 0 = example_peer" "n_next_addr example_node = 1"
  "n_heap example_node (Suc n) = new_peer [] [] 0" "n_peers example_node = [(lit ''02'', 0)]"
  "w_hist example_node = []" "w_socks example_node = [0]" "w_next_sock example_node = 1"
  "n_running example_node" "n_cfg example_node = example_cfg" "n_groups example_node = []"
  "n_own_groups example_node = []" "n_events example_node = []" "n_pending example_node = []"
  "n_inbox_port example_node = 49152" "n_status example_node = 0"
  "p_connected example_peer" "p_dealer example_peer = Some 0" "p_ready example_peer"
  "p_sent_seq example_peer = 0" "p_want_seq example_peer = 0" "p_uuid_hex example_peer = lit ''02''"
  "p_addr example_peer = lit ''10.0.0.2''" "p_port example_peer = 5000" "p_groups example_peer = []"
  "c_peer_id_hex example_cfg = bytes_hex (replicate 16 1)" "c_curve_secret example_cfg = None"
  by (simp_all add: example_node_def example_peer_def example_cfg_def new_peer_def)

lemma connect_outcome_witness:
  "\<exists>done s'. peer_connect calm 1 [1] None None None example_node = (Inr done, s')
      \<and> (if done then w_socks s' = [1, 0] else w_socks s' = [0])"
  using connect_outcome [of example_node 1 calm "[1]" None None None]
  by (fastforce simp: new_peer_def split: if_splits)

lemma messages_are_numbered_witness:
  "\<exists>s' frames. send_all calm 0 [(\<lambda>q. encode_simple PING q None None, []),
       (\<lambda>q. encode_simple WHISPER q None None, [[65]])] example_node = (Inr (), s')
    \<and> sends_of 0 (w_hist s') = frames \<and> length frames = 2
    \<and> frames ! 1 = [projr (encode_simple WHISPER 2 None None), [65]]"
proof -
  have "encodable (\<lambda>q. encode_simple cmd q None None, parts)" if "cmd < 256" for cmd parts
    using that by (simp add: encodable_def encode_simple_def zre_header_def pack_def ZRE_SIGNATURE_def
        ZRE_VERSION_def)
  then have "list_all encodable [(\<lambda>q. encode_simple PING q None None, []),
       (\<lambda>q. encode_simple WHISPER q None None, [[65]])]"
    by (simp add: command_defs)
  from messages_are_numbered [OF _ _ _ this, of example_node 0 0 calm] show ?thesis
    by fastforce
qed

text \<open>
  Disconnecting closes the peer's own DEALER and no other socket, forgets it, and clears the
  connected and ready flags; doing it twice is doing it once.
\<close>

theorem disconnect_outcome:
  "peer_disconnect a s = (Inr (), s\<lparr>n_heap := (n_heap s)(a := torn_down (n_heap s a)),
     w_socks := (case p_dealer (n_heap s a) of None \<Rightarrow> w_socks s | Some h \<Rightarrow> removeAll h (w_socks s)),
     w_hist := (case p_dealer (n_heap s a) of None \<Rightarrow> w_hist s | Some h \<Rightarrow> IoClose h # w_hist s)\<rparr>)
   \<and> thenDo (peer_disconnect a) (peer_disconnect a) s = peer_disconnect a s"
proof -
  have "torn_down (torn_down p) = torn_down p" for p by (simp add: torn_down_def)
  moreover have "p_dealer (torn_down p) = None" for p by (simp add: torn_down_def)
  ultimately show ?thesis
    by (simp add: run_peer_disconnect run_thenDo set_peer_def split: option.splits)
qed

end
