(* ===== verification/Zre_Election.thy ===== *)
theory Zre_Election
  imports Zre_Peer
begin

section \<open>Leader election\<close>

text \<open>
  The election methods of \<open>ZreNode\<close>: a wave of \<open>ELECT\<close> messages carries the smallest peer id (the
  current active wave, \<open>caw\<close>) through the group, echoes go back to the \<open>father\<close>, and the winner's
  \<open>LEADER\<close> wave ends the election. A group's election is a field of the group.

  Peer ids travel in upper case (\<open>_wire_id\<close>) and are compared as strings, code point by code
  point: the order of \<open>HOL-Library.List_Lexorder\<close>.
\<close>

definition require_group :: "bytes \<Rightarrow> grp nprog" where
  "require_group g =
     thenDo (modify (\<lambda>s. case dict_get (n_groups s) g of
               None \<Rightarrow> s\<lparr>n_groups := dict_set g (new_group g) (n_groups s)\<rparr>
             | Some _ \<Rightarrow> s))
     (thenDo (modify (\<lambda>s. if g \<in> set (n_contest_groups s)
               then (case dict_get (n_groups s) g of
                       None \<Rightarrow> s
                     | Some G \<Rightarrow> s\<lparr>n_groups := dict_set g (G\<lparr>g_contest := True\<rparr>) (n_groups s)\<rparr>)
               else s))
      (gets (\<lambda>s. case dict_get (n_groups s) g of Some G \<Rightarrow> G | None \<Rightarrow> new_group g)))"

definition wire_id :: "env \<Rightarrow> pystr \<Rightarrow> pystr" where
  "wire_id E uuid_hex = str_upper (e_rt E) uuid_hex"

definition own_wire_id :: "env \<Rightarrow> node \<Rightarrow> pystr" where
  "own_wire_id E s = wire_id E (c_peer_id_hex (n_cfg s))"

text \<open>The connected members of the group, in the order of the group's table.\<close>

definition election_neighbors :: "node \<Rightarrow> grp \<Rightarrow> nat list" where
  "election_neighbors s G = filter (\<lambda>a. p_connected (n_heap s a)) (map snd (g_peers G))"

definition new_election :: "pystr \<Rightarrow> pystr option \<Rightarrow> real \<Rightarrow> election" where
  "new_election caw father now =
     \<lparr>el_caw = caw, el_father = father, el_erec = 0, el_lrec = 0, el_leader = None,
      el_started_at = now, el_resent_at = now\<rparr>"

text \<open>\<open>for found in peers: found.send_election(cmd, group, id)\<close>; the results are not used.\<close>

definition send_wave :: "env \<Rightarrow> nat \<Rightarrow> bytes \<Rightarrow> bytes \<Rightarrow> nat list \<Rightarrow> unit nprog" where
  "send_wave E cmd g ident peers =
     for_each (\<lambda>a. andThen (send_election E a cmd g ident) (\<lambda>_. ret ())) peers"

definition finish_election :: "env \<Rightarrow> bytes \<Rightarrow> pystr \<Rightarrow> unit nprog" where
  "finish_election E g leader_id =
    (let leader_hex = str_lower (e_rt E) leader_id
     in thenDo (upd_group g (\<lambda>G. G\<lparr>g_leader := Some leader_hex, g_election := None\<rparr>))
       (andThen (gets id) (\<lambda>s.
        let leader_name =
              (if leader_id = own_wire_id E s then bdec (c_name (n_cfg s))
               else (case dict_get (n_peers s) leader_hex of
                       Some a \<Rightarrow> pname (n_heap s a)
                     | None \<Rightarrow> lit ''unknown''))
        in emit (EvLeader leader_hex leader_name (bdec g)))))"

definition start_election :: "env \<Rightarrow> bytes \<Rightarrow> unit nprog" where
  "start_election E g =
     andThen (require_group g) (\<lambda>G.
     andThen (gets id) (\<lambda>s0.
     if \<not> g_contest G \<or> g \<notin> set (n_own_groups s0) then ret ()
     else
       thenDo (upd_group g (\<lambda>G. G\<lparr>g_election := None\<rparr>))
       (andThen (read_clock E) (\<lambda>now.
        let own = own_wire_id E s0
        in thenDo (upd_group g (\<lambda>G. G\<lparr>g_election := Some (new_election own None now),
                                    g_leader := None\<rparr>))
          (andThen (gets (\<lambda>s. election_neighbors s G)) (\<lambda>neighbors.
           if neighbors = [] then finish_election E g own
           else
             andThen (lift_exn (utf8_encode own)) (\<lambda>caw. send_wave E ELECT g caw neighbors)))))))"

text \<open>
  \<open>_handle_elect\<close>. The neighbours are computed afresh at each use, since a send that finds the
  queue full disconnects its peer. \<open>count_elect\<close> is the part after the wave was adopted.
\<close>

definition count_elect :: "env \<Rightarrow> bytes \<Rightarrow> pystr \<Rightarrow> unit nprog" where
  "count_elect E g challenger_id =
     andThen (get_group g) (\<lambda>found.
     case found of None \<Rightarrow> ret () | Some G \<Rightarrow>
     case g_election G of None \<Rightarrow> ret () | Some el \<Rightarrow>
     if challenger_id \<noteq> el_caw el then ret ()
     else
       (let el = el\<lparr>el_erec := Suc (el_erec el)\<rparr>
        in thenDo (upd_group g (\<lambda>G. G\<lparr>g_election := Some el\<rparr>))
          (andThen (gets id) (\<lambda>s.
           let neighbors = election_neighbors s G
           in if el_erec el < length neighbors then ret ()
              else if el_caw el = own_wire_id E s then
                for_each (\<lambda>a. andThen (lift_exn (utf8_encode (el_caw el)))
                  (\<lambda>ident. andThen (send_election E a LEADER g ident) (\<lambda>_. ret ()))) neighbors
              else
                (case el_father el of
                   None \<Rightarrow> ret ()
                 | Some father \<Rightarrow>
                     (case dict_get (n_peers s) father of
                        None \<Rightarrow> ret ()
                      | Some a \<Rightarrow>
                          andThen (lift_exn (utf8_encode (el_caw el)))
                            (\<lambda>ident. andThen (send_election E a ELECT g ident) (\<lambda>_. ret ()))))))))"

definition handle_elect :: "env \<Rightarrow> nat \<Rightarrow> bytes \<Rightarrow> bytes \<Rightarrow> unit nprog" where
  "handle_elect E sender g challenger =
     andThen (require_group g) (\<lambda>G.
     andThen (read_clock E) (\<lambda>now.
     let challenger_id = wire_id E (bdec challenger)
     in thenDo
       (if (case g_election G of None \<Rightarrow> True | Some el \<Rightarrow> challenger_id < el_caw el) then
          andThen (deref sender) (\<lambda>p.
          thenDo (upd_group g (\<lambda>G. G\<lparr>g_election :=
                    Some (new_election challenger_id (Some (p_uuid_hex p)) now)\<rparr>))
            (andThen (gets (\<lambda>s. election_neighbors s G)) (\<lambda>neighbors.
             for_each (\<lambda>a.
               andThen (deref a) (\<lambda>q.
               only_if (p_uuid_hex q \<noteq> p_uuid_hex p)
                 (andThen (lift_exn (utf8_encode challenger_id)) (\<lambda>ident.
                  andThen (send_election E a ELECT g ident) (\<lambda>_. ret ())))))
               neighbors)))
        else ret ())
       (count_elect E g challenger_id)))"

definition handle_leader :: "env \<Rightarrow> nat \<Rightarrow> bytes \<Rightarrow> bytes \<Rightarrow> unit nprog" where
  "handle_leader E sender g leader =
     andThen (require_group g) (\<lambda>G.
     case g_election G of
       None \<Rightarrow> ret ()
     | Some el \<Rightarrow>
         (let leader_id = wire_id E (bdec leader)
          in andThen (gets id) (\<lambda>s.
             thenDo
               (only_if (leader_id \<noteq> own_wire_id E s \<and> el_lrec el = 0)
                 (for_each (\<lambda>a. andThen (lift_exn (utf8_encode leader_id)) (\<lambda>ident.
                    andThen (send_election E a LEADER g ident) (\<lambda>_. ret ())))
                    (election_neighbors s G)))
               (thenDo (upd_group g (\<lambda>G. G\<lparr>g_election :=
                          Some (el\<lparr>el_lrec := Suc (el_lrec el), el_leader := Some leader_id\<rparr>)\<rparr>))
                 (andThen (gets (\<lambda>s. election_neighbors s G)) (\<lambda>neighbors.
                  only_if (length neighbors \<le> Suc (el_lrec el))
                    (finish_election E g leader_id)))))))"

definition restart_election_if_needed :: "env \<Rightarrow> bytes \<Rightarrow> unit nprog" where
  "restart_election_if_needed E g =
     andThen (get_group g) (\<lambda>found.
     case found of
       None \<Rightarrow> ret ()
     | Some G \<Rightarrow>
         if \<not> g_contest G then ret ()
         else
           andThen (gets id) (\<lambda>s.
           let neighbors = election_neighbors s G
           in if (case g_leader G of None \<Rightarrow> False
                  | Some leader \<Rightarrow> dict_get (n_peers s) leader = None)
              then start_election E g
              else if g_election G \<noteq> None \<and> neighbors = []
              then finish_election E g (own_wire_id E s)
              else if g_election G \<noteq> None \<and> g_leader G \<noteq> None
              then upd_group g (\<lambda>G. G\<lparr>g_election := None\<rparr>)
              else ret ()))"

text \<open>\<open>_maintain_elections\<close>: the loop body, for one group of the node.\<close>

definition maintain_election :: "env \<Rightarrow> real \<Rightarrow> bytes \<Rightarrow> unit nprog" where
  "maintain_election E now g =
     andThen (get_group g) (\<lambda>found.
     case found of None \<Rightarrow> ret () | Some G \<Rightarrow>
     case g_election G of None \<Rightarrow> ret () | Some el \<Rightarrow>
     andThen (gets id) (\<lambda>s.
     let neighbors = election_neighbors s G; own = own_wire_id E s
     in if \<not> g_contest G then ret ()
        else if g \<notin> set (n_own_groups s) then ret ()
        else if neighbors = [] then finish_election E g own
        else if now - el_resent_at el < 2 then ret ()
        else
          thenDo (upd_group g (\<lambda>G. G\<lparr>g_election := Some (el\<lparr>el_resent_at := now\<rparr>)\<rparr>))
          (andThen (lift_exn (utf8_encode (el_caw el))) (\<lambda>caw.
           if el_caw el = own then
             (if length neighbors \<le> el_erec el then send_wave E LEADER g caw neighbors
              else send_wave E ELECT g caw neighbors)
           else
             for_each (\<lambda>a.
               andThen (deref a) (\<lambda>p.
               only_if (Some (p_uuid_hex p) \<noteq> el_father el)
                 (andThen (send_election E a ELECT g caw) (\<lambda>_. ret ())))) neighbors))))"

definition maintain_elections :: "env \<Rightarrow> real \<Rightarrow> unit nprog" where
  "maintain_elections E now =
     andThen (gets (\<lambda>s. keys (n_groups s))) (\<lambda>gs. for_each (maintain_election E now) gs)"

end
