(* ===== verification/Zre_Connect.thy ===== *)
theory Zre_Connect
  imports Zre_Election
begin

section \<open>Addresses, keys and outgoing connections\<close>

text \<open>
  How a node finds the address to announce and the Curve keys to dial with, and the outgoing side
  of a connection: \<open>_resolve_interface_ip\<close>, \<open>_own_address_for\<close>, \<open>_public_endpoint_for\<close>,
  \<open>_curve_key_raw\<close>, \<open>_curve_client_args\<close>, \<open>_send_hello\<close>, \<open>_do_connect\<close> and \<open>_adopt_pending\<close>.
\<close>

subsection \<open>Own address\<close>

definition word_byte :: "32 word \<Rightarrow> nat \<Rightarrow> nat" where
  "word_byte w i = unat w div 256 ^ i mod 256"

text \<open>\<open>socket.inet_ntoa\<close>.\<close>

definition inet_ntoa :: "32 word \<Rightarrow> pystr" where
  "inet_ntoa w = show_nat (word_byte w 3) @ lit ''.'' @ show_nat (word_byte w 2) @ lit ''.''
     @ show_nat (word_byte w 1) @ lit ''.'' @ show_nat (word_byte w 0)"

text \<open>\<open>_resolve_interface_ip(iface)\<close>; \<open>None\<close> is the node's pinned interface.\<close>

definition resolve_interface_ip :: "env \<Rightarrow> config \<Rightarrow> pystr option \<Rightarrow> exn + pystr" where
  "resolve_interface_ip E c iface =
    (case (case iface of None \<Rightarrow> c_interface c | Some i \<Rightarrow> Some i) of
       None \<Rightarrow> Inr []
     | Some i \<Rightarrow>
         if i = [] then Inr []
         else if e_inet_aton E i \<noteq> None then Inr i
         else
           obind (utf8_encode i) (\<lambda>name.
           case e_iface_addr E (take 15 name) of
             Some w \<Rightarrow> Inr (inet_ntoa w)
           | None \<Rightarrow> (case e_gethostbyname E i of Some ip \<Rightarrow> Inr ip | None \<Rightarrow> Inr [])))"

definition own_address_for :: "env \<Rightarrow> node \<Rightarrow> pystr \<Rightarrow> exn + pystr" where
  "own_address_for E s peer_addr =
     obind (resolve_interface_ip E (n_cfg s) None) (\<lambda>ip.
     if ip \<noteq> [] then Inr ip
     else (case e_local_addr E (w_hist s) peer_addr (c_beacon_port (n_cfg s)) of
             Some a \<Rightarrow> Inr a
           | None \<Rightarrow> Inr peer_addr))"

definition public_endpoint_for :: "env \<Rightarrow> node \<Rightarrow> pystr \<Rightarrow> exn + bytes" where
  "public_endpoint_for E s peer_addr =
    (case c_advertised_endpoint (n_cfg s) of
       Some ep \<Rightarrow> (if ep \<noteq> [] then Inr ep
                  else obind (own_address_for E s (strip_chars (lit ''[]'') peer_addr))
                         (\<lambda>a. utf8_encode (tcp_address a (n_inbox_port s))))
     | None \<Rightarrow> obind (own_address_for E s (strip_chars (lit ''[]'') peer_addr))
                 (\<lambda>a. utf8_encode (tcp_address a (n_inbox_port s))))"

subsection \<open>Curve keys\<close>

definition curve_key_raw :: "env \<Rightarrow> pyval \<Rightarrow> exn + bytes" where
  "curve_key_raw E v =
     obind (to_bytes v) (\<lambda>key.
     if length key = 32 then Inr key
     else if length key = 40 then
       (case e_z85_decode E key of
          Inr raw \<Rightarrow> Inr raw
        | Inl e \<Rightarrow> Inl (if is_value_error e then ValueError else e))
     else Inl ValueError)"

definition host_port :: "pystr \<Rightarrow> int \<Rightarrow> pystr" where
  "host_port addr port = addr @ lit '':'' @ show_int port"

type_synonym curve_args = "bytes option \<times> bytes option \<times> bytes option"

definition curve_client_args :: "node \<Rightarrow> pystr \<Rightarrow> int \<Rightarrow> pystr option \<Rightarrow> curve_args" where
  "curve_client_args s addr port rhex =
    (if c_curve_secret (n_cfg s) = None then (None, None, None)
     else
       (let by_id = (case rhex of None \<Rightarrow> None | Some r \<Rightarrow> dict_get (n_peer_server_keys s) r);
            server_key = (case by_id of
                Some k \<Rightarrow> Some k
              | None \<Rightarrow> dict_get (n_peer_server_keys s) (host_port addr port))
        in if server_key = None then (None, None, None)
           else (server_key, c_curve_public (n_cfg s), c_curve_secret (n_cfg s))))"

definition learn_key :: "pystr \<Rightarrow> bytes \<Rightarrow> unit nprog" where
  "learn_key k key =
     modify (\<lambda>s. s\<lparr>n_peer_server_keys := dict_set k key (n_peer_server_keys s)\<rparr>)"

text \<open>
  \<open>with suppress(ValueError): self._peer_server_keys[id] = self._curve_key_raw(value, ...)\<close>.
\<close>

definition learn_advertised_key :: "env \<Rightarrow> pystr \<Rightarrow> pyval \<Rightarrow> unit nprog" where
  "learn_advertised_key E k v =
     suppress is_value_error
       (andThen (lift_exn (curve_key_raw E v)) (\<lambda>key. learn_key k key))"

subsection \<open>HELLO\<close>

definition send_hello :: "env \<Rightarrow> nat \<Rightarrow> unit nprog" where
  "send_hello E a =
     andThen (gets id) (\<lambda>s.
     andThen (deref a) (\<lambda>p.
     andThen (send_encoded E a
       (\<lambda>q. obind (public_endpoint_for E s (p_addr p)) (\<lambda>endpoint.
          encode_hello q (PyBytes endpoint) (map PyBytes (n_own_groups s)) (uint (n_status s))
            (PyBytes (c_name (n_cfg s)))
            (map (map_prod PyBytes PyBytes) (c_headers (n_cfg s))))) [])
       (\<lambda>_. ret ())))"

subsection \<open>Dialling\<close>

text \<open>\<open>Peer(...)\<close>, \<open>_curve_client_args\<close>, \<open>connect\<close>: the steps common to every new peer.\<close>

definition dial_peer ::
  "env \<Rightarrow> pystr \<Rightarrow> pystr \<Rightarrow> int \<Rightarrow> pystr option \<Rightarrow> nat option nprog" where
  "dial_peer E uuid_hex addr port rhex =
     andThen (alloc_peer (new_peer uuid_hex addr port)) (\<lambda>a.
     andThen (gets id) (\<lambda>s.
     case curve_client_args s addr port rhex of
       (server_key, public_key, secret_key) \<Rightarrow>
         if c_curve_secret (n_cfg s) \<noteq> None \<and> server_key = None then ret None
         else
           andThen (peer_connect E a (c_peer_id (n_cfg s)) server_key public_key secret_key) (\<lambda>ok.
           ret (if ok then Some a else None))))"

definition pending_key :: "pystr \<Rightarrow> int \<Rightarrow> pystr" where
  "pending_key host port = lit ''pending-'' @ host_port host port"

definition do_connect :: "env \<Rightarrow> pystr \<Rightarrow> int \<Rightarrow> unit nprog" where
  "do_connect E host port =
     andThen (gets id) (\<lambda>s.
     if \<not> n_running s then ret ()
     else if (\<exists>(k, a) \<in> set (n_peers s). p_addr (n_heap s a) = host \<and> p_port (n_heap s a) = port
                \<and> p_connected (n_heap s a)) then ret ()
     else if dict_get (n_pending s) (pending_key host port) \<noteq> None then ret ()
     else
       andThen (dial_peer E (pending_key host port) host port None) (\<lambda>dialled.
       case dialled of
         None \<Rightarrow> ret ()
       | Some a \<Rightarrow>
           andThen (read_clock E) (\<lambda>now.
           thenDo (refresh a now)
           (thenDo (modify (\<lambda>s. s\<lparr>n_pending := dict_set (pending_key host port) a (n_pending s)\<rparr>))
             (send_hello E a)))))"

text \<open>A placeholder becomes the peer \<open>rhex\<close>: the table key changes, the connection does not.\<close>

definition adopt :: "pystr \<Rightarrow> nat \<Rightarrow> pystr \<Rightarrow> real \<Rightarrow> unit nprog" where
  "adopt key a rhex now =
     thenDo (modify (\<lambda>s. s\<lparr>n_pending := dict_pop key (n_pending s)\<rparr>))
     (thenDo (upd_peer a (\<lambda>p. p\<lparr>p_uuid_hex := rhex\<rparr>))
     (thenDo (refresh a now)
       (modify (\<lambda>s. s\<lparr>n_peers := dict_set rhex a (n_peers s)\<rparr>))))"

definition adopt_pending :: "pystr \<Rightarrow> int \<Rightarrow> pystr \<Rightarrow> real \<Rightarrow> nat option nprog" where
  "adopt_pending addr port rhex now =
     andThen (gets id) (\<lambda>s.
     case find (\<lambda>(_, a). p_addr (n_heap s a) = addr \<and> p_port (n_heap s a) = port) (n_pending s) of
       Some (key, a) \<Rightarrow> thenDo (adopt key a rhex now) (ret (Some a))
     | None \<Rightarrow>
         (case find (\<lambda>(_, a). p_port (n_heap s a) = port \<and> dict_get (n_peers s) rhex = None)
                 (n_pending s) of
            Some (key, a) \<Rightarrow> thenDo (adopt key a rhex now) (ret (Some a))
          | None \<Rightarrow> ret None))"

text \<open>
  Connecting to a peer whose id is known: adopt a placeholder, or dial and enter it in the table.
  The result is the peer's address and whether it was dialled.
\<close>

definition connect_known ::
  "env \<Rightarrow> pystr \<Rightarrow> pystr \<Rightarrow> int \<Rightarrow> real \<Rightarrow> (nat \<times> bool) option nprog" where
  "connect_known E rhex addr port now =
     andThen (adopt_pending addr port rhex now) (\<lambda>adopted.
     case adopted of
       Some a \<Rightarrow> ret (Some (a, False))
     | None \<Rightarrow>
         andThen (dial_peer E rhex addr port (Some rhex)) (\<lambda>dialled.
         case dialled of
           None \<Rightarrow> ret None
         | Some a \<Rightarrow>
             thenDo (refresh a now)
             (thenDo (modify (\<lambda>s. s\<lparr>n_peers := dict_set rhex a (n_peers s)\<rparr>))
               (ret (Some (a, True))))))"

end
