(* ===== verification/Zre_Beacon.thy ===== *)
theory Zre_Beacon
  imports Zre_Connect
begin

unbundle bit_operations_syntax

section \<open>UDP beacons\<close>

text \<open>
  Discovery on the local network: what a node broadcasts (\<open>_build_beacon\<close>, \<open>_send_beacon\<close>), to
  which addresses (\<open>_interface_broadcast\<close>, \<open>_local_subnet_broadcasts\<close>, \<open>_build_send_sock\<close>), and
  what it does with a datagram it receives (\<open>_handle_beacon\<close>).
\<close>

definition BEACON_SIZE :: nat where "BEACON_SIZE = 22"
definition BEACON_SIZE_V3 :: nat where "BEACON_SIZE_V3 = 54"
definition BEACON_VERSION_V1 :: nat where "BEACON_VERSION_V1 = 1"
definition BEACON_VERSION_V3 :: nat where "BEACON_VERSION_V3 = 3"

lemmas beacon_consts = BEACON_SIZE_def BEACON_SIZE_V3_def BEACON_VERSION_V1_def BEACON_VERSION_V3_def

text \<open>\<open>start()\<close> makes the version 3 only when a key pair is set, so the key is there.\<close>

definition build_beacon :: "node \<Rightarrow> int \<Rightarrow> exn + bytes" where
  "build_beacon s port =
    (if n_beacon_version s = BEACON_VERSION_V3 then
       obind (pack 2 port) (\<lambda>p.
       Inr (blit ''ZRE'' @ [of_nat BEACON_VERSION_V3] @ c_peer_id (n_cfg s) @ p
         @ (case c_curve_public (n_cfg s) of Some k \<Rightarrow> k | None \<Rightarrow> [])))
     else
       obind (pack 2 port) (\<lambda>p.
       Inr (blit ''ZRE'' @ [of_nat BEACON_VERSION_V1] @ c_peer_id (n_cfg s) @ p)))"

definition gossip_active :: "config \<Rightarrow> bool" where
  "gossip_active c \<longleftrightarrow> c_gossip_bind c \<noteq> None \<or> c_gossip_connects c \<noteq> []"

subsection \<open>Broadcast addresses\<close>

definition broadcast_address :: "32 word \<Rightarrow> 32 word \<Rightarrow> 32 word" where
  "broadcast_address addr netmask = (addr AND netmask) OR (NOT netmask AND 0xFFFFFFFF)"

definition interface_broadcast :: "env \<Rightarrow> config \<Rightarrow> exn + pystr" where
  "interface_broadcast E c =
    (case c_interface c of
       None \<Rightarrow> Inr []
     | Some iface \<Rightarrow>
         if iface = [] then Inr []
         else
           obind (resolve_interface_ip E c None) (\<lambda>ip.
           if ip = [] then Inr []
           else
             obind (utf8_encode iface) (\<lambda>name.
             case e_iface_mask E (take 15 name) of
               None \<Rightarrow> Inr []
             | Some netmask \<Rightarrow>
                 (case e_inet_aton E ip of
                    None \<Rightarrow> Inl OSError
                  | Some addr \<Rightarrow> Inr (inet_ntoa (broadcast_address addr netmask))))))"

text \<open>
  One line of \<open>/proc/net/route\<close>: \<open>None\<close> where the loop says \<open>continue\<close>. The hexadecimal mask is
  in host order (little endian), hence the reversal.
\<close>

definition route_netmask :: "pystr \<Rightarrow> exn + (32 word)" where
  "route_netmask hexmask =
     obind (bytes_fromhex hexmask) (\<lambda>raw.
     if length raw = 4 then Inr (of_nat (be_nat (rev raw))) else Inl StructError)"

definition route_broadcast :: "env \<Rightarrow> config \<Rightarrow> pystr \<Rightarrow> exn + pystr option" where
  "route_broadcast E c line =
    (let fields = split_words (e_rt E) [] line
     in if length fields < 8 then Inr None
        else
          (let iface = fields ! 0; destination = fields ! 1; hexmask = fields ! 7
           in if iface = lit ''lo'' \<or> destination = lit ''00000000'' then Inr None
              else
                obind (py_int16 hexmask) (\<lambda>m.
                if m = 0 then Inr None
                else
                  (case obind (resolve_interface_ip E c (Some iface)) (\<lambda>ip.
                          if ip = [] \<or> starts_with (lit ''127.'') ip then Inr None
                          else (case e_inet_aton E ip of
                                  None \<Rightarrow> Inl OSError
                                | Some addr \<Rightarrow>
                                    obind (route_netmask hexmask) (\<lambda>netmask.
                                    Inr (Some (inet_ntoa (broadcast_address addr netmask)))))) of
                     Inl e \<Rightarrow> if e = OSError \<or> is_value_error e then Inr None else Inl e
                   | Inr r \<Rightarrow> Inr r))))"

fun collect_broadcasts :: "env \<Rightarrow> config \<Rightarrow> pystr list \<Rightarrow> pystr list \<Rightarrow> exn + pystr list" where
  "collect_broadcasts E c [] found = Inr found"
| "collect_broadcasts E c (line # rest) found =
     obind (route_broadcast E c line) (\<lambda>r.
     collect_broadcasts E c rest
       (case r of None \<Rightarrow> found | Some b \<Rightarrow> if b \<in> set found then found else found @ [b]))"

definition local_subnet_broadcasts :: "env \<Rightarrow> node \<Rightarrow> exn + pystr list" where
  "local_subnet_broadcasts E s =
    (case e_routes E (w_hist s) of
       None \<Rightarrow> Inr []
     | Some lines \<Rightarrow> collect_broadcasts E (n_cfg s) (drop 1 lines) [])"

subsection \<open>Sending\<close>

definition build_send_sock :: "env \<Rightarrow> unit nprog" where
  "build_send_sock E =
     andThen (gets n_send_sock) (\<lambda>old.
     thenDo (modify (\<lambda>s. s\<lparr>n_send_sock := None\<rparr>))
     (thenDo (case old of None \<Rightarrow> ret () | Some h \<Rightarrow> close_udp h)
     (andThen (gets id) (\<lambda>s.
      andThen (lift_exn (local_subnet_broadcasts E s)) (\<lambda>subnets.
      let port = c_beacon_port (n_cfg s);
          targets = map (\<lambda>a. (a, port)) subnets
            @ [(lit ''255.255.255.255'', port), (lit ''127.0.0.1'', port)]
      in thenDo (modify (\<lambda>s. s\<lparr>n_send_targets := targets\<rparr>))
         (andThen new_udp (\<lambda>sock.
          thenDo (set_opt sock OptBroadcast)
          (andThen (lift_exn (resolve_interface_ip E (n_cfg s) None)) (\<lambda>bind_ip.
           thenDo
             (if bind_ip = [] then ret ()
              else
                andThen (udp_bind E sock bind_ip 0) (\<lambda>ok.
                if \<not> ok then throw OSError
                else
                  andThen (lift_exn (interface_broadcast E (n_cfg s))) (\<lambda>subnet.
                  modify (\<lambda>s. s\<lparr>n_send_targets :=
                    (if subnet \<noteq> [] then [(subnet, port), (lit ''127.0.0.1'', port)]
                     else targets)\<rparr>))))
             (modify (\<lambda>s. s\<lparr>n_send_sock := Some sock\<rparr>)))))))))))"

definition send_beacon :: "env \<Rightarrow> int option \<Rightarrow> unit nprog" where
  "send_beacon E port =
     andThen (gets id) (\<lambda>s.
     if gossip_active (n_cfg s) \<or> n_beacon_sock s = None \<and> port = None then ret ()
     else
       andThen (lift_exn (case port of
            None \<Rightarrow> (case n_beacon_msg s of
                       Some b \<Rightarrow> Inr b | None \<Rightarrow> build_beacon s (n_inbox_port s))
          | Some p \<Rightarrow> build_beacon s p)) (\<lambda>beacon.
       catch any_exception
         (thenDo (if n_send_sock s = None then build_send_sock E else ret ())
           (andThen (gets (\<lambda>s. (n_send_sock s, n_send_targets s))) (\<lambda>(sock, targets).
            case sock of
              None \<Rightarrow> ret ()
            | Some h \<Rightarrow> for_each (udp_send E h beacon) targets)))
         (\<lambda>_. modify (\<lambda>s. s\<lparr>n_send_sock := None\<rparr>))))"

subsection \<open>Receiving\<close>

definition collision_detail :: "node \<Rightarrow> pystr \<Rightarrow> int \<Rightarrow> pystr" where
  "collision_detail s ip port =
     lit ''another node with uuid '' @ c_peer_id_hex (n_cfg s)
     @ lit '' responded on the network (beacon from '' @ host_port ip port @ lit '')''"

text \<open>The EXIT beacon of a known peer.\<close>

definition beacon_exit :: "env \<Rightarrow> pystr \<Rightarrow> unit nprog" where
  "beacon_exit E rhex =
     andThen (gets (\<lambda>s. dict_get (n_peers s) rhex)) (\<lambda>found.
     case found of
       None \<Rightarrow> ret ()
     | Some a \<Rightarrow>
         thenDo (modify (\<lambda>s. s\<lparr>n_peers := dict_pop rhex (n_peers s)\<rparr>))
         (andThen (gets (\<lambda>s. set_iter E (w_hist s) (p_groups (n_heap s a)))) (\<lambda>gone_groups.
          thenDo (for_each (\<lambda>g. group_leave g a) gone_groups)
          (thenDo (peer_disconnect a)
          (thenDo (modify (\<lambda>s. s\<lparr>n_evasive_emit_at := dict_pop rhex (n_evasive_emit_at s)\<rparr>))
          (andThen (deref a) (\<lambda>p.
           thenDo (emit (EvExit rhex (pname p)))
             (for_each (restart_election_if_needed E) gone_groups))))))))"

definition handle_beacon :: "env \<Rightarrow> bytes \<Rightarrow> pystr \<Rightarrow> unit nprog" where
  "handle_beacon E data ip =
     andThen (gets id) (\<lambda>s.
     if \<not> n_running s then ret ()
     else if slice 0 3 data \<noteq> blit ''ZRE'' then ret ()
     else if length data \<le> 3 then throw IndexError
     else
       (let version = unat (data ! 3);
            expected = (if version = BEACON_VERSION_V3 then Some BEACON_SIZE_V3
                        else if version = BEACON_VERSION_V1 then Some BEACON_SIZE else None)
        in if expected \<noteq> Some (length data) then ret ()
           else if version \<noteq> n_beacon_version s then ret ()
           else
             (let remote_uuid = slice 4 20 data;
                  remote_port = int (be_nat (slice 20 22 data))
              in if remote_uuid = c_peer_id (n_cfg s) then
                   (if remote_port \<noteq> 0 \<and> remote_port \<noteq> n_inbox_port s
                    then throw (UUIDCollisionError (collision_detail s ip remote_port))
                    else ret ())
                 else
                   (let rhex = bytes_hex remote_uuid
                    in thenDo
                         (only_if (version = BEACON_VERSION_V3)
                           (thenDo (learn_key rhex (slice 22 BEACON_SIZE_V3 data))
                             (learn_key (host_port ip remote_port) (slice 22 BEACON_SIZE_V3 data))))
                       (andThen (read_clock E) (\<lambda>now.
                        if remote_port = 0 then beacon_exit E rhex
                        else
                          andThen (gets (\<lambda>s. dict_get (n_peers s) rhex)) (\<lambda>known.
                          case known of
                            Some a \<Rightarrow> refresh a now
                          | None \<Rightarrow>
                              andThen (connect_known E rhex ip remote_port now) (\<lambda>made.
                              case made of
                                None \<Rightarrow> ret ()
                              | Some (a, _) \<Rightarrow> send_hello E a))))))))"

end
