(* ===== verification/Zre_Messages.thy ===== *)
theory Zre_Messages
  imports Zre_Beacon
begin

section \<open>Inbound peer messages\<close>

text \<open>
  The ROUTER side of the node: \<open>_handle_peer_msg\<close> dispatches a message to the handler of its
  command, \<open>_handle_hello\<close> makes or refreshes a peer, \<open>_remove_peer\<close> forgets one.
\<close>

definition remove_peer :: "env \<Rightarrow> nat \<Rightarrow> unit nprog" where
  "remove_peer E a =
     andThen (gets (\<lambda>s. set_iter E (w_hist s) (p_groups (n_heap s a)))) (\<lambda>gone_groups.
     thenDo (for_each (\<lambda>g. group_leave g a) gone_groups)
     (andThen (deref a) (\<lambda>p.
      thenDo (peer_disconnect a)
      (thenDo (modify (\<lambda>s. s\<lparr>n_peers := dict_pop (p_uuid_hex p) (n_peers s)\<rparr>))
      (thenDo (modify (\<lambda>s. s\<lparr>n_evasive_emit_at := dict_pop (p_uuid_hex p) (n_evasive_emit_at s)\<rparr>))
      (thenDo (emit (EvExit (p_uuid_hex p) (pname p)))
        (for_each (restart_election_if_needed E) gone_groups)))))))"

subsection \<open>HELLO\<close>

definition PUBLIC_KEY_HEADER :: bytes where
  "PUBLIC_KEY_HEADER = blit ''X-PUBLICKEY''"

definition hello_collision_detail :: "node \<Rightarrow> bytes option \<Rightarrow> pystr" where
  "hello_collision_detail s ep =
     lit ''another node with uuid '' @ c_peer_id_hex (n_cfg s)
     @ lit '' announced itself (HELLO from ''
     @ (case ep of Some b \<Rightarrow> bytes_repr b | None \<Rightarrow> lit ''unknown'') @ lit '')''"

text \<open>The port of an endpoint, \<open>None\<close> where parsing raises.\<close>

definition hello_port :: "env \<Rightarrow> bytes option \<Rightarrow> int option" where
  "hello_port E ep =
    (case ep of
       None \<Rightarrow> None
     | Some b \<Rightarrow>
         if b = [] then None
         else (case split_endpoint (e_rt E) (bdec b) of Inr (_, port) \<Rightarrow> Some port | Inl _ \<Rightarrow> None))"

definition take_hello_fields :: "fields \<Rightarrow> peer \<Rightarrow> peer" where
  "take_hello_fields extra p =
     p\<lparr>p_name := f_name extra,
       p_headers := (case f_headers extra of Some h \<Rightarrow> h | None \<Rightarrow> []),
       p_status := (case f_status extra of Some st \<Rightarrow> st | None \<Rightarrow> 0)\<rparr>"

text \<open>
  A new peer: learn its Curve key, from the header or from a \<open>|key\<close> suffix, take its address and
  adopt or dial it. The result is the peer, whether a HELLO answer is due, and the endpoint.
\<close>

definition hello_new_peer ::
  "env \<Rightarrow> pystr \<Rightarrow> fields \<Rightarrow> pystr \<Rightarrow> real \<Rightarrow> (nat \<times> bool \<times> pystr) option nprog" where
  "hello_new_peer E rhex extra ep_str now =
     thenDo
       (case (case f_headers extra of Some h \<Rightarrow> dict_get h PUBLIC_KEY_HEADER | None \<Rightarrow> None) of
          None \<Rightarrow> ret ()
        | Some advertised \<Rightarrow> learn_advertised_key E rhex (PyBytes advertised))
     (andThen
       (case split_once (lit ''|'') ep_str of
          None \<Rightarrow> ret ep_str
        | Some (before, advertised_key) \<Rightarrow>
            thenDo (learn_advertised_key E rhex (PyStr advertised_key)) (ret before)) (\<lambda>ep_str.
      case split_endpoint (e_rt E) ep_str of
        Inl _ \<Rightarrow> ret None
      | Inr (addr, port) \<Rightarrow>
          (let addr = (if addr = lit ''0.0.0.0'' \<or> addr = lit ''*'' then lit ''127.0.0.1'' else addr)
           in andThen (connect_known E rhex addr port now) (\<lambda>made.
              case made of
                None \<Rightarrow> ret None
              | Some (a, reply) \<Rightarrow> ret (Some (a, reply, ep_str))))))"

definition hello_join :: "nat \<Rightarrow> bytes \<Rightarrow> unit nprog" where
  "hello_join a g =
     thenDo (modify (\<lambda>s. case dict_get (n_groups s) g of
               None \<Rightarrow> s\<lparr>n_groups := dict_set g (new_group g) (n_groups s)\<rparr>
             | Some _ \<Rightarrow> s))
     (thenDo (group_join g a)
       (upd_peer a (\<lambda>p. p\<lparr>p_groups := insert_last g (p_groups p)\<rparr>)))"

definition hello_enter ::
  "env \<Rightarrow> pystr \<Rightarrow> fields \<Rightarrow> nat \<Rightarrow> bool \<Rightarrow> pystr \<Rightarrow> unit nprog" where
  "hello_enter E rhex extra a reply ep_str =
    (let groups = (case f_groups extra of Some gs \<Rightarrow> gs | None \<Rightarrow> [])
     in thenDo (upd_peer a (\<lambda>p. (take_hello_fields extra p)\<lparr>p_ready := True, p_endpoint_str := ep_str\<rparr>))
       (thenDo (if reply then send_hello E a else ret ())
       (thenDo (for_each (hello_join a) groups)
       (andThen (deref a) (\<lambda>p.
        thenDo (emit (EvEnter rhex (pname p) ep_str))
        (thenDo (for_each (\<lambda>g. emit (EvJoin rhex (pname p) (bdec g))) groups)
          (for_each (start_election E) groups)))))))"

definition handle_hello :: "env \<Rightarrow> pystr \<Rightarrow> fields \<Rightarrow> nat option \<Rightarrow> unit nprog" where
  "handle_hello E rhex extra existing =
     andThen (gets id) (\<lambda>s.
     if \<not> n_running s then ret ()
     else if rhex = c_peer_id_hex (n_cfg s) then
       (if hello_port E (f_endpoint extra) = Some (n_inbox_port s) then ret ()
        else throw (UUIDCollisionError (hello_collision_detail s (f_endpoint extra))))
     else
       (case f_endpoint extra of
          None \<Rightarrow> ret ()
        | Some ep \<Rightarrow>
            if ep = [] then ret ()
            else
              thenDo (modify (\<lambda>s. s\<lparr>n_evasive_emit_at := dict_pop rhex (n_evasive_emit_at s)\<rparr>))
              (andThen (read_clock E) (\<lambda>now.
               case (case existing of Some a \<Rightarrow> if p_ready (n_heap s a) then Some a else None
                     | None \<Rightarrow> None) of
                 Some a \<Rightarrow> thenDo (refresh a now) (upd_peer a (take_hello_fields extra))
               | None \<Rightarrow>
                   (case dict_get (n_peers s) rhex of
                      Some a \<Rightarrow> hello_enter E rhex extra a False (bdec ep)
                    | None \<Rightarrow>
                        andThen (hello_new_peer E rhex extra (bdec ep) now) (\<lambda>made.
                        case made of
                          None \<Rightarrow> ret ()
                        | Some (a, reply, ep_str) \<Rightarrow> hello_enter E rhex extra a reply ep_str))))))"

subsection \<open>The dispatcher\<close>

definition first_frame :: "bytes list \<Rightarrow> bytes" where
  "first_frame frames = (case frames of [] \<Rightarrow> [] | f # _ \<Rightarrow> f)"

definition on_join :: "env \<Rightarrow> pystr \<Rightarrow> nat \<Rightarrow> bytes \<Rightarrow> unit nprog" where
  "on_join E rhex a g =
     thenDo (upd_peer a (\<lambda>p. p\<lparr>p_groups := insert_last g (p_groups p)\<rparr>))
     (thenDo (andThen (require_group g) (\<lambda>_. group_join g a))
     (andThen (deref a) (\<lambda>p.
      thenDo (emit (EvJoin rhex (pname p) (bdec g)))
        (start_election E g))))"

definition on_leave :: "env \<Rightarrow> pystr \<Rightarrow> nat \<Rightarrow> bytes \<Rightarrow> unit nprog" where
  "on_leave E rhex a g =
     thenDo (upd_peer a (\<lambda>p. p\<lparr>p_groups := removeAll g (p_groups p)\<rparr>))
     (thenDo (group_leave g a)
     (andThen (deref a) (\<lambda>p.
      thenDo (emit (EvLeave rhex (pname p) (bdec g)))
        (restart_election_if_needed E g))))"

definition dispatch_command ::
  "env \<Rightarrow> pystr \<Rightarrow> nat \<Rightarrow> nat \<Rightarrow> fields \<Rightarrow> bytes list \<Rightarrow> real \<Rightarrow> unit nprog" where
  "dispatch_command E rhex a cmd extra extra_frames now =
    (if cmd = WHISPER then
       andThen (deref a) (\<lambda>p. emit (EvWhisper rhex (pname p) (first_frame extra_frames)))
     else if cmd = SHOUT then
       (let g = (case f_group extra of Some g \<Rightarrow> g | None \<Rightarrow> [])
        in andThen (deref a) (\<lambda>p. emit (EvShout rhex (pname p) (bdec g) (first_frame extra_frames))))
     else if cmd = JOIN then
       (case f_group extra of None \<Rightarrow> ret () | Some g \<Rightarrow> if g = [] then ret () else on_join E rhex a g)
     else if cmd = LEAVE then
       (case f_group extra of None \<Rightarrow> ret () | Some g \<Rightarrow> if g = [] then ret () else on_leave E rhex a g)
     else if cmd = ELECT then
       (case (f_group extra, f_challenger extra) of
          (Some g, Some challenger) \<Rightarrow> handle_elect E a g challenger | _ \<Rightarrow> ret ())
     else if cmd = LEADER then
       (case (f_group extra, f_leader extra) of
          (Some g, Some leader) \<Rightarrow> handle_leader E a g leader | _ \<Rightarrow> ret ())
     else if cmd = GOODBYE then remove_peer E a
     else if cmd = PING then andThen (send_cmd E a PING_OK None None []) (\<lambda>_. ret ())
     else if cmd = PING_OK then refresh a now
     else ret ())"

text \<open>The check of the sequence number: a mismatch is only logged, and the count restarts from it.\<close>

definition track_seq :: "nat \<Rightarrow> nat \<Rightarrow> nat \<Rightarrow> bool nprog" where
  "track_seq a cmd q =
     andThen (check_seq a cmd (int q)) (\<lambda>mismatch.
     thenDo (only_if mismatch (upd_peer a (\<lambda>p. p\<lparr>p_want_seq := int q\<rparr>))) (ret mismatch))"

definition handle_peer_msg :: "env \<Rightarrow> bytes list \<Rightarrow> unit nprog" where
  "handle_peer_msg E frames =
    (case frames of
       routing_id # data # extra_frames \<Rightarrow>
         if length routing_id \<noteq> 17 \<or> hd routing_id \<noteq> 1 then ret ()
         else
           (let rhex = bytes_hex (tl routing_id)
            in case decode data of
                 None \<Rightarrow> ret ()
               | Some (cmd, _, q, extra) \<Rightarrow>
                   andThen (read_clock E) (\<lambda>now.
                   andThen (gets (\<lambda>s. dict_get (n_peers s) rhex)) (\<lambda>found.
                   if cmd = HELLO then
                     thenDo (case found of
                               Some a \<Rightarrow> upd_peer a (\<lambda>p. p\<lparr>p_want_seq := 1\<rparr>) | None \<Rightarrow> ret ())
                       (handle_hello E rhex extra found)
                   else
                     (case found of
                        None \<Rightarrow> ret ()
                      | Some a \<Rightarrow>
                          andThen (deref a) (\<lambda>p.
                          if \<not> p_ready p then ret ()
                          else
                            thenDo (only_if (cmd \<in> {WHISPER, SHOUT, JOIN, LEAVE, ELECT, LEADER})
                              (modify (\<lambda>s. s\<lparr>n_evasive_emit_at :=
                                 dict_pop rhex (n_evasive_emit_at s)\<rparr>)))
                            (thenDo (andThen (track_seq a cmd q) (\<lambda>_. ret ()))
                            (thenDo (refresh a now)
                              (dispatch_command E rhex a cmd extra extra_frames now))))))))
     | _ \<Rightarrow> ret ())"

subsection \<open>Commands of the application\<close>

definition send_to_all :: "env \<Rightarrow> nat \<Rightarrow> bytes \<Rightarrow> int \<Rightarrow> unit nprog" where
  "send_to_all E cmd g status =
     andThen (gets (\<lambda>s. map snd (n_peers s))) (\<lambda>peers.
     for_each (\<lambda>a. andThen (send_cmd E a cmd (Some g) (Some status) []) (\<lambda>_. ret ())) peers)"

definition join_group :: "env \<Rightarrow> bytes \<Rightarrow> unit nprog" where
  "join_group E g =
     andThen (gets n_own_groups) (\<lambda>own.
     if g \<in> set own then ret ()
     else
       thenDo (modify (\<lambda>s. s\<lparr>n_own_groups := n_own_groups s @ [g], n_status := n_status s + 1\<rparr>))
       (andThen (require_group g) (\<lambda>_.
        andThen (gets n_status) (\<lambda>status. send_to_all E JOIN g (uint status)))))"

definition leave_group :: "env \<Rightarrow> bytes \<Rightarrow> unit nprog" where
  "leave_group E g =
     andThen (gets n_own_groups) (\<lambda>own.
     if g \<notin> set own then ret ()
     else
       thenDo (modify (\<lambda>s. s\<lparr>n_own_groups := remove1 g (n_own_groups s), n_status := n_status s + 1\<rparr>))
       (andThen (gets n_status) (\<lambda>status. send_to_all E LEAVE g (uint status))))"

definition do_whisper :: "env \<Rightarrow> bytes \<Rightarrow> bytes \<Rightarrow> unit nprog" where
  "do_whisper E peer_hex payload =
     andThen (lift_exn (utf8_decode peer_hex)) (\<lambda>peer_id.
     andThen (gets id) (\<lambda>s.
     case dict_get (n_peers s) peer_id of
       None \<Rightarrow> ret ()
     | Some a \<Rightarrow> only_if (p_connected (n_heap s a))
         (andThen (send_cmd E a WHISPER None None [payload]) (\<lambda>_. ret ()))))"

definition do_shout :: "env \<Rightarrow> bytes \<Rightarrow> bytes \<Rightarrow> unit nprog" where
  "do_shout E g payload =
     andThen (get_group g) (\<lambda>found.
     case found of
       None \<Rightarrow> ret ()
     | Some G \<Rightarrow> group_send E G (\<lambda>q. encode_simple SHOUT q (Some g) None) [payload])"

end
