(* ===== verification/Zre_Gossip_Client.thy ===== *)
theory Zre_Gossip_Client
  imports Zre_Messages
begin

section \<open>Gossip discovery: the client side\<close>

text \<open>
  The gossip methods of \<open>ZreNode\<close>: announcing our tuples to a hub, dialling the endpoints that a
  hub announces, keeping the links alive, and the hub a node may host itself. A hub hosted by the
  node runs on the node's own context and history (\<open>run_hub\<close>).
\<close>

definition upd_gossip :: "(gossip_client \<Rightarrow> gossip_client) \<Rightarrow> unit nprog" where
  "upd_gossip f = modify (\<lambda>s. s\<lparr>n_gossip := f (n_gossip s)\<rparr>)"

definition run_hub :: "hub \<Rightarrow> (hub_state, 'a) prog \<Rightarrow> 'a nprog" where
  "run_hub h m = (\<lambda>s.
     case m \<lparr>w_hist = w_hist s, w_next_sock = w_next_sock s, w_socks = w_socks s, hs = h\<rparr> of
       (r, t) \<Rightarrow> (r, s\<lparr>w_hist := w_hist t, w_next_sock := w_next_sock t, w_socks := w_socks t,
                      n_gossip := (n_gossip s)\<lparr>gc_hub := Some (hs t)\<rparr>\<rparr>))"

definition gossip_unpublish :: "pyval \<Rightarrow> unit nprog" where
  "gossip_unpublish node_uuid =
     andThen (lift_exn (to_bytes node_uuid)) (\<lambda>raw.
     thenDo (upd_gossip (\<lambda>g. g\<lparr>gc_tuples := dict_pop raw (gc_tuples g)\<rparr>))
     (andThen (gets (\<lambda>s. gc_hub (n_gossip s))) (\<lambda>hub.
      case hub of None \<Rightarrow> ret () | Some h \<Rightarrow> run_hub h (hub_unpublish (PyBytes raw)))))"

subsection \<open>The announced endpoint\<close>

definition wildcard_host :: "pystr \<Rightarrow> bool" where
  "wildcard_host host \<longleftrightarrow> host = lit ''0.0.0.0'' \<or> host = lit ''*'' \<or> host = []"

fun gossip_probe_target :: "pyrt \<Rightarrow> pystr list \<Rightarrow> exn + (pystr \<times> int)" where
  "gossip_probe_target R [] = Inr (lit ''8.8.8.8'', 80)"
| "gossip_probe_target R (target # targets) =
     obind (split_hub_endpoint R target) (\<lambda>(host, port).
     if \<not> wildcard_host host then Inr (host, port) else gossip_probe_target R targets)"

text \<open>The local address towards a hub; a loopback address is not announced.\<close>

definition probe_address :: "env \<Rightarrow> node \<Rightarrow> pystr \<Rightarrow> int \<Rightarrow> exn + pystr" where
  "probe_address E s hub_host hub_port =
     obind (if wildcard_host hub_host
            then gossip_probe_target (e_rt E) (c_gossip_connects (n_cfg s))
            else Inr (hub_host, hub_port)) (\<lambda>(host, port).
     case e_local_addr E (w_hist s) host port of
       None \<Rightarrow> Inr []
     | Some ip \<Rightarrow> if starts_with (lit ''127.'') ip then Inr [] else Inr ip)"

definition gossip_base :: "env \<Rightarrow> node \<Rightarrow> pystr \<Rightarrow> int \<Rightarrow> exn + pyval" where
  "gossip_base E s hub_host hub_port =
    (if c_advertised_endpoint (n_cfg s) \<notin> {None, Some []}
     then Inr (PyBytes (the (c_advertised_endpoint (n_cfg s))))
     else
       obind (resolve_interface_ip E (n_cfg s) None) (\<lambda>local_ip.
       obind (if local_ip = [] then probe_address E s hub_host hub_port else Inr local_ip)
         (\<lambda>local_ip.
          Inr (PyStr (tcp_address (if local_ip = [] then lit ''127.0.0.1'' else local_ip)
            (n_inbox_port s))))))"

text \<open>An f-string renders a \<open>bytes\<close> value as its \<open>repr\<close>.\<close>

definition format_pyval :: "pyval \<Rightarrow> pystr" where
  "format_pyval v = (case v of PyStr s \<Rightarrow> s | PyBytes b \<Rightarrow> bytes_repr b)"

definition gossip_publish_endpoint :: "env \<Rightarrow> node \<Rightarrow> pystr \<Rightarrow> int \<Rightarrow> exn + pyval" where
  "gossip_publish_endpoint E s hub_host hub_port =
     obind (gossip_base E s hub_host hub_port) (\<lambda>base.
     case c_curve_public (n_cfg s) of
       None \<Rightarrow> Inr base
     | Some key \<Rightarrow>
         obind (utf8_decode (e_z85_encode E key)) (\<lambda>k.
         Inr (PyStr (format_pyval base @ lit ''|'' @ k))))"

subsection \<open>Peers learned from gossip\<close>

definition gossip_require :: "env \<Rightarrow> pystr \<Rightarrow> pystr \<Rightarrow> real \<Rightarrow> unit nprog" where
  "gossip_require E uuid endpoint now =
    (let uuid_hex = str_lower (e_rt E) uuid
     in andThen (gets id) (\<lambda>s.
        if \<not> n_running s then ret ()
        else if uuid_hex = c_peer_id_hex (n_cfg s) then ret ()
        else
          andThen
            (case split_once (lit ''|'') endpoint of
               None \<Rightarrow> ret endpoint
             | Some (before, advertised_key) \<Rightarrow>
                 thenDo (learn_advertised_key E uuid_hex (PyStr advertised_key)) (ret before))
            (\<lambda>endpoint.
             case split_endpoint (e_rt E) endpoint of
               Inl e \<Rightarrow> if is_value_error e then ret () else throw e
             | Inr (addr, port) \<Rightarrow>
                 (case dict_get (n_peers s) uuid_hex of
                    Some a \<Rightarrow> refresh a now
                  | None \<Rightarrow>
                      andThen (connect_known E uuid_hex addr port now) (\<lambda>made.
                      case made of
                        None \<Rightarrow> ret ()
                      | Some (a, _) \<Rightarrow> send_hello E a)))))"

subsection \<open>Hub links\<close>

text \<open>\<open>sock.send(body, zmq.NOBLOCK)\<close>, which raises when the message cannot be queued.\<close>

definition zmq_send :: "env \<Rightarrow> nat \<Rightarrow> bytes \<Rightarrow> unit nprog" where
  "zmq_send E h body =
     andThen (send_multipart E h [body]) (\<lambda>r. if r = SendOk then ret () else throw ZMQError)"

definition is_zmq_error :: "exn \<Rightarrow> bool" where
  "is_zmq_error e \<longleftrightarrow> e = ZMQError"

definition gossip_announce :: "env \<Rightarrow> nat \<Rightarrow> unit nprog" where
  "gossip_announce E sock =
     catch is_zmq_error
       (thenDo (andThen (lift_exn (zgs_encode ZGS_HELLO None None 0)) (zmq_send E sock))
         (andThen (gets (\<lambda>s. gc_tuples (n_gossip s))) (\<lambda>tuples.
          for_each (\<lambda>(key, v, ttl).
            andThen (lift_exn (zgs_encode ZGS_PUBLISH (Some (PyBytes key)) (Some v) ttl))
              (zmq_send E sock)) tuples)))
       (\<lambda>_. ret ())"

definition gossip_client_message :: "env \<Rightarrow> nat \<Rightarrow> bytes \<Rightarrow> unit nprog" where
  "gossip_client_message E sock body =
     andThen (read_clock E) (\<lambda>now.
     thenDo (upd_gossip (\<lambda>g. g\<lparr>gc_last_rx := dict_set sock now (gc_last_rx g)\<rparr>))
     (andThen (lift_exn (zgs_decode body)) (\<lambda>message.
      case message of
        None \<Rightarrow> ret ()
      | Some m \<Rightarrow>
          if z_command m = ZGS_PUBLISH then
            (case (z_key m, z_value m, z_ttl m) of
               (Some key, Some v, Some ttl) \<Rightarrow>
                 andThen (gets (\<lambda>s. dict_get (gc_tuples (n_gossip s)) key)) (\<lambda>stored.
                 if (case stored of None \<Rightarrow> True | Some (w, _) \<Rightarrow> w \<noteq> PyBytes v) then
                   thenDo (upd_gossip (\<lambda>g. g\<lparr>gc_tuples :=
                             dict_set key (PyBytes v, int ttl) (gc_tuples g)\<rparr>))
                     (gossip_require E (bdec key) (bdec v) now)
                 else ret ())
             | _ \<Rightarrow> throw KeyError)
          else if z_command m = ZGS_INVALID then gossip_announce E sock
          else ret ())))"

definition handle_gossip_client :: "env \<Rightarrow> nat \<Rightarrow> bytes list \<Rightarrow> unit nprog" where
  "handle_gossip_client E sock bodies = for_each (gossip_client_message E sock) bodies"

text \<open>A DEALER to a hub: the socket, its options and the connection.\<close>

definition open_hub_link :: "env \<Rightarrow> pystr \<Rightarrow> nat nprog" where
  "open_hub_link E target =
     andThen (new_socket DEALER) (\<lambda>sock.
     thenDo (for_each (set_opt sock) [OptSndHwm 1000, OptLinger 0])
     (andThen (connect_socket E sock target) (\<lambda>ok.
      if ok then ret sock else throw ZMQError)))"

definition register_hub_link :: "env \<Rightarrow> nat \<Rightarrow> pystr \<times> int \<Rightarrow> unit nprog" where
  "register_hub_link E sock target =
     thenDo (upd_gossip (\<lambda>g. g\<lparr>gc_socks := gc_socks g @ [sock],
               gc_targets := dict_set sock target (gc_targets g)\<rparr>))
     (andThen (read_clock E) (\<lambda>now.
      upd_gossip (\<lambda>g. g\<lparr>gc_last_rx := dict_set sock now (gc_last_rx g)\<rparr>)))"

definition gossip_redial :: "env \<Rightarrow> nat \<Rightarrow> unit nprog" where
  "gossip_redial E sock =
     andThen (gets (\<lambda>s. dict_get (gc_targets (n_gossip s)) sock)) (\<lambda>target.
     case target of
       None \<Rightarrow> ret ()
     | Some (host, port) \<Rightarrow>
         thenDo (close_socket sock)
         (thenDo (upd_gossip (\<lambda>g. g\<lparr>gc_socks := remove1 sock (gc_socks g),
                    gc_last_rx := dict_pop sock (gc_last_rx g)\<rparr>))
         (andThen (open_hub_link E (lit ''tcp://'' @ host_port host port)) (\<lambda>fresh.
          thenDo (register_hub_link E fresh (host, port))
            (gossip_announce E fresh)))))"

definition gossip_maintain :: "env \<Rightarrow> real \<Rightarrow> unit nprog" where
  "gossip_maintain E now =
     andThen (gets n_gossip) (\<lambda>g.
     if gc_socks g = [] then ret ()
     else
       thenDo
         (only_if (gc_next_ping g \<le> now)
           (thenDo (upd_gossip (\<lambda>g. g\<lparr>gc_next_ping := now + 1\<rparr>))
             (for_each (\<lambda>sock. suppress is_zmq_error
                (andThen (lift_exn (zgs_encode ZGS_PING None None 0)) (zmq_send E sock)))
                (gc_socks g))))
         (andThen (gets (\<lambda>s. gc_socks (n_gossip s))) (\<lambda>socks.
          for_each (\<lambda>sock.
            andThen (gets (\<lambda>s. dict_get (gc_last_rx (n_gossip s)) sock)) (\<lambda>seen.
            only_if (5 < now - (case seen of None \<Rightarrow> now | Some t \<Rightarrow> t)) (gossip_redial E sock)))
            socks)))"

definition gossip_shutdown :: "unit nprog" where
  "gossip_shutdown =
     andThen (gets (\<lambda>s. gc_socks (n_gossip s))) (\<lambda>socks.
     thenDo (for_each (\<lambda>sock. thenDo (close_socket sock)
               (upd_gossip (\<lambda>g. g\<lparr>gc_socks := remove1 sock (gc_socks g)\<rparr>))) socks)
     (thenDo (upd_gossip (\<lambda>g. g\<lparr>gc_targets := [], gc_last_rx := [], gc_next_ping := 0\<rparr>))
     (thenDo (andThen (gets (\<lambda>s. gc_hub (n_gossip s))) (\<lambda>hub.
              case hub of
                None \<Rightarrow> ret ()
              | Some h \<Rightarrow> thenDo (run_hub h hub_close) (upd_gossip (\<lambda>g. g\<lparr>gc_hub := None\<rparr>))))
       (upd_gossip (\<lambda>g. g\<lparr>gc_tuples := []\<rparr>)))))"

end
