(* ===== verification/Zre_Node.thy ===== *)
theory Zre_Node
  imports Zre_Gossip_Client
begin

section \<open>The node: start, run loop, reaping, stop\<close>

text \<open>
  The life cycle of a \<open>ZreNode\<close>. One iteration of the run loop takes the sockets that the poller
  reports ready, each with what can be read from it, as an argument; a run takes the list of these
  polls. The handlers do not suspend, so an iteration is one sequential program.
\<close>

subsection \<open>Reaping\<close>

definition probe_quiet_peer :: "env \<Rightarrow> nat \<Rightarrow> real \<Rightarrow> unit nprog" where
  "probe_quiet_peer E a now =
     andThen (deref a) (\<lambda>p.
     andThen (gets id) (\<lambda>s.
     let last = (case dict_get (n_evasive_emit_at s) (p_uuid_hex p) of None \<Rightarrow> 0 | Some t \<Rightarrow> t)
     in thenDo
          (only_if (c_evasive_emit_interval (n_cfg s) \<le> now - last)
            (thenDo (modify (\<lambda>s. s\<lparr>n_evasive_emit_at :=
                       dict_set (p_uuid_hex p) now (n_evasive_emit_at s)\<rparr>))
              (emit (EvEvasive (p_uuid_hex p) (pname p)))))
        (thenDo (andThen (send_cmd E a PING None None []) (\<lambda>_. ret ()))
          (upd_peer a (\<lambda>p. p\<lparr>p_evasive_at := now + of_int (c_ev_timeout (n_cfg s)) / 1000\<rparr>)))))"

definition reap_peer :: "env \<Rightarrow> real \<Rightarrow> nat \<Rightarrow> unit nprog" where
  "reap_peer E now a =
     andThen (deref a) (\<lambda>p.
     if p_expired_at p \<noteq> 0 \<and> p_expired_at p < now then remove_peer E a
     else if p_evasive_at p \<noteq> 0 \<and> p_evasive_at p < now then probe_quiet_peer E a now
     else ret ())"

definition reap_pending :: "real \<Rightarrow> pystr \<times> nat \<Rightarrow> unit nprog" where
  "reap_pending now item =
    (case item of (key, a) \<Rightarrow>
       andThen (deref a) (\<lambda>p.
       only_if (p_expired_at p \<noteq> 0 \<and> p_expired_at p < now)
         (thenDo (peer_disconnect a)
           (modify (\<lambda>s. s\<lparr>n_pending := dict_pop key (n_pending s)\<rparr>)))))"

definition reap :: "env \<Rightarrow> real \<Rightarrow> unit nprog" where
  "reap E now =
     thenDo (gossip_maintain E now)
     (thenDo (andThen (gets n_pending) (\<lambda>items. for_each (reap_pending now) items))
     (thenDo (maintain_elections E now)
       (andThen (gets (\<lambda>s. map snd (n_peers s))) (\<lambda>peers. for_each (reap_peer E now) peers))))"

subsection \<open>The run loop\<close>

definition api_step :: "env \<Rightarrow> api_command \<Rightarrow> unit nprog" where
  "api_step E cmd =
    (case cmd of
       CmdJoin g \<Rightarrow> join_group E g
     | CmdLeave g \<Rightarrow> leave_group E g
     | CmdWhisper peer payload \<Rightarrow> do_whisper E peer payload
     | CmdShout g payload \<Rightarrow> do_shout E g payload
     | CmdConnect host port \<Rightarrow> do_connect E host port)"

text \<open>The inner loop on the command queue. No command adds to the queue.\<close>

definition drain_api :: "env \<Rightarrow> unit nprog" where
  "drain_api E =
     andThen (gets n_api) (\<lambda>cmds.
     for_each (\<lambda>cmd. thenDo (modify (\<lambda>s. s\<lparr>n_api := tl (n_api s)\<rparr>)) (api_step E cmd)) cmds)"

text \<open>A ready socket and what reading it gives; \<open>None\<close> is \<open>Again\<close>, \<open>BlockingIOError\<close> or \<open>OSError\<close>.\<close>

datatype ready =
    InboxReady "bytes list option"
  | BeaconReady "(bytes \<times> pystr) option"
  | HubReady "bytes list list"
  | GossipReady nat "bytes list"

definition serve_hub :: "env \<Rightarrow> real \<Rightarrow> bytes list list \<Rightarrow> unit nprog" where
  "serve_hub E now inbound =
     andThen (gets (\<lambda>s. gc_hub (n_gossip s))) (\<lambda>hub.
     case hub of
       None \<Rightarrow> ret ()
     | Some h \<Rightarrow>
         andThen (run_hub h (hub_handle_socket E inbound)) (\<lambda>accepted.
         for_each (\<lambda>(key, v). gossip_require E (bdec key) (bdec v) now) accepted))"

text \<open>\<open>recvfrom(BEACON_SIZE_V3)\<close> cuts a longer datagram.\<close>

definition serve_socket :: "env \<Rightarrow> real \<Rightarrow> ready \<Rightarrow> unit nprog" where
  "serve_socket E now r =
    (case r of
       InboxReady None \<Rightarrow> ret ()
     | InboxReady (Some frames) \<Rightarrow> handle_peer_msg E frames
     | BeaconReady None \<Rightarrow> ret ()
     | BeaconReady (Some (data, ip)) \<Rightarrow> handle_beacon E (take BEACON_SIZE_V3 data) ip
     | HubReady inbound \<Rightarrow> serve_hub E now inbound
     | GossipReady sock bodies \<Rightarrow>
         andThen (gets (\<lambda>s. gc_socks (n_gossip s))) (\<lambda>socks.
         only_if (sock \<in> set socks) (handle_gossip_client E sock bodies)))"

definition REAP_INTERVAL_MS :: nat where
  "REAP_INTERVAL_MS = 1000"

definition REAP_INTERVAL :: real where
  "REAP_INTERVAL = real REAP_INTERVAL_MS / 1000"

definition run_iteration :: "env \<Rightarrow> ready list \<Rightarrow> real \<Rightarrow> real nprog" where
  "run_iteration E ready last_reap =
     andThen (read_clock E) (\<lambda>now.
     thenDo (drain_api E)
     (thenDo
       (andThen (gets id) (\<lambda>s.
        only_if (c_beacon_interval (n_cfg s) \<le> now - n_last_beacon s)
          (thenDo (send_beacon E None) (modify (\<lambda>s. s\<lparr>n_last_beacon := now\<rparr>)))))
     (thenDo (andThen (read_clock E) (\<lambda>_. ret ()))
     (thenDo (for_each (serve_socket E now) ready)
       (if REAP_INTERVAL \<le> now - last_reap then thenDo (reap E now) (ret now)
        else ret last_reap)))))"

definition close_send_sock :: "unit nprog" where
  "close_send_sock =
     thenDo (andThen (gets n_send_sock) (\<lambda>old. case old of None \<Rightarrow> ret () | Some h \<Rightarrow> close_udp h))
       (modify (\<lambda>s. s\<lparr>n_send_sock := None\<rparr>))"

text \<open>After the loop: the EXIT beacon and the gossip sockets.\<close>

definition leave_loop :: "env \<Rightarrow> unit nprog" where
  "leave_loop E =
     thenDo (suppress any_exception (send_beacon E (Some 0)))
     (thenDo (suppress any_exception gossip_shutdown)
       (suppress any_exception close_send_sock))"

fun run_loop :: "env \<Rightarrow> ready list list \<Rightarrow> real \<Rightarrow> unit nprog" where
  "run_loop E polls last_reap = (\<lambda>s.
     if \<not> n_running s then leave_loop E s
     else (case polls of
             [] \<Rightarrow> (Inr (), s)
           | ready # polls \<Rightarrow>
               andThen (run_iteration E ready last_reap) (\<lambda>last_reap. run_loop E polls last_reap) s))"

declare run_loop.simps [simp del]

definition disconnect_all :: "nat list \<Rightarrow> unit nprog" where
  "disconnect_all peers = for_each peer_disconnect peers"

definition close_opt :: "nat option \<Rightarrow> unit nprog" where
  "close_opt sock = (case sock of None \<Rightarrow> ret () | Some h \<Rightarrow> close_socket h)"

definition close_udp_opt :: "nat option \<Rightarrow> unit nprog" where
  "close_udp_opt sock = (case sock of None \<Rightarrow> ret () | Some h \<Rightarrow> close_udp h)"

definition is_collision :: "exn \<Rightarrow> bool" where
  "is_collision e = (case e of UUIDCollisionError _ \<Rightarrow> True | _ \<Rightarrow> False)"

definition on_collision :: "exn \<Rightarrow> unit nprog" where
  "on_collision e =
     thenDo (modify (\<lambda>s. s\<lparr>n_running := False\<rparr>))
     (thenDo (emit (EvCollision (case e of UUIDCollisionError d \<Rightarrow> d | _ \<Rightarrow> [])))
     (andThen (gets (\<lambda>s. map snd (n_peers s))) (\<lambda>peers.
      thenDo (suppress any_exception (disconnect_all peers))
      (thenDo (modify (\<lambda>s. s\<lparr>n_peers := []\<rparr>))
      (andThen (gets id) (\<lambda>s.
       thenDo (close_opt (n_inbox s))
       (thenDo (close_udp_opt (n_beacon_sock s))
       (thenDo (close_udp_opt (n_send_sock s))
       (thenDo (modify (\<lambda>s. s\<lparr>n_beacon_sock := None, n_send_sock := None\<rparr>))
         (throw e))))))))))"

definition run :: "env \<Rightarrow> ready list list \<Rightarrow> unit nprog" where
  "run E polls =
     andThen (read_clock E) (\<lambda>last_reap. catch is_collision (run_loop E polls last_reap) on_collision)"

subsection \<open>Start\<close>

definition last_endpoint_port :: "env \<Rightarrow> pystr \<Rightarrow> exn + int" where
  "last_endpoint_port E ep =
    (if 58 \<in> set ep then py_int (e_rt E) (snd (rpartition_at 58 ep)) else Inl IndexError)"

definition start_inbox :: "env \<Rightarrow> unit nprog" where
  "start_inbox E =
     andThen (gets n_cfg) (\<lambda>c.
     let bind_addr = (case c_fixed_port c of
           Some port \<Rightarrow> if port \<noteq> 0 then lit ''tcp://*:'' @ show_int port else lit ''tcp://*:*''
         | None \<Rightarrow> lit ''tcp://*:*'')
     in andThen (new_socket ROUTER) (\<lambda>h.
        thenDo (modify (\<lambda>s. s\<lparr>n_inbox := Some h\<rparr>))
        (thenDo (for_each (set_opt h) [OptRouterMandatory, OptRouterHandover, OptLinger 0])
        (thenDo (only_if (c_ipv6 c) (set_opt h OptIpv6))
        (thenDo
          (case (c_curve_secret c, c_curve_public c) of
             (Some secret, Some public) \<Rightarrow>
               thenDo (modify (\<lambda>s. s\<lparr>n_beacon_version := BEACON_VERSION_V3\<rparr>))
                 (for_each (set_opt h) [OptCurvePublic public, OptCurveSecret secret,
                    OptCurveServer, OptZapDomain (c_zap_domain c)])
           | _ \<Rightarrow> ret ())
        (andThen (bind_socket E h bind_addr) (\<lambda>bound.
         case bound of
           None \<Rightarrow> throw ZMQError
         | Some ep \<Rightarrow>
             andThen (lift_exn (last_endpoint_port E ep)) (\<lambda>port.
             modify (\<lambda>s. s\<lparr>n_inbox_port := port\<rparr>)))))))))"

definition publish_own_tuple :: "env \<Rightarrow> bytes \<Rightarrow> pystr \<Rightarrow> int \<Rightarrow> unit nprog" where
  "publish_own_tuple E own_key host port =
     andThen (gets id) (\<lambda>s.
     andThen (lift_exn (gossip_publish_endpoint E s host port)) (\<lambda>endpoint.
     upd_gossip (\<lambda>g. g\<lparr>gc_tuples := dict_set own_key (endpoint, 0) (gc_tuples g)\<rparr>)))"

definition start_hub :: "env \<Rightarrow> bytes \<Rightarrow> pystr \<Rightarrow> unit nprog" where
  "start_hub E own_key bind_endpoint =
     andThen (lift_exn (split_hub_endpoint (e_rt E) bind_endpoint)) (\<lambda>(hub_host, hub_port).
     thenDo (run_hub new_hub (andThen (hub_bind E bind_endpoint) (\<lambda>_. ret ())))
     (thenDo (publish_own_tuple E own_key hub_host hub_port)
     (andThen (gets n_gossip) (\<lambda>g.
      case (gc_hub g, dict_get (gc_tuples g) own_key) of
        (Some h, Some (v, ttl)) \<Rightarrow> run_hub h (hub_publish E (PyBytes own_key) v ttl)
      | _ \<Rightarrow> throw KeyError))))"

definition start_hub_link :: "env \<Rightarrow> bytes \<Rightarrow> pystr \<Rightarrow> unit nprog" where
  "start_hub_link E own_key target =
     andThen (lift_exn (split_hub_endpoint (e_rt E) target)) (\<lambda>(host, port).
     andThen (open_hub_link E target) (\<lambda>sock.
     thenDo (register_hub_link E sock (host, port))
     (thenDo
       (andThen (gets (\<lambda>s. dict_get (gc_tuples (n_gossip s)) own_key)) (\<lambda>own.
        only_if (own = None) (publish_own_tuple E own_key host port)))
       (gossip_announce E sock))))"

definition start_gossip :: "env \<Rightarrow> unit nprog" where
  "start_gossip E =
     thenDo (modify (\<lambda>s. s\<lparr>n_beacon_sock := None, n_beacon_msg := None\<rparr>))
     (andThen (gets n_cfg) (\<lambda>c.
      andThen (lift_exn (utf8_encode (c_peer_id_hex c))) (\<lambda>own_key.
      thenDo (case c_gossip_bind c of None \<Rightarrow> ret () | Some b \<Rightarrow> start_hub E own_key b)
        (for_each (start_hub_link E own_key) (c_gossip_connects c)))))"

definition start_beacon :: "env \<Rightarrow> unit nprog" where
  "start_beacon E =
     andThen new_udp (\<lambda>h.
     thenDo (modify (\<lambda>s. s\<lparr>n_beacon_sock := Some h\<rparr>))
     (thenDo (for_each (set_opt h) [OptReuseAddr, OptReusePort, OptBroadcast])
     (andThen (gets (\<lambda>s. c_beacon_port (n_cfg s))) (\<lambda>port.
      andThen (udp_bind E h [] port) (\<lambda>ok.
      if \<not> ok then throw OSError
      else
        andThen (gets id) (\<lambda>s.
        andThen (lift_exn (build_beacon s (n_inbox_port s))) (\<lambda>msg.
        modify (\<lambda>s. s\<lparr>n_beacon_msg := Some msg\<rparr>))))))))"

definition start :: "env \<Rightarrow> unit nprog" where
  "start E =
     thenDo (start_inbox E)
     (andThen (gets n_cfg) (\<lambda>c.
      thenDo (if gossip_active c then start_gossip E else start_beacon E)
      (thenDo (modify (\<lambda>s. s\<lparr>n_running := True\<rparr>))
        (send_beacon E None))))"

subsection \<open>Stop\<close>

definition say_goodbye :: "env \<Rightarrow> unit nprog" where
  "say_goodbye E =
     thenDo (suppress any_exception (send_beacon E (Some 0)))
     (thenDo
       (andThen (gets n_cfg) (\<lambda>c.
        only_if (gossip_active c)
          (thenDo (suppress any_exception gossip_shutdown)
            (andThen (gets (\<lambda>s. map snd (n_peers s))) (\<lambda>peers.
             for_each (\<lambda>a. suppress any_exception
               (andThen (send_cmd E a GOODBYE None None []) (\<lambda>_. ret ()))) peers)))))
       (andThen (gets n_own_groups) (\<lambda>groups.
        for_each (\<lambda>g. suppress any_exception (leave_group E g)) groups)))"

text \<open>\<open>ctx.destroy(linger=0)\<close> closes what is still open.\<close>

definition destroy_context :: "unit nprog" where
  "destroy_context =
     andThen (gets w_socks) (\<lambda>socks. for_each close_socket socks)"

definition stop :: "env \<Rightarrow> unit nprog" where
  "stop E =
     andThen (gets n_running) (\<lambda>was_running.
     thenDo (modify (\<lambda>s. s\<lparr>n_running := False\<rparr>))
     (thenDo (only_if was_running (say_goodbye E))
     (thenDo (andThen (gets (\<lambda>s. map snd (n_peers s))) disconnect_all)
     (thenDo (modify (\<lambda>s. s\<lparr>n_peers := []\<rparr>))
     (thenDo (andThen (gets (\<lambda>s. map snd (n_pending s))) disconnect_all)
     (thenDo (modify (\<lambda>s. s\<lparr>n_pending := []\<rparr>))
     (thenDo (andThen (gets n_beacon_sock) close_udp_opt)
     (thenDo (modify (\<lambda>s. s\<lparr>n_beacon_sock := None\<rparr>))
     (thenDo close_send_sock
     (thenDo (andThen (gets n_inbox) close_opt)
       destroy_context))))))))))"

end
