(* ===== verification/Zre_Api.thy ===== *)
theory Zre_Api
  imports Zre_Node
begin

section \<open>Configuration and the application's interface\<close>

text \<open>
  The constructor, the \<open>set_*\<close> methods with their guard \<open>_ensure_not_running\<close>, the methods that
  queue a command for the run loop, and the queries.
\<close>

subsection \<open>A new node\<close>

definition BEACON_PORT :: int where "BEACON_PORT = 5670"
definition DEFAULT_EV_MS :: int where "DEFAULT_EV_MS = 5000"
definition DEFAULT_EX_MS :: int where "DEFAULT_EX_MS = 30000"

definition new_config :: "bytes \<Rightarrow> bytes \<Rightarrow> config" where
  "new_config name peer_id =
     \<lparr>c_name = name, c_peer_id = peer_id, c_peer_id_hex = bytes_hex peer_id, c_headers = [],
      c_ev_timeout = DEFAULT_EV_MS, c_ex_timeout = DEFAULT_EX_MS, c_evasive_emit_interval = 20,
      c_beacon_port = BEACON_PORT, c_beacon_interval = 1, c_interface = None, c_fixed_port = None,
      c_advertised_endpoint = None, c_curve_public = None, c_curve_secret = None,
      c_zap_domain = lit ''global'', c_ipv6 = False, c_gossip_bind = None,
      c_gossip_connects = [], c_verbose = False\<rparr>"

definition new_gossip_client :: gossip_client where
  "new_gossip_client = \<lparr>gc_hub = None, gc_socks = [], gc_tuples = [], gc_targets = [],
     gc_last_rx = [], gc_next_ping = 0\<rparr>"

definition new_node_state :: "config \<Rightarrow> node" where
  "new_node_state c =
     \<lparr>w_hist = [], w_next_sock = 0, w_socks = [], n_cfg = c, n_running = False,
      n_heap = (\<lambda>_. new_peer [] [] 0), n_next_addr = 0, n_peers = [], n_pending = [],
      n_groups = [], n_own_groups = [], n_contest_groups = [], n_status = 0,
      n_evasive_emit_at = [], n_peer_server_keys = [], n_events = [], n_api = [],
      n_inbox = None, n_inbox_port = 0, n_beacon_sock = None, n_beacon_msg = None,
      n_beacon_version = BEACON_VERSION_V1, n_last_beacon = 0, n_send_sock = None,
      n_send_targets = [], n_gossip = new_gossip_client\<rparr>"

text \<open>\<open>ZreNode(name)\<close>; the two arguments after the name are the two calls of \<open>uuid4()\<close>.\<close>

definition new_node :: "pyval option \<Rightarrow> bytes \<Rightarrow> bytes \<Rightarrow> exn + node" where
  "new_node name uuid_name uuid_id =
     obind (wire_string (case name of None \<Rightarrow> PyStr (take 6 (bytes_hex uuid_name)) | Some n \<Rightarrow> n))
       (\<lambda>n. Inr (new_node_state (new_config n uuid_id)))"

subsection \<open>Configuration\<close>

definition ensure_not_running :: "unit nprog" where
  "ensure_not_running =
     andThen (gets n_running) (\<lambda>running. if running then throw RuntimeError else ret ())"

definition upd_cfg :: "(config \<Rightarrow> config) \<Rightarrow> unit nprog" where
  "upd_cfg f = modify (\<lambda>s. s\<lparr>n_cfg := f (n_cfg s)\<rparr>)"

definition set_uuid :: "pyval \<Rightarrow> unit nprog" where
  "set_uuid v =
     thenDo ensure_not_running
     (andThen (lift_exn (case v of PyBytes b \<Rightarrow> Inr b | PyStr s \<Rightarrow> bytes_fromhex s)) (\<lambda>raw.
      if length raw \<noteq> 16 then throw ValueError
      else if raw = replicate 16 0 then throw ValueError
      else upd_cfg (\<lambda>c. c\<lparr>c_peer_id := raw, c_peer_id_hex := bytes_hex raw\<rparr>)))"

definition set_interface :: "pystr \<Rightarrow> unit nprog" where
  "set_interface iface =
     thenDo ensure_not_running (upd_cfg (\<lambda>c. c\<lparr>c_interface := Some iface\<rparr>))"

definition set_port :: "int \<Rightarrow> unit nprog" where
  "set_port port =
     thenDo ensure_not_running
       (if \<not> (1 \<le> port \<and> port \<le> 65535) then throw ValueError
        else upd_cfg (\<lambda>c. c\<lparr>c_beacon_port := port\<rparr>))"

definition set_interval :: "int \<Rightarrow> unit nprog" where
  "set_interval interval_ms =
     thenDo ensure_not_running
       (if interval_ms \<le> 0 then throw ValueError
        else upd_cfg (\<lambda>c. c\<lparr>c_beacon_interval := of_int interval_ms / 1000\<rparr>))"

definition set_evasive_timeout :: "int \<Rightarrow> unit nprog" where
  "set_evasive_timeout ms =
     thenDo ensure_not_running (upd_cfg (\<lambda>c. c\<lparr>c_ev_timeout := ms\<rparr>))"

definition set_silent_timeout :: "int \<Rightarrow> unit nprog" where
  "set_silent_timeout ms =
     thenDo ensure_not_running (upd_cfg (\<lambda>c. c\<lparr>c_ev_timeout := ms\<rparr>))"

definition set_expired_timeout :: "int \<Rightarrow> unit nprog" where
  "set_expired_timeout ms =
     thenDo ensure_not_running (upd_cfg (\<lambda>c. c\<lparr>c_ex_timeout := ms\<rparr>))"

definition set_beacon_peer_port :: "int \<Rightarrow> unit nprog" where
  "set_beacon_peer_port port =
     thenDo ensure_not_running
       (if \<not> (1 \<le> port \<and> port \<le> 65535) then throw ValueError
        else upd_cfg (\<lambda>c. c\<lparr>c_fixed_port := Some port\<rparr>))"

definition set_advertised_endpoint :: "env \<Rightarrow> pystr \<Rightarrow> unit nprog" where
  "set_advertised_endpoint E endpoint =
     thenDo ensure_not_running
       (if \<not> starts_with (lit ''tcp://'') endpoint then throw ValueError
        else
          andThen (lift_exn (split_endpoint (e_rt E) endpoint)) (\<lambda>_.
          andThen (lift_exn (wire_string (PyStr endpoint))) (\<lambda>raw.
          upd_cfg (\<lambda>c. c\<lparr>c_advertised_endpoint := Some raw\<rparr>))))"

definition set_header :: "pyval \<Rightarrow> pyval \<Rightarrow> unit nprog" where
  "set_header key v =
     andThen (lift_exn (wire_string key)) (\<lambda>key_bytes.
     andThen (lift_exn (wire_string v)) (\<lambda>raw.
     upd_cfg (\<lambda>c. c\<lparr>c_headers := dict_set key_bytes raw (c_headers c)\<rparr>)))"

definition set_zcert :: "env \<Rightarrow> pyval \<Rightarrow> pyval \<Rightarrow> unit nprog" where
  "set_zcert E public_key secret_key =
     thenDo ensure_not_running
     (andThen (lift_exn (curve_key_raw E public_key)) (\<lambda>public.
      thenDo (upd_cfg (\<lambda>c. c\<lparr>c_curve_public := Some public\<rparr>))
      (andThen (lift_exn (curve_key_raw E secret_key)) (\<lambda>secret.
       thenDo (upd_cfg (\<lambda>c. c\<lparr>c_curve_secret := Some secret\<rparr>))
         (set_header (PyBytes PUBLIC_KEY_HEADER) (PyBytes (e_z85_encode E public)))))))"

definition set_zap_domain :: "pystr \<Rightarrow> unit nprog" where
  "set_zap_domain domain =
     thenDo ensure_not_running
       (if domain = [] then throw ValueError else upd_cfg (\<lambda>c. c\<lparr>c_zap_domain := domain\<rparr>))"

definition set_ipv6 :: "bool \<Rightarrow> unit nprog" where
  "set_ipv6 enabled = thenDo ensure_not_running (upd_cfg (\<lambda>c. c\<lparr>c_ipv6 := enabled\<rparr>))"

definition gossip_bind :: "pystr \<Rightarrow> unit nprog" where
  "gossip_bind endpoint =
     thenDo ensure_not_running (upd_cfg (\<lambda>c. c\<lparr>c_gossip_bind := Some endpoint\<rparr>))"

definition gossip_connect :: "pystr \<Rightarrow> unit nprog" where
  "gossip_connect endpoint =
     thenDo ensure_not_running
       (upd_cfg (\<lambda>c. c\<lparr>c_gossip_connects := c_gossip_connects c @ [endpoint]\<rparr>))"

definition gossip_connect_curve :: "pyval \<Rightarrow> pystr \<Rightarrow> unit nprog" where
  "gossip_connect_curve public_key endpoint =
     thenDo ensure_not_running
       (upd_cfg (\<lambda>c. c\<lparr>c_gossip_connects := c_gossip_connects c @ [endpoint]\<rparr>))"

definition set_verbose :: "bool \<Rightarrow> unit nprog" where
  "set_verbose verbose = upd_cfg (\<lambda>c. c\<lparr>c_verbose := verbose\<rparr>)"

definition set_contest_in_group :: "pyval \<Rightarrow> unit nprog" where
  "set_contest_in_group g =
     andThen (lift_exn (wire_string g)) (\<lambda>gb.
     thenDo (modify (\<lambda>s. s\<lparr>n_contest_groups := insert_last gb (n_contest_groups s)\<rparr>))
       (upd_group gb (\<lambda>G. G\<lparr>g_contest := True\<rparr>)))"

subsection \<open>Commands\<close>

definition put_api :: "api_command \<Rightarrow> unit nprog" where
  "put_api cmd = modify (\<lambda>s. s\<lparr>n_api := n_api s @ [cmd]\<rparr>)"

definition api_join :: "pyval \<Rightarrow> unit nprog" where
  "api_join g = andThen (lift_exn (wire_string g)) (\<lambda>gb. put_api (CmdJoin gb))"

definition api_leave :: "pyval \<Rightarrow> unit nprog" where
  "api_leave g = andThen (lift_exn (wire_string g)) (\<lambda>gb. put_api (CmdLeave gb))"

definition api_whisper :: "pyval \<Rightarrow> pyval \<Rightarrow> unit nprog" where
  "api_whisper peer_hex payload =
     andThen (lift_exn (to_bytes peer_hex)) (\<lambda>peer_id.
     andThen (lift_exn (to_bytes payload)) (\<lambda>raw. put_api (CmdWhisper peer_id raw)))"

definition api_shout :: "pyval \<Rightarrow> pyval \<Rightarrow> unit nprog" where
  "api_shout g payload =
     andThen (lift_exn (wire_string g)) (\<lambda>gb.
     andThen (lift_exn (to_bytes payload)) (\<lambda>raw. put_api (CmdShout gb raw)))"

text \<open>\<open>whispers\<close> and \<open>shouts\<close>: text is encoded here, bytes go through.\<close>

definition api_whispers :: "pyval \<Rightarrow> pyval \<Rightarrow> unit nprog" where
  "api_whispers peer_hex text =
     andThen (lift_exn (to_bytes text)) (\<lambda>raw. api_whisper peer_hex (PyBytes raw))"

definition api_shouts :: "pyval \<Rightarrow> pyval \<Rightarrow> unit nprog" where
  "api_shouts g text =
     andThen (lift_exn (to_bytes text)) (\<lambda>raw. api_shout g (PyBytes raw))"

definition connect_peer :: "env \<Rightarrow> pystr \<Rightarrow> int \<Rightarrow> pyval option \<Rightarrow> unit nprog" where
  "connect_peer E host port public_key =
     thenDo
       (case public_key of
          None \<Rightarrow> ret ()
        | Some k \<Rightarrow> andThen (lift_exn (curve_key_raw E k)) (\<lambda>key. learn_key (host_port host port) key))
       (put_api (CmdConnect host port))"

text \<open>\<open>recv\<close>, when an event is there; \<open>None\<close> is the timeout.\<close>

definition recv :: "event option nprog" where
  "recv = andThen (gets n_events) (\<lambda>es.
     case es of
       [] \<Rightarrow> ret None
     | e # es \<Rightarrow> thenDo (modify (\<lambda>s. s\<lparr>n_events := es\<rparr>)) (ret (Some e)))"

text \<open>
  \<open>events()\<close>, one step of the asynchronous generator: it yields the next event, or ends when the node
  has stopped and nothing is queued. While the queue of a running node is empty, other tasks run: the
  argument lists what they do during each wait, and \<open>Waiting\<close> is a generator that waits still.
\<close>

datatype step = Yields event | Finished | Waiting

fun events_next :: "unit nprog list \<Rightarrow> step nprog" where
  "events_next waits =
     andThen recv (\<lambda>next.
     andThen (gets n_running) (\<lambda>running.
     case (next, waits) of
       (Some e, _) \<Rightarrow> ret (Yields e)
     | (None, []) \<Rightarrow> ret (if running then Waiting else Finished)
     | (None, w # ws) \<Rightarrow> if running then thenDo w (events_next ws) else ret Finished))"

subsection \<open>Queries\<close>

definition peer_ids :: "node \<Rightarrow> pystr list" where
  "peer_ids s = keys (n_peers s)"

definition own_groups :: "node \<Rightarrow> bytes list" where
  "own_groups s = n_own_groups s"

definition peers_by_group :: "node \<Rightarrow> pyval \<Rightarrow> exn + pystr list" where
  "peers_by_group s g =
     obind (to_bytes g) (\<lambda>gb.
     case dict_get (n_groups s) gb of None \<Rightarrow> Inr [] | Some G \<Rightarrow> Inr (keys (g_peers G)))"

definition peer_groups :: "node \<Rightarrow> bytes list" where
  "peer_groups s =
     sort (remdups (n_own_groups s @ concat (map (\<lambda>(_, a). p_groups (n_heap s a)) (n_peers s))))"

definition text_id :: "pyval \<Rightarrow> exn + pystr" where
  "text_id v = (case v of PyStr s \<Rightarrow> Inr s | PyBytes b \<Rightarrow> utf8_decode b)"

definition peer_address :: "node \<Rightarrow> pyval \<Rightarrow> exn + pystr" where
  "peer_address s peer_hex =
     obind (text_id peer_hex) (\<lambda>peer_id.
     case dict_get (n_peers s) peer_id of
       None \<Rightarrow> Inr [] | Some a \<Rightarrow> Inr (p_endpoint_str (n_heap s a)))"

definition peer_header_value :: "node \<Rightarrow> pyval \<Rightarrow> pyval \<Rightarrow> exn + bytes option" where
  "peer_header_value s peer_hex name =
     obind (text_id peer_hex) (\<lambda>peer_id.
     case dict_get (n_peers s) peer_id of
       None \<Rightarrow> Inr None
     | Some a \<Rightarrow>
         obind (to_bytes name) (\<lambda>key.
         let headers = p_headers (n_heap s a)
         in case dict_get headers key of
              Some v \<Rightarrow> Inr (Some v)
            | None \<Rightarrow> Inr (map_option snd (find (\<lambda>(k, _). bdec k = bdec key) headers))))"

text \<open>\<open>dump()\<close>: the entries of the dictionary it returns.\<close>

record node_dump =
  d_name :: pystr
  d_uuid :: pystr
  d_peers :: "(pystr \<times> pystr \<times> pystr \<times> pystr list) list"  \<comment> \<open>id, name, address, groups\<close>
  d_own_groups :: "pystr list"

definition dump :: "node \<Rightarrow> node_dump" where
  "dump s =
     \<lparr>d_name = bdec (c_name (n_cfg s)), d_uuid = c_peer_id_hex (n_cfg s),
      d_peers = map (\<lambda>(peer_id, a). let found = n_heap s a in
        (peer_id, pname found, p_endpoint_str found, sort (map bdec (p_groups found)))) (n_peers s),
      d_own_groups = map bdec (n_own_groups s)\<rparr>"

definition version :: pystr where
  "version = lit ''0.3.0''"

end
