(* ===== verification/Zre_Session.thy ===== *)
theory Zre_Session
  imports Zre_Api Zre_Peer_Properties
begin

section \<open>What conversations leave alone\<close>

text \<open>
  Most of the node's code talks: it sends, times, elects and reports, without changing which peers and
  groups there are. The locale \<open>session\<close> collects what such code may do to an invariant, and proves
  once that every talking operation keeps it; \<open>chatter\<close> is the part without the deadlines. The locale \<open>bystander\<close> is the stronger contract of an
  invariant that does not look at the tables at all; every handler keeps it that reports no change of the
  roster, and with the locale \<open>observer\<close>, which does not mind such reports, every handler.
\<close>

named_theorems session_rules "operations that keep the invariant of a session"

text \<open>The part of the node that the bookkeeping of sockets, clocks, keys and gossip does not touch.\<close>

definition core where
  "core s = (n_heap s, n_next_addr s, n_peers s, n_pending s, n_groups s, n_events s, n_running s,
     n_cfg s, n_inbox s, n_inbox_port s, n_beacon_version s)" for s :: node

lemma core_eq:
  "core s' = core s \<longleftrightarrow> n_heap s' = n_heap s \<and> n_next_addr s' = n_next_addr s \<and> n_peers s' = n_peers s
     \<and> n_pending s' = n_pending s \<and> n_groups s' = n_groups s \<and> n_events s' = n_events s
     \<and> n_running s' = n_running s \<and> n_cfg s' = n_cfg s \<and> n_inbox s' = n_inbox s
     \<and> n_inbox_port s' = n_inbox_port s \<and> n_beacon_version s' = n_beacon_version s"
  by (simp add: core_def)

text \<open>
  A peer after a conversation: the same identity and groups, and either the same connection or
  none (\<open>same_links\<close>); and the same deadline (\<open>calmer\<close>), unless it was heard of.
\<close>

definition same_links :: "peer \<Rightarrow> peer \<Rightarrow> bool" where
  "same_links p q \<longleftrightarrow> p_uuid_hex q = p_uuid_hex p \<and> p_groups q = p_groups p
     \<and> (p_dealer q = p_dealer p \<and> p_connected q = p_connected p \<or> p_dealer q = None \<and> \<not> p_connected q)"

definition calmer :: "peer \<Rightarrow> peer \<Rightarrow> bool" where
  "calmer p q \<longleftrightarrow> same_links p q \<and> p_expired_at q = p_expired_at p"

lemmas calmer_defs = calmer_def same_links_def

lemma calmer_refl [simp]: "calmer p p"
  by (simp add: calmer_defs)

text \<open>The events that say nothing of who is there and in which groups.\<close>

fun neutral :: "event \<Rightarrow> bool" where
  "neutral (EvEnter _ _ _) = False"
| "neutral (EvExit _ _) = False"
| "neutral (EvJoin _ _ _) = False"
| "neutral (EvLeave _ _ _) = False"
| "neutral _ = True"

locale chatter =
  fixes I :: "node \<Rightarrow> bool"
  assumes bookkeeping: "core s' = core s \<Longrightarrow> I s \<Longrightarrow> I s'"
    and events: "neutral e \<Longrightarrow> I s \<Longrightarrow> I (s\<lparr>n_events := push_event e (n_events s)\<rparr>)"
    and peer: "(\<And>p. calmer p (f p)) \<Longrightarrow> I s \<Longrightarrow> I (set_peer a f s)"
    and election: "(\<And>G. g_peers (h G) = g_peers G) \<Longrightarrow> keeps I (upd_group g h)"
    and require: "keeps I (require_group g)"
begin

lemma quiet: "(\<And>s. core (snd (m s)) = core s) \<Longrightarrow> keeps I m"
  by (metis bookkeeping keepsI)

lemma peer_kept: "(\<And>p. calmer p (f p)) \<Longrightarrow> keeps I (upd_peer a f)"
  by (simp add: upd_peer_def keeps_modify peer)

lemma emit_kept [session_rules]:
  "keeps I (emit (EvLeader p n g))" "keeps I (emit (EvEvasive p n))"
  "keeps I (emit (EvWhisper p n b))" "keeps I (emit (EvShout p n g b))"
  by (simp_all add: emit_def keeps_modify events)

lemma syscalls_kept [session_rules]:
  "keeps I (new_socket ty)" "keeps I (set_opt h opt)" "keeps I (close_socket h)"
  "keeps I (connect_socket E h addr)" "keeps I (bind_socket E h addr)"
  "keeps I (send_multipart E h frames)" "keeps I (read_clock E)" "keeps I (udp_send E h data target)"
  "keeps I (udp_bind E h addr port)" "keeps I new_udp" "keeps I (close_udp h)"
  by (rule quiet; simp add: core_eq syscall_defs Let_def)+

lemma deref_kept [session_rules]: "keeps I (deref a)"
  by (simp add: deref_def keeps_gets)

lemma get_group_kept [session_rules]: "keeps I (get_group g)"
  by (simp add: get_group_def keeps_gets)

lemma disconnect_kept [session_rules]: "keeps I (peer_disconnect a)"
proof (rule keepsI)
  fix s assume "I s"
  let ?s = "case p_dealer (n_heap s a) of None \<Rightarrow> s
    | Some h \<Rightarrow> s\<lparr>w_hist := IoClose h # w_hist s, w_socks := removeAll h (w_socks s)\<rparr>"
  have "core ?s = core s" by (simp add: core_eq split: option.split)
  from bookkeeping [OF this \<open>I s\<close>] have "I ?s" .
  moreover have "calmer p (torn_down p)" for p by (simp add: calmer_defs torn_down_def)
  ultimately have "I (set_peer a torn_down ?s)" by (intro peer)
  then show "I (snd (peer_disconnect a s))" by (simp add: run_peer_disconnect)
qed

lemma send_kept [session_rules]: "keeps I (send_encoded E a encode parts)"
proof (rule keepsI)
  fix s assume "I s"
  have st: "I (stamped a s)"
    unfolding stamped_def by (rule peer [OF _ \<open>I s\<close>]) (simp add: calmer_defs)
  have "core (io_log i (stamped a s)) = core (stamped a s)" for i by (simp add: core_eq io_log_def)
  from bookkeeping [OF this st] have io: "I (io_log i (stamped a s))" for i .
  then have "I (snd (peer_disconnect a (io_log i (stamped a s))))" for i
    using disconnect_kept by (simp add: keeps_def)
  with \<open>I s\<close> st io show "I (snd (send_encoded E a encode parts s))"
    by (simp add: run_send_encoded Let_def split: option.split bool.split sum.split send_result.split)
qed

lemma peer_fields_kept [session_rules]:
  "keeps I (upd_peer a (\<lambda>p. p\<lparr>p_want_seq := w p\<rparr>))"
  "keeps I (upd_peer a (\<lambda>p. p\<lparr>p_evasive_at := t\<rparr>))"
  "keeps I (upd_peer a (take_hello_fields x))"
  "keeps I (upd_peer a (\<lambda>p. (take_hello_fields x p)\<lparr>p_ready := True, p_endpoint_str := ep\<rparr>))"
  by (rule peer_kept, simp add: calmer_defs take_hello_fields_def)+

lemma election_kept [session_rules]:
  "keeps I (upd_group g (\<lambda>G. G\<lparr>g_election := e G\<rparr>))"
  "keeps I (upd_group g (\<lambda>G. G\<lparr>g_election := e G, g_leader := l G\<rparr>))"
  "keeps I (upd_group g (\<lambda>G. G\<lparr>g_leader := l G, g_election := e G\<rparr>))"
  "keeps I (upd_group g (\<lambda>G. G\<lparr>g_contest := c\<rparr>))"
  by (rule election; simp)+

lemma own_state_kept [session_rules]:
  "keeps I (modify (\<lambda>s. s\<lparr>n_evasive_emit_at := ev s\<rparr>))"
  "keeps I (modify (\<lambda>s. s\<lparr>n_own_groups := og s, n_status := st s\<rparr>))"
  "keeps I (modify (\<lambda>s. s\<lparr>n_api := q s\<rparr>))"
  "keeps I (modify (\<lambda>s. s\<lparr>n_last_beacon := t s\<rparr>))"
  "keeps I (modify (\<lambda>s. s\<lparr>n_send_sock := ss s\<rparr>))"
  "keeps I (modify (\<lambda>s. s\<lparr>n_send_targets := tg s\<rparr>))"
  "keeps I (learn_key k key)" "keeps I (upd_gossip f)"
  by (rule quiet; simp add: core_eq learn_key_def upd_gossip_def)+

subsection \<open>Talking\<close>

lemma send_cmd_kept [session_rules]: "keeps I (send_cmd E a cmd g st parts)"
  unfolding send_cmd_def by (intro session_rules)

lemma send_election_kept [session_rules]: "keeps I (send_election E a cmd g ident)"
  unfolding send_election_def by (intro session_rules)

lemma send_hello_kept [session_rules]: "keeps I (send_hello E a)"
  unfolding send_hello_def by (intro keeps_rules session_rules)

lemma group_send_kept [session_rules]: "keeps I (group_send E G encode parts)"
  unfolding group_send_def by (intro keeps_rules session_rules)

lemma send_wave_kept [session_rules]: "keeps I (send_wave E cmd g ident peers)"
  unfolding send_wave_def by (intro keeps_rules session_rules)

lemma require_kept [session_rules]: "keeps I (require_group g)"
  by (rule require)

lemma finish_election_kept [session_rules]: "keeps I (finish_election E g leader)"
  unfolding finish_election_def by (intro keeps_rules session_rules)

lemma start_election_kept [session_rules]: "keeps I (start_election E g)"
  unfolding start_election_def by (intro keeps_rules session_rules)

lemma restart_election_kept [session_rules]: "keeps I (restart_election_if_needed E g)"
  unfolding restart_election_if_needed_def by (intro keeps_rules session_rules)

lemma count_elect_kept [session_rules]: "keeps I (count_elect E g c)"
  unfolding count_elect_def by (intro keeps_rules session_rules)

lemma handle_elect_kept [session_rules]: "keeps I (handle_elect E a g c)"
  unfolding handle_elect_def by (intro keeps_rules session_rules)

lemma handle_leader_kept [session_rules]: "keeps I (handle_leader E a g l)"
  unfolding handle_leader_def by (intro keeps_rules session_rules)

lemma maintain_elections_kept [session_rules]: "keeps I (maintain_elections E now)"
  unfolding maintain_elections_def maintain_election_def by (intro keeps_rules session_rules)

lemma probe_quiet_peer_kept [session_rules]: "keeps I (probe_quiet_peer E a now)"
  unfolding probe_quiet_peer_def by (intro keeps_rules session_rules)

lemma track_seq_kept [session_rules]: "keeps I (track_seq a cmd q)"
  unfolding track_seq_def check_seq_def by (intro keeps_rules session_rules)

lemma send_to_all_kept [session_rules]: "keeps I (send_to_all E cmd g st)"
  unfolding send_to_all_def by (intro keeps_rules session_rules)

lemma join_group_kept [session_rules]: "keeps I (join_group E g)"
  unfolding join_group_def by (intro keeps_rules session_rules)

lemma leave_group_kept [session_rules]: "keeps I (leave_group E g)"
  unfolding leave_group_def by (intro keeps_rules session_rules)

lemma do_whisper_kept [session_rules]: "keeps I (do_whisper E peer payload)"
  unfolding do_whisper_def by (intro keeps_rules session_rules)

lemma do_shout_kept [session_rules]: "keeps I (do_shout E g payload)"
  unfolding do_shout_def by (intro keeps_rules session_rules)

end

text \<open>Hearing of a peer moves its deadline.\<close>

locale session = chatter I for I +
  assumes heard: "I s \<Longrightarrow> I (set_peer a (\<lambda>p. p\<lparr>p_expired_at := t\<rparr>) s)"
begin

lemma timers_kept [session_rules]:
  "keeps I (refresh a now)" "keeps I (upd_peer a (refresh_peer now ev ex))"
proof -
  have r: "keeps I (upd_peer a (refresh_peer now ev ex))" for ev ex
  proof (rule keepsI)
    fix s assume "I s"
    let ?e = "\<lambda>p. p\<lparr>p_evasive_at := now + of_int ev / 1000\<rparr>"
    let ?x = "\<lambda>p. p\<lparr>p_expired_at := now + of_int ex / 1000\<rparr>"
    have "I (set_peer a ?x (set_peer a ?e s))" by (intro heard peer \<open>I s\<close>) (simp add: calmer_defs)
    moreover have "set_peer a ?x (set_peer a ?e s) = set_peer a (refresh_peer now ev ex) s"
      by (simp add: set_peer_def refresh_peer_def)
    ultimately show "I (snd (upd_peer a (refresh_peer now ev ex) s))" by (simp add: upd_peer_def)
  qed
  then show "keeps I (upd_peer a (refresh_peer now ev ex))" .
  from r show "keeps I (refresh a now)"
    unfolding refresh_def by (intro keeps_rules)
qed

end

subsection \<open>Every handler\<close>

text \<open>What the application and the operating system see of a node, apart from its sockets.\<close>

definition outside where
  "outside s = (n_events s, n_running s, n_cfg s, n_inbox s, n_inbox_port s, n_beacon_version s)"
  for s :: node

lemma outside_eq:
  "outside s' = outside s \<longleftrightarrow> n_events s' = n_events s \<and> n_running s' = n_running s
     \<and> n_cfg s' = n_cfg s \<and> n_inbox s' = n_inbox s \<and> n_inbox_port s' = n_inbox_port s
     \<and> n_beacon_version s' = n_beacon_version s"
  by (simp add: outside_def)

lemma outside_groups: "outside (snd (upd_group g h s)) = outside s" "outside (snd (require_group g s)) = outside s"
  by (simp_all add: outside_eq upd_group_def require_group_def run_thenDo split: option.split)

locale bystander =
  fixes I :: "node \<Rightarrow> bool"
  assumes outside: "outside s' = outside s \<Longrightarrow> I s \<Longrightarrow> I s'"
    and posted: "neutral e \<Longrightarrow> I s \<Longrightarrow> I (s\<lparr>n_events := push_event e (n_events s)\<rparr>)"

sublocale bystander \<subseteq> session I
proof
  show "neutral e \<Longrightarrow> I s \<Longrightarrow> I (s\<lparr>n_events := push_event e (n_events s)\<rparr>)" for s e by (rule posted)
  show "core s' = core s \<Longrightarrow> I s \<Longrightarrow> I s'" for s s'
    by (rule outside) (simp add: core_eq outside_eq)
  show "I s \<Longrightarrow> I (set_peer a f s)" "I s \<Longrightarrow> I (set_peer a (\<lambda>p. p\<lparr>p_expired_at := t\<rparr>) s)" for s a f t
    by (rule outside; simp add: outside_eq set_peer_def)+
  show "keeps I (upd_group g h)" "keeps I (require_group g)" for g h
    by (metis keepsI outside outside_groups)+
qed

context bystander
begin

lemma unseen: "(\<And>s. outside (snd (m s)) = outside s) \<Longrightarrow> keeps I m"
  by (metis outside keepsI)

lemma tables_kept [session_rules]:
  "keeps I (modify (\<lambda>s. s\<lparr>n_peers := ps s\<rparr>))" "keeps I (modify (\<lambda>s. s\<lparr>n_pending := ps s\<rparr>))"
  "keeps I (upd_peer a f)" "keeps I (upd_group g h)" "keeps I (alloc_peer p)"
  "keeps I (run_hub h' m)"
  by (rule unseen; simp add: outside_eq upd_peer_def set_peer_def alloc_peer_def upd_group_def
      run_hub_def split_beta split: option.split)+

lemma create_group_kept [session_rules]:
  "keeps I (modify (\<lambda>s. case dict_get (n_groups s) g of
      None \<Rightarrow> s\<lparr>n_groups := dict_set g (new_group g) (n_groups s)\<rparr> | Some _ \<Rightarrow> s))"
  by (rule unseen) (simp add: outside_eq split: option.split)

lemma membership_kept [session_rules]:
  "keeps I (group_join g a)" "keeps I (group_leave g a)" "keeps I (hello_join a g)"
  unfolding group_join_def group_leave_def hello_join_def by (intro keeps_rules session_rules)+

lemma peer_connect_kept [session_rules]: "keeps I (peer_connect E a u sk pk seck)"
  unfolding peer_connect_def drop_dealer_def by (intro keeps_rules session_rules)

lemma dial_peer_kept [session_rules]: "keeps I (dial_peer E u addr port rhex)"
  unfolding dial_peer_def by (intro keeps_rules session_rules)

lemma adopt_pending_kept [session_rules]: "keeps I (adopt_pending addr port rhex now)"
  unfolding adopt_pending_def adopt_def by (intro keeps_rules session_rules)

lemma connect_known_kept [session_rules]: "keeps I (connect_known E rhex addr port now)"
  unfolding connect_known_def by (intro keeps_rules session_rules)

lemma do_connect_kept [session_rules]: "keeps I (do_connect E host port)"
  unfolding do_connect_def by (intro keeps_rules session_rules)

lemma learn_advertised_key_kept [session_rules]: "keeps I (learn_advertised_key E k v)"
  unfolding learn_advertised_key_def by (intro keeps_rules session_rules)

lemma send_beacon_kept [session_rules]: "keeps I (send_beacon E port)"
  unfolding send_beacon_def build_send_sock_def Let_def by (intro keeps_rules session_rules)

lemma gossip_require_kept [session_rules]: "keeps I (gossip_require E uuid ep now)"
  unfolding gossip_require_def Let_def by (intro keeps_rules session_rules)

lemma gossip_announce_kept [session_rules]: "keeps I (gossip_announce E sock)"
  unfolding gossip_announce_def zmq_send_def by (intro keeps_rules session_rules)

lemma handle_gossip_client_kept [session_rules]: "keeps I (handle_gossip_client E sock bodies)"
  unfolding handle_gossip_client_def gossip_client_message_def by (intro keeps_rules session_rules)

lemma gossip_maintain_kept [session_rules]: "keeps I (gossip_maintain E now)"
  unfolding gossip_maintain_def gossip_redial_def open_hub_link_def register_hub_link_def zmq_send_def
  by (intro keeps_rules session_rules)

lemma api_step_kept [session_rules]: "keeps I (api_step E cmd)"
  unfolding api_step_def by (cases cmd) (simp_all only: api_command.case, (intro session_rules)+)

lemma drain_api_kept [session_rules]: "keeps I (drain_api E)"
  unfolding drain_api_def by (intro keeps_rules session_rules)

lemma serve_hub_kept [session_rules]: "keeps I (serve_hub E now inbound)"
  unfolding serve_hub_def by (intro keeps_rules session_rules)

lemma hello_new_peer_kept [session_rules]: "keeps I (hello_new_peer E k extra ep now)"
  unfolding hello_new_peer_def Let_def by (intro keeps_rules session_rules)

lemma reap_pending_kept [session_rules]: "keeps I (reap_pending now item)"
  unfolding reap_pending_def by (intro keeps_rules session_rules)

end

locale observer = bystander +
  assumes reported: "\<not> neutral e \<Longrightarrow> I s \<Longrightarrow> I (s\<lparr>n_events := push_event e (n_events s)\<rparr>)"
begin

lemma report_kept [session_rules]: "keeps I (emit e)"
  by (cases "neutral e") (simp_all add: emit_def keeps_modify posted reported)

lemma remove_peer_kept [session_rules]: "keeps I (remove_peer E a)"
  unfolding remove_peer_def by (intro keeps_rules session_rules)

lemma handle_hello_kept [session_rules]: "keeps I (handle_hello E rhex x found)"
  unfolding handle_hello_def hello_enter_def Let_def
  by (intro keeps_rules session_rules)

lemma dispatch_command_kept [session_rules]: "keeps I (dispatch_command E rhex a cmd x parts now)"
  unfolding dispatch_command_def on_join_def on_leave_def Let_def
  by (intro keeps_rules session_rules)

lemma handle_peer_msg_kept [session_rules]: "keeps I (handle_peer_msg E frames)"
  unfolding handle_peer_msg_def Let_def by (intro keeps_rules session_rules)

lemma handle_beacon_kept [session_rules]: "keeps I (handle_beacon E data ip)"
  unfolding handle_beacon_def beacon_exit_def Let_def by (intro keeps_rules session_rules)

lemma reap_kept [session_rules]: "keeps I (reap E now)"
  unfolding reap_def reap_peer_def by (intro keeps_rules session_rules)

lemma serve_socket_kept [session_rules]: "keeps I (serve_socket E now r)"
  unfolding serve_socket_def
  by (cases r) (simp_all only: ready.case, (intro keeps_rules session_rules)+)

lemma run_iteration_kept: "keeps I (run_iteration E ready last_reap)"
  unfolding run_iteration_def by (intro keeps_rules session_rules)

end

end
