(* ===== verification/Zre_Roster.thy ===== *)
theory Zre_Roster
  imports Zre_Session
begin

section \<open>Peers, groups and connections agree\<close>

text \<open>
  The node keeps the same facts in several places: the table of peers, the placeholders of outgoing
  connections, each peer's own set of groups, each group's table of members, and the open DEALER
  of each connection. This theory states that they agree (\<open>roster_ok\<close>), that every step of the run
  loop keeps it so, and which change of the abstract roster each kind of message is.

  \<open>consistent\<close> is the invariant on plain maps: peers \<open>P\<close>, placeholders \<open>Q\<close>, members of each group
  \<open>M\<close>, the heap \<open>H\<close>, the next free address \<open>n\<close>; the addresses in \<open>X\<close> are connections that were
  just dialled and are not in a table yet.
\<close>

definition consistent ::
  "nat set \<Rightarrow> nat \<Rightarrow> (nat \<Rightarrow> peer) \<Rightarrow> (pystr \<Rightarrow> nat option) \<Rightarrow> (pystr \<Rightarrow> nat option)
   \<Rightarrow> (bytes \<Rightarrow> (pystr \<Rightarrow> nat option) option) \<Rightarrow> bool" where
  "consistent X n H P Q M \<longleftrightarrow>
     (\<forall>k a. P k = Some a \<longrightarrow> a < n \<and> p_uuid_hex (H a) = k)
   \<and> (\<forall>k a. Q k = Some a \<longrightarrow> a < n \<and> p_uuid_hex (H a) = k \<and> p_groups (H a) = [] \<and> a \<notin> ran P)
   \<and> (\<forall>g m. M g = Some m \<longrightarrow> (\<forall>k a. m k = Some a \<longleftrightarrow> P k = Some a \<and> g \<in> set (p_groups (H a))))
   \<and> (\<forall>k a g. P k = Some a \<longrightarrow> g \<in> set (p_groups (H a)) \<longrightarrow> M g \<noteq> None)
   \<and> (\<forall>a. (p_connected (H a) \<longrightarrow> p_dealer (H a) \<noteq> None)
        \<and> (p_dealer (H a) \<noteq> None \<longrightarrow> a \<in> X \<union> ran P \<union> ran Q))
   \<and> (\<forall>a \<in> X. a < n \<and> a \<notin> ran P \<and> a \<notin> ran Q \<and> p_groups (H a) = [])"

lemma consistentI:
  assumes "\<And>k a. P k = Some a \<Longrightarrow> a < n \<and> p_uuid_hex (H a) = k"
    and "\<And>k a. Q k = Some a \<Longrightarrow> a < n \<and> p_uuid_hex (H a) = k \<and> p_groups (H a) = [] \<and> a \<notin> ran P"
    and "\<And>g m k a. M g = Some m \<Longrightarrow> m k = Some a \<longleftrightarrow> P k = Some a \<and> g \<in> set (p_groups (H a))"
    and "\<And>k a g. P k = Some a \<Longrightarrow> g \<in> set (p_groups (H a)) \<Longrightarrow> M g \<noteq> None"
    and "\<And>a. p_connected (H a) \<Longrightarrow> p_dealer (H a) \<noteq> None"
    and "\<And>a. p_dealer (H a) \<noteq> None \<Longrightarrow> a \<in> X \<union> ran P \<union> ran Q"
    and "\<And>a. a \<in> X \<Longrightarrow> a < n \<and> a \<notin> ran P \<and> a \<notin> ran Q \<and> p_groups (H a) = []"
  shows "consistent X n H P Q M"
  unfolding consistent_def using assms by blast

lemma consistentD:
  assumes "consistent X n H P Q M"
  shows "P k = Some a \<Longrightarrow> a < n" "P k = Some a \<Longrightarrow> p_uuid_hex (H a) = k"
    and "Q k = Some a \<Longrightarrow> a < n" "Q k = Some a \<Longrightarrow> p_uuid_hex (H a) = k"
    and "Q k = Some a \<Longrightarrow> p_groups (H a) = []" "Q k = Some a \<Longrightarrow> P j \<noteq> Some a"
    and "M g = Some m \<Longrightarrow> m k = Some a \<longleftrightarrow> P k = Some a \<and> g \<in> set (p_groups (H a))"
    and "P k = Some a \<Longrightarrow> g \<in> set (p_groups (H a)) \<Longrightarrow> M g \<noteq> None"
    and "p_connected (H a) \<Longrightarrow> p_dealer (H a) \<noteq> None"
    and "p_dealer (H a) \<noteq> None \<Longrightarrow> a \<in> X \<union> ran P \<union> ran Q"
    and "a \<in> X \<Longrightarrow> a < n" "a \<in> X \<Longrightarrow> P k \<noteq> Some a" "a \<in> X \<Longrightarrow> Q k \<noteq> Some a"
      "a \<in> X \<Longrightarrow> p_groups (H a) = []"
  using assms by (simp_all add: consistent_def ran_def)

lemma consistent_inj:
  assumes "consistent X n H P Q M"
  shows "P k = Some a \<Longrightarrow> P j = Some a \<Longrightarrow> k = j" "Q k = Some a \<Longrightarrow> Q j = Some a \<Longrightarrow> k = j"
  using assms consistentD(2,4) by metis+

lemma in_ran: "a \<in> ran P \<longleftrightarrow> (\<exists>k. P k = Some a)"
  by (simp add: ran_def)

subsection \<open>The changes of the tables\<close>

lemma consistent_calmer:
  assumes c: "consistent X n H P Q M" and calm: "\<And>b. same_links (H b) (H' b)"
  shows "consistent X n H' P Q M"
proof (rule consistentI)
  note d = consistentD [OF c]
  have same: "p_uuid_hex (H' b) = p_uuid_hex (H b)" "p_groups (H' b) = p_groups (H b)" for b
    using calm [of b] by (auto simp: same_links_def)
  show "P k = Some a \<Longrightarrow> a < n \<and> p_uuid_hex (H' a) = k" for k a using d(1,2) same by simp
  show "Q k = Some a \<Longrightarrow> a < n \<and> p_uuid_hex (H' a) = k \<and> p_groups (H' a) = [] \<and> a \<notin> ran P" for k a
    using d(3-6) same by (simp add: in_ran)
  show "M g = Some m \<Longrightarrow> m k = Some a \<longleftrightarrow> P k = Some a \<and> g \<in> set (p_groups (H' a))" for g m k a
    using d(7) same by simp
  show "P k = Some a \<Longrightarrow> g \<in> set (p_groups (H' a)) \<Longrightarrow> M g \<noteq> None" for k a g
    using d(8) same by simp
  show "p_connected (H' a) \<Longrightarrow> p_dealer (H' a) \<noteq> None" for a
    using d(9) [of a] calm [of a] by (auto simp: same_links_def)
  show "p_dealer (H' a) \<noteq> None \<Longrightarrow> a \<in> X \<union> ran P \<union> ran Q" for a
    using d(10) [of a] calm [of a] by (auto simp: same_links_def)
  show "a \<in> X \<Longrightarrow> a < n \<and> a \<notin> ran P \<and> a \<notin> ran Q \<and> p_groups (H' a) = []" for a
    using d(11-14) same by (simp add: in_ran)
qed

lemma no_members: "consistent X n H P Q M \<Longrightarrow> M g = None \<Longrightarrow> P k = Some a \<Longrightarrow> g \<notin> set (p_groups (H a))"
  using consistentD(8) by metis

lemma consistent_new_group:
  assumes c: "consistent X n H P Q M" and "M g = None"
  shows "consistent X n H P Q (M(g \<mapsto> Map.empty))"
proof (rule consistentI)
  note d = consistentD [OF c]
  show "(M(g \<mapsto> Map.empty)) h = Some m \<Longrightarrow> m k = Some a \<longleftrightarrow> P k = Some a \<and> h \<in> set (p_groups (H a))"
    for h m k a using d(7) [of h m k a] no_members [OF c assms(2), of k a] by (auto split: if_splits)
  show "P k = Some a \<Longrightarrow> h \<in> set (p_groups (H a)) \<Longrightarrow> (M(g \<mapsto> Map.empty)) h \<noteq> None" for k a h
    using d(8) by auto
  show "a \<in> X \<Longrightarrow> a < n \<and> a \<notin> ran P \<and> a \<notin> ran Q \<and> p_groups (H a) = []" for a
    using d(11-14) [of a] by (simp add: in_ran)
qed (use consistentD(1-6,9,10) [OF c] in \<open>simp_all add: in_ran\<close>)

text \<open>
  Changing the peer \<open>k\<close>, at the address \<open>a\<close>, in a way that keeps its identity: only the membership
  clauses are left to prove.
\<close>

lemma consistent_point:
  assumes c: "consistent X n H P Q M" and k: "P k = Some a"
    and same: "p_uuid_hex q = p_uuid_hex (H a)" "p_dealer q = p_dealer (H a)"
      "p_connected q = p_connected (H a)"
    and member: "\<And>g m j b. M' g = Some m \<Longrightarrow> b \<noteq> a \<Longrightarrow> j \<noteq> k \<Longrightarrow>
      m j = Some b \<longleftrightarrow> P j = Some b \<and> g \<in> set (p_groups (H b))"
    and other: "\<And>g m j. M' g = Some m \<Longrightarrow> j \<noteq> k \<Longrightarrow> m j \<noteq> Some a"
    and own: "\<And>g m b. M' g = Some m \<Longrightarrow> m k = Some b \<longleftrightarrow> b = a \<and> g \<in> set (p_groups q)"
    and known: "\<And>g j b. P j = Some b \<Longrightarrow> b \<noteq> a \<Longrightarrow> g \<in> set (p_groups (H b)) \<Longrightarrow> M' g \<noteq> None"
      "\<And>g. g \<in> set (p_groups q) \<Longrightarrow> M' g \<noteq> None"
  shows "consistent X n (H(a := q)) P Q M'"
proof (rule consistentI)
  note d = consistentD [OF c]
  have inj: "P j = Some a \<Longrightarrow> j = k" for j using consistent_inj(1) [OF c k] by metis
  have nQ: "Q j \<noteq> Some a" for j using d(6) k by metis
  have nX: "a \<notin> X" using d(12) k by metis
  show "P j = Some b \<Longrightarrow> b < n \<and> p_uuid_hex ((H(a := q)) b) = j" for j b
    using d(1,2) [of j b] same(1) by auto
  show "Q j = Some b \<Longrightarrow> b < n \<and> p_uuid_hex ((H(a := q)) b) = j \<and> p_groups ((H(a := q)) b) = [] \<and> b \<notin> ran P"
    for j b using d(3-6) [of j b] nQ [of j] by (auto simp: in_ran)
  show "m j = Some b \<longleftrightarrow> P j = Some b \<and> g \<in> set (p_groups ((H(a := q)) b))" if "M' g = Some m" for g m j b
  proof (cases "j = k")
    case True
    with own [OF that, of b] k show ?thesis by auto
  next
    case False
    with member [OF that, of b j] other [OF that False] inj [of j] show ?thesis by auto
  qed
  show "M' g \<noteq> None" if "P j = Some b" "g \<in> set (p_groups ((H(a := q)) b))" for j b g
    using known(1) [OF that(1), of g] known(2) [of g] that(2) by (cases "b = a") simp_all
  show "p_connected ((H(a := q)) b) \<Longrightarrow> p_dealer ((H(a := q)) b) \<noteq> None" for b
    using d(9) [of b] same by (simp split: if_splits)
  show "p_dealer ((H(a := q)) b) \<noteq> None \<Longrightarrow> b \<in> X \<union> ran P \<union> ran Q" for b
    using d(10) [of b] same by (simp split: if_splits)
  show "b \<in> X \<Longrightarrow> b < n \<and> b \<notin> ran P \<and> b \<notin> ran Q \<and> p_groups ((H(a := q)) b) = []" for b
    using d(11-14) [of b] nX by (auto simp: in_ran)
qed

text \<open>A peer joins a group, which exists afterwards.\<close>

lemma consistent_enrol:
  assumes c: "consistent X n H P Q M" and k: "P k = Some a"
    and groups: "set (p_groups q) = insert g (set (p_groups (H a)))"
    and same: "p_uuid_hex q = p_uuid_hex (H a)" "p_dealer q = p_dealer (H a)"
      "p_connected q = p_connected (H a)"
    and m: "m = (case M g of None \<Rightarrow> Map.empty | Some m \<Rightarrow> m)"
  shows "consistent X n (H(a := q)) P Q (M(g \<mapsto> m(k \<mapsto> a)))"
proof (rule consistent_point [OF c k same])
  note d = consistentD [OF c]
  have m': "m j = Some b \<longleftrightarrow> P j = Some b \<and> g \<in> set (p_groups (H b))" for j b
    using d(7) [of g _ j b] no_members [OF c, of g j b] by (cases "M g") (auto simp: m)
  have inj: "P j = Some a \<Longrightarrow> j = k" for j using consistent_inj(1) [OF c k] by metis
  show "m2 j = Some b \<longleftrightarrow> P j = Some b \<and> h \<in> set (p_groups (H b))"
    if "(M(g \<mapsto> m(k \<mapsto> a))) h = Some m2" "b \<noteq> a" "j \<noteq> k" for h m2 j b
    using that d(7) [of h m2 j b] m' [of j b] by (auto split: if_splits)
  show "m2 j \<noteq> Some a" if "(M(g \<mapsto> m(k \<mapsto> a))) h = Some m2" "j \<noteq> k" for h m2 j
    using that d(7) [of h m2 j a] m' [of j a] inj [of j] by (auto split: if_splits)
  show "m2 k = Some b \<longleftrightarrow> b = a \<and> h \<in> set (p_groups q)" if "(M(g \<mapsto> m(k \<mapsto> a))) h = Some m2" for h m2 b
    using that d(7) [of h m2 k b] k groups by (auto split: if_splits)
  show "(M(g \<mapsto> m(k \<mapsto> a))) h \<noteq> None" if "P j = Some b" "b \<noteq> a" "h \<in> set (p_groups (H b))" for h j b
    using d(8) [OF that(1,3)] by simp
  show "(M(g \<mapsto> m(k \<mapsto> a))) h \<noteq> None" if "h \<in> set (p_groups q)" for h
    using d(8) [OF k] that groups by auto
qed

text \<open>A peer leaves a group, known or not.\<close>

lemma consistent_withdraw:
  assumes c: "consistent X n H P Q M" and k: "P k = Some a"
    and groups: "set (p_groups q) = set (p_groups (H a)) - {g}"
    and same: "p_uuid_hex q = p_uuid_hex (H a)" "p_dealer q = p_dealer (H a)"
      "p_connected q = p_connected (H a)"
    and M': "\<And>h. M' h = (if h = g then map_option (\<lambda>m. m(k := None)) (M g) else M h)"
  shows "consistent X n (H(a := q)) P Q M'"
proof (rule consistent_point [OF c k same])
  note d = consistentD [OF c]
  have inj: "P j = Some a \<Longrightarrow> j = k" for j using consistent_inj(1) [OF c k] by metis
  show "m j = Some b \<longleftrightarrow> P j = Some b \<and> h \<in> set (p_groups (H b))"
    if "M' h = Some m" "b \<noteq> a" "j \<noteq> k" for h m j b
    using that d(7) [of h _ j b] by (auto simp: M' split: if_splits)
  show "m j \<noteq> Some a" if "M' h = Some m" "j \<noteq> k" for h m j
    using that d(7) [of h _ j a] inj [of j] by (auto simp: M' split: if_splits)
  show "m k = Some b \<longleftrightarrow> b = a \<and> h \<in> set (p_groups q)" if "M' h = Some m" for h m b
    using that d(7) [of h _ k b] k groups by (auto simp: M' split: if_splits)
  show "M' h \<noteq> None" if "P j = Some b" "b \<noteq> a" "h \<in> set (p_groups (H b))" for h j b
    using d(8) [OF that(1,3)] by (auto simp: M')
  show "M' h \<noteq> None" if "h \<in> set (p_groups q)" for h
    using d(8) [OF k, of h] that groups by (auto simp: M')
qed

text \<open>A peer goes: out of the table, out of its groups, its connection closed.\<close>

lemma consistent_remove:
  assumes c: "consistent X n H P Q M" and k: "P k = Some a"
    and closed: "p_dealer q = None" "\<not> p_connected q"
    and P': "\<And>j. P' j = (if j = k then None else P j)"
    and M': "\<And>g. M' g = map_option (\<lambda>m. if g \<in> set (p_groups (H a)) then m(k := None) else m) (M g)"
  shows "consistent X n (H(a := q)) P' Q M'"
proof (rule consistentI)
  note d = consistentD [OF c]
  have inj: "P j = Some a \<Longrightarrow> j = k" for j using consistent_inj(1) [OF c k] by metis
  have nQ: "Q j \<noteq> Some a" for j using d(6) k by metis
  have nX: "a \<notin> X" using d(12) k by metis
  have P: "P' j = Some b \<longleftrightarrow> P j = Some b \<and> b \<noteq> a" for j b
    using inj [of j] k by (cases "j = k") (auto simp: P')
  show "P' j = Some b \<Longrightarrow> b < n \<and> p_uuid_hex ((H(a := q)) b) = j" for j b
    using d(1,2) [of j b] by (simp add: P)
  show "Q j = Some b \<Longrightarrow> b < n \<and> p_uuid_hex ((H(a := q)) b) = j \<and> p_groups ((H(a := q)) b) = [] \<and> b \<notin> ran P'"
    for j b using d(3-6) [of j b] nQ [of j] by (auto simp: in_ran P)
  show "m j = Some b \<longleftrightarrow> P' j = Some b \<and> g \<in> set (p_groups ((H(a := q)) b))" if M'g: "M' g = Some m" for g m j b
  proof -
    from M'g obtain m0 where m0: "M g = Some m0"
      and m: "m = (if g \<in> set (p_groups (H a)) then m0(k := None) else m0)"
      by (auto simp: M')
    have mk: "m0 k = Some b \<longleftrightarrow> b = a \<and> g \<in> set (p_groups (H a))" using d(7) [OF m0, of k b] k by auto
    have mj: "m0 j = Some b \<longleftrightarrow> P j = Some b \<and> g \<in> set (p_groups (H b))" by (rule d(7) [OF m0])
    show ?thesis
    proof (cases "j = k")
      case True
      then have "P' j \<noteq> Some b" by (simp add: P')
      moreover have "m j \<noteq> Some b" using mk True k P [of k b] by (auto simp: m P')
      ultimately show ?thesis by simp
    next
      case False
      then have "m j = m0 j" by (simp add: m)
      with mj False inj [of j] show ?thesis by (auto simp: P)
    qed
  qed
  show "P' j = Some b \<Longrightarrow> g \<in> set (p_groups ((H(a := q)) b)) \<Longrightarrow> M' g \<noteq> None" for j b g
    using d(8) [of j b g] by (auto simp: P M')
  show "p_connected ((H(a := q)) b) \<Longrightarrow> p_dealer ((H(a := q)) b) \<noteq> None" for b
    using d(9) [of b] closed by (simp split: if_splits)
  show "b \<in> X \<union> ran P' \<union> ran Q" if "p_dealer ((H(a := q)) b) \<noteq> None" for b
    using d(10) [of b] that closed by (auto simp: in_ran P split: if_splits)
  show "b \<in> X \<Longrightarrow> b < n \<and> b \<notin> ran P' \<and> b \<notin> ran Q \<and> p_groups ((H(a := q)) b) = []" for b
    using d(11-14) [of b] nX by (auto simp: in_ran P)
qed

text \<open>A fresh object: allocated, and then dialled.\<close>

lemma consistent_alloc:
  assumes c: "consistent X n H P Q M" and "p_dealer p = None" "\<not> p_connected p"
  shows "consistent X (Suc n) (H(n := p)) P Q M"
proof (rule consistentI)
  note d = consistentD [OF c]
  have fresh: "P j \<noteq> Some n" "Q j \<noteq> Some n" "n \<notin> X" for j
    using d(1) [of j n] d(3) [of j n] d(11) [of n] by auto
  show "P j = Some b \<Longrightarrow> b < Suc n \<and> p_uuid_hex ((H(n := p)) b) = j" for j b
    using d(1,2) [of j b] by auto
  show "Q j = Some b \<Longrightarrow> b < Suc n \<and> p_uuid_hex ((H(n := p)) b) = j \<and> p_groups ((H(n := p)) b) = [] \<and> b \<notin> ran P"
    for j b using d(3-6) [of j b] by (auto simp: in_ran)
  show "m j = Some b \<longleftrightarrow> P j = Some b \<and> g \<in> set (p_groups ((H(n := p)) b))" if "M g = Some m" for g m j b
    using d(7) [OF that, of j b] fresh(1) [of j] by auto
  show "P j = Some b \<Longrightarrow> g \<in> set (p_groups ((H(n := p)) b)) \<Longrightarrow> M g \<noteq> None" for j b g
    using d(8) [of j b g] fresh(1) [of j] by (auto split: if_splits)
  show "p_connected ((H(n := p)) b) \<Longrightarrow> p_dealer ((H(n := p)) b) \<noteq> None" for b
    using d(9) [of b] assms(3) by (simp split: if_splits)
  show "p_dealer ((H(n := p)) b) \<noteq> None \<Longrightarrow> b \<in> X \<union> ran P \<union> ran Q" for b
    using d(10) [of b] assms(2) by (simp split: if_splits)
  show "b \<in> X \<Longrightarrow> b < Suc n \<and> b \<notin> ran P \<and> b \<notin> ran Q \<and> p_groups ((H(n := p)) b) = []" for b
    using d(11-14) [of b] fresh(3) by (auto simp: in_ran)
qed

text \<open>Changing an object that is in no table: it is in flight if it has a connection.\<close>

lemma consistent_flight:
  assumes c: "consistent X n H P Q M"
    and free: "a < n" "a \<notin> ran P" "a \<notin> ran Q"
    and q: "p_groups q = []" "p_connected q \<Longrightarrow> p_dealer q \<noteq> None"
      "a \<in> Y \<or> p_dealer q = None" "\<And>b. b \<noteq> a \<Longrightarrow> b \<in> Y \<longleftrightarrow> b \<in> X"
  shows "consistent Y n (H(a := q)) P Q M"
proof (rule consistentI)
  note d = consistentD [OF c]
  have fresh: "P j \<noteq> Some a" "Q j \<noteq> Some a" for j using free by (simp_all add: in_ran)
  show "P j = Some b \<Longrightarrow> b < n \<and> p_uuid_hex ((H(a := q)) b) = j" for j b
    using d(1,2) [of j b] fresh(1) [of j] by auto
  show "Q j = Some b \<Longrightarrow> b < n \<and> p_uuid_hex ((H(a := q)) b) = j \<and> p_groups ((H(a := q)) b) = [] \<and> b \<notin> ran P"
    for j b using d(3-6) [of j b] fresh(2) [of j] by (auto simp: in_ran)
  show "m j = Some b \<longleftrightarrow> P j = Some b \<and> g \<in> set (p_groups ((H(a := q)) b))" if "M g = Some m" for g m j b
    using d(7) [OF that, of j b] fresh(1) [of j] by auto
  show "P j = Some b \<Longrightarrow> g \<in> set (p_groups ((H(a := q)) b)) \<Longrightarrow> M g \<noteq> None" for j b g
    using d(8) [of j b g] fresh(1) [of j] by (auto split: if_splits)
  show "p_connected ((H(a := q)) b) \<Longrightarrow> p_dealer ((H(a := q)) b) \<noteq> None" for b
    using d(9) [of b] q(2) by (simp split: if_splits)
  show "p_dealer ((H(a := q)) b) \<noteq> None \<Longrightarrow> b \<in> Y \<union> ran P \<union> ran Q" for b
    using d(10) [of b] q(3,4) by (auto split: if_splits)
  show "b \<in> Y \<Longrightarrow> b < n \<and> b \<notin> ran P \<and> b \<notin> ran Q \<and> p_groups ((H(a := q)) b) = []" for b
    using d(11-14) [of b] free q(1,4) by (cases "b = a") (auto simp: in_ran)
qed

text \<open>A connection in flight becomes a placeholder, or a peer.\<close>

lemma consistent_pend:
  assumes c: "consistent X n H P Q M" and "a \<in> X" "Q k = None" "p_uuid_hex (H a) = k"
  shows "consistent (X - {a}) n H P (Q(k \<mapsto> a)) M"
proof (rule consistentI)
  note d = consistentD [OF c]
  have fresh: "P j \<noteq> Some a" "Q j \<noteq> Some a" for j using d(12,13) assms(2) by simp_all
  show "(Q(k \<mapsto> a)) j = Some b \<Longrightarrow> b < n \<and> p_uuid_hex (H b) = j \<and> p_groups (H b) = [] \<and> b \<notin> ran P" for j b
    using d(3-6) [of j b] d(11,14) [OF assms(2)] assms(4) fresh by (auto simp: in_ran split: if_splits)
  have ran: "ran (Q(k \<mapsto> a)) = insert a (ran Q)" using assms(3) by (simp add: ran_map_upd)
  show "p_dealer (H b) \<noteq> None \<Longrightarrow> b \<in> X - {a} \<union> ran P \<union> ran (Q(k \<mapsto> a))" for b
    using d(10) [of b] by (auto simp: ran)
  show "b \<in> X - {a} \<Longrightarrow> b < n \<and> b \<notin> ran P \<and> b \<notin> ran (Q(k \<mapsto> a)) \<and> p_groups (H b) = []" for b
    using d(11-14) [of b] by (auto simp: ran in_ran)
qed (use consistentD(1,2,7,8,9) [OF c] in simp_all)

lemma consistent_admit:
  assumes c: "consistent X n H P Q M" and "a \<in> X" "P k = None" "p_uuid_hex (H a) = k"
  shows "consistent (X - {a}) n H (P(k \<mapsto> a)) Q M"
proof (rule consistentI)
  note d = consistentD [OF c]
  have fresh: "P j \<noteq> Some a" "Q j \<noteq> Some a" for j using d(12,13) assms(2) by simp_all
  have ran: "ran (P(k \<mapsto> a)) = insert a (ran P)" using assms(3) by (simp add: ran_map_upd)
  show "(P(k \<mapsto> a)) j = Some b \<Longrightarrow> b < n \<and> p_uuid_hex (H b) = j" for j b
    using d(1,2) [of j b] d(11) [OF assms(2)] assms(4) by (auto split: if_splits)
  show "Q j = Some b \<Longrightarrow> b < n \<and> p_uuid_hex (H b) = j \<and> p_groups (H b) = [] \<and> b \<notin> ran (P(k \<mapsto> a))" for j b
    using d(3-6) [of j b] fresh(2) [of j] by (auto simp: ran in_ran)
  show "m j = Some b \<longleftrightarrow> (P(k \<mapsto> a)) j = Some b \<and> g \<in> set (p_groups (H b))" if "M g = Some m" for g m j b
    using d(7) [OF that, of j b] d(14) [OF assms(2)] assms(3) by auto
  show "(P(k \<mapsto> a)) j = Some b \<Longrightarrow> g \<in> set (p_groups (H b)) \<Longrightarrow> M g \<noteq> None" for j b g
    using d(8) [of j b g] d(14) [OF assms(2)] by (auto split: if_splits)
  show "p_dealer (H b) \<noteq> None \<Longrightarrow> b \<in> X - {a} \<union> ran (P(k \<mapsto> a)) \<union> ran Q" for b
    using d(10) [of b] by (auto simp: ran)
  show "b \<in> X - {a} \<Longrightarrow> b < n \<and> b \<notin> ran (P(k \<mapsto> a)) \<and> b \<notin> ran Q \<and> p_groups (H b) = []" for b
    using d(11-14) [of b] by (auto simp: ran in_ran)
qed (use consistentD(9) [OF c] in simp_all)

text \<open>A placeholder is taken out, and is in flight again.\<close>

lemma consistent_unpend:
  assumes c: "consistent X n H P Q M" and k: "Q k = Some a"
    and Q': "\<And>j. Q' j = (if j = k then None else Q j)"
  shows "consistent (insert a X) n H P Q' M"
proof (rule consistentI)
  note d = consistentD [OF c]
  have inj: "Q j = Some a \<Longrightarrow> j = k" for j using consistent_inj(2) [OF c k] by metis
  have Q: "Q' j = Some b \<longleftrightarrow> Q j = Some b \<and> b \<noteq> a" for j b
    using inj [of j] k by (cases "j = k") (auto simp: Q')
  show "Q' j = Some b \<Longrightarrow> b < n \<and> p_uuid_hex (H b) = j \<and> p_groups (H b) = [] \<and> b \<notin> ran P" for j b
    using d(3-6) [of j b] by (auto simp: Q in_ran)
  show "p_dealer (H b) \<noteq> None \<Longrightarrow> b \<in> insert a X \<union> ran P \<union> ran Q'" for b
    using d(10) [of b] by (auto simp: in_ran Q)
  show "b \<in> insert a X \<Longrightarrow> b < n \<and> b \<notin> ran P \<and> b \<notin> ran Q' \<and> p_groups (H b) = []" for b
    using d(11-14) [of b] d(3) [OF k] d(5) [OF k] d(6) [OF k] by (auto simp: in_ran Q)
qed (use consistentD(1,2,7,8,9) [OF c] in simp_all)

subsection \<open>The invariant of the node\<close>

definition members :: "node \<Rightarrow> bytes \<Rightarrow> (pystr \<Rightarrow> nat option) option" where
  "members s g = map_option (\<lambda>G. map_of (g_peers G)) (dict_get (n_groups s) g)"

definition roster_ok :: "nat set \<Rightarrow> node \<Rightarrow> bool" where
  "roster_ok X s \<longleftrightarrow> is_dict (n_peers s) \<and> is_dict (n_pending s) \<and> is_dict (n_groups s)
     \<and> (\<forall>e \<in> set (n_groups s). is_dict (g_peers (snd e)))
     \<and> consistent X (n_next_addr s) (n_heap s) (map_of (n_peers s)) (map_of (n_pending s)) (members s)"

text \<open>The abstract state: who is there, and in which groups.\<close>

type_synonym rosters = "pystr \<Rightarrow> bytes set option"

definition roster :: "node \<Rightarrow> rosters" where
  "roster s k = map_option (\<lambda>a. set (p_groups (n_heap s a))) (dict_get (n_peers s) k)"

text \<open>A node with given tables.\<close>

definition talk where
  "talk X P Q R s \<longleftrightarrow> roster_ok X s \<and> n_peers s = P \<and> n_pending s = Q \<and> roster s = R"

lemma talkI:
  assumes "is_dict P" "is_dict Q" "is_dict (n_groups s)" "\<forall>e \<in> set (n_groups s). is_dict (g_peers (snd e))"
    and "consistent X (n_next_addr s) (n_heap s) (map_of P) (map_of Q) (members s)"
    and "n_peers s = P" "n_pending s = Q" "roster s = R"
  shows "talk X P Q R s"
  using assms by (auto simp: talk_def roster_ok_def)

lemma talkD:
  assumes "talk X P Q R s"
  shows "is_dict P" "is_dict Q" "is_dict (n_groups s)" "\<forall>e \<in> set (n_groups s). is_dict (g_peers (snd e))"
    and "consistent X (n_next_addr s) (n_heap s) (map_of P) (map_of Q) (members s)"
    and "n_peers s = P" "n_pending s = Q" "roster s = R"
  using assms by (auto simp: talk_def roster_ok_def)

lemma members_update:
  assumes "n_groups s' = dict_set g G (n_groups s)"
  shows "members s' = (members s)(g \<mapsto> map_of (g_peers G))"
  using assms by (auto simp: members_def fun_eq_iff alist.get_put)

lemma groups_update:
  assumes "talk X P Q R s" "is_dict (g_peers G)"
  shows "is_dict (dict_set g G (n_groups s))"
    "\<forall>e \<in> set (dict_set g G (n_groups s)). is_dict (g_peers (snd e))"
  using talkD(3,4) [OF assms(1)] assms(2) by (auto simp: set_dict_set is_dict_update)

lemma group_dict:
  assumes "talk X P Q R s" "dict_get (n_groups s) g = Some G"
  shows "is_dict (g_peers G)"
  using talkD(4) [OF assms(1)] map_of_SomeD [OF assms(2)] by auto

lemma roster_cong: "n_peers s' = n_peers s \<Longrightarrow> n_heap s' = n_heap s \<Longrightarrow> roster s' = roster s"
  by (simp add: roster_def fun_eq_iff)

lemma talk_upd_group:
  assumes "\<And>G. g_peers (h G) = g_peers G"
  shows "keeps (talk X P Q R) (upd_group g h)"
proof (rule keepsI)
  fix s assume s: "talk X P Q R s"
  show "talk X P Q R (snd (upd_group g h s))"
  proof (cases "dict_get (n_groups s) g")
    case None
    with s show ?thesis by (simp add: upd_group_def)
  next
    case (Some G)
    let ?s = "s\<lparr>n_groups := dict_set g (h G) (n_groups s)\<rparr>"
    have m: "members ?s = members s"
      using Some assms by (auto simp: members_def fun_eq_iff alist.get_put)
    have "is_dict (g_peers (h G))" using group_dict [OF s Some] by (simp add: assms)
    note d = groups_update [OF s this, of g]
    have "talk X P Q R ?s"
      by (rule talkI) (use talkD [OF s] d m roster_cong [of ?s s] in simp_all)
    with Some show ?thesis by (simp add: upd_group_def)
  qed
qed

definition create_group :: "bytes \<Rightarrow> node \<Rightarrow> node" where
  "create_group g s = (case dict_get (n_groups s) g of
     None \<Rightarrow> s\<lparr>n_groups := dict_set g (new_group g) (n_groups s)\<rparr> | Some _ \<Rightarrow> s)"

lemma create_group_exists: "dict_get (n_groups (create_group g s)) g \<noteq> None"
  by (auto simp: create_group_def alist.get_put split: option.split)

lemma talk_create_group:
  assumes s: "talk X P Q R s"
  shows "talk X P Q R (create_group g s)"
proof (cases "dict_get (n_groups s) g")
  case (Some G)
  with s show ?thesis by (simp add: create_group_def)
next
  case None
  let ?s = "s\<lparr>n_groups := dict_set g (new_group g) (n_groups s)\<rparr>"
  have m: "members ?s = (members s)(g \<mapsto> Map.empty)"
    by (simp add: members_update [of _ g "new_group g"]) (simp add: new_group_def)
  have "members s g = None" using None by (simp add: members_def)
  from consistent_new_group [OF talkD(5) [OF s] this]
  have c: "consistent X (n_next_addr ?s) (n_heap ?s) (map_of P) (map_of Q) (members ?s)" by (simp add: m)
  have "is_dict (g_peers (new_group g))" by (simp add: new_group_def is_dict_def keys_def)
  note d = groups_update [OF s this, of g]
  have "talk X P Q R ?s"
    by (rule talkI) (use talkD [OF s] d c roster_cong [of ?s s] in simp_all)
  with None show ?thesis by (simp add: create_group_def)
qed

lemma require_group_create:
  "require_group g s = andThen (upd_group g (\<lambda>G. if g \<in> set (n_contest_groups s) then G\<lparr>g_contest := True\<rparr> else G))
     (\<lambda>_. gets (\<lambda>s. case dict_get (n_groups s) g of Some G \<Rightarrow> G | None \<Rightarrow> new_group g)) (create_group g s)"
proof -
  have "n_contest_groups (create_group g s) = n_contest_groups s"
    by (simp add: create_group_def split: option.split)
  moreover have "s'\<lparr>n_groups := dict_set g G (n_groups s')\<rparr> = s'" if "dict_get (n_groups s') g = Some G" for s' :: node and G
    using that by (simp add: AList.update_triv)
  ultimately show ?thesis
    by (auto simp: require_group_def run_thenDo run_andThen create_group_def [symmetric] upd_group_def
        split: option.split)
qed

lemma talk_set_peer:
  assumes s: "talk X P Q R s" and f: "\<And>p. same_links p (f p)"
  shows "talk X P Q R (set_peer a f s)"
proof -
  let ?s = "set_peer a f s"
  have "members ?s = members s" by (simp add: members_def fun_eq_iff)
  moreover have "same_links (n_heap s b) (n_heap ?s b)" for b
    using f by (simp add: set_peer_def same_links_def)
  note consistent_calmer [OF talkD(5) [OF s], of "n_heap ?s", OF this]
  ultimately have c: "consistent X (n_next_addr ?s) (n_heap ?s) (map_of P) (map_of Q) (members ?s)"
    by (simp del: set_peer_simps(1))
  have "p_groups (f p) = p_groups p" for p using f [of p] by (simp add: same_links_def)
  then have "p_groups (n_heap ?s b) = p_groups (n_heap s b)" for b by simp
  then have "roster ?s = roster s"
    by (simp add: roster_def fun_eq_iff del: set_peer_simps(1))
  with c show ?thesis by (intro talkI) (use talkD [OF s] in simp_all)
qed

lemma talk_events: "talk X P Q R (s\<lparr>n_events := es\<rparr>) \<longleftrightarrow> talk X P Q R s"
proof -
  have "members (s\<lparr>n_events := es\<rparr>) = members s" "roster (s\<lparr>n_events := es\<rparr>) = roster s"
    by (simp_all add: members_def roster_def fun_eq_iff)
  then show ?thesis by (simp add: talk_def roster_ok_def)
qed

interpretation talking: session "talk X P Q R" for X P Q R
proof
  fix s s' :: node
  assume same: "core s' = core s" and s: "talk X P Q R s"
  then have "members s' = members s" by (simp add: core_eq members_def fun_eq_iff)
  then show "talk X P Q R s'"
    by (intro talkI) (use talkD [OF s] same roster_cong [of s' s] in \<open>simp_all add: core_eq\<close>)
next
  show "talk X P Q R s \<Longrightarrow> talk X P Q R (s\<lparr>n_events := push_event e (n_events s)\<rparr>)" for s e
    by (simp add: talk_events)
next
  fix f a s assume f: "\<And>p. calmer p (f p)" and s: "talk X P Q R s"
  show "talk X P Q R (set_peer a f s)"
    by (rule talk_set_peer [OF s]) (use f in \<open>simp add: calmer_def\<close>)
next
  fix a t s assume "talk X P Q R s"
  then show "talk X P Q R (set_peer a (\<lambda>p. p\<lparr>p_expired_at := t\<rparr>) s)"
    by (rule talk_set_peer) (simp add: same_links_def)
next
  show "keeps (talk X P Q R) (upd_group g h)" if "\<And>G. g_peers (h G) = g_peers G" for g h
    using that by (rule talk_upd_group)
next
  show "keeps (talk X P Q R) (require_group g)" for g
  proof (rule keepsI)
    fix s assume s: "talk X P Q R s"
    let ?h = "\<lambda>G. if g \<in> set (n_contest_groups s) then G\<lparr>g_contest := True\<rparr> else G"
    have "keeps (talk X P Q R) (upd_group g ?h)" by (rule talk_upd_group) simp
    then have "keeps (talk X P Q R) (andThen (upd_group g ?h) (\<lambda>_. gets (\<lambda>s.
        case dict_get (n_groups s) g of Some G \<Rightarrow> G | None \<Rightarrow> new_group g)))"
      by (intro keeps_rules)
    then show "talk X P Q R (snd (require_group g s))"
      using talk_create_group [OF s] by (simp add: require_group_create keeps_def)
  qed
qed

lemma talk_emit [session_rules]: "keeps (talk X P Q R) (emit e)"
  by (simp add: emit_def keeps_modify talk_events)

subsection \<open>Joining, leaving, going\<close>

definition joined :: "nat \<Rightarrow> bytes \<Rightarrow> node \<Rightarrow> node" where
  "joined a g s =
    (let p = n_heap s a; G = the (dict_get (n_groups s) g)
     in s\<lparr>n_heap := (n_heap s)(a := p\<lparr>p_groups := insert_last g (p_groups p)\<rparr>),
          n_groups := dict_set g (G\<lparr>g_peers := dict_set (p_uuid_hex p) a (g_peers G)\<rparr>) (n_groups s)\<rparr>)"

lemma set_insert_last [simp]: "set (insert_last x xs) = insert x (set xs)"
  by (auto simp: insert_last_def)

lemma roster_at: "talk X P Q R s \<Longrightarrow> dict_get P k = Some a \<Longrightarrow> R k = Some (set (p_groups (n_heap s a)))"
  using talkD(6,8) by (fastforce simp: roster_def)

lemma roster_none: "talk X P Q R s \<Longrightarrow> R k = None \<longleftrightarrow> dict_get P k = None"
  using talkD(6,8) by (fastforce simp: roster_def)

text \<open>Changing the peer \<open>k\<close> changes its own entry of the roster only.\<close>

lemma roster_point:
  assumes s: "talk X P Q R s" and k: "dict_get P k = Some a"
    and s': "n_peers s' = P" "n_heap s' = (n_heap s)(a := q)"
  shows "roster s' = R(k \<mapsto> set (p_groups q))"
proof (rule ext)
  fix j
  have "j = k" if "dict_get P j = Some a"
    using consistent_inj(1) [OF talkD(5) [OF s] that k] .
  then show "roster s' j = (R(k \<mapsto> set (p_groups q))) j"
    using k talkD(6,8) [OF s] by (cases "dict_get P j") (auto simp: roster_def s')
qed

lemma talk_joined:
  assumes s: "talk X P Q R s" and k: "dict_get P k = Some a" and g: "dict_get (n_groups s) g \<noteq> None"
  shows "talk X P Q (R(k := Some (insert g (the (R k))))) (joined a g s)"
proof -
  let ?p = "n_heap s a" and ?s = "joined a g s"
  let ?q = "?p\<lparr>p_groups := insert_last g (p_groups ?p)\<rparr>"
  from g obtain G where G: "dict_get (n_groups s) g = Some G" by blast
  let ?G = "G\<lparr>g_peers := dict_set k a (g_peers G)\<rparr>"
  have u: "p_uuid_hex ?p = k" by (rule consistentD(2) [OF talkD(5) [OF s] k])
  have s': "?s = s\<lparr>n_heap := (n_heap s)(a := ?q), n_groups := dict_set g ?G (n_groups s)\<rparr>"
    by (simp add: joined_def Let_def G u)
  have "is_dict (g_peers ?G)" using group_dict [OF s G] by (simp add: is_dict_update)
  note d = groups_update [OF s this, of g]
  have m: "members ?s = (members s)(g \<mapsto> (map_of (g_peers G))(k \<mapsto> a))"
    by (simp add: members_update [of _ g ?G] s') (simp add: fun_eq_iff alist.get_put)
  have "map_of (g_peers G) = (case members s g of None \<Rightarrow> Map.empty | Some m \<Rightarrow> m)"
    using G by (simp add: members_def)
  from consistent_enrol [OF talkD(5) [OF s] k _ _ _ _ this, of ?q]
  have c: "consistent X (n_next_addr ?s) (n_heap ?s) (map_of P) (map_of Q) (members ?s)"
    unfolding m by (simp add: s')
  have "roster ?s = R(k := Some (insert g (the (R k))))"
    using roster_point [OF s k, of ?s ?q] roster_at [OF s k] talkD(6) [OF s] by (simp add: s')
  with c d show ?thesis
    by (intro talkI) (use talkD [OF s] in \<open>simp_all add: s'\<close>)
qed

lemma run_hello_join: "hello_join a g s = (Inr (), joined a g (create_group g s))"
proof -
  have "\<exists>G. dict_get (n_groups (create_group g s)) g = Some G" using create_group_exists by blast
  then show ?thesis
    by (auto simp: hello_join_def run_thenDo run_andThen create_group_def [symmetric] group_join_def
        deref_def upd_group_def upd_peer_def set_peer_def joined_def Let_def)
qed

lemma upd_group_frame:
  "upd_group g h (s\<lparr>n_heap := H\<rparr>) = (Inr (), (snd (upd_group g h s))\<lparr>n_heap := H\<rparr>)"
  by (simp add: upd_group_def split: option.split)

lemma create_group_frame: "create_group g (s\<lparr>n_heap := H\<rparr>) = (create_group g s)\<lparr>n_heap := H\<rparr>"
  by (simp add: create_group_def split: option.split)

lemma run_require:
  "require_group g s = (Inr (the (dict_get (n_groups (snd (require_group g s))) g)), snd (require_group g s))"
  "dict_get (n_groups (snd (require_group g s))) g \<noteq> None"
  "require_group g (s\<lparr>n_heap := H\<rparr>) =
     (fst (require_group g s), (snd (require_group g s))\<lparr>n_heap := H\<rparr>)"
  "n_heap (snd (require_group g s)) = n_heap s"
proof -
  obtain G where "dict_get (n_groups (create_group g s)) g = Some G"
    using create_group_exists [of g s] by blast
  moreover have "n_contest_groups (create_group g s) = n_contest_groups s"
      "n_heap (create_group g s) = n_heap s"
    by (simp_all add: create_group_def split: option.split)
  ultimately show "require_group g s =
      (Inr (the (dict_get (n_groups (snd (require_group g s))) g)), snd (require_group g s))"
    "dict_get (n_groups (snd (require_group g s))) g \<noteq> None"
    "require_group g (s\<lparr>n_heap := H\<rparr>) = (fst (require_group g s), (snd (require_group g s))\<lparr>n_heap := H\<rparr>)"
    "n_heap (snd (require_group g s)) = n_heap s"
    by (auto simp: require_group_create run_andThen upd_group_def create_group_frame alist.get_put)
qed

lemma run_join_start:
  "thenDo (upd_peer a (\<lambda>p. p\<lparr>p_groups := insert_last g (p_groups p)\<rparr>))
     (thenDo (andThen (require_group g) (\<lambda>_. group_join g a)) m) s =
   m (joined a g (snd (require_group g s)))"
proof -
  note r = run_require [where g = g and s = s]
  let ?H = "(n_heap s)(a := (n_heap s a)\<lparr>p_groups := insert_last g (p_groups (n_heap s a))\<rparr>)"
  have "require_group g (s\<lparr>n_heap := ?H\<rparr>) = (fst (require_group g s), (snd (require_group g s))\<lparr>n_heap := ?H\<rparr>)"
    by (rule r(3))
  moreover obtain x where "fst (require_group g s) = Inr x" using r(1) by (metis fst_conv)
  moreover obtain G where "dict_get (n_groups (snd (require_group g s))) g = Some G" using r(2) by blast
  ultimately show ?thesis
    by (simp add: run_thenDo run_andThen upd_peer_def set_peer_def group_join_def deref_def
        upd_group_def joined_def Let_def r(4))
qed

definition drop_member :: "pystr \<Rightarrow> bytes \<Rightarrow> (bytes \<times> grp) list \<Rightarrow> (bytes \<times> grp) list" where
  "drop_member u g groups = (case dict_get groups g of
     None \<Rightarrow> groups | Some G \<Rightarrow> dict_set g (G\<lparr>g_peers := dict_pop u (g_peers G)\<rparr>) groups)"

lemma run_group_leave:
  "group_leave g a s = (Inr (), s\<lparr>n_groups := drop_member (p_uuid_hex (n_heap s a)) g (n_groups s)\<rparr>)"
  by (simp add: group_leave_def deref_def upd_group_def drop_member_def split: option.split)

lemma run_group_leaves:
  "for_each (\<lambda>g. group_leave g a) gs s =
    (Inr (), s\<lparr>n_groups := fold (drop_member (p_uuid_hex (n_heap s a))) gs (n_groups s)\<rparr>)"
  by (induction gs arbitrary: s) (simp_all add: run_thenDo run_group_leave)

lemma get_drop_member:
  "dict_get (drop_member u g groups) h =
     map_option (\<lambda>G. if h = g then G\<lparr>g_peers := dict_pop u (g_peers G)\<rparr> else G) (dict_get groups h)"
  by (cases "dict_get groups g"; cases "dict_get groups h") (auto simp: drop_member_def alist.get_put)

lemma get_drop_members:
  "map_option (\<lambda>G. map_of (g_peers G)) (dict_get (fold (drop_member u) gs groups) h) =
     map_option (\<lambda>G. if h \<in> set gs then (map_of (g_peers G))(u := None) else map_of (g_peers G))
       (dict_get groups h)"
proof (induction gs arbitrary: groups)
  case Nil
  then show ?case by simp
next
  case (Cons g gs)
  have pop: "map_of (dict_pop u d) = (map_of d)(u := None)" for d :: "(pystr \<times> nat) list"
    by (simp add: fun_eq_iff alist.get_pop)
  show ?case
    by (cases "dict_get groups h") (simp_all add: Cons.IH get_drop_member pop)
qed

lemma drop_members_dicts:
  assumes "is_dict groups" "\<forall>e \<in> set groups. is_dict (g_peers (snd e))"
  shows "is_dict (fold (drop_member u) gs groups)
    \<and> (\<forall>e \<in> set (fold (drop_member u) gs groups). is_dict (g_peers (snd e)))"
  using assms
proof (induction gs arbitrary: groups)
  case Nil
  then show ?case by simp
next
  case (Cons g gs)
  have "is_dict (drop_member u g groups) \<and> (\<forall>e \<in> set (drop_member u g groups). is_dict (g_peers (snd e)))"
  proof (cases "dict_get groups g")
    case None
    with Cons.prems show ?thesis by (simp add: drop_member_def)
  next
    case (Some G)
    with Cons.prems map_of_SomeD [OF Some] show ?thesis
      by (auto simp: drop_member_def set_dict_set is_dict_update is_dict_delete)
  qed
  with Cons.IH [of "drop_member u g groups"] show ?case by simp
qed

lemma members_drop:
  "n_groups s' = fold (drop_member u) gs (n_groups s) \<Longrightarrow>
   members s' h = map_option (\<lambda>m. if h \<in> set gs then m(u := None) else m) (members s h)"
  by (simp add: members_def get_drop_members option.map_comp comp_def cong: option.map_cong)

definition left :: "nat \<Rightarrow> bytes \<Rightarrow> node \<Rightarrow> node" where
  "left a g s =
    (let p = n_heap s a
     in s\<lparr>n_heap := (n_heap s)(a := p\<lparr>p_groups := removeAll g (p_groups p)\<rparr>),
          n_groups := drop_member (p_uuid_hex p) g (n_groups s)\<rparr>)"

lemma run_leave_start:
  "thenDo (upd_peer a (\<lambda>p. p\<lparr>p_groups := removeAll g (p_groups p)\<rparr>)) (thenDo (group_leave g a) m) s =
   m (left a g s)"
  by (simp add: run_thenDo run_group_leave upd_peer_def set_peer_def left_def Let_def)

lemma talk_left:
  assumes s: "talk X P Q R s" and k: "dict_get P k = Some a"
  shows "talk X P Q (R(k := Some (the (R k) - {g}))) (left a g s)"
proof -
  let ?p = "n_heap s a" and ?s = "left a g s"
  let ?q = "?p\<lparr>p_groups := removeAll g (p_groups ?p)\<rparr>"
  have u: "p_uuid_hex ?p = k" by (rule consistentD(2) [OF talkD(5) [OF s] k])
  have s': "?s = s\<lparr>n_heap := (n_heap s)(a := ?q), n_groups := fold (drop_member k) [g] (n_groups s)\<rparr>"
    by (simp add: left_def Let_def u)
  have "members ?s h = (if h = g then map_option (\<lambda>m. m(k := None)) (members s g) else members s h)" for h
    using members_drop [of ?s k "[g]" s h] by (cases "h = g"; cases "members s h") (simp_all add: s')
  from consistent_withdraw [OF talkD(5) [OF s] k _ _ _ _ this, of ?q]
  have c: "consistent X (n_next_addr ?s) (n_heap ?s) (map_of P) (map_of Q) (members ?s)"
    by (simp add: s')
  have "roster ?s = R(k := Some (the (R k) - {g}))"
    using roster_point [OF s k, of ?s ?q] roster_at [OF s k] talkD(6) [OF s] by (simp add: s')
  with c drop_members_dicts [OF talkD(3,4) [OF s], of k "[g]"] show ?thesis
    by (intro talkI) (use talkD [OF s] in \<open>simp_all add: s'\<close>)
qed

lemma talk_removed:
  assumes s: "talk X P Q R s" and k: "dict_get P k = Some a"
    and gs: "set gs = set (p_groups (n_heap s a))"
    and s': "n_next_addr s' = n_next_addr s" "n_pending s' = Q" "n_peers s' = dict_pop k P"
      "n_heap s' = (n_heap s)(a := q)" "p_dealer q = None" "\<not> p_connected q"
      "n_groups s' = fold (drop_member k) gs (n_groups s)"
  shows "talk X (dict_pop k P) Q (R(k := None)) s'"
proof -
  have P': "dict_get (dict_pop k P) j = (if j = k then None else dict_get P j)" for j
    by (rule alist.get_pop)
  have M': "members s' g = map_option (\<lambda>m. if g \<in> set (p_groups (n_heap s a)) then m(k := None) else m)
      (members s g)" for g
    using members_drop [OF s'(7), of g] gs by simp
  from consistent_remove [OF talkD(5) [OF s] k s'(5,6) P' M']
  have c: "consistent X (n_next_addr s') (n_heap s') (map_of (dict_pop k P)) (map_of Q) (members s')"
    by (simp add: s')
  have "roster s' = R(k := None)"
  proof (rule ext)
    fix j
    have "j = k" if "dict_get P j = Some a" using consistent_inj(1) [OF talkD(5) [OF s] that k] .
    then show "roster s' j = (R(k := None)) j"
      using talkD(6,8) [OF s] by (cases "dict_get P j") (auto simp: roster_def s' P')
  qed
  with c drop_members_dicts [OF talkD(3,4) [OF s], of k gs] show ?thesis
    by (intro talkI) (use talkD [OF s] in \<open>simp_all add: s' is_dict_delete\<close>)
qed

subsection \<open>Programs and the roster\<close>

text \<open>
  \<open>ends Rs\<close>: the node is in order and its roster is one of \<open>Rs\<close>. \<open>leads P Q R m Rs\<close>: from tables \<open>P\<close>,
  \<open>Q\<close> and roster \<open>R\<close>, the program \<open>m\<close> leads to one of \<open>Rs\<close>, whether it returns or raises.
\<close>

definition ends :: "rosters set \<Rightarrow> node \<Rightarrow> bool" where
  "ends Rs s \<longleftrightarrow> (\<exists>P Q R. R \<in> Rs \<and> talk {} P Q R s)"

definition leads :: "(pystr \<times> nat) list \<Rightarrow> (pystr \<times> nat) list \<Rightarrow> rosters \<Rightarrow> 'a nprog \<Rightarrow> rosters set \<Rightarrow> bool" where
  "leads P Q R m Rs \<longleftrightarrow> triple (talk {} P Q R) m (\<lambda>_. ends Rs) (\<lambda>_. ends Rs)"

lemma ends_talk: "talk {} P Q R s \<Longrightarrow> R \<in> Rs \<Longrightarrow> ends Rs s"
  by (auto simp: ends_def)

lemma leads_kept:
  assumes "keeps (talk {} P Q R) m" and "R \<in> Rs"
  shows "leads P Q R m Rs"
  unfolding leads_def
  by (rule triple_conseq [OF triple_keeps [OF assms(1)]]) (auto intro: ends_talk assms(2))

text \<open>First a part that talks, then the rest.\<close>

lemma leads_talk:
  assumes m: "keeps (talk {} P Q R) m" and "R \<in> Rs" and k: "\<And>x. leads P Q R (k x) Rs"
  shows "leads P Q R (andThen m k) Rs"
  unfolding leads_def
proof (rule triple_andThen)
  show "triple (talk {} P Q R) m (\<lambda>_. talk {} P Q R) (\<lambda>_. ends Rs)"
    by (rule triple_conseq [OF triple_keeps [OF m]]) (auto intro: ends_talk assms(2))
  show "triple (talk {} P Q R) (k x) (\<lambda>_. ends Rs) (\<lambda>_. ends Rs)" for x
    using k by (simp add: leads_def)
qed

lemma leads_talk_then:
  "keeps (talk {} P Q R) m \<Longrightarrow> R \<in> Rs \<Longrightarrow> leads P Q R k Rs \<Longrightarrow> leads P Q R (thenDo m k) Rs"
  unfolding thenDo_def by (rule leads_talk)

lemma leads_gets:
  "(\<And>s. talk {} P Q R s \<Longrightarrow> leads P Q R (k (f s)) Rs) \<Longrightarrow> leads P Q R (andThen (gets f) k) Rs"
  by (simp add: leads_def triple_def)

lemma leads_deref:
  "(\<And>s. talk {} P Q R s \<Longrightarrow> leads P Q R (k (n_heap s a)) Rs) \<Longrightarrow> leads P Q R (andThen (deref a) k) Rs"
  unfolding deref_def by (rule leads_gets)

lemma leads_cases:
  "(b \<Longrightarrow> leads P Q R m Rs) \<Longrightarrow> (\<not> b \<Longrightarrow> leads P Q R k Rs) \<Longrightarrow> leads P Q R (if b then m else k) Rs"
  "(v = None \<Longrightarrow> leads P Q R m Rs) \<Longrightarrow> (\<And>x. v = Some x \<Longrightarrow> leads P Q R (f x) Rs) \<Longrightarrow>
     leads P Q R (case v of None \<Rightarrow> m | Some x \<Rightarrow> f x) Rs"
  "(\<And>x y. p = (x, y) \<Longrightarrow> leads P Q R (h x y) Rs) \<Longrightarrow> leads P Q R (case p of (x, y) \<Rightarrow> h x y) Rs"
  by (auto split: option.split prod.split)

lemma leads_end: "R \<in> Rs \<Longrightarrow> leads P Q R (ret x) Rs" "R \<in> Rs \<Longrightarrow> leads P Q R (throw e) Rs"
  by (auto intro: leads_kept keeps_ret keeps_throw)

text \<open>A step whose effect on the tables is known, then the rest.\<close>

lemma leads_step:
  assumes "\<And>s. talk {} P Q R s \<Longrightarrow> \<exists>s'. m s = k s' \<and> talk {} P' Q' R' s'"
    and "leads P' Q' R' k Rs"
  shows "leads P Q R m Rs"
  unfolding leads_def
proof (rule tripleI)
  fix s assume "talk {} P Q R s"
  with assms(1) obtain s' where "m s = k s'" "talk {} P' Q' R' s'" by blast
  with assms(2) show "case m s of (Inr x, s') \<Rightarrow> ends Rs s' | (Inl e, s') \<Rightarrow> ends Rs s'"
    by (simp add: leads_def triple_def)
qed

lemma leads_mono: "leads P Q R m Rs \<Longrightarrow> Rs \<subseteq> Rs' \<Longrightarrow> leads P Q R m Rs'"
  unfolding leads_def by (erule triple_conseq) (auto simp: ends_def)

lemma leads_ends: "leads P Q R m Rs \<Longrightarrow> talk {} P Q R s \<Longrightarrow> ends Rs (snd (m s))"
  unfolding leads_def triple_def by (fastforce split: sum.splits)

subsection \<open>Join, leave, departure\<close>

lemma leads_on_join:
  assumes "dict_get P k = Some a"
  shows "leads P Q R (on_join E k a g) {R(k := Some (insert g (the (R k))))}"
  unfolding on_join_def
proof (rule leads_step)
  fix s assume s: "talk {} P Q R s"
  let ?s = "snd (require_group g s)"
  have "talk {} P Q R ?s" using talking.require s by (simp add: keeps_def)
  from talk_joined [OF this assms] run_require(2) [of g s]
  have "talk {} P Q (R(k := Some (insert g (the (R k))))) (joined a g ?s)" by simp
  then show "\<exists>s'. thenDo (upd_peer a (\<lambda>p. p\<lparr>p_groups := insert_last g (p_groups p)\<rparr>))
      (thenDo (andThen (require_group g) (\<lambda>_. group_join g a)) (andThen (deref a) (\<lambda>p.
        thenDo (emit (EvJoin k (pname p) (bdec g))) (start_election E g)))) s =
    andThen (deref a) (\<lambda>p. thenDo (emit (EvJoin k (pname p) (bdec g))) (start_election E g)) s' \<and>
    talk {} P Q (R(k := Some (insert g (the (R k))))) s'"
    by (intro exI [of _ "joined a g ?s"] conjI) (rule run_join_start)
qed (intro leads_kept keeps_rules session_rules, simp)

lemma leads_on_leave:
  assumes "dict_get P k = Some a"
  shows "leads P Q R (on_leave E k a g) {R(k := Some (the (R k) - {g}))}"
  unfolding on_leave_def
proof (rule leads_step)
  fix s assume s: "talk {} P Q R s"
  from talk_left [OF s assms] show "\<exists>s'. thenDo (upd_peer a (\<lambda>p. p\<lparr>p_groups := removeAll g (p_groups p)\<rparr>))
      (thenDo (group_leave g a) (andThen (deref a) (\<lambda>p.
        thenDo (emit (EvLeave k (pname p) (bdec g))) (restart_election_if_needed E g)))) s =
    andThen (deref a) (\<lambda>p. thenDo (emit (EvLeave k (pname p) (bdec g))) (restart_election_if_needed E g)) s' \<and>
    talk {} P Q (R(k := Some (the (R k) - {g}))) s'"
    by (intro exI [of _ "left a g s"] conjI) (rule run_leave_start)
qed (intro leads_kept keeps_rules session_rules, simp)

lemma leads_steps:
  assumes "\<And>s. talk {} P Q R s \<Longrightarrow> \<exists>s' k P' Q' R'. m s = k s' \<and> talk {} P' Q' R' s' \<and> leads P' Q' R' k Rs"
  shows "leads P Q R m Rs"
  unfolding leads_def
proof (rule tripleI)
  fix s assume "talk {} P Q R s"
  with assms obtain s' k P' Q' R' where "m s = k s'" "talk {} P' Q' R' s'" "leads P' Q' R' k Rs" by blast
  then show "case m s of (Inr x, s') \<Rightarrow> ends Rs s' | (Inl e, s') \<Rightarrow> ends Rs s'"
    by (simp add: leads_def triple_def)
qed

lemma torn_down_simps [simp]:
  "p_dealer (torn_down p) = None" "\<not> p_connected (torn_down p)" "p_groups (torn_down p) = p_groups p"
  "p_uuid_hex (torn_down p) = p_uuid_hex p"
  by (simp_all add: torn_down_def)

lemma peer_disconnect_state:
  "fst (peer_disconnect a s) = Inr ()"
  "n_heap (snd (peer_disconnect a s)) = (n_heap s)(a := torn_down (n_heap s a))"
  "n_peers (snd (peer_disconnect a s)) = n_peers s" "n_pending (snd (peer_disconnect a s)) = n_pending s"
  "n_groups (snd (peer_disconnect a s)) = n_groups s"
  "n_next_addr (snd (peer_disconnect a s)) = n_next_addr s"
  by (simp_all add: run_peer_disconnect set_peer_def split: option.split)

lemma run_disconnect_then: "thenDo (peer_disconnect a) k s = k (snd (peer_disconnect a s))"
  by (cases "peer_disconnect a s") (use peer_disconnect_state(1) [of a s] in \<open>simp add: run_thenDo\<close>)

lemma talk_keeps: "keeps (talk X P Q R) m \<Longrightarrow> talk X P Q R s \<Longrightarrow> talk X P Q R (snd (m s))"
  by (simp add: keeps_def)

lemma leads_snd: "(\<And>s. talk {} P Q R s \<Longrightarrow> ends Rs (snd (m s))) \<Longrightarrow> leads P Q R m Rs"
  unfolding leads_def by (rule tripleI) (simp add: split_beta split: sum.split)

text \<open>
  A departure: the peer is taken out of its groups and of the table and its connection is closed
  (\<open>cleared\<close>), then the node reports it (\<open>farewell\<close>).
\<close>

definition cleared :: "env \<Rightarrow> pystr \<Rightarrow> nat \<Rightarrow> node \<Rightarrow> node" where
  "cleared E k a s =
    (let s' = snd (peer_disconnect a (s\<lparr>n_groups :=
           fold (drop_member k) (set_iter E (w_hist s) (p_groups (n_heap s a))) (n_groups s)\<rparr>))
     in s'\<lparr>n_peers := dict_pop k (n_peers s)\<rparr>)"

definition farewell :: "env \<Rightarrow> pystr \<Rightarrow> pystr \<Rightarrow> bytes list \<Rightarrow> unit nprog" where
  "farewell E k name gs =
     thenDo (modify (\<lambda>s. s\<lparr>n_evasive_emit_at := dict_pop k (n_evasive_emit_at s)\<rparr>))
     (thenDo (emit (EvExit k name)) (for_each (restart_election_if_needed E) gs))"

lemma talk_cleared:
  assumes "talk {} P Q R s" and "dict_get P k = Some a"
  shows "talk {} (dict_pop k P) Q (R(k := None)) (cleared E k a s)"
  by (rule talk_removed [OF assms, of "set_iter E (w_hist s) (p_groups (n_heap s a))" _ "torn_down (n_heap s a)"])
    (use talkD(6,7) [OF assms(1)] in \<open>simp_all add: cleared_def Let_def peer_disconnect_state\<close>)

lemma run_remove_peer:
  assumes "talk {} P Q R s" and "dict_get P k = Some a"
  shows "remove_peer E a s = farewell E k (pname (n_heap s a)) (set_iter E (w_hist s) (p_groups (n_heap s a)))
     (cleared E k a s)"
proof -
  have "p_uuid_hex (n_heap s a) = k" by (rule consistentD(2) [OF talkD(5) [OF assms(1)] assms(2)])
  then show ?thesis
    by (simp add: remove_peer_def run_thenDo [of "for_each _ _"] run_group_leaves deref_def
        run_disconnect_then farewell_def cleared_def Let_def peer_disconnect_state)
qed

lemma run_beacon_exit:
  assumes s: "talk {} P Q R s"
  shows "beacon_exit E k s = (case dict_get P k of
      None \<Rightarrow> (Inr (), s)
    | Some a \<Rightarrow> farewell E k (pname (n_heap s a)) (set_iter E (w_hist s) (p_groups (n_heap s a))) (cleared E k a s))"
proof (cases "dict_get P k")
  case None
  then show ?thesis using talkD(6) [OF s] by (simp add: beacon_exit_def)
next
  case (Some a)
  let ?gs = "set_iter E (w_hist s) (p_groups (n_heap s a))"
  have u: "p_uuid_hex (n_heap s a) = k" by (rule consistentD(2) [OF talkD(5) [OF s] Some])
  have "snd (peer_disconnect a (s\<lparr>n_peers := ps, n_groups := gs\<rparr>)) =
      (snd (peer_disconnect a (s\<lparr>n_groups := gs\<rparr>)))\<lparr>n_peers := ps\<rparr>" for ps gs
    by (simp add: run_peer_disconnect set_peer_def split: option.split)
  moreover have "pname (torn_down p) = pname p" for p by (simp add: torn_down_def pname_def)
  ultimately show ?thesis
    using Some talkD(6) [OF s]
    by (simp add: beacon_exit_def run_thenDo [of "for_each _ _"] run_group_leaves u deref_def
        run_disconnect_then farewell_def cleared_def Let_def peer_disconnect_state)
qed

lemma talk_remove_peer:
  assumes s: "talk {} P Q R s" and k: "dict_get P k = Some a"
  shows "talk {} (dict_pop k P) Q (R(k := None)) (snd (remove_peer E a s))"
proof -
  have "keeps (talk {} (dict_pop k P) Q (R(k := None))) (farewell E k n gs)" for n gs
    unfolding farewell_def by (intro keeps_rules session_rules)
  with talk_cleared [OF assms] show ?thesis by (simp only: run_remove_peer [OF assms] talk_keeps)
qed

lemma leads_remove_peer:
  assumes "dict_get P k = Some a"
  shows "leads P Q R (remove_peer E a) {R(k := None)}"
  by (rule leads_snd) (blast intro: ends_talk talk_remove_peer [OF _ assms])

lemma leads_beacon_exit:
  "leads P Q R (beacon_exit E k) {R(k := None)}"
proof (rule leads_snd)
  fix s assume s: "talk {} P Q R s"
  show "ends {R(k := None)} (snd (beacon_exit E k s))"
  proof (cases "dict_get P k")
    case None
    then have "R(k := None) = R" using roster_none [OF s, of k] by (simp add: fun_upd_idem)
    with None ends_talk [OF s] show ?thesis by (simp add: run_beacon_exit [OF s])
  next
    case (Some a)
    then have "beacon_exit E k s = remove_peer E a s"
      by (simp add: run_beacon_exit [OF s] run_remove_peer [OF s])
    with ends_talk [OF talk_remove_peer [OF s Some]] show ?thesis by simp
  qed
qed

subsection \<open>Dialling\<close>

lemma peer_connect_state:
  assumes "peer_connect E a u sk pk seck s = (r, s')" and "\<not> p_connected (n_heap s a)"
  shows "\<exists>ok. r = Inr ok \<and> n_heap s' = (n_heap s)(a := (n_heap s a)
      \<lparr>p_dealer := (if ok then Some (w_next_sock s) else None), p_connected := ok\<rparr>)
    \<and> n_peers s' = n_peers s \<and> n_pending s' = n_pending s \<and> n_groups s' = n_groups s
    \<and> n_next_addr s' = n_next_addr s"
proof -
  have same: "(n_heap s a)\<lparr>p_dealer := None, p_connected := False\<rparr> = (n_heap s a)\<lparr>p_dealer := None\<rparr>"
    using assms(2) by (cases "n_heap s a") simp
  note run = run_peer_connect [OF assms(2), of E u sk pk seck, unfolded assms(1) Let_def]
  show ?thesis
  proof (cases "curve_of sk pk seck")
    case None
    with run show ?thesis by (intro exI [of _ False]) (simp add: same)
  next
    case (Some c)
    with run show ?thesis
      by (cases "e_connect E (rev (map (IoOpt (w_next_sock s)) (dialled_options (n_heap s a) u c))
            @ IoOpen (w_next_sock s) DEALER # w_hist s) (w_next_sock s)
            (tcp_address (p_addr (n_heap s a)) (p_port (n_heap s a)))")
        (auto simp: same)
  qed
qed

text \<open>
  Dialling makes a connection in flight (\<open>X = {a}\<close>), or leaves the node as it was.
\<close>

lemma run_dial_peer:
  assumes s: "talk {} P Q R s"
  shows "\<exists>r s'. dial_peer E u addr port rhex s = (Inr r, s')
    \<and> (case r of None \<Rightarrow> talk {} P Q R s'
       | Some a \<Rightarrow> talk {a} P Q R s' \<and> p_uuid_hex (n_heap s' a) = u)"
proof -
  let ?a = "n_next_addr s" and ?p = "new_peer u addr port"
  let ?s = "s\<lparr>n_heap := (n_heap s)(?a := ?p), n_next_addr := Suc ?a\<rparr>"
  have p: "p_dealer ?p = None" "\<not> p_connected ?p" "p_groups ?p = []" "p_uuid_hex ?p = u"
    by (simp_all add: new_peer_def)
  have free: "P' k \<noteq> Some ?a" if "P' = map_of P \<or> P' = map_of Q" for P' k
    using consistentD(1,3) [OF talkD(5) [OF s], of k ?a] that by auto
  have m: "members ?s = members s" by (simp add: members_def fun_eq_iff)
  have r: "roster s' = R" if "n_peers s' = n_peers s" "n_heap s' = (n_heap s)(?a := q)" for s' q
  proof -
    have "roster s' k = roster s k" for k
      using free [of "map_of P" k] talkD(6) [OF s] that
      by (cases "dict_get P k") (auto simp: roster_def)
    then show ?thesis using talkD(8) [OF s] by (simp add: fun_eq_iff)
  qed
  from consistent_alloc [OF talkD(5) [OF s] p(1,2)]
  have c: "consistent {} (n_next_addr ?s) (n_heap ?s) (map_of P) (map_of Q) (members ?s)"
    by (simp add: m)
  then have c': "consistent {} (Suc ?a) (n_heap ?s) (map_of P) (map_of Q) (members ?s)" by simp
  have t: "talk {} P Q R ?s"
    by (rule talkI) (use talkD [OF s] c r [of ?s ?p] in simp_all)
  obtain sk pk seck where keys: "curve_client_args ?s addr port rhex = (sk, pk, seck)"
    by (cases "curve_client_args ?s addr port rhex")
  show ?thesis
  proof (cases "c_curve_secret (n_cfg ?s) \<noteq> None \<and> sk = None")
    case True
    then have "dial_peer E u addr port rhex s = (Inr None, ?s)"
      by (simp add: dial_peer_def alloc_peer_def run_andThen keys)
    with t show ?thesis by simp
  next
    case False
    obtain r' s' where run: "peer_connect E ?a (c_peer_id (n_cfg ?s)) sk pk seck ?s = (r', s')" by fastforce
    from peer_connect_state [OF this] p obtain ok where ok: "r' = Inr ok"
        "n_heap s' = (n_heap ?s)(?a := ?p\<lparr>p_dealer := (if ok then Some (w_next_sock ?s) else None), p_connected := ok\<rparr>)"
        "n_peers s' = n_peers s" "n_pending s' = n_pending s" "n_groups s' = n_groups s"
        "n_next_addr s' = Suc ?a" by auto
    have "dial_peer E u addr port rhex s = (Inr (if ok then Some ?a else None), s')"
      using False run ok(1) by (auto simp: dial_peer_def alloc_peer_def run_andThen keys)
    moreover have "talk (if ok then {?a} else {}) P Q R s'"
    proof (rule talkI)
      have "consistent (if ok then {?a} else {}) (Suc ?a) ((n_heap ?s)(?a := n_heap s' ?a)) (map_of P) (map_of Q) (members ?s)"
        by (rule consistent_flight [OF c']) (use free p ok(2) in \<open>auto simp: in_ran\<close>)
      moreover have "members s' = members ?s" by (simp add: members_def fun_eq_iff ok)
      moreover have "(n_heap ?s)(?a := n_heap s' ?a) = n_heap s'" by (simp add: ok)
      ultimately show "consistent (if ok then {?a} else {}) (n_next_addr s') (n_heap s') (map_of P) (map_of Q) (members s')"
        by (simp add: ok(6))
      show "roster s' = R" by (rule r) (simp_all add: ok)
    qed (use talkD [OF s] ok in simp_all)
    ultimately show ?thesis using p(4) by (cases ok) (simp_all add: ok)
  qed
qed

text \<open>Moves of a connection in flight between the tables.\<close>

lemma members_cong: "n_groups s' = n_groups s \<Longrightarrow> members s' = members s"
  by (simp add: members_def fun_eq_iff)

lemma talk_unpend:
  assumes s: "talk X P Q R s" and k: "dict_get Q key = Some a"
  shows "talk (insert a X) P (dict_pop key Q) R (s\<lparr>n_pending := dict_pop key Q\<rparr>)" (is "talk _ _ _ _ ?s")
proof -
  have "consistent (insert a X) (n_next_addr s) (n_heap s) (map_of P) (map_of (dict_pop key Q)) (members s)"
    by (rule consistent_unpend [OF talkD(5) [OF s] k]) (rule alist.get_pop)
  then show ?thesis
    by (intro talkI) (use talkD [OF s] members_cong [of ?s s] roster_cong [of ?s s] in
      \<open>simp_all add: is_dict_delete\<close>)
qed

lemma talk_flight:
  assumes s: "talk {a} P Q R s" and f: "p_groups (f (n_heap s a)) = []"
    "p_dealer (f (n_heap s a)) = p_dealer (n_heap s a)" "p_connected (f (n_heap s a)) = p_connected (n_heap s a)"
  shows "talk {a} P Q R (set_peer a f s)" (is "talk _ _ _ _ ?s")
proof -
  note d = consistentD [OF talkD(5) [OF s]]
  have "consistent {a} (n_next_addr s) ((n_heap s)(a := f (n_heap s a))) (map_of P) (map_of Q) (members s)"
    by (rule consistent_flight [OF talkD(5) [OF s]])
      (use d(9,11,12,13) [of a] f in \<open>auto simp: in_ran\<close>)
  then have c: "consistent {a} (n_next_addr ?s) (n_heap ?s) (map_of P) (map_of Q) (members ?s)"
    using members_cong [of ?s s] by simp
  have "roster ?s k = roster s k" for k
    using d(12) [of a k] talkD(6) [OF s] by (cases "dict_get P k") (auto simp: roster_def)
  with c show ?thesis
    by (intro talkI) (use talkD [OF s] in \<open>simp_all add: fun_eq_iff\<close>)
qed

lemma talk_admit:
  assumes s: "talk {a} P Q R s" and k: "dict_get P k = None" "p_uuid_hex (n_heap s a) = k"
  shows "talk {} (dict_set k a P) Q (R(k := Some {})) (s\<lparr>n_peers := dict_set k a P\<rparr>)" (is "talk _ ?P _ _ ?s")
proof -
  note d = consistentD [OF talkD(5) [OF s]]
  have P': "map_of ?P = (map_of P)(k \<mapsto> a)" by (simp add: fun_eq_iff alist.get_put)
  from consistent_admit [OF talkD(5) [OF s] _ k, simplified]
  have "consistent {} (n_next_addr ?s) (n_heap ?s) (map_of ?P) (map_of Q) (members ?s)"
    by (simp add: P' members_cong [of ?s s])
  moreover have "roster ?s = R(k := Some {})"
    using d(14) [of a] talkD(6,8) [OF s] by (auto simp: roster_def fun_eq_iff P')
  ultimately show ?thesis
    by (intro talkI) (use talkD [OF s] in \<open>simp_all add: is_dict_update\<close>)
qed

lemma talk_pend:
  assumes s: "talk {a} P Q R s" and k: "dict_get Q k = None" "p_uuid_hex (n_heap s a) = k"
  shows "talk {} P (dict_set k a Q) R (s\<lparr>n_pending := dict_set k a Q\<rparr>)" (is "talk _ _ ?Q _ ?s")
proof -
  have Q': "map_of ?Q = (map_of Q)(k \<mapsto> a)" by (simp add: fun_eq_iff alist.get_put)
  from consistent_pend [OF talkD(5) [OF s] _ k, simplified]
  have "consistent {} (n_next_addr ?s) (n_heap ?s) (map_of P) (map_of ?Q) (members ?s)"
    by (simp add: Q' members_cong [of ?s s])
  then show ?thesis
    by (intro talkI) (use talkD [OF s] roster_cong [of ?s s] in \<open>simp_all add: is_dict_update\<close>)
qed

lemma run_refresh:
  "\<exists>ev ex. refresh a now s = (Inr (), set_peer a (refresh_peer now ev ex) s)"
  by (simp add: refresh_def upd_peer_def) blast

lemma run_adopt:
  assumes s: "talk {} P Q R s" and k: "dict_get Q key = Some a" and fresh: "dict_get P rhex = None"
  shows "\<exists>s'. adopt key a rhex now s = (Inr (), s') \<and>
    talk {} (dict_set rhex a P) (dict_pop key Q) (R(rhex := Some {})) s'"
proof -
  let ?Q = "dict_pop key Q" and ?u = "\<lambda>p. p\<lparr>p_uuid_hex := rhex\<rparr>"
  let ?s1 = "s\<lparr>n_pending := ?Q\<rparr>" and ?s2 = "set_peer a ?u (s\<lparr>n_pending := ?Q\<rparr>)"
  have t1: "talk {a} P ?Q R ?s1" using talk_unpend [OF s k] by simp
  have "p_groups (n_heap ?s1 a) = []" by (rule consistentD(14) [OF talkD(5) [OF t1]]) simp
  then have t2: "talk {a} P ?Q R ?s2" by (intro talk_flight [OF t1]) simp_all
  obtain ev ex where r: "refresh a now ?s2 = (Inr (), set_peer a (refresh_peer now ev ex) ?s2)"
    using run_refresh by blast
  let ?s3 = "set_peer a (refresh_peer now ev ex) ?s2"
  have t3: "talk {a} P ?Q R ?s3"
    using talk_keeps [OF talking.timers_kept(1) t2, of a now] r by simp
  have "p_uuid_hex (n_heap ?s3 a) = rhex" by (simp add: refresh_peer_def)
  from talk_admit [OF t3 fresh this] talkD(6) [OF t3] talkD(7) [OF s] show ?thesis
    by (simp add: adopt_def run_thenDo upd_peer_def r)
qed

lemma find_in: "find f xs = Some x \<Longrightarrow> x \<in> set xs"
  by (metis find_Some_iff nth_mem)

lemma run_connect_known:
  assumes s: "talk {} P Q R s" and fresh: "dict_get P rhex = None"
  shows "\<exists>r s'. connect_known E rhex addr port now s = (Inr r, s')
    \<and> (case r of None \<Rightarrow> talk {} P Q R s'
       | Some (a, _) \<Rightarrow> \<exists>P' Q'. talk {} P' Q' (R(rhex := Some {})) s' \<and> dict_get P' rhex = Some a)"
proof -
  let ?f1 = "\<lambda>(_, a). p_addr (n_heap s a) = addr \<and> p_port (n_heap s a) = port"
  let ?f2 = "\<lambda>(_, a). p_port (n_heap s a) = port \<and> dict_get (n_peers s) rhex = None"
  have adopted: "\<exists>r s'. connect_known E rhex addr port now s = (Inr r, s') \<and>
      (case r of None \<Rightarrow> talk {} P Q R s'
       | Some (a, _) \<Rightarrow> \<exists>P' Q'. talk {} P' Q' (R(rhex := Some {})) s' \<and> dict_get P' rhex = Some a)"
    if "adopt_pending addr port rhex now s = andThen (adopt key a rhex now) (\<lambda>_. ret (Some a)) s"
      "(key, a) \<in> set Q" for key a
  proof -
    have "dict_get Q key = Some a" using that(2) dict_mem [OF talkD(2) [OF s]] by simp
    from run_adopt [OF s this fresh, of now] obtain s' where
        "adopt key a rhex now s = (Inr (), s')"
        "talk {} (dict_set rhex a P) (dict_pop key Q) (R(rhex := Some {})) s'" by blast
    with that(1) show ?thesis
      by (auto simp: connect_known_def run_andThen alist.get_put)
  qed
  consider (one) key a where "find ?f1 (n_pending s) = Some (key, a)"
    | (two) key a where "find ?f1 (n_pending s) = None" "find ?f2 (n_pending s) = Some (key, a)"
    | (none) "find ?f1 (n_pending s) = None" "find ?f2 (n_pending s) = None"
    by (cases "find ?f1 (n_pending s)"; cases "find ?f2 (n_pending s)") auto
  then show ?thesis
  proof cases
    case one
    then have "(key, a) \<in> set Q" using talkD(7) [OF s] find_in by fastforce
    with one show ?thesis
      by (intro adopted) (simp_all add: adopt_pending_def thenDo_def)
  next
    case two
    then have "(key, a) \<in> set Q" using talkD(7) [OF s] find_in by fastforce
    with two show ?thesis
      by (intro adopted) (simp_all add: adopt_pending_def thenDo_def)
  next
    case none
    then have "connect_known E rhex addr port now s =
        andThen (dial_peer E rhex addr port (Some rhex)) (\<lambda>dialled.
         case dialled of
           None \<Rightarrow> ret None
         | Some a \<Rightarrow>
             thenDo (refresh a now)
             (thenDo (modify (\<lambda>s. s\<lparr>n_peers := dict_set rhex a (n_peers s)\<rparr>))
               (ret (Some (a, True))))) s"
      by (simp add: connect_known_def run_andThen adopt_pending_def)
    moreover obtain r s1 where d: "dial_peer E rhex addr port (Some rhex) s = (Inr r, s1)"
      and t1: "case r of None \<Rightarrow> talk {} P Q R s1
       | Some a \<Rightarrow> talk {a} P Q R s1 \<and> p_uuid_hex (n_heap s1 a) = rhex"
      using run_dial_peer [OF s, of E rhex addr port "Some rhex"] by blast
    ultimately have run: "connect_known E rhex addr port now s = (case r of
           None \<Rightarrow> ret None
         | Some a \<Rightarrow>
             thenDo (refresh a now)
             (thenDo (modify (\<lambda>s. s\<lparr>n_peers := dict_set rhex a (n_peers s)\<rparr>))
               (ret (Some (a, True))))) s1"
      by (simp add: run_andThen)
    show ?thesis
    proof (cases r)
      case None
      with run t1 show ?thesis by simp
    next
      case (Some a)
      obtain ev ex where r: "refresh a now s1 = (Inr (), set_peer a (refresh_peer now ev ex) s1)"
        using run_refresh by blast
      let ?s2 = "set_peer a (refresh_peer now ev ex) s1"
      from t1 Some have t1: "talk {a} P Q R s1" "p_uuid_hex (n_heap s1 a) = rhex" by simp_all
      have t2: "talk {a} P Q R ?s2"
        using talk_keeps [OF talking.timers_kept(1) t1(1), of a now] r by simp
      have "p_uuid_hex (n_heap ?s2 a) = rhex" using t1(2) by (simp add: refresh_peer_def)
      from talk_admit [OF t2 fresh this] talkD(6) [OF t2] run Some show ?thesis
        by (auto simp: run_thenDo r alist.get_put)
    qed
  qed
qed

end
