(* ===== verification/Zre_Handlers.thy ===== *)
theory Zre_Handlers
  imports Zre_Roster
begin

section \<open>Every step keeps the roster\<close>

text \<open>
  The handlers of the run loop, one by one: each leads from a node in order to a node in order, and the
  lemma of each says which changes of the roster it can be.
\<close>

subsection \<open>Connections\<close>

lemma leads_pair [simp]: "R \<in> Rs \<Longrightarrow> leads P Q R (Pair r) Rs"
  by (auto simp: leads_def triple_def intro: ends_talk split: sum.split)

lemma steps_via:
  "m s = k s' \<Longrightarrow> talk {} P' Q' R' s' \<Longrightarrow> leads P' Q' R' k Rs \<Longrightarrow>
   \<exists>s' k P' Q' R'. m s = k s' \<and> talk {} P' Q' R' s' \<and> leads P' Q' R' k Rs"
  by blast

lemma leads_connect_known:
  assumes fresh: "dict_get P rhex = None" and none: "leads P Q R (k None) Rs"
    and some: "\<And>P' Q' a b. dict_get P' rhex = Some a \<Longrightarrow> leads P' Q' (R(rhex := Some {})) (k (Some (a, b))) Rs"
  shows "leads P Q R (andThen (connect_known E rhex addr port now) k) Rs"
proof (rule leads_steps)
  fix s assume s: "talk {} P Q R s"
  from run_connect_known [OF s fresh, of E addr port now] obtain r s' where
      run: "connect_known E rhex addr port now s = (Inr r, s')"
    and r: "case r of None \<Rightarrow> talk {} P Q R s'
       | Some (a, _) \<Rightarrow> \<exists>P' Q'. talk {} P' Q' (R(rhex := Some {})) s' \<and> dict_get P' rhex = Some a"
    by blast
  have m: "andThen (connect_known E rhex addr port now) k s = k r s'" by (simp add: run_andThen run)
  show "\<exists>s' k' P' Q' R'. andThen (connect_known E rhex addr port now) k s = k' s' \<and> talk {} P' Q' R' s'
    \<and> leads P' Q' R' k' Rs"
  proof (cases r)
    case None
    show ?thesis by (rule steps_via [where k = "k None" and s' = s']) (use None r m none in simp_all)
  next
    case (Some ab)
    obtain a b where "ab = (a, b)" by fastforce
    moreover from this r Some obtain P' Q' where
      "talk {} P' Q' (R(rhex := Some {})) s'" "dict_get P' rhex = Some a" by auto
    ultimately show ?thesis
      by (intro steps_via [where k = "k r" and s' = s']) (use Some m some in simp_all)
  qed
qed

lemma leads_do_connect: "leads P Q R (do_connect E host port) {R}"
proof (rule leads_steps)
  fix s assume s: "talk {} P Q R s"
  let ?k = "pending_key host port"
  have stop: "\<exists>s' k' P' Q' R'. ret () s = k' s' \<and> talk {} P' Q' R' s' \<and> leads P' Q' R' k' {R}"
    by (rule steps_via [OF _ s, where k = "ret ()"]) (simp_all add: leads_end)
  show "\<exists>s' k' P' Q' R'. do_connect E host port s = k' s' \<and> talk {} P' Q' R' s' \<and> leads P' Q' R' k' {R}"
  proof (cases "n_running s \<and> \<not> (\<exists>(k, a) \<in> set (n_peers s). p_addr (n_heap s a) = host
      \<and> p_port (n_heap s a) = port \<and> p_connected (n_heap s a)) \<and> dict_get (n_pending s) ?k = None")
    case False
    then have "do_connect E host port s = ret () s" by (auto simp: do_connect_def)
    with stop show ?thesis by simp
  next
    case True
    obtain r s1 where d: "dial_peer E ?k host port None s = (Inr r, s1)"
      and t1: "case r of None \<Rightarrow> talk {} P Q R s1
        | Some a \<Rightarrow> talk {a} P Q R s1 \<and> p_uuid_hex (n_heap s1 a) = ?k"
      using run_dial_peer [OF s, of E ?k host port None] by blast
    from True have run: "do_connect E host port s = (case r of
         None \<Rightarrow> ret ()
       | Some a \<Rightarrow>
           andThen (read_clock E) (\<lambda>now.
           thenDo (refresh a now)
           (thenDo (modify (\<lambda>s. s\<lparr>n_pending := dict_set ?k a (n_pending s)\<rparr>))
             (send_hello E a)))) s1"
      by (auto simp: do_connect_def run_andThen d)
    show ?thesis
    proof (cases r)
      case None
      show ?thesis
        by (rule steps_via [where k = "ret ()" and s' = s1, OF _ _ leads_end(1)])
          (use None run t1 in simp_all)
    next
      case (Some a)
      with t1 have t1: "talk {a} P Q R s1" "p_uuid_hex (n_heap s1 a) = ?k" by simp_all
      obtain now s2 where c: "read_clock E s1 = (Inr now, s2)" and heap: "n_heap s2 = n_heap s1"
        by (simp add: read_clock_def Let_def io_log_def)
      have t2: "talk {a} P Q R s2" using talk_keeps [OF talking.syscalls_kept(7) t1(1), of E] c by simp
      obtain ev ex where r: "refresh a now s2 = (Inr (), set_peer a (refresh_peer now ev ex) s2)"
        using run_refresh by blast
      let ?s3 = "set_peer a (refresh_peer now ev ex) s2"
      have t3: "talk {a} P Q R ?s3"
        using talk_keeps [OF talking.timers_kept(1) t2, of a now] r by simp
      have "p_uuid_hex (n_heap ?s3 a) = ?k" using t1(2) heap by (simp add: refresh_peer_def)
      moreover have "dict_get Q ?k = None" using True talkD(7) [OF s] by simp
      ultimately have t4: "talk {} P (dict_set ?k a Q) R (?s3\<lparr>n_pending := dict_set ?k a Q\<rparr>)"
        using talk_pend [OF t3] by blast
      have "do_connect E host port s = send_hello E a (?s3\<lparr>n_pending := dict_set ?k a Q\<rparr>)"
        using run Some talkD(7) [OF t3] by (simp add: run_andThen c run_thenDo r)
      moreover have "leads P (dict_set ?k a Q) R (send_hello E a) {R}"
        by (intro leads_kept session_rules) simp
      ultimately show ?thesis
        by (intro steps_via [where k = "send_hello E a", OF _ t4])
    qed
  qed
qed

subsection \<open>Gossip and beacons\<close>

lemma leads_learned:
  assumes "R \<in> Rs" and "leads P Q R k Rs"
  shows "leads P Q R (thenDo (learn_advertised_key E rhex v) k) Rs"
  by (rule leads_talk_then [OF _ assms]) (unfold learn_advertised_key_def, intro keeps_rules session_rules)

text \<open>The rosters after a peer may have been admitted, with no groups yet.\<close>

definition admitted :: "rosters \<Rightarrow> pystr \<Rightarrow> rosters set" where
  "admitted R k = {R} \<union> (if R k = None then {R(k := Some {})} else {})"

lemma admitted_same [simp]: "R \<in> admitted R k"
  by (simp add: admitted_def)

lemma leads_hello_after:
  assumes s: "talk {} P Q R s" and fresh: "dict_get P rhex = None" and Rs: "admitted R rhex \<subseteq> Rs"
  shows "leads P Q R (andThen (connect_known E rhex addr port now) (\<lambda>made.
      case made of None \<Rightarrow> ret () | Some (a, _) \<Rightarrow> send_hello E a)) Rs"
proof -
  have "R \<in> Rs" "R(rhex := Some {}) \<in> Rs" using Rs roster_none [OF s, of rhex] fresh by (auto simp: admitted_def)
  then show ?thesis
    by (intro leads_connect_known fresh) (simp_all add: leads_end leads_kept [OF talking.send_hello_kept])
qed

lemma leads_gossip_require:
  "leads P Q R (gossip_require E uuid endpoint now) (admitted R (str_lower (e_rt E) uuid))"
proof -
  let ?id = "str_lower (e_rt E) uuid"
  let ?Rs = "admitted R ?id"
  have rest: "leads P Q R (case split_endpoint (e_rt E) ep of
       Inl e \<Rightarrow> if is_value_error e then ret () else throw e
     | Inr (addr, port) \<Rightarrow>
         (case dict_get (n_peers (id s)) ?id of
            Some a \<Rightarrow> refresh a now
          | None \<Rightarrow>
              andThen (connect_known E ?id addr port now) (\<lambda>made.
              case made of None \<Rightarrow> ret () | Some (a, _) \<Rightarrow> send_hello E a))) ?Rs"
    if s: "talk {} P Q R s" for ep s
  proof (cases "split_endpoint (e_rt E) ep")
    case (Inl e)
    then show ?thesis by (simp add: leads_end)
  next
    case (Inr ap)
    obtain addr port where "ap = (addr, port)" by fastforce
    with Inr talkD(6) [OF s] show ?thesis
      by (auto simp: leads_hello_after [OF s] leads_kept [OF talking.timers_kept(1)] split: option.split)
  qed
  show ?thesis
    unfolding gossip_require_def Let_def
  proof (intro leads_gets leads_cases(1) leads_end, simp, simp)
    fix s assume s: "talk {} P Q R s"
    show "leads P Q R (andThen
        (case split_once (lit ''|'') endpoint of
           None \<Rightarrow> ret endpoint
         | Some (before, advertised_key) \<Rightarrow>
             thenDo (learn_advertised_key E ?id (PyStr advertised_key)) (ret before))
        (\<lambda>endpoint.
         case split_endpoint (e_rt E) endpoint of
           Inl e \<Rightarrow> if is_value_error e then ret () else throw e
         | Inr (addr, port) \<Rightarrow>
             (case dict_get (n_peers (id s)) ?id of
                Some a \<Rightarrow> refresh a now
              | None \<Rightarrow>
                  andThen (connect_known E ?id addr port now) (\<lambda>made.
                  case made of None \<Rightarrow> ret () | Some (a, _) \<Rightarrow> send_hello E a)))) ?Rs"
    proof (rule leads_talk)
      show "keeps (talk {} P Q R) (case split_once (lit ''|'') endpoint of
           None \<Rightarrow> ret endpoint
         | Some (before, advertised_key) \<Rightarrow>
             thenDo (learn_advertised_key E ?id (PyStr advertised_key)) (ret before))"
        unfolding learn_advertised_key_def by (intro keeps_rules session_rules)
    next
      show "R \<in> ?Rs" by simp
    qed (rule rest [OF s])
  qed
qed

text \<open>A beacon concerns the peer whose id it carries, and no other.\<close>

definition beacon_id :: "bytes \<Rightarrow> pystr" where
  "beacon_id data = bytes_hex (slice 4 20 data)"

lemma leads_handle_beacon:
  "leads P Q R (handle_beacon E data ip) (insert (R(beacon_id data := None)) (admitted R (beacon_id data)))"
proof -
  let ?id = "bytes_hex (slice 4 20 data)"
  let ?Rs = "insert (R(?id := None)) (admitted R ?id)"
  have conn: "leads P Q R (andThen (gets (\<lambda>s. dict_get (n_peers s) ?id)) (\<lambda>known.
      case known of
        Some a \<Rightarrow> refresh a now
      | None \<Rightarrow> andThen (connect_known E ?id ip port now) (\<lambda>made.
          case made of None \<Rightarrow> ret () | Some (a, _) \<Rightarrow> send_hello E a))) ?Rs" for now port
  proof (rule leads_gets)
    fix s assume s: "talk {} P Q R s"
    show "leads P Q R (case dict_get (n_peers s) ?id of
        Some a \<Rightarrow> refresh a now
      | None \<Rightarrow> andThen (connect_known E ?id ip port now) (\<lambda>made.
          case made of None \<Rightarrow> ret () | Some (a, _) \<Rightarrow> send_hello E a)) ?Rs"
      by (cases "dict_get P ?id")
        (simp_all add: talkD(6) [OF s] leads_hello_after [OF s _ subset_insertI] leads_kept [OF talking.timers_kept(1)])
  qed
  have exit: "leads P Q R (beacon_exit E ?id) ?Rs"
    by (rule leads_mono [OF leads_beacon_exit]) blast
  have keys: "keeps (talk {} P Q R) (only_if b (thenDo (learn_key k v) (learn_key k' v)))" for b k k' v
    by (intro keeps_rules session_rules)
  show ?thesis
    unfolding handle_beacon_def Let_def beacon_id_def
    by (intro leads_gets leads_cases(1) leads_talk_then [OF keys] leads_talk [OF talking.syscalls_kept(7)]
        leads_end exit conn) simp_all
qed

subsection \<open>HELLO\<close>

lemma andThen_assoc:
  "andThen (andThen m f) g = andThen m (\<lambda>x. andThen (f x) g)"
  "andThen (thenDo n p) h = thenDo n (andThen p h)"
  by (auto simp: fun_eq_iff run_andThen run_thenDo split: prod.splits sum.splits)

lemma andThen_ret: "andThen (ret x) k = k x"
  by (simp add: fun_eq_iff)

lemma run_hello_joins:
  assumes "talk {} P Q R s" and "dict_get P k = Some a"
  shows "\<exists>s'. for_each (hello_join a) gs s = (Inr (), s') \<and>
    talk {} P Q (R(k := Some (the (R k) \<union> set gs))) s'"
  using assms
proof (induction gs arbitrary: s R)
  case Nil
  then have "R(k := Some (the (R k))) = R" using roster_at by fastforce
  with Nil show ?case by simp
next
  case (Cons g gs)
  let ?R = "R(k := Some (insert g (the (R k))))"
  have "talk {} P Q ?R (joined a g (create_group g s))"
    by (rule talk_joined [OF talk_create_group [OF Cons.prems(1)] Cons.prems(2) create_group_exists])
  from Cons.IH [OF this Cons.prems(2)] obtain s' where
      "for_each (hello_join a) gs (joined a g (create_group g s)) = (Inr (), s')"
      "talk {} P Q (?R(k := Some (the (?R k) \<union> set gs))) s'" by blast
  moreover have R': "?R(k := Some (the (?R k) \<union> set gs)) = R(k := Some (the (R k) \<union> set (g # gs)))" by simp
  moreover have "for_each (hello_join a) (g # gs) s = for_each (hello_join a) gs (joined a g (create_group g s))"
    by (simp only: for_each.simps run_thenDo run_hello_join prod.case sum.case)
  ultimately show ?case unfolding R' by (intro exI [of _ s']) (simp only: simp_thms)
qed

lemma leads_hello_enter:
  assumes k: "dict_get P k = Some a"
    and gs: "gs = (case f_groups extra of Some gs \<Rightarrow> gs | None \<Rightarrow> [])"
  shows "leads P Q R (hello_enter E k extra a reply ep_str) {R, R(k := Some (the (R k) \<union> set gs))}"
proof -
  let ?R = "R(k := Some (the (R k) \<union> set gs))"
  let ?rest = "andThen (deref a) (\<lambda>p.
        thenDo (emit (EvEnter k (pname p) ep_str))
        (thenDo (for_each (\<lambda>g. emit (EvJoin k (pname p) (bdec g))) gs)
          (for_each (start_election E) gs)))"
  have rest: "leads P Q ?R ?rest {R, ?R}"
    by (intro leads_kept keeps_rules session_rules) simp
  have joins: "leads P Q R (thenDo (for_each (hello_join a) gs) ?rest) {R, ?R}"
  proof (rule leads_step [OF _ rest])
    fix s assume "talk {} P Q R s"
    from run_hello_joins [OF this k, of gs] obtain s' where
      "for_each (hello_join a) gs s = (Inr (), s')" "talk {} P Q ?R s'" by blast
    then show "\<exists>s'. thenDo (for_each (hello_join a) gs) ?rest s = ?rest s' \<and> talk {} P Q ?R s'"
      by (intro exI [of _ s']) (simp add: run_thenDo [of "for_each (hello_join a) gs"])
  qed
  have hello: "keeps (talk {} P Q R) (if reply then send_hello E a else ret ())"
    by (intro keeps_rules session_rules)
  show ?thesis
    unfolding hello_enter_def Let_def gs [symmetric]
    by (intro leads_talk_then [OF talking.peer_fields_kept(4)] leads_talk_then [OF hello] joins) simp_all
qed

definition hello_rosters :: "rosters \<Rightarrow> pystr \<Rightarrow> bytes set \<Rightarrow> rosters set" where
  "hello_rosters R k gs = insert (R(k := Some ((case R k of None \<Rightarrow> {} | Some G \<Rightarrow> G) \<union> gs))) (admitted R k)"

lemma leads_handle_hello:
  assumes gs: "gs = (case f_groups extra of Some gs \<Rightarrow> gs | None \<Rightarrow> [])"
  shows "leads P Q R (handle_hello E k extra found) (hello_rosters R k (set gs))"
proof -
  let ?Rs = "hello_rosters R k (set gs)"
  have R: "R \<in> ?Rs" by (simp add: hello_rosters_def)
  have enter: "leads P Q R (andThen (hello_new_peer E k extra ep now) (\<lambda>made.
      case made of None \<Rightarrow> ret ()
      | Some (a, reply, ep_str) \<Rightarrow> hello_enter E k extra a reply ep_str)) ?Rs"
    if s: "talk {} P Q R s" and fresh: "dict_get P k = None" for s ep now
  proof -
    have None: "R k = None" using roster_none [OF s] fresh by simp
    then have Rs: "{R(k := Some {}), R(k := Some (set gs))} \<subseteq> ?Rs"
      by (simp add: hello_rosters_def admitted_def)
    have known: "leads P' Q' (R(k := Some {})) (hello_enter E k extra a reply ep') ?Rs"
      if "dict_get P' k = Some a" for P' Q' a reply ep'
      by (rule leads_mono [OF leads_hello_enter [OF that gs]]) (use Rs in simp)
    have conn: "leads P Q R (andThen (connect_known E k addr port now) (\<lambda>made.
        andThen (case made of None \<Rightarrow> ret None | Some (a, reply) \<Rightarrow> ret (Some (a, reply, ep')))
          (\<lambda>made. case made of None \<Rightarrow> ret ()
           | Some (a, reply, ep_str) \<Rightarrow> hello_enter E k extra a reply ep_str))) ?Rs" for addr port ep'
    proof (rule leads_connect_known [OF fresh])
      show "leads P Q R (andThen (case None of None \<Rightarrow> ret None | Some (a, reply) \<Rightarrow> ret (Some (a, reply, ep')))
          (\<lambda>made. case made of None \<Rightarrow> ret ()
           | Some (a, reply, ep_str) \<Rightarrow> hello_enter E k extra a reply ep_str)) ?Rs"
        by (simp add: andThen_ret R)
    next
      fix P' Q' :: "(pystr \<times> nat) list" and a b
      assume "dict_get P' k = Some a"
      from known [OF this] show "leads P' Q' (R(k := Some {}))
          (andThen (case Some (a, b) of None \<Rightarrow> ret None | Some (a, reply) \<Rightarrow> ret (Some (a, reply, ep')))
          (\<lambda>made. case made of None \<Rightarrow> ret ()
           | Some (a, reply, ep_str) \<Rightarrow> hello_enter E k extra a reply ep_str)) ?Rs"
        by (simp add: leads_def triple_def)
    qed
    show ?thesis
      unfolding hello_new_peer_def andThen_assoc
    proof (rule leads_talk_then [OF _ R], goal_cases)
      case 1
      show ?case unfolding learn_advertised_key_def by (intro keeps_rules session_rules)
    next
      case 2
      show ?case
      proof (rule leads_talk [OF _ R], goal_cases)
        case 1
        show ?case unfolding learn_advertised_key_def by (intro keeps_rules session_rules)
      next
        case (2 ep')
        show ?case
        proof (cases "split_endpoint (e_rt E) ep'")
          case (Inl e)
          then show ?thesis using R by (simp add: leads_def triple_def ends_talk)
        next
          case (Inr ap)
          with conn show ?thesis by (cases ap) (simp add: Let_def andThen_assoc)
        qed
      qed
    qed
  qed
  have keep: "keeps (talk {} P Q R) (modify (\<lambda>s. s\<lparr>n_evasive_emit_at := ev s\<rparr>))" for ev
    by (intro session_rules)
  have old: "leads P Q R (thenDo (refresh a now) (upd_peer a (take_hello_fields extra))) ?Rs" for a now
    by (intro leads_kept keeps_rules session_rules R)
  have known: "leads P Q R (hello_enter E k extra a False ep) ?Rs"
    if s: "talk {} P Q R s" and a: "dict_get P k = Some a" for s a ep
    by (rule leads_mono [OF leads_hello_enter [OF a gs]])
      (use roster_at [OF s a] in \<open>simp add: hello_rosters_def\<close>)
  show ?thesis
    unfolding handle_hello_def
  proof (rule leads_gets)
    fix s assume s: "talk {} P Q R s"
    show "leads P Q R (if \<not> n_running (id s) then ret ()
     else if k = c_peer_id_hex (n_cfg (id s)) then
       (if hello_port E (f_endpoint extra) = Some (n_inbox_port (id s)) then ret ()
        else throw (UUIDCollisionError (hello_collision_detail (id s) (f_endpoint extra))))
     else
       (case f_endpoint extra of
          None \<Rightarrow> ret ()
        | Some ep \<Rightarrow>
            if ep = [] then ret ()
            else
              thenDo (modify (\<lambda>s. s\<lparr>n_evasive_emit_at := dict_pop k (n_evasive_emit_at s)\<rparr>))
              (andThen (read_clock E) (\<lambda>now.
               case (case found of Some a \<Rightarrow> if p_ready (n_heap (id s) a) then Some a else None
                     | None \<Rightarrow> None) of
                 Some a \<Rightarrow> thenDo (refresh a now) (upd_peer a (take_hello_fields extra))
               | None \<Rightarrow>
                   (case dict_get (n_peers (id s)) k of
                      Some a \<Rightarrow> hello_enter E k extra a False (bdec ep)
                    | None \<Rightarrow>
                        andThen (hello_new_peer E k extra (bdec ep) now) (\<lambda>made.
                        case made of
                          None \<Rightarrow> ret ()
                        | Some (a, reply, ep_str) \<Rightarrow> hello_enter E k extra a reply ep_str)))))) ?Rs"
      unfolding id_apply
      by (intro leads_cases(1,2) leads_end R leads_talk_then [OF keep] leads_talk [OF talking.syscalls_kept(7)])
        (use talkD(6) [OF s] in \<open>auto simp: old known [OF s] enter [OF s] split: option.split\<close>)
  qed
qed

end
