(* ===== verification/Zre_Steps.thy ===== *)
theory Zre_Steps
  imports Zre_Handlers
begin

section \<open>The steps of the run loop\<close>

text \<open>
  From handlers to the run loop: the effect of one message on the roster, the loops of the reaper and
  of gossip, and with them every step of a running node keeps peers, groups and connections in
  agreement (\<open>orderly\<close>).
\<close>

subsection \<open>One message\<close>

text \<open>What a command of the peer \<open>k\<close> does to the roster.\<close>

definition roster_after :: "rosters \<Rightarrow> pystr \<Rightarrow> nat \<Rightarrow> fields \<Rightarrow> rosters" where
  "roster_after R k cmd x =
    (if cmd = GOODBYE then R(k := None)
     else if cmd \<in> {JOIN, LEAVE} then
       (case f_group x of
          None \<Rightarrow> R
        | Some g \<Rightarrow>
            if g = [] then R
            else R(k := Some (if cmd = JOIN then insert g (the (R k)) else the (R k) - {g})))
     else R)"

lemma leads_dispatch_command:
  assumes k: "dict_get P k = Some a"
  shows "leads P Q R (dispatch_command E k a cmd x parts now) {roster_after R k cmd x}"
proof -
  have keep: "leads P Q R m {R}" if "keeps (talk {} P Q R) m" for m :: "unit nprog"
    by (rule leads_kept [OF that]) simp
  have talks: "keeps (talk {} P Q R) (andThen (deref a) (\<lambda>p. emit (f p)))"
    "keeps (talk {} P Q R) (andThen (send_cmd E a c None None []) (\<lambda>_. ret ()))"
    "keeps (talk {} P Q R) (handle_elect E a g ident)" "keeps (talk {} P Q R) (handle_leader E a g ident)"
    "keeps (talk {} P Q R) (refresh a now)" for f c g ident
    by (intro keeps_rules session_rules)+
  note talks = talks [THEN keep]
  show ?thesis
    using leads_on_join [OF k] leads_on_leave [OF k] leads_remove_peer [OF k]
    by (auto simp: dispatch_command_def roster_after_def command_defs talks leads_end split: option.split)
qed

text \<open>The part of \<open>handle_peer_msg\<close> after the guards.\<close>

definition serve_command ::
  "env \<Rightarrow> pystr \<Rightarrow> nat \<Rightarrow> nat \<Rightarrow> nat \<Rightarrow> fields \<Rightarrow> bytes list \<Rightarrow> real \<Rightarrow> unit nprog" where
  "serve_command E k a cmd q x parts now =
     thenDo (only_if (cmd \<in> {WHISPER, SHOUT, JOIN, LEAVE, ELECT, LEADER})
       (modify (\<lambda>s. s\<lparr>n_evasive_emit_at := dict_pop k (n_evasive_emit_at s)\<rparr>)))
     (thenDo (andThen (track_seq a cmd q) (\<lambda>_. ret ()))
     (thenDo (refresh a now)
       (dispatch_command E k a cmd x parts now)))"

lemma leads_serve_command:
  assumes "dict_get P k = Some a"
  shows "leads P Q R (serve_command E k a cmd q x parts now) {R, roster_after R k cmd x}"
proof -
  have rest: "leads P Q R (dispatch_command E k a cmd x parts now) {R, roster_after R k cmd x}"
    by (rule leads_mono [OF leads_dispatch_command [OF assms]]) simp
  show ?thesis
    unfolding serve_command_def
    by (rule leads_talk_then leads_talk_then leads_talk_then rest | intro keeps_rules session_rules | simp)+
qed

text \<open>The parts before the command never raise, so the command decides the roster.\<close>

lemma leads_total_then:
  assumes m: "never_raises m" "keeps (talk {} P Q R) m" and k: "leads P Q R (k :: unit nprog) Rs"
  shows "leads P Q R (thenDo m k) Rs"
proof (rule leads_steps)
  fix s assume s: "talk {} P Q R s"
  obtain x s' where run: "m s = (Inr x, s')" using m(1) unfolding never_raises_def by blast
  from keepsD [OF m(2) s run] have "talk {} P Q R s'" .
  with k thenDo_Inr [where m = m and k = k, OF run]
  show "\<exists>s' k' P' Q' R'. thenDo m k s = k' s' \<and> talk {} P' Q' R' s' \<and> leads P' Q' R' k' Rs"
    by blast
qed

lemma serve_command_exact:
  assumes "dict_get P k = Some a"
  shows "leads P Q R (serve_command E k a cmd q x parts now) {roster_after R k cmd x}"
  unfolding serve_command_def track_seq_def check_seq_def refresh_def
  by (intro leads_total_then leads_dispatch_command [OF assms] total_rules keeps_rules session_rules)

lemma read_clock_run:
  "read_clock E s = (Inr (e_time E (w_hist s)), io_log (IoTime (e_time E (w_hist s))) s)"
  by (simp add: read_clock_def Let_def)

lemma handle_peer_msg_eqs:
  assumes "length rid = 17" "hd rid = 1" "decode data = Some (cmd, ver, q, x)"
  shows "cmd \<noteq> HELLO \<Longrightarrow> dict_get (n_peers s) (bytes_hex (tl rid)) = Some a \<Longrightarrow> p_ready (n_heap s a) \<Longrightarrow>
      handle_peer_msg E (rid # data # parts) s =
      andThen (read_clock E) (serve_command E (bytes_hex (tl rid)) a cmd q x parts) s"
    and "cmd \<noteq> HELLO \<Longrightarrow> (\<And>a. dict_get (n_peers s) (bytes_hex (tl rid)) = Some a \<Longrightarrow> \<not> p_ready (n_heap s a)) \<Longrightarrow>
      handle_peer_msg E (rid # data # parts) s = andThen (read_clock E) (\<lambda>_. ret ()) s"
    and "cmd = HELLO \<Longrightarrow> handle_peer_msg E (rid # data # parts) s =
      andThen (read_clock E) (\<lambda>_.
      thenDo (case dict_get (n_peers s) (bytes_hex (tl rid)) of
                Some a \<Rightarrow> upd_peer a (\<lambda>p. p\<lparr>p_want_seq := 1\<rparr>) | None \<Rightarrow> ret ())
        (handle_hello E (bytes_hex (tl rid)) x (dict_get (n_peers s) (bytes_hex (tl rid))))) s"
proof -
  have tables: "n_peers (io_log i s) = n_peers s" "n_heap (io_log i s) = n_heap s" for i and s :: node
    by (simp_all add: io_log_def)
  show "cmd \<noteq> HELLO \<Longrightarrow> dict_get (n_peers s) (bytes_hex (tl rid)) = Some a \<Longrightarrow> p_ready (n_heap s a) \<Longrightarrow>
      handle_peer_msg E (rid # data # parts) s =
      andThen (read_clock E) (serve_command E (bytes_hex (tl rid)) a cmd q x parts) s"
    using assms
    by (simp add: handle_peer_msg_def Let_def run_andThen [of "read_clock E"] read_clock_run tables
        serve_command_def deref_def)
  show "cmd \<noteq> HELLO \<Longrightarrow> (\<And>a. dict_get (n_peers s) (bytes_hex (tl rid)) = Some a \<Longrightarrow> \<not> p_ready (n_heap s a)) \<Longrightarrow>
      handle_peer_msg E (rid # data # parts) s = andThen (read_clock E) (\<lambda>_. ret ()) s"
    using assms
    by (auto simp: handle_peer_msg_def Let_def run_andThen [of "read_clock E"] read_clock_run tables
        deref_def split: option.split)
  show "cmd = HELLO \<Longrightarrow> handle_peer_msg E (rid # data # parts) s =
      andThen (read_clock E) (\<lambda>_.
      thenDo (case dict_get (n_peers s) (bytes_hex (tl rid)) of
                Some a \<Rightarrow> upd_peer a (\<lambda>p. p\<lparr>p_want_seq := 1\<rparr>) | None \<Rightarrow> ret ())
        (handle_hello E (bytes_hex (tl rid)) x (dict_get (n_peers s) (bytes_hex (tl rid))))) s"
    using assms
    by (simp add: handle_peer_msg_def Let_def run_andThen [of "read_clock E"] read_clock_run tables)
qed

text \<open>The rosters after one message.\<close>

definition message_rosters :: "rosters \<Rightarrow> bytes list \<Rightarrow> rosters set" where
  "message_rosters R frames =
    (case frames of
       rid # data # _ \<Rightarrow>
         (case decode data of
            Some (cmd, _, _, x) \<Rightarrow>
              (if cmd = HELLO
               then hello_rosters R (bytes_hex (tl rid)) (set (case f_groups x of Some gs \<Rightarrow> gs | None \<Rightarrow> []))
               else {R, roster_after R (bytes_hex (tl rid)) cmd x})
          | None \<Rightarrow> {R})
     | _ \<Rightarrow> {R})"

lemma leads_handle_peer_msg: "leads P Q R (handle_peer_msg E frames) (message_rosters R frames)"
proof (cases "\<exists>rid data parts cmd ver q x. frames = rid # data # parts \<and> length rid = 17 \<and> hd rid = 1
    \<and> decode data = Some (cmd, ver, q, x)")
  case False
  have "R \<in> message_rosters R frames"
    by (simp add: message_rosters_def hello_rosters_def split: list.split option.split)
  moreover from False have "handle_peer_msg E frames = ret ()"
    by (fastforce simp: handle_peer_msg_def Let_def split: list.splits option.splits)
  ultimately show ?thesis by (simp add: leads_end)
next
  case True
  then obtain rid data parts cmd ver q x where f: "frames = rid # data # parts"
      "length rid = 17" "hd rid = 1" "decode data = Some (cmd, ver, q, x)" by blast
  let ?k = "bytes_hex (tl rid)" and ?Rs = "message_rosters R frames"
  note eqs = handle_peer_msg_eqs [OF f(2-4)]
  have clock: "keeps (talk {} P Q R) (read_clock E)" by (rule talking.syscalls_kept(7))
  have same: "R \<in> ?Rs" by (simp add: message_rosters_def hello_rosters_def f)
  have via: "leads P Q R k ?Rs \<Longrightarrow> handle_peer_msg E frames s = k s \<Longrightarrow> talk {} P Q R s \<Longrightarrow>
      \<exists>s' k P' Q' R'. handle_peer_msg E frames s = k s' \<and> talk {} P' Q' R' s' \<and> leads P' Q' R' k ?Rs"
    for k s by (rule steps_via [where k = k])
  show ?thesis
  proof (rule leads_steps)
    fix s assume s: "talk {} P Q R s"
    note P = talkD(6) [OF s]
    consider (hello) "cmd = HELLO"
      | (known) a where "cmd \<noteq> HELLO" "dict_get P ?k = Some a" "p_ready (n_heap s a)"
      | (unknown) "cmd \<noteq> HELLO" "\<And>a. dict_get P ?k = Some a \<Longrightarrow> \<not> p_ready (n_heap s a)"
      by blast
    then show "\<exists>s' k P' Q' R'. handle_peer_msg E frames s = k s' \<and> talk {} P' Q' R' s' \<and> leads P' Q' R' k ?Rs"
    proof cases
      case hello
      have k: "keeps (talk {} P Q R) (case dict_get P ?k of
          Some a \<Rightarrow> upd_peer a (\<lambda>p. p\<lparr>p_want_seq := 1\<rparr>) | None \<Rightarrow> ret ())"
        by (intro keeps_rules session_rules)
      have "leads P Q R (handle_hello E ?k x (dict_get P ?k)) ?Rs"
        by (rule leads_mono [OF leads_handle_hello [OF refl]]) (simp add: message_rosters_def f hello)
      from leads_talk [OF clock same leads_talk_then [OF k same this]]
      show ?thesis by (rule via) (use eqs(3) [OF hello] P s in \<open>simp_all add: f(1)\<close>)
    next
      case known
      have "leads P Q R (serve_command E ?k a cmd q x parts now) ?Rs" for now
        by (rule leads_mono [OF leads_serve_command [OF known(2)]]) (simp add: message_rosters_def f known(1))
      from leads_talk [OF clock same this]
      show ?thesis by (rule via) (use eqs(1) [of s] known P s in \<open>simp_all add: f(1)\<close>)
    next
      case unknown
      from leads_talk [OF clock same leads_end(1) [OF same]]
      show ?thesis by (rule via) (use eqs(2) [OF unknown(1), of s] unknown(2) P s in \<open>simp_all add: f(1)\<close>)
    qed
  qed
qed

subsection \<open>A node in order\<close>

definition orderly :: "node \<Rightarrow> bool" where
  "orderly s \<longleftrightarrow> roster_ok {} s"

lemma orderly_talk: "orderly s \<longleftrightarrow> talk {} (n_peers s) (n_pending s) (roster s) s"
  by (simp add: orderly_def talk_def)

lemma talk_orderly: "talk {} P Q R s \<Longrightarrow> orderly s"
  by (simp add: orderly_def talk_def)

lemma orderly_keeps: "(\<And>P Q R. keeps (talk {} P Q R) m) \<Longrightarrow> keeps orderly m"
  by (rule keepsI) (meson keeps_def orderly_talk talk_orderly)

lemma orderly_leads: "(\<And>P Q R. leads P Q R m (Rs R)) \<Longrightarrow> keeps orderly m"
  unfolding keeps_def orderly_talk leads_def triple_def ends_def
  by (fastforce simp: talk_def split: sum.splits)

text \<open>The roster after a step that leads to one of \<open>Rs\<close>.\<close>

lemma leads_roster:
  assumes "\<And>P Q R. leads P Q R m (Rs R)" and "orderly s"
  shows "roster (snd (m s)) \<in> Rs (roster s) \<and> orderly (snd (m s))"
proof -
  have "ends (Rs (roster s)) (snd (m s))"
    by (rule leads_ends [OF assms(1)]) (use assms(2) in \<open>simp add: orderly_talk\<close>)
  then show ?thesis by (auto simp: ends_def orderly_def talk_def)
qed

interpretation order: session orderly
proof
  show "core s' = core s \<Longrightarrow> orderly s \<Longrightarrow> orderly s'" for s s' :: node
    unfolding orderly_talk
    by (metis talking.bookkeeping talk_orderly orderly_talk)
  show "orderly s \<Longrightarrow> orderly (s\<lparr>n_events := push_event e (n_events s)\<rparr>)" for s e
    using talk_events talk_orderly orderly_talk by metis
  show "(\<And>p. calmer p (f p)) \<Longrightarrow> orderly s \<Longrightarrow> orderly (set_peer a f s)" for f a s
    using talking.peer talk_orderly orderly_talk by metis
  show "orderly s \<Longrightarrow> orderly (set_peer a (\<lambda>p. p\<lparr>p_expired_at := t\<rparr>) s)" for a t s
    using talking.heard talk_orderly orderly_talk by metis
  show "(\<And>G. g_peers (h G) = g_peers G) \<Longrightarrow> keeps orderly (upd_group g h)" for g h
    by (intro orderly_keeps talking.election)
  show "keeps orderly (require_group g)" for g
    by (intro orderly_keeps talking.require)
qed

lemma handlers_orderly [session_rules]:
  "keeps orderly (do_connect E host port)" "keeps orderly (gossip_require E uuid endpoint now)"
  "keeps orderly (handle_beacon E data ip)" "keeps orderly (handle_peer_msg E frames)"
  by (rule orderly_leads, rule leads_do_connect leads_gossip_require leads_handle_beacon
      leads_handle_peer_msg)+

lemma run_hub_orderly [session_rules]: "keeps orderly (run_hub h m)"
  by (rule order.quiet) (simp add: core_eq run_hub_def split_beta)

lemma gossip_orderly [session_rules]:
  "keeps orderly (gossip_announce E sock)" "keeps orderly (gossip_maintain E now)"
  "keeps orderly (gossip_client_message E sock body)" "keeps orderly (serve_hub E now inbound)"
  unfolding gossip_announce_def gossip_maintain_def gossip_redial_def open_hub_link_def
    register_hub_link_def zmq_send_def gossip_client_message_def serve_hub_def
  by (intro keeps_rules session_rules)+

lemma beacons_orderly [session_rules]: "keeps orderly (send_beacon E port)"
  unfolding send_beacon_def build_send_sock_def Let_def by (intro keeps_rules session_rules)

lemma serve_socket_orderly [session_rules]: "keeps orderly (serve_socket E now r)"
  unfolding serve_socket_def handle_gossip_client_def
  by (cases r) (simp_all only: ready.case, (intro keeps_rules session_rules)+)

lemma drain_api_orderly [session_rules]: "keeps orderly (drain_api E)"
proof -
  have "keeps orderly (api_step E cmd)" for cmd
    unfolding api_step_def by (cases cmd) (simp_all only: api_command.case, (intro session_rules)+)
  then show ?thesis unfolding drain_api_def by (intro keeps_rules session_rules)
qed

subsection \<open>Reaping\<close>

lemma talk_landed:
  assumes s: "talk {a} P Q R s" and "p_dealer (n_heap s a) = None" "\<not> p_connected (n_heap s a)"
  shows "talk {} P Q R s"
proof -
  note d = consistentD [OF talkD(5) [OF s]]
  have "consistent {} (n_next_addr s) ((n_heap s)(a := n_heap s a)) (map_of P) (map_of Q) (members s)"
    by (rule consistent_flight [OF talkD(5) [OF s]]) (use d(11-14) [of a] assms(2,3) in \<open>simp_all add: in_ran\<close>)
  then show ?thesis by (intro talkI) (use talkD [OF s] in simp_all)
qed

lemma talk_drop_pending:
  assumes s: "talk {} P Q R s" and k: "dict_get Q key = Some a"
  shows "talk {} P (dict_pop key Q) R (snd (thenDo (peer_disconnect a)
     (modify (\<lambda>s. s\<lparr>n_pending := dict_pop key (n_pending s)\<rparr>)) s))"
proof -
  let ?s = "snd (peer_disconnect a s)"
  have t: "talk {} P Q R ?s" using talking.disconnect_kept s by (simp add: keeps_def)
  from talk_unpend [OF this k] have "talk {a} P (dict_pop key Q) R (?s\<lparr>n_pending := dict_pop key Q\<rparr>)" by simp
  then have "talk {} P (dict_pop key Q) R (?s\<lparr>n_pending := dict_pop key Q\<rparr>)"
    by (rule talk_landed) (simp_all add: peer_disconnect_state)
  with talkD(7) [OF t] show ?thesis by (simp add: run_disconnect_then)
qed

text \<open>
  Reaping goes by the deadlines that the peers have when it begins: neither the other departures nor
  the elections and probes they cause move a deadline.
\<close>

definition due :: "real \<Rightarrow> real \<Rightarrow> bool" where
  "due now deadline \<longleftrightarrow> deadline \<noteq> 0 \<and> deadline < now"

definition deadlines :: "node \<Rightarrow> nat \<Rightarrow> real" where
  "deadlines s a = p_expired_at (n_heap s a)"

definition aged :: "(nat \<Rightarrow> real) \<Rightarrow> (pystr \<times> nat) list \<Rightarrow> (pystr \<times> nat) list \<Rightarrow> rosters \<Rightarrow> node \<Rightarrow> bool" where
  "aged D P Q R s \<longleftrightarrow> talk {} P Q R s \<and> deadlines s = D"

interpretation aging: chatter "aged D P Q R" for D P Q R
proof
  show "core s' = core s \<Longrightarrow> aged D P Q R s \<Longrightarrow> aged D P Q R s'" for s s' :: node
    using talking.bookkeeping [of s' s] by (simp add: core_eq aged_def deadlines_def fun_eq_iff)
  show "aged D P Q R s \<Longrightarrow> aged D P Q R (s\<lparr>n_events := push_event e (n_events s)\<rparr>)" for s e
    by (simp add: aged_def deadlines_def fun_eq_iff talk_events)
  show "(\<And>p. calmer p (f p)) \<Longrightarrow> aged D P Q R s \<Longrightarrow> aged D P Q R (set_peer a f s)" for f a s
    using talking.peer [of f] by (auto simp: aged_def deadlines_def fun_eq_iff calmer_def)
  have same: "n_heap (snd (upd_group g h s)) = n_heap s" "n_heap (snd (require_group g s)) = n_heap s"
    for g h s
    by (simp_all add: upd_group_def run_require(4) split: option.split)
  show "(\<And>G. g_peers (h G) = g_peers G) \<Longrightarrow> keeps (aged D P Q R) (upd_group g h)" for g h
    using talking.election [of h] same(1) by (simp add: keeps_def aged_def deadlines_def fun_eq_iff)
  show "keeps (aged D P Q R) (require_group g)" for g
    using talking.require [of _ _ _ _ g] same(2) by (simp add: keeps_def aged_def deadlines_def fun_eq_iff)
qed

lemma aged_emit [session_rules]: "keeps (aged D P Q R) (emit e)"
  unfolding emit_def by (rule keeps_modify) (simp add: aged_def deadlines_def fun_eq_iff talk_events)

lemma run_reap_pending:
  "reap_pending now (key, a) s = (Inr (), if due now (deadlines s a)
     then (snd (peer_disconnect a s))\<lparr>n_pending := dict_pop key (n_pending s)\<rparr> else s)"
  by (simp add: reap_pending_def due_def deadlines_def deref_def run_disconnect_then peer_disconnect_state
      only_if_def)

lemma reap_pendings:
  assumes "aged D P Q R s" and "\<And>key a. (key, a) \<in> set items \<Longrightarrow> dict_get Q key = Some a"
    and "distinct (map fst items)"
  shows "\<exists>s'. for_each (reap_pending now) items s = (Inr (), s') \<and>
     aged D P (fold dict_pop (map fst (filter (\<lambda>i. due now (D (snd i))) items)) Q) R s'"
  using assms
proof (induction items arbitrary: Q s)
  case Nil
  then show ?case by simp
next
  case (Cons item items)
  obtain key a where item: "item = (key, a)" by fastforce
  from Cons.prems(1) have s: "talk {} P Q R s" and D: "deadlines s = D" by (simp_all add: aged_def)
  let ?s = "(snd (peer_disconnect a s))\<lparr>n_pending := dict_pop key (n_pending s)\<rparr>"
  show ?case
  proof (cases "due now (D a)")
    case False
    with Cons.IH [OF Cons.prems(1)] Cons.prems(2,3) show ?thesis
      by (auto simp: item run_thenDo run_reap_pending D)
  next
    case True
    have "talk {} P (dict_pop key Q) R ?s"
      using talk_drop_pending [OF s, of key a] Cons.prems(2) talkD(7) [OF s]
      by (simp add: item run_disconnect_then peer_disconnect_state)
    moreover have "deadlines ?s = D"
      by (simp add: D [symmetric] deadlines_def fun_eq_iff peer_disconnect_state torn_down_def)
    ultimately have t: "aged D P (dict_pop key Q) R ?s" by (simp add: aged_def)
    have "dict_get (dict_pop key Q) k = Some b" if "(k, b) \<in> set items" for k b
      using Cons.prems(2) [of k b] Cons.prems(3) that by (force simp: item alist.get_pop)
    from Cons.IH [OF t this] Cons.prems(3) True show ?thesis
      by (simp add: item run_thenDo run_reap_pending D)
  qed
qed

lemma aged_remove_peer:
  assumes s: "aged D P Q R s" and k: "dict_get P k = Some a"
  shows "aged D (dict_pop k P) Q (R(k := None)) (snd (remove_peer E a s))"
proof -
  from s have t: "talk {} P Q R s" and D: "deadlines s = D" by (simp_all add: aged_def)
  have "deadlines (cleared E k a s) = D"
    by (simp add: D [symmetric] cleared_def Let_def deadlines_def fun_eq_iff peer_disconnect_state torn_down_def)
  with talk_cleared [OF t k] have "aged D (dict_pop k P) Q (R(k := None)) (cleared E k a s)"
    by (simp add: aged_def)
  moreover have "keeps (aged D (dict_pop k P) Q (R(k := None))) (farewell E k n gs)" for n gs
    unfolding farewell_def by (intro keeps_rules session_rules)
  ultimately show ?thesis by (simp only: run_remove_peer [OF t k] keeps_def)
qed

lemma aged_reap_peer:
  assumes s: "aged D P Q R s" and k: "dict_get P k = Some a"
  shows "if due now (D a) then aged D (dict_pop k P) Q (R(k := None)) (snd (reap_peer E now a s))
    else aged D P Q R (snd (reap_peer E now a s))"
proof -
  let ?p = "n_heap s a"
  have D: "due now (D a) \<longleftrightarrow> p_expired_at ?p \<noteq> 0 \<and> p_expired_at ?p < now"
    using s by (auto simp: aged_def deadlines_def due_def)
  show ?thesis
  proof (cases "due now (D a)")
    case True
    then show ?thesis using aged_remove_peer [OF assms] D by (simp add: reap_peer_def deref_def)
  next
    case False
    have "reap_peer E now a s = (if p_evasive_at ?p \<noteq> 0 \<and> p_evasive_at ?p < now
        then probe_quiet_peer E a now else ret ()) s"
      using False D by (auto simp: reap_peer_def deref_def)
    moreover have "keeps (aged D P Q R) (if p_evasive_at ?p \<noteq> 0 \<and> p_evasive_at ?p < now
        then probe_quiet_peer E a now else ret ())"
      by (intro keeps_rules session_rules)
    ultimately show ?thesis using False s by (simp only: if_False keeps_def)
  qed
qed

text \<open>The roster without the peers that are not in a table any more.\<close>

definition staying :: "(pystr \<times> nat) list \<Rightarrow> rosters \<Rightarrow> rosters" where
  "staying P R k = (if dict_get P k = None then None else R k)"

lemma staying_same: "talk X P Q R s \<Longrightarrow> staying P R = R"
  by (rule ext) (auto simp: staying_def dest: roster_none [THEN iffD2])

lemma dict_pop_filter:
  assumes "aged D P Q R s" and "dict_get P k = Some a"
  shows "dict_pop k P = filter (\<lambda>i. snd i \<noteq> a) P"
proof -
  from assms(1) have s: "talk {} P Q R s" by (simp add: aged_def)
  have "fst i \<noteq> k \<longleftrightarrow> snd i \<noteq> a" if i: "i \<in> set P" for i
  proof -
    obtain j b where "i = (j, b)" by fastforce
    with i dict_mem [OF talkD(1) [OF s]] have j: "i = (j, b)" "dict_get P j = Some b" by simp_all
    have "j = k" if "b = a" using consistent_inj(1) [OF talkD(5) [OF s] _ assms(2)] j that by simp
    moreover have "b = a" if "j = k" using j assms(2) that by simp
    ultimately show ?thesis using j by auto
  qed
  then show ?thesis by (auto simp: AList.delete_eq split_def intro!: filter_cong)
qed

lemma reap_peers:
  assumes "aged D P Q R s" and "\<And>a. a \<in> set as \<Longrightarrow> a \<in> snd ` set P" and "distinct as"
  shows "\<exists>P'. aged D P' Q (staying P' R) (snd (for_each (reap_peer E now) as s)) \<and>
    (fst (for_each (reap_peer E now) as s) = Inr () \<longrightarrow>
       P' = filter (\<lambda>i. \<not> (snd i \<in> set as \<and> due now (D (snd i)))) P)"
  using assms
proof (induction as arbitrary: P R s)
  case Nil
  then have "staying P R = R" using staying_same by (auto simp: aged_def)
  with Nil show ?case by (auto intro: exI [of _ P])
next
  case (Cons a as)
  from Cons.prems(1) have s: "talk {} P Q R s" by (simp add: aged_def)
  from Cons.prems(2) [of a] dict_mem [OF talkD(1) [OF s]] obtain k where k: "dict_get P k = Some a" by auto
  obtain r s' where run: "reap_peer E now a s = (r, s')" by fastforce
  define P1 where "P1 = (if due now (D a) then dict_pop k P else P)"
  define R1 where "R1 = (if due now (D a) then R(k := None) else R)"
  have t: "aged D P1 Q R1 s'"
    using aged_reap_peer [OF Cons.prems(1) k, of now E] by (simp add: run P1_def R1_def split: if_splits)
  have P1: "P1 = filter (\<lambda>i. \<not> (snd i = a \<and> due now (D (snd i)))) P"
    using dict_pop_filter [OF Cons.prems(1) k] by (auto simp: P1_def cong: filter_cong)
  have R1: "R1 = staying P1 R" for P'
    using roster_none [OF s] by (auto simp: fun_eq_iff R1_def P1_def staying_def alist.get_pop)
  have "b \<in> snd ` set P1" if "b \<in> set as" for b
    using Cons.prems(2) [of b] Cons.prems(3) that by (auto simp: P1 image_iff)
  from Cons.IH [OF t this] Cons.prems(3) obtain P' where
      P': "aged D P' Q (staying P' R1) (snd (for_each (reap_peer E now) as s'))"
      "fst (for_each (reap_peer E now) as s') = Inr () \<longrightarrow>
       P' = filter (\<lambda>i. \<not> (snd i \<in> set as \<and> due now (D (snd i)))) P1" by auto
  show ?case
  proof (cases r)
    case (Inl e)
    with t show ?thesis by (intro exI [of _ P1]) (simp add: run_thenDo run R1 [symmetric])
  next
    case (Inr u)
    have "staying P' R1 = staying P' R"
    proof
      fix j
      have "R1 j = R j" if "dict_get P1 j \<noteq> None"
        using that fun_cong [OF R1, of j] by (auto simp: staying_def)
      moreover have "dict_get P1 j \<noteq> None" if "dict_get P' j \<noteq> None"
        using roster_none [OF conjunct1 [OF P'(1) [unfolded aged_def]], of j]
          roster_none [OF conjunct1 [OF t [unfolded aged_def]], of j] that
        by (metis staying_def)
      ultimately show "staying P' R1 j = staying P' R j" by (auto simp: staying_def)
    qed
    with P' Inr show ?thesis
      by (intro exI [of _ P']) (auto simp: run_thenDo run P1 intro!: filter_cong)
  qed
qed

text \<open>A whole reap: what is due goes, and nothing else changes in the tables.\<close>

lemma snapshot_peers:
  assumes s: "talk X P Q R s"
  shows "distinct (map snd P)" "(k, a) \<in> set Q \<Longrightarrow> dict_get Q k = Some a" "distinct (map fst Q)"
proof -
  note dP = talkD(1) [OF s] and dQ = talkD(2) [OF s]
  show "(k, a) \<in> set Q \<Longrightarrow> dict_get Q k = Some a" using dict_mem [OF dQ] by simp
  show "distinct (map fst Q)" using dQ by (simp add: is_dict_def keys_def)
  have "inj_on snd (set P)"
    using dict_mem [OF dP] consistent_inj(1) [OF talkD(5) [OF s]] by (auto simp: inj_on_def)
  moreover have "distinct P" using dP by (simp add: is_dict_def keys_def distinct_map)
  ultimately show "distinct (map snd P)" by (simp add: distinct_map)
qed

definition remaining :: "real \<Rightarrow> node \<Rightarrow> (pystr \<times> nat) list \<Rightarrow> (pystr \<times> nat) list" where
  "remaining now s = filter (\<lambda>i. \<not> due now (deadlines s (snd i)))"

lemma fold_pop_filter:
  assumes "is_dict d"
  shows "fold dict_pop (map fst (filter f d)) d = filter (\<lambda>i. \<not> f i) d"
proof -
  have "fold dict_pop ks e = filter (\<lambda>i. fst i \<notin> set ks) e" for ks and e :: "('a \<times> 'b) list"
    by (induction ks arbitrary: e) (auto simp: AList.delete_eq split_def intro!: filter_cong)
  moreover have "fst i \<notin> set (map fst (filter f d)) \<longleftrightarrow> \<not> f i" if i: "i \<in> set d" for i
  proof -
    have "j = i" if "j \<in> set d" "fst j = fst i" for j
      using dict_mem [OF assms] i that by (cases i, cases j) simp
    with i show ?thesis by auto
  qed
  ultimately show ?thesis by (simp cong: filter_cong)
qed

lemma reap_aged:
  assumes s: "talk {} P Q R s"
  shows "\<exists>P' Q'. talk {} P' Q' (staying P' R) (snd (reap E now s)) \<and>
    (fst (reap E now s) = Inr () \<longrightarrow> P' = remaining now s P \<and> Q' = remaining now s Q)"
proof -
  let ?D = "deadlines s"
  have g: "keeps (aged ?D P Q R) (gossip_maintain E now)" for P Q R
    unfolding gossip_maintain_def gossip_redial_def open_hub_link_def register_hub_link_def zmq_send_def
      gossip_announce_def
    by (intro keeps_rules session_rules)
  have m: "keeps (aged ?D P Q R) (maintain_elections E now)" for P Q R by (rule aging.maintain_elections_kept)
  from s have "aged ?D P Q R s" by (simp add: aged_def)
  obtain r1 s1 where run1: "gossip_maintain E now s = (r1, s1)" by fastforce
  from keepsD [OF g \<open>aged ?D P Q R s\<close> run1] have s1: "aged ?D P Q R s1" .
  then have t1: "talk {} P Q R s1" by (simp add: aged_def)
  show ?thesis
  proof (cases r1)
    case (Inl e)
    with run1 t1 staying_same [OF t1] show ?thesis
      by (intro exI [of _ P] exI [of _ Q]) (simp add: reap_def run_thenDo)
  next
    case (Inr u)
    from reap_pendings [OF s1, of "n_pending s1" now] snapshot_peers(2,3) [OF t1] talkD(7) [OF t1]
      fold_pop_filter [OF talkD(2) [OF t1]]
    obtain s2 where run2: "for_each (reap_pending now) (n_pending s1) s1 = (Inr (), s2)"
      and s2: "aged ?D P (remaining now s Q) R s2" by (auto simp: remaining_def)
    obtain r3 s3 where run3: "maintain_elections E now s2 = (r3, s3)" by fastforce
    from keepsD [OF m s2 run3] have s3: "aged ?D P (remaining now s Q) R s3" .
    then have t3: "talk {} P (remaining now s Q) R s3" by (simp add: aged_def)
    have peers: "n_peers s3 = P" by (rule talkD(6) [OF t3])
    obtain P' where s4: "aged ?D P' (remaining now s Q) (staying P' R)
          (snd (for_each (reap_peer E now) (map snd P) s3))"
      and ok: "fst (for_each (reap_peer E now) (map snd P) s3) = Inr () \<Longrightarrow> P' = remaining now s P"
      using reap_peers [OF s3 _ snapshot_peers(1) [OF t3], where E = E and now = now]
      by (auto simp: remaining_def cong: filter_cong)
    from Inr show ?thesis
    proof (cases r3)
      case (Inl e)
      with t3 staying_same [OF t3] \<open>r1 = Inr u\<close> show ?thesis
        by (intro exI [of _ P] exI [of _ "remaining now s Q"])
          (simp add: reap_def run_thenDo run1 run2 run3 run_andThen)
    next
      case (Inr u')
      with s4 ok \<open>r1 = Inr u\<close> show ?thesis
        by (intro exI [of _ P'] exI [of _ "remaining now s Q"])
          (auto simp: reap_def run_thenDo run1 run2 run3 run_andThen peers aged_def)
    qed
  qed
qed

lemma reap_orderly [session_rules]: "keeps orderly (reap E now)"
  using reap_aged talk_orderly unfolding keeps_def orderly_talk by blast

lemma run_iteration_orderly: "keeps orderly (run_iteration E ready last_reap)"
  unfolding run_iteration_def by (intro keeps_rules session_rules)

end
