(* ===== verification/Zre_Run.thy ===== *)
theory Zre_Run
  imports Zre_Steps
begin

section \<open>The states of a running node\<close>

text \<open>
  The steps of a started node as a relation, its reachable states, and three invariants of them: the
  tables agree (\<open>orderly\<close>), the node never lists itself (\<open>apart\<close>), and what the application sees
  apart from events stays as \<open>start\<close> left it (\<open>fixed\<close>).
\<close>

subsection \<open>Steps\<close>

text \<open>
  \<open>iterate\<close> is one pass of the run loop, whatever sockets the poller reports and whether or not it
  raises; the others are calls of the application between two passes.
\<close>

inductive node_step :: "env \<Rightarrow> node \<Rightarrow> node \<Rightarrow> bool" for E where
  iterate: "node_step E s (snd (run_iteration E polled last_reap s))" if "n_running s"
| command: "node_step E s (snd (put_api cmd s))"
| contact: "node_step E s (snd (connect_peer E host port key s))"
| consume: "node_step E s (snd (recv s))"
| contest: "node_step E s (snd (set_contest_in_group g s))"

text \<open>Before \<open>start\<close> the application may have queued commands, contests and keys.\<close>

definition prepared :: "config \<Rightarrow> bytes list \<Rightarrow> api_command list \<Rightarrow> (pystr \<times> bytes) list \<Rightarrow> node" where
  "prepared c contests cmds ks = (new_node_state c)
     \<lparr>n_contest_groups := contests, n_api := cmds, n_peer_server_keys := ks\<rparr>"

inductive reachable :: "env \<Rightarrow> config \<Rightarrow> node \<Rightarrow> bool" for E c where
  started: "reachable E c s" if "start E (prepared c contests cmds ks) = (Inr (), s)"
| step: "reachable E c t" if "reachable E c s" and "node_step E s t"

inductive_cases node_stepE: "node_step E s t"

text \<open>An invariant of the handlers, of the calls and of \<open>start\<close> holds in every reachable state.\<close>

locale invariant =
  fixes E :: env and c :: config and I :: "node \<Rightarrow> bool"
  assumes fresh: "start E (prepared c contests cmds ks) = (Inr (), s) \<Longrightarrow> I s"
    and pass: "keeps I (run_iteration E polled last_reap)"
    and calls: "keeps I (put_api cmd)" "keeps I (connect_peer E host port key)" "keeps I recv"
      "keeps I (set_contest_in_group g)"
begin

lemma step_kept: "node_step E s t \<Longrightarrow> I s \<Longrightarrow> I t"
  using pass calls by (auto simp: keeps_def elim!: node_stepE)

lemma holds: "reachable E c s \<Longrightarrow> I s"
  by (induction rule: reachable.induct) (auto intro: fresh step_kept)

end

subsection \<open>The tables at the start\<close>

text \<open>What \<open>orderly\<close> looks at.\<close>

definition tables where
  "tables s = (n_heap s, n_next_addr s, n_peers s, n_pending s, n_groups s)" for s :: node

lemma tables_eq:
  "tables s' = tables s \<longleftrightarrow> n_heap s' = n_heap s \<and> n_next_addr s' = n_next_addr s
     \<and> n_peers s' = n_peers s \<and> n_pending s' = n_pending s \<and> n_groups s' = n_groups s"
  by (simp add: tables_def)

lemma orderly_tables: "tables s' = tables s \<Longrightarrow> orderly s' \<longleftrightarrow> orderly s"
  using members_cong [of s' s] by (simp add: orderly_def roster_ok_def tables_eq)

lemma orderly_modify: "(\<And>s. tables (f s) = tables s) \<Longrightarrow> keeps orderly (modify f)"
  by (rule keeps_modify) (blast intro: orderly_tables [THEN iffD2])

lemma prepared_orderly: "orderly (prepared c contests cmds ks)"
  by (simp add: prepared_def new_node_state_def orderly_def roster_ok_def consistent_def is_dict_def
      keys_def members_def new_peer_def ran_def)

lemma start_orderly: "keeps orderly (start E)"
  unfolding start_def start_inbox_def start_gossip_def start_hub_def start_hub_link_def start_beacon_def
    publish_own_tuple_def open_hub_link_def register_hub_link_def Let_def
  by (intro keeps_rules session_rules orderly_modify; simp add: tables_eq)

lemma calls_orderly:
  "keeps orderly (put_api cmd)" "keeps orderly (connect_peer E host port key)" "keeps orderly recv"
  "keeps orderly (set_contest_in_group g)"
  unfolding put_api_def connect_peer_def recv_def set_contest_in_group_def
  by (intro keeps_rules session_rules orderly_modify; simp add: tables_eq)+

interpretation tables: invariant E c orderly for E c
proof
  show "start E (prepared c contests cmds ks) = (Inr (), s) \<Longrightarrow> orderly s" for contests cmds ks s
    using keepsD [OF start_orderly prepared_orderly] .
qed (rule run_iteration_orderly calls_orderly)+

subsection \<open>The event queue and the configuration\<close>

definition queue_ok :: "node \<Rightarrow> bool" where
  "queue_ok s \<longleftrightarrow> length (n_events s) \<le> EVENT_QUEUE_SIZE"

interpretation queue: observer queue_ok
  by unfold_locales (simp_all add: queue_ok_def outside_eq length_push_event)

interpretation queue_run: invariant E c queue_ok for E c
proof
  have "keeps queue_ok (start E)"
    unfolding start_def start_inbox_def start_gossip_def start_hub_def start_hub_link_def start_beacon_def
      publish_own_tuple_def open_hub_link_def register_hub_link_def Let_def
    by (intro keeps_rules session_rules keeps_modify; simp add: queue_ok_def)
  moreover have "queue_ok (prepared c contests cmds ks)" for contests cmds ks
    by (simp add: queue_ok_def prepared_def new_node_state_def)
  ultimately show "start E (prepared c contests cmds ks) = (Inr (), s) \<Longrightarrow> queue_ok s" for contests cmds ks s
    by (rule keepsD)
  show "keeps queue_ok (put_api cmd)" "keeps queue_ok (connect_peer E host port key)"
    "keeps queue_ok (set_contest_in_group g)" for cmd host port key g
    unfolding put_api_def connect_peer_def set_contest_in_group_def
    by (intro keeps_rules session_rules keeps_modify; simp add: queue_ok_def)+
  show "keeps queue_ok recv"
    by (auto simp: keeps_def recv_def queue_ok_def split: list.split)
qed (rule queue.run_iteration_kept)

definition steady :: "config \<Rightarrow> node \<Rightarrow> bool" where
  "steady c s \<longleftrightarrow> n_running s \<and> n_cfg s = c"

interpretation steady: observer "steady c" for c
  by unfold_locales (simp_all add: steady_def outside_eq)

definition configured :: "config \<Rightarrow> node \<Rightarrow> bool" where
  "configured c s \<longleftrightarrow> n_cfg s = c"

interpretation configured: observer "configured c" for c
  by unfold_locales (simp_all add: configured_def outside_eq)

lemma start_configured: "keeps (configured c) (start E)"
  unfolding start_def start_inbox_def start_gossip_def start_hub_def start_hub_link_def start_beacon_def
    publish_own_tuple_def open_hub_link_def register_hub_link_def Let_def
  by (intro keeps_rules session_rules keeps_modify; simp add: configured_def)

lemma start_steady:
  assumes "start E s = (Inr (), s')" and "configured c s"
  shows "steady c s'"
proof -
  from assms(1) obtain s2 where sent: "send_beacon E None (s2\<lparr>n_running := True\<rparr>) = (Inr (), s')"
    unfolding start_def by (elim thenDo_InrE andThen_InrE) auto
  have "steady (n_cfg s2) (s2\<lparr>n_running := True\<rparr>)" by (simp add: steady_def)
  from keepsD [OF steady.send_beacon_kept this sent] keepsD [OF start_configured assms(2,1)]
  show ?thesis by (simp add: steady_def configured_def)
qed

interpretation steady_run: invariant E c "steady c" for E c
proof
  fix contests cmds ks s
  assume run: "start E (prepared c contests cmds ks) = (Inr (), s)"
  have "configured c (prepared c contests cmds ks)"
    by (simp add: configured_def prepared_def new_node_state_def)
  with run show "steady c s" by (rule start_steady)
next
  show "keeps (steady c) (put_api cmd)" "keeps (steady c) (connect_peer E host port key)"
    "keeps (steady c) recv" "keeps (steady c) (set_contest_in_group g)" for cmd host port key g
    unfolding put_api_def connect_peer_def recv_def set_contest_in_group_def
    by (intro keeps_rules session_rules keeps_modify; simp add: steady_def)+
qed (rule steady.run_iteration_kept)

subsection \<open>A node is not its own peer\<close>

definition apart :: "config \<Rightarrow> node \<Rightarrow> bool" where
  "apart c s \<longleftrightarrow> orderly s \<and> n_cfg s = c \<and> roster s (c_peer_id_hex c) = None"

lemma apart_talk: "apart c s \<longleftrightarrow> (\<exists>P Q R. talk {} P Q R s \<and> n_cfg s = c \<and> R (c_peer_id_hex c) = None)"
  by (auto simp: apart_def orderly_talk talk_def)

lemma apart_leads:
  assumes "\<And>P Q R. leads P Q R m (Rs R)" and "keeps (configured c) m"
    and "\<And>R R'. R' \<in> Rs R \<Longrightarrow> R (c_peer_id_hex c) = None \<Longrightarrow> R' (c_peer_id_hex c) = None"
  shows "keeps (apart c) m"
proof (rule keepsI)
  fix s assume "apart c s"
  with leads_roster [where Rs = Rs, OF assms(1)] assms(2,3) show "apart c (snd (m s))"
    by (fastforce simp: apart_def keeps_def configured_def)
qed

lemma apart_same: "(\<And>s. apart c s \<Longrightarrow> apart c (snd (m s))) \<Longrightarrow> keeps (apart c) m"
  by (rule keepsI)

interpretation apart: session "apart c" for c
proof
  have cfg: "n_cfg (snd (upd_group g h s)) = n_cfg s" "n_cfg (snd (require_group g s)) = n_cfg s" for g h s
    using outside_groups by (simp_all add: outside_eq)
  show "core s' = core s \<Longrightarrow> apart c s \<Longrightarrow> apart c s'" for s s' :: node
    using talking.bookkeeping [of s' s] unfolding apart_talk core_eq by metis
  show "apart c s \<Longrightarrow> apart c (s\<lparr>n_events := push_event e (n_events s)\<rparr>)" for s e
    using talk_events unfolding apart_talk by fastforce
  show "(\<And>p. calmer p (f p)) \<Longrightarrow> apart c s \<Longrightarrow> apart c (set_peer a f s)" for f a s
    using talking.peer [of f] unfolding apart_talk by fastforce
  show "apart c s \<Longrightarrow> apart c (set_peer a (\<lambda>p. p\<lparr>p_expired_at := t\<rparr>) s)" for a t s
    using talking.heard unfolding apart_talk by fastforce
  show "(\<And>G. g_peers (h G) = g_peers G) \<Longrightarrow> keeps (apart c) (upd_group g h)" for g h
    using talking.election [of h] cfg(1) unfolding apart_talk keeps_def by fastforce
  show "keeps (apart c) (require_group g)" for g
    using talking.require [of _ _ _ _ g] cfg(2) unfolding apart_talk keeps_def by fastforce
qed

lemma own_hello:
  assumes "n_cfg s = c"
  shows "snd (handle_hello E (c_peer_id_hex c) x found s) = s"
  using assms by (simp add: handle_hello_def)

lemma own_beacon:
  assumes "n_cfg s = c" and "c_peer_id_hex c = bytes_hex (c_peer_id c)" and "beacon_id data = c_peer_id_hex c"
  shows "snd (handle_beacon E data ip s) = s"
proof -
  have own: "slice 4 20 data = c_peer_id (n_cfg s)"
    using assms bytes_hex_inj by (simp add: beacon_id_def)
  have stays: "snd ((if b then m else k) s) = s" if "b \<Longrightarrow> snd (m s) = s" "\<not> b \<Longrightarrow> snd (k s) = s"
    for b and m k :: "unit nprog" using that by simp
  show ?thesis
    unfolding handle_beacon_def Let_def run_andThen_simps id_apply own if_P [OF refl]
    by (intro stays) simp_all
qed

lemma own_gossip:
  assumes "n_cfg s = c" and "str_lower (e_rt E) uuid = c_peer_id_hex c"
  shows "snd (gossip_require E uuid endpoint now s) = s"
  using assms by (simp add: gossip_require_def Let_def)

lemma admitted_other: "R' \<in> admitted R k \<Longrightarrow> j \<noteq> k \<Longrightarrow> R' j = R j"
  by (auto simp: admitted_def split: if_splits)

lemma apart_gossip: "keeps (apart c) (gossip_require E uuid endpoint now)"
proof (cases "str_lower (e_rt E) uuid = c_peer_id_hex c")
  case True
  then show ?thesis by (intro apart_same) (simp add: own_gossip apart_def)
next
  case False
  then show ?thesis
    by (intro apart_leads [OF leads_gossip_require configured.gossip_require_kept])
      (metis admitted_other)
qed

lemma apart_beacon:
  assumes "c_peer_id_hex c = bytes_hex (c_peer_id c)"
  shows "keeps (apart c) (handle_beacon E data ip)"
proof (cases "beacon_id data = c_peer_id_hex c")
  case True
  then show ?thesis by (intro apart_same) (simp add: own_beacon [OF _ assms] apart_def)
next
  case False
  then show ?thesis
    by (intro apart_leads [OF leads_handle_beacon configured.handle_beacon_kept])
      (auto simp: admitted_other [where j = "c_peer_id_hex c"])
qed

lemma message_other: "R' \<in> message_rosters R frames \<Longrightarrow> j \<noteq> bytes_hex (tl (hd frames)) \<Longrightarrow> R' j = R j"
  by (auto simp: message_rosters_def hello_rosters_def roster_after_def dest: admitted_other
      split: list.splits option.splits if_splits)

lemma apart_message: "keeps (apart c) (handle_peer_msg E frames)"
proof (rule apart_same)
  fix s assume s: "apart c s"
  let ?k = "bytes_hex (tl (hd frames))"
  have at: "roster (snd (handle_peer_msg E frames s)) \<in> message_rosters (roster s) frames"
      "orderly (snd (handle_peer_msg E frames s))"
    using leads_roster [where Rs = "\<lambda>R. message_rosters R frames", OF leads_handle_peer_msg] s
    by (simp_all add: apart_def)
  have cfg: "n_cfg (snd (handle_peer_msg E frames s)) = c"
    using configured.handle_peer_msg_kept [of c E frames] s by (simp add: keeps_def configured_def apart_def)
  show "apart c (snd (handle_peer_msg E frames s))"
  proof (cases "c_peer_id_hex c = ?k \<and> (\<exists>rid data parts cmd ver q x. frames = rid # data # parts \<and>
      length rid = 17 \<and> hd rid = 1 \<and> decode data = Some (cmd, ver, q, x))")
    case True
    then obtain rid data parts cmd ver q x where f: "frames = rid # data # parts"
      "length rid = 17" "hd rid = 1" "decode data = Some (cmd, ver, q, x)"
      and k: "bytes_hex (tl rid) = c_peer_id_hex c" by auto
    have none: "dict_get (n_peers s) (c_peer_id_hex c) = None"
      using s by (auto simp: apart_def roster_def)
    note eqs = handle_peer_msg_eqs [OF f(2-4), where s = s and E = E and parts = parts, unfolded k none]
    let ?s = "io_log (IoTime (e_time E (w_hist s))) s"
    have io: "core ?s = core s" by (simp add: core_eq io_log_def)
    have "core (snd (handle_peer_msg E frames s)) = core s"
    proof (cases "cmd = HELLO")
      case True
      have "handle_peer_msg E frames s = handle_hello E (c_peer_id_hex c) x None ?s"
        using eqs(3) [OF True] by (simp add: f(1) andThen_Inr [OF read_clock_run])
      moreover have "n_cfg ?s = c" using s by (simp add: apart_def io_log_def)
      ultimately show ?thesis using own_hello [of ?s] io by simp
    next
      case False
      have "handle_peer_msg E frames s = andThen (read_clock E) (\<lambda>_. ret ()) s"
        unfolding f(1) by (rule eqs(2) [OF False]) simp
      also have "\<dots> = (Inr (), ?s)" unfolding andThen_Inr [OF read_clock_run] by simp
      finally show ?thesis using io by simp
    qed
    from apart.bookkeeping [OF this s] show ?thesis .
  next
    case False
    then have "handle_peer_msg E frames = ret () \<or> c_peer_id_hex c \<noteq> ?k"
      by (fastforce simp: handle_peer_msg_def Let_def split: list.splits option.splits)
    then show ?thesis
    proof
      assume "handle_peer_msg E frames = ret ()"
      with s show ?thesis by simp
    next
      assume "c_peer_id_hex c \<noteq> ?k"
      from message_other [OF at(1) this] s have "roster (snd (handle_peer_msg E frames s)) (c_peer_id_hex c) = None"
        by (simp add: apart_def)
      with at(2) cfg show ?thesis by (simp only: apart_def simp_thms)
    qed
  qed
qed

lemma apart_hub: "keeps (apart c) (run_hub h m)"
  by (rule apart.quiet) (simp add: core_eq run_hub_def split_beta)

lemma apart_send: "keeps (apart c) (send_beacon E port)"
  unfolding send_beacon_def build_send_sock_def Let_def by (intro keeps_rules session_rules)

lemma apart_steps:
  assumes c: "c_peer_id_hex c = bytes_hex (c_peer_id c)"
  shows "keeps (apart c) (run_iteration E polled last_reap)"
proof -
  note [session_rules] = apart_gossip apart_message apart_beacon [OF c]
  note [session_rules] = apart_hub
  have "keeps (apart c) (gossip_client_message E sock body)" for sock body
    unfolding gossip_client_message_def gossip_announce_def zmq_send_def
    by (intro keeps_rules session_rules)
  note [session_rules] = this
  have "keeps (apart c) (serve_hub E now inbound)" for now inbound
    unfolding serve_hub_def by (intro keeps_rules session_rules)
  note [session_rules] = this
  have serve: "keeps (apart c) (serve_socket E now r)" for now r
    unfolding serve_socket_def handle_gossip_client_def
    by (cases r) (simp_all only: ready.case, (intro keeps_rules session_rules)+)
  have "keeps (apart c) (do_connect E host port)" for host port
    by (rule apart_leads [OF leads_do_connect configured.do_connect_kept]) simp
  note [session_rules] = this
  have "keeps (apart c) (api_step E cmd)" for cmd
    unfolding api_step_def by (cases cmd) (simp_all only: api_command.case, (intro session_rules)+)
  then have drain: "keeps (apart c) (drain_api E)"
    unfolding drain_api_def by (intro keeps_rules session_rules)
  note send = apart_send
  have reap: "keeps (apart c) (reap E now)" for now
  proof (rule apart_same)
    fix s assume s: "apart c s"
    then have "talk {} (n_peers s) (n_pending s) (roster s) s" by (simp add: apart_def orderly_talk)
    from reap_aged [OF this, of E now] obtain P' Q' where
      "talk {} P' Q' (staying P' (roster s)) (snd (reap E now s))" by blast
    moreover have "staying P' (roster s) (c_peer_id_hex c) = None"
      using s by (simp add: staying_def apart_def)
    moreover have "n_cfg (snd (reap E now s)) = c"
      using configured.reap_kept [of c E now] s by (simp add: keeps_def configured_def apart_def)
    ultimately show "apart c (snd (reap E now s))" unfolding apart_talk by blast
  qed
  show ?thesis
    unfolding run_iteration_def by (intro keeps_rules session_rules serve drain send reap)
qed

lemma apart_modify:
  assumes "\<And>s. tables (f s) = tables s \<and> n_cfg (f s) = n_cfg s"
  shows "keeps (apart c) (modify f)"
proof (rule keeps_modify)
  fix s assume s: "apart c s"
  have t: "tables (f s) = tables s" and c: "n_cfg (f s) = n_cfg s" using assms by simp_all
  have "roster (f s) = roster s" by (rule roster_cong) (use t in \<open>simp_all add: tables_eq\<close>)
  with s c orderly_tables [OF t] show "apart c (f s)" by (simp add: apart_def)
qed

lemma apart_start: "keeps (apart c) (start E)"
  unfolding start_def start_inbox_def start_gossip_def start_hub_def start_hub_link_def start_beacon_def
    publish_own_tuple_def open_hub_link_def register_hub_link_def gossip_announce_def zmq_send_def Let_def
  by (intro keeps_rules session_rules apart_hub apart_send apart_modify; simp add: tables_eq)

text \<open>The configurations that the constructor and \<open>set_uuid\<close> make.\<close>

definition own_id_ok :: "config \<Rightarrow> bool" where
  "own_id_ok c \<longleftrightarrow> c_peer_id_hex c = bytes_hex (c_peer_id c)"

definition stranger :: "config \<Rightarrow> node \<Rightarrow> bool" where
  "stranger c s \<longleftrightarrow> (own_id_ok c \<longrightarrow> apart c s)"

interpretation stranger: invariant E c "stranger c" for E c
proof
  fix contests cmds ks s
  assume run: "start E (prepared c contests cmds ks) = (Inr (), s)"
  have "apart c (prepared c contests cmds ks)"
    using prepared_orderly [of c contests cmds ks]
    by (simp add: apart_def roster_def prepared_def new_node_state_def)
  from keepsD [OF apart_start this run] show "stranger c s" by (simp add: stranger_def)
next
  show "keeps (stranger c) (run_iteration E polled last_reap)" for polled last_reap
    using apart_steps [of c E polled last_reap] by (auto simp: keeps_def stranger_def own_id_ok_def)
  have "keeps (apart c) (put_api cmd)" "keeps (apart c) (connect_peer E host port key)"
    "keeps (apart c) recv" "keeps (apart c) (set_contest_in_group g)" for cmd host port key g
    unfolding put_api_def connect_peer_def recv_def set_contest_in_group_def
    by (intro keeps_rules session_rules apart_modify; simp add: tables_eq)+
  then show "keeps (stranger c) (put_api cmd)" "keeps (stranger c) (connect_peer E host port key)"
    "keeps (stranger c) recv" "keeps (stranger c) (set_contest_in_group g)" for cmd host port key g
    by (simp_all add: keeps_def stranger_def)
qed

end
