(* ===== verification/Zre_Run_Properties.thy ===== *)
theory Zre_Run_Properties
  imports Zre_Run Zre_Wire_Properties
begin

section \<open>Properties of a running node\<close>

text \<open>
  What holds of a started node, whatever beacons, messages and gossip arrive, in whatever order, and
  whatever the application asks for: the invariants of all reachable states, and the effect of
  one message. The examples are a node that was started and then heard a beacon.
\<close>

subsection \<open>An example\<close>

definition demo_cfg :: config where
  "demo_cfg = new_config [97] (replicate 16 7)"

definition demo_start :: node where
  "demo_start = snd (start calm (prepared demo_cfg [] [] []))"

lemma calm_port: "last_endpoint_port calm (lit ''tcp://0.0.0.0:49152'') = Inr 49152"
  by (simp add: last_endpoint_port_def rpartition_at_def lit_def py_int_def plain_rt_def strip_spaces_def
      to_ascii_digits_def unsigned_int_def is_digit_def ascii_space_def)

lemma demo_beacon:
  "n_beacon_version s = BEACON_VERSION_V1 \<Longrightarrow>
   build_beacon s 49152 = Inr (blit ''ZRE'' @ [1] @ c_peer_id (n_cfg s) @ be_bytes 2 49152)"
  by (simp add: build_beacon_def beacon_consts pack_def)

text \<open>A beacon that was built is sent without an exception.\<close>

lemma send_beacon_returns: "n_beacon_msg s = Some b \<Longrightarrow> fst (send_beacon E None s) = Inr ()"
  by (simp add: send_beacon_def run_andThen [of "lift_exn _"] catch_def any_exception_def split_beta
      split: sum.split)

lemma demo_inbox:
  "\<exists>s. start_inbox calm (prepared demo_cfg [] [] []) = (Inr (), s) \<and> n_cfg s = demo_cfg
     \<and> n_beacon_version s = BEACON_VERSION_V1 \<and> n_inbox_port s = 49152 \<and> n_send_sock s = None"
  by (simp add: start_inbox_def prepared_def demo_cfg_def new_config_def new_node_state_def run_andThen
      run_thenDo syscall_defs Let_def calm_port)

lemma demo_started: "start calm (prepared demo_cfg [] [] []) = (Inr (), demo_start)"
proof -
  obtain s1 where s1: "start_inbox calm (prepared demo_cfg [] [] []) = (Inr (), s1)" "n_cfg s1 = demo_cfg"
      "n_beacon_version s1 = BEACON_VERSION_V1" "n_inbox_port s1 = 49152"
    using demo_inbox by blast
  obtain s2 b where s2: "start_beacon calm s1 = (Inr (), s2)" "n_beacon_msg s2 = Some b"
    using s1(2-4) by (simp add: start_beacon_def run_andThen run_thenDo syscall_defs Let_def demo_beacon)
  have plain: "\<not> gossip_active demo_cfg" by (simp add: gossip_active_def demo_cfg_def new_config_def)
  have "start calm (prepared demo_cfg [] [] []) = send_beacon calm None (s2\<lparr>n_running := True\<rparr>)"
    by (simp add: start_def thenDo_Inr [where m = "start_inbox calm", OF s1(1)] s1(2) plain
        thenDo_Inr [where m = "start_beacon calm", OF s2(1)])
  moreover have "fst (send_beacon calm None (s2\<lparr>n_running := True\<rparr>)) = Inr ()"
    by (rule send_beacon_returns) (simp add: s2(2))
  ultimately show ?thesis by (simp add: demo_start_def prod_eq_iff)
qed

text \<open>The node after a beacon of another node and a command of the application.\<close>

definition demo_hello :: bytes where
  "demo_hello = blit ''ZRE'' @ [1] @ replicate 16 9 @ be_bytes 2 49153"

definition demo_node :: node where
  "demo_node = snd (put_api (CmdJoin [67])
     (snd (run_iteration calm [BeaconReady (Some (demo_hello, lit ''10.0.0.2''))] 100 demo_start)))"

lemma demo_reachable: "reachable calm demo_cfg demo_node"
proof -
  have start: "reachable calm demo_cfg demo_start" by (rule reachable.started [OF demo_started])
  have "n_running demo_start" using steady_run.holds [OF start] by (simp add: steady_def)
  from reachable.step [OF start node_step.iterate [OF this]] show ?thesis
    unfolding demo_node_def by (rule reachable.step [OF _ node_step.command])
qed

subsection \<open>Invariants\<close>

text \<open>
  C1: in every reachable state the tables agree. A peer is filed under its own id, and so is a
  placeholder, which is no peer yet and in no group; a group lists exactly the peers that are in it,
  as the same objects; a peer's group exists; and every open connection belongs to a peer or to a
  placeholder, so that none is leaked.
\<close>

theorem reachable_tables_agree:
  assumes "reachable E c s"
  shows "(\<forall>k a. dict_get (n_peers s) k = Some a \<longrightarrow> p_uuid_hex (n_heap s a) = k)
    \<and> (\<forall>k a. dict_get (n_pending s) k = Some a \<longrightarrow> p_uuid_hex (n_heap s a) = k
         \<and> p_groups (n_heap s a) = [] \<and> (\<forall>j. dict_get (n_peers s) j \<noteq> Some a))
    \<and> (\<forall>g G k a. dict_get (n_groups s) g = Some G \<longrightarrow>
         (dict_get (g_peers G) k = Some a \<longleftrightarrow> dict_get (n_peers s) k = Some a \<and> g \<in> set (p_groups (n_heap s a))))
    \<and> (\<forall>k a g. dict_get (n_peers s) k = Some a \<longrightarrow> g \<in> set (p_groups (n_heap s a)) \<longrightarrow>
         dict_get (n_groups s) g \<noteq> None)
    \<and> (\<forall>a. p_dealer (n_heap s a) \<noteq> None \<or> p_connected (n_heap s a) \<longrightarrow>
         (\<exists>k. dict_get (n_peers s) k = Some a \<or> dict_get (n_pending s) k = Some a))"
proof -
  from tables.holds [OF assms]
  have "consistent {} (n_next_addr s) (n_heap s) (map_of (n_peers s)) (map_of (n_pending s)) (members s)"
    by (simp add: orderly_def roster_ok_def)
  note d = consistentD [OF this]
  have members: "members s g = Some (map_of (g_peers G))" if "dict_get (n_groups s) g = Some G" for g G
    using that by (simp add: members_def)
  have "\<exists>k. dict_get (n_peers s) k = Some a \<or> dict_get (n_pending s) k = Some a"
    if "p_dealer (n_heap s a) \<noteq> None \<or> p_connected (n_heap s a)" for a
    using d(9,10) [of a] that by (auto simp: in_ran)
  moreover have "dict_get (n_groups s) g \<noteq> None"
    if "dict_get (n_peers s) k = Some a" "g \<in> set (p_groups (n_heap s a))" for k a g
    using d(8) [OF that] by (auto simp: members_def)
  ultimately show ?thesis
    using d(2,4-6) d(7) [OF members] by blast
qed

lemma reachable_tables_agree_witness:
  "{k. \<exists>a. dict_get (n_peers demo_node) k = Some a \<and> p_uuid_hex (n_heap demo_node a) \<noteq> k} = {}"
  using conjunct1 [OF reachable_tables_agree [OF demo_reachable]] by blast



text \<open>
  C13: a node never lists itself: whatever beacons, messages and tuples carry its own id, it is not
  among its peers, so it does not dial itself.
\<close>

theorem never_own_peer:
  assumes "reachable E c s" and "own_id_ok c"
  shows "c_peer_id_hex c \<notin> set (peer_ids s)"
  using stranger.holds [OF assms(1)] assms(2)
  by (simp add: stranger_def apart_def roster_def peer_ids_def mem_keys)

lemma never_own_peer_witness: "bytes_hex (replicate 16 7) \<notin> set (peer_ids demo_node)"
  using never_own_peer [OF demo_reachable] by (simp add: own_id_ok_def demo_cfg_def new_config_def)

text \<open>
  C18: the query \<open>peers_by_group\<close> answers, without repetition, exactly the peers that are in the group:
  those that announced it in their HELLO or with a JOIN and have not left it since.
\<close>

theorem peers_by_group_exact:
  assumes "reachable E c s"
  shows "\<exists>ks. peers_by_group s (PyBytes g) = Inr ks \<and> distinct ks
    \<and> set ks = {k. \<exists>G. roster s k = Some G \<and> g \<in> G}"
proof -
  from tables.holds [OF assms] have s: "talk {} (n_peers s) (n_pending s) (roster s) s"
    by (simp add: orderly_talk)
  note c = consistentD [OF talkD(5) [OF s]]
  show ?thesis
  proof (cases "dict_get (n_groups s) g")
    case None
    then have "members s g = None" by (simp add: members_def)
    with c(8) [where g = g] have "\<not> (\<exists>G. roster s k = Some G \<and> g \<in> G)" for k by (auto simp: roster_def)
    with None show ?thesis by (simp add: peers_by_group_def)
  next
    case (Some G)
    then have m: "members s g = Some (map_of (g_peers G))" by (simp add: members_def)
    have "set (keys (g_peers G)) = {k. \<exists>G. roster s k = Some G \<and> g \<in> G}"
      using c(7) [OF m] by (fastforce simp: roster_def mem_keys)
    with Some group_dict [OF s Some] show ?thesis by (simp add: peers_by_group_def is_dict_def)
  qed
qed

lemma peers_by_group_exact_witness:
  "\<exists>ks. peers_by_group demo_node (PyBytes [67]) = Inr ks \<and> distinct ks
    \<and> set ks = {k. \<exists>G. roster demo_node k = Some G \<and> [67] \<in> G}"
  by (rule peers_by_group_exact [OF demo_reachable])

subsection \<open>The effect of one message\<close>

text \<open>A node with one ready peer, in the group \<open>C\<close>.\<close>

definition demo_id :: bytes where
  "demo_id = replicate 16 2"

definition demo_talk :: node where
  "demo_talk = example_node\<lparr>n_peers := [(bytes_hex demo_id, 0)],
     n_heap := (n_heap example_node)(0 := example_peer\<lparr>p_uuid_hex := bytes_hex demo_id, p_groups := [[67]]\<rparr>),
     n_groups := [([67], (new_group [67])\<lparr>g_peers := [(bytes_hex demo_id, 0)]\<rparr>)]\<rparr>"

lemma demo_talk_orderly: "orderly demo_talk"
proof -
  have "n_heap demo_talk a = (if a = 0 then example_peer\<lparr>p_uuid_hex := bytes_hex demo_id, p_groups := [[67]]\<rparr>
      else new_peer [] [] 0)" for a
    by (cases a) (simp_all add: demo_talk_def)
  moreover have "n_groups demo_talk = [([67], (new_group [67])\<lparr>g_peers := [(bytes_hex demo_id, 0)]\<rparr>)]"
    "n_peers demo_talk = [(bytes_hex demo_id, 0)]" "n_pending demo_talk = []" "n_next_addr demo_talk = 1"
    by (simp_all add: demo_talk_def)
  ultimately show ?thesis
    by (simp add: orderly_def roster_ok_def consistent_def is_dict_def keys_def members_def new_peer_def ran_def)
qed

lemma demo_talk_simps:
  "dict_get (n_peers demo_talk) (bytes_hex demo_id) = Some 0" "p_ready (n_heap demo_talk 0)"
  "roster demo_talk (bytes_hex demo_id) = Some {[67]}" "n_running demo_talk"
  "c_peer_id_hex (n_cfg demo_talk) = bytes_hex (replicate 16 1)"
  by (simp_all add: demo_talk_def roster_def)

text \<open>
  C8: the effect of a message (other than HELLO) on who is there and in which groups. From a ready
  peer, JOIN and LEAVE change that peer's own groups, GOODBYE removes it, and every other message
  changes nothing; no message touches another peer's entry. From a peer that is unknown or has not
  said HELLO, a message has no effect at all but for reading the clock.
\<close>

theorem message_effect:
  assumes "orderly s" and "length rid = 17" "hd rid = 1" and "decode data = Some (cmd, ver, q, x)"
    and "cmd \<noteq> HELLO"
  shows "if \<exists>a. dict_get (n_peers s) (bytes_hex (tl rid)) = Some a \<and> p_ready (n_heap s a)
    then roster (snd (handle_peer_msg E (rid # data # parts) s))
      = roster_after (roster s) (bytes_hex (tl rid)) cmd x
    else handle_peer_msg E (rid # data # parts) s
      = (Inr (), s\<lparr>w_hist := IoTime (e_time E (w_hist s)) # w_hist s\<rparr>)"
proof (cases "\<exists>a. dict_get (n_peers s) (bytes_hex (tl rid)) = Some a \<and> p_ready (n_heap s a)")
  case False
  then have "handle_peer_msg E (rid # data # parts) s = andThen (read_clock E) (\<lambda>_. ret ()) s"
    using handle_peer_msg_eqs(2) [OF assms(2-5)] by blast
  with False show ?thesis by (simp only: if_False andThen_Inr [OF read_clock_run]) (simp add: io_log_def)
next
  case True
  then obtain a where a: "dict_get (n_peers s) (bytes_hex (tl rid)) = Some a" "p_ready (n_heap s a)" by blast
  let ?k = "bytes_hex (tl rid)" and ?t = "e_time E (w_hist s)"
  let ?s = "io_log (IoTime ?t) s"
  from assms(1) have s: "talk {} (n_peers s) (n_pending s) (roster s) s" by (simp add: orderly_talk)
  have "core ?s = core s" by (simp add: core_eq io_log_def)
  from talking.bookkeeping [OF this s] have t: "talk {} (n_peers s) (n_pending s) (roster s) ?s" .
  have run: "handle_peer_msg E (rid # data # parts) s = serve_command E ?k a cmd q x parts ?t ?s"
    using handle_peer_msg_eqs(1) [OF assms(2-5) a] by (simp only: andThen_Inr [OF read_clock_run])
  have "ends {roster_after (roster s) ?k cmd x} (snd (serve_command E ?k a cmd q x parts ?t ?s))"
    by (rule leads_ends [OF serve_command_exact [OF a(1)] t])
  then have "roster (snd (serve_command E ?k a cmd q x parts ?t ?s)) = roster_after (roster s) ?k cmd x"
    by (auto simp: ends_def talk_def)
  with True run show ?thesis by simp
qed

lemma message_effect_witness:
  "roster (snd (handle_peer_msg calm [1 # demo_id, [0xAA, 0xA1, 4, 2, 0, 1, 1, 68, 5]] demo_talk))
     (bytes_hex demo_id) = Some {[67], [68]}"
proof -
  have d: "decode [0xAA, 0xA1, 4, 2, 0, 1, 1, 68, 5] =
      Some (4, 2, 1, no_fields\<lparr>f_group := Some [68], f_status := Some 5\<rparr>)"
    by (simp add: decode_run)
  from message_effect [OF demo_talk_orderly _ _ d, of "1 # demo_id" calm "[]"]
  show ?thesis
    by (simp add: demo_talk_simps roster_after_def command_defs demo_id_def [symmetric] insert_commute)
      (simp add: demo_id_def)
qed

end
