(* ===== verification/Zre_Life_Properties.thy ===== *)
theory Zre_Life_Properties
  imports Zre_Run_Properties Zre_Hub_Properties
begin

section \<open>Properties of discovery, departure and shutdown\<close>

text \<open>
  What a HELLO and a beacon may change, what a reap removes, and how a node and a stand-alone hub end:
  \<open>stop\<close> always completes and leaves nothing open, a collision of ids ends the run loop without a
  goodbye, and the hub closes its socket whatever was sent to it.
\<close>

subsection \<open>Reaping\<close>

text \<open>
  C17: one reap, when no hub link fails in it, removes exactly the peers and placeholders whose deadline
  has passed. The others stay as they were, in their order, and keep their groups.
\<close>

theorem reap_exact:
  assumes "orderly s" and "reap E now s = (Inr (), s')"
  shows "n_peers s' = remaining now s (n_peers s) \<and> n_pending s' = remaining now s (n_pending s)
    \<and> roster s' = (\<lambda>k. if k \<in> set (peer_ids s') then roster s k else None)"
proof -
  from assms(1) have "talk {} (n_peers s) (n_pending s) (roster s) s" by (simp add: orderly_talk)
  from reap_aged [OF this, of E now] assms(2) show ?thesis
    by (auto simp: talk_def staying_def peer_ids_def mem_keys fun_eq_iff)
qed

lemma reap_exact_witness:
  "\<exists>s'. reap calm 100 demo_talk = (Inr (), s') \<and> n_peers s' = [(bytes_hex demo_id, 0)]"
proof -
  have "n_peers demo_talk = [(bytes_hex demo_id, 0)]" "n_pending demo_talk = []" "keys (n_groups demo_talk) = [[67]]"
    "p_expired_at (n_heap demo_talk 0) = 0" "p_evasive_at (n_heap demo_talk 0) = 0"
    "gc_socks (n_gossip demo_talk) = []" "dict_get (n_groups demo_talk) [67] = Some ((new_group [67])
      \<lparr>g_peers := [(bytes_hex demo_id, 0)]\<rparr>)"
    by (simp_all add: demo_talk_def keys_def example_node_def example_peer_def new_peer_def)
  note tables = this
  have "reap calm 100 demo_talk = (Inr (), demo_talk)"
    by (simp add: reap_def gossip_maintain_def maintain_elections_def maintain_election_def run_thenDo run_andThen
        get_group_def reap_peer_def deref_def new_group_def tables)
  with reap_exact [OF demo_talk_orderly this] show ?thesis
    by (simp add: remaining_def due_def deadlines_def tables)
qed

subsection \<open>Discovery\<close>





subsection \<open>Stopping\<close>

lemma thenDo_total: "never_raises m \<Longrightarrow> thenDo m k s = k (snd (m s))"
  unfolding never_raises_def by (metis snd_conv thenDo_Inr)

lemma disconnect_total [total_rules]: "never_raises (peer_disconnect a)"
  unfolding peer_disconnect_def by (intro total_rules)

lemma closing_total [total_rules]:
  "never_raises (disconnect_all as)" "never_raises (close_opt h)" "never_raises (close_udp_opt h)"
  "never_raises close_send_sock" "never_raises destroy_context" "never_raises (say_goodbye E)"
  unfolding disconnect_all_def close_opt_def close_udp_opt_def close_send_sock_def destroy_context_def
    say_goodbye_def
  by (intro total_rules)+

text \<open>The parts of \<open>stop\<close> do not fill a table again that an earlier part has emptied.\<close>

definition idle :: "node \<Rightarrow> bool" where
  "idle s \<longleftrightarrow> \<not> n_running s"

interpretation idle: observer idle
  by unfold_locales (simp_all add: idle_def outside_eq)

definition quit :: "bool \<Rightarrow> bool \<Rightarrow> bool \<Rightarrow> node \<Rightarrow> bool" where
  "quit p q b s \<longleftrightarrow> \<not> n_running s \<and> (p \<longrightarrow> n_peers s = []) \<and> (q \<longrightarrow> n_pending s = [])
     \<and> (b \<longrightarrow> n_beacon_sock s = None)"

lemma quit_parts [keeps_rules]:
  "keeps (quit p q b) (peer_disconnect a)" "keeps (quit p q b) (close_opt h)"
  "keeps (quit p q b) (close_udp_opt h)" "keeps (quit p q b) close_send_sock"
  by (auto simp: keeps_def quit_def run_peer_disconnect set_peer_def close_opt_def close_udp_opt_def
      close_send_sock_def run_andThen run_thenDo syscall_defs split: option.split)

lemma quit_disconnect [keeps_rules]: "keeps (quit p q b) (disconnect_all as)"
  unfolding disconnect_all_def by (intro keeps_rules)

lemma goodbye_idle: "keeps idle (say_goodbye E)"
proof -
  have "keeps idle gossip_shutdown"
    unfolding gossip_shutdown_def zmq_send_def by (intro keeps_rules session_rules)
  note [session_rules] = this
  show ?thesis unfolding say_goodbye_def by (intro keeps_rules session_rules)
qed

lemma close_all_run:
  "for_each close_socket xs s = (Inr (), s\<lparr>w_hist := map IoClose (rev xs) @ w_hist s,
     w_socks := filter (\<lambda>h. h \<notin> set xs) (w_socks s)\<rparr>)"
proof (induction xs arbitrary: s)
  case (Cons h xs)
  have "filter (\<lambda>x. x \<notin> set xs) (removeAll h ys) = filter (\<lambda>x. x \<noteq> h \<and> x \<notin> set xs) ys" for ys
    by (induction ys) auto
  with Cons show ?case by (simp add: run_thenDo close_socket_def)
qed simp

text \<open>
  C10: \<open>stop\<close> can be called in any state and always completes. Afterwards the node is not running, knows
  no peer and no placeholder, has no UDP socket, and no socket of its context is open.
\<close>

theorem stop_releases_everything:
  "\<exists>s'. stop E s = (Inr (), s') \<and> \<not> n_running s' \<and> n_peers s' = [] \<and> n_pending s' = []
    \<and> n_beacon_sock s' = None \<and> n_send_sock s' = None \<and> w_socks s' = []"
proof -
  have total: "never_raises (andThen (gets (\<lambda>s. map snd (n_peers s))) disconnect_all)"
    "never_raises (andThen (gets (\<lambda>s. map snd (n_pending s))) disconnect_all)"
    "never_raises (andThen (gets n_beacon_sock) close_udp_opt)" "never_raises (andThen (gets n_inbox) close_opt)"
    by (intro total_rules)+
  have k: "quit p q b (snd (m s))" if "keeps (quit p q b) m" "quit p q b s" for p q b m and s :: node
    using that by (simp add: keeps_def)
  define s1 where "s1 = snd (only_if (n_running s) (say_goodbye E) (s\<lparr>n_running := False\<rparr>))"
  define s2 where "s2 = snd (andThen (gets (\<lambda>s. map snd (n_peers s))) disconnect_all s1)"
  define s3 where "s3 = snd (andThen (gets (\<lambda>s. map snd (n_pending s))) disconnect_all (s2\<lparr>n_peers := []\<rparr>))"
  define s4 where "s4 = snd (andThen (gets n_beacon_sock) close_udp_opt (s3\<lparr>n_pending := []\<rparr>))"
  define s5 where "s5 = snd (close_send_sock (s4\<lparr>n_beacon_sock := None\<rparr>))"
  define s6 where "s6 = snd (andThen (gets n_inbox) close_opt s5)"
  have run: "stop E s = destroy_context s6"
    by (simp add: stop_def thenDo_total total closing_total never_raises_only_if s1_def s2_def s3_def s4_def s5_def s6_def)
  have "idle (s\<lparr>n_running := False\<rparr>)" by (simp add: idle_def)
  with goodbye_idle have "idle s1" by (cases "n_running s") (simp_all add: s1_def keeps_def)
  then have "quit False False False s1" by (simp add: quit_def idle_def)
  then have "quit False False False s2" unfolding s2_def by (intro k keeps_rules)
  then have "quit True False False (s2\<lparr>n_peers := []\<rparr>)" by (simp add: quit_def)
  then have "quit True False False s3" unfolding s3_def by (intro k keeps_rules)
  then have "quit True True False (s3\<lparr>n_pending := []\<rparr>)" by (simp add: quit_def)
  then have "quit True True False s4" unfolding s4_def by (intro k keeps_rules)
  then have "quit True True True (s4\<lparr>n_beacon_sock := None\<rparr>)" by (simp add: quit_def)
  then have "quit True True True s5" unfolding s5_def by (intro k keeps_rules)
  moreover have "n_send_sock s5 = None"
    by (simp add: s5_def close_send_sock_def run_thenDo run_andThen syscall_defs split: option.split)
  ultimately have "quit True True True s6 \<and> n_send_sock s6 = None"
    by (simp add: s6_def close_opt_def quit_def syscall_defs run_andThen split: option.split)
  then show ?thesis
    by (simp add: run destroy_context_def run_andThen close_all_run quit_def)
qed

subsection \<open>Collisions\<close>

text \<open>Closing sockets is all that the history shows of a shutdown.\<close>

definition only_closes :: "node \<Rightarrow> node \<Rightarrow> bool" where
  "only_closes s t \<longleftrightarrow> (\<exists>hs. w_hist t = map IoClose hs @ w_hist s) \<and> n_events t = n_events s
     \<and> n_running t = n_running s"

lemma only_closes_trans: "only_closes s t \<Longrightarrow> only_closes t u \<Longrightarrow> only_closes s u"
  unfolding only_closes_def by (metis append_assoc map_append)

lemma only_closes_disconnect: "only_closes s (snd (peer_disconnect a s))"
proof (cases "p_dealer (n_heap s a)")
  case (Some h)
  then show ?thesis
    by (auto simp: only_closes_def run_peer_disconnect set_peer_def intro: exI [of _ "[h]"])
qed (auto simp: only_closes_def run_peer_disconnect set_peer_def intro: exI [of _ "[]"])

lemma only_closes_all: "only_closes s (snd (disconnect_all as s))"
proof (induction as arbitrary: s)
  case Nil
  show ?case by (auto simp: only_closes_def disconnect_all_def intro: exI [of _ "[]"])
next
  case (Cons a as)
  have "disconnect_all (a # as) s = disconnect_all as (snd (peer_disconnect a s))"
    by (simp add: disconnect_all_def thenDo_total disconnect_total)
  with only_closes_trans [OF only_closes_disconnect Cons] show ?case by simp
qed

lemma only_closes_sock:
  "only_closes s (snd (close_opt h s))" "only_closes s (snd (close_udp_opt h s))"
  by (cases h; auto simp: only_closes_def close_opt_def close_udp_opt_def syscall_defs
      intro: exI [of _ "[]"] exI [of _ "[x]" for x])+

lemma only_closes_update:
  "w_hist t = w_hist s \<Longrightarrow> n_events t = n_events s \<Longrightarrow> n_running t = n_running s \<Longrightarrow> only_closes s t"
  by (auto simp: only_closes_def intro: exI [of _ "[]"])

text \<open>
  C15: when another node answers to the same id, the run loop ends with the \<open>UUIDCollisionError\<close> that was
  raised. By then the node is not running and has no peers, \<open>COLLISION\<close> was the last event posted, and
  nothing was sent, so no EXIT beacon tells the network that this id has left: sockets were closed, and
  that is all.
\<close>

theorem collision_ends_run:
  assumes "run_loop E polls (e_time E (w_hist s)) (io_log (IoTime (e_time E (w_hist s))) s)
      = (Inl (UUIDCollisionError d), s1)"
  shows "\<exists>s2 hs. run E polls s = (Inl (UUIDCollisionError d), s2) \<and> \<not> n_running s2 \<and> n_peers s2 = []
    \<and> n_events s2 = push_event (EvCollision d) (n_events s1) \<and> w_hist s2 = map IoClose hs @ w_hist s1
    \<and> n_beacon_sock s2 = None \<and> n_send_sock s2 = None"
proof -
  define t0 where "t0 = s1\<lparr>n_running := False, n_events := push_event (EvCollision d) (n_events s1)\<rparr>"
  define t1 where "t1 = snd (disconnect_all (map snd (n_peers t0)) t0)"
  define t2 where "t2 = snd (close_opt (n_inbox t1) (t1\<lparr>n_peers := []\<rparr>))"
  define t3 where "t3 = snd (close_udp_opt (n_beacon_sock t1) t2)"
  define t4 where "t4 = snd (close_udp_opt (n_send_sock t1) t3)"
  define t5 where "t5 = t4\<lparr>n_beacon_sock := None, n_send_sock := None\<rparr>"
  have sup: "suppress any_exception (disconnect_all as) = disconnect_all as" for as
  proof
    fix u
    obtain x u' where "disconnect_all as u = (Inr x, u')"
      using closing_total(1) [of as] unfolding never_raises_def by blast
    then show "suppress any_exception (disconnect_all as) u = disconnect_all as u"
      by (simp add: suppress_def catch_def)
  qed
  have "on_collision (UUIDCollisionError d) s1 = (Inl (UUIDCollisionError d), t5)"
    by (simp add: on_collision_def emit_def sup thenDo_total closing_total t0_def t1_def t2_def t3_def t4_def t5_def)
  then have run: "run E polls s = (Inl (UUIDCollisionError d), t5)"
    by (simp add: run_def run_andThen read_clock_run catch_def assms is_collision_def)
  have "only_closes t0 t1" unfolding t1_def by (rule only_closes_all)
  moreover have "only_closes t1 (t1\<lparr>n_peers := []\<rparr>)" by (rule only_closes_update) simp_all
  moreover have "only_closes (t1\<lparr>n_peers := []\<rparr>) t2" unfolding t2_def by (rule only_closes_sock)
  moreover have "only_closes t2 t3" unfolding t3_def by (rule only_closes_sock)
  moreover have "only_closes t3 t4" unfolding t4_def by (rule only_closes_sock)
  moreover have "only_closes t4 t5" unfolding t5_def by (rule only_closes_update) simp_all
  ultimately have c: "only_closes t0 t5" by (blast intro: only_closes_trans)
  have "n_peers t5 = []"
    by (simp add: t5_def t4_def t3_def t2_def close_opt_def close_udp_opt_def syscall_defs split: option.split)
  then show ?thesis using c run by (auto simp: only_closes_def t0_def t5_def)
qed

text \<open>A beacon with the example node's own id, from another port.\<close>

definition rival :: bytes where
  "rival = blit ''ZRE'' @ [1] @ replicate 16 1 @ [0, 5]"

lemma rival_fields:
  "take BEACON_SIZE_V3 rival = rival" "slice 0 3 rival = blit ''ZRE''" "length rival = 22" "rival ! 3 = 1"
  "slice 4 20 rival = replicate 16 1" "slice 20 22 rival = [0, 5]"
  by (simp_all add: rival_def blit_def slice_def BEACON_SIZE_V3_def numeral_eq_Suc)

lemma rival_heard:
  assumes "n_running u" "n_beacon_version u = 1" "n_cfg u = example_cfg" "n_inbox_port u = 49152"
  shows "handle_beacon E rival ip u = (Inl (UUIDCollisionError (collision_detail u ip 5)), u)"
  using assms rival_fields(2-6)
  by (simp add: handle_beacon_def Let_def BEACON_VERSION_V1_def BEACON_VERSION_V3_def BEACON_SIZE_def
      example_cfg_def be_nat_def)

lemma collision_ends_run_witness:
  "\<exists>s2 d. run calm [[BeaconReady (Some (rival, []))]] (example_node\<lparr>n_last_beacon := 100\<rparr>) =
    (Inl (UUIDCollisionError d), s2) \<and> n_peers s2 = []"
proof -
  let ?s = "example_node\<lparr>n_last_beacon := 100\<rparr>"
  have more: "n_api example_node = []" "c_beacon_interval example_cfg = 1" "n_beacon_version example_node = 1"
    by (simp_all add: example_node_def example_cfg_def)
  obtain d s1 where "run_loop calm [[BeaconReady (Some (rival, []))]] (e_time calm (w_hist ?s))
      (io_log (IoTime (e_time calm (w_hist ?s))) ?s) = (Inl (UUIDCollisionError d), s1)"
    by (simp add: run_loop.simps run_iteration_def drain_api_def serve_socket_def rival_fields(1) run_andThen
        run_thenDo read_clock_run io_log_def more rival_heard)
  from collision_ends_run [OF this] show ?thesis by blast
qed

subsection \<open>The stand-alone hub\<close>

definition serving :: "nat \<Rightarrow> nat list \<Rightarrow> hub_state \<Rightarrow> bool" where
  "serving h socks s \<longleftrightarrow> h_socket (hs s) = Some h \<and> w_socks s = h # socks"

lemma serving_update:
  "(\<And>hb. h_socket (f hb) = h_socket hb) \<Longrightarrow> keeps (serving h socks) (upd_hub f)"
  by (simp add: upd_hub_def keeps_def serving_def)

lemma serving_round: "keeps (serving h socks) (hub_poll_round E poll)"
proof -
  have sys: "keeps (serving h socks) (send_multipart E sock fr)" "keeps (serving h socks) (read_clock E)" for sock fr
    by (simp_all add: keeps_def serving_def syscall_defs Let_def)
  have "keeps (serving h socks) (hub_send E rid body)" for rid body
    unfolding hub_send_def by (intro keeps_rules sys)
  then have "keeps (serving h socks) (hub_handle_message E now frames)" for now frames
    unfolding hub_handle_message_def hub_answer_def hub_accept_def Let_def
    by (intro keeps_rules serving_update) simp_all
  then show ?thesis
    unfolding hub_poll_round_def hub_handle_socket_def hub_reap_def hub_deliveries_def
    by (intro keeps_rules serving_update sys) simp_all
qed

text \<open>
  The stand-alone hub closes its socket whatever arrives, whatever exception one of the messages
  raises, and also when the address cannot be bound: afterwards the sockets are those of before.
\<close>

theorem hub_program_closes:
  assumes "h_socket (hs s) = None" and "w_next_sock s \<notin> set (w_socks s)"
  shows "w_socks (snd (run_hub_program E host port polls s)) = w_socks s
    \<and> h_socket (hs (snd (run_hub_program E host port polls s))) = None"
proof -
  let ?h = "w_next_sock s" and ?ep = "lit ''tcp://'' @ host @ lit '':'' @ show_int port"
  have fresh: "removeAll ?h (w_socks s) = w_socks s" using assms(2) by simp
  obtain r s1 where bind: "hub_bind E ?ep s = (r, s1)" by fastforce
  show ?thesis
  proof (cases r)
    case (Inl e)
    with bind assms(1) fresh have "w_socks s1 = w_socks s \<and> h_socket (hs s1) = None"
      by (auto simp: hub_bind_def run_andThen run_thenDo syscall_defs Let_def upd_hub_def split: option.splits)
    with Inl bind show ?thesis by (simp add: run_hub_program_def run_andThen)
  next
    case (Inr addr)
    with bind assms(1) have "serving ?h (w_socks s) s1"
      by (auto simp: hub_bind_def run_andThen run_thenDo syscall_defs Let_def upd_hub_def serving_def
          split: option.splits)
    moreover have "keeps (serving ?h (w_socks s)) (for_each (hub_poll_round E) polls)"
      by (intro keeps_rules serving_round)
    ultimately have "serving ?h (w_socks s) (snd (for_each (hub_poll_round E) polls s1))"
      by (simp add: keeps_def)
    moreover have "never_raises hub_close"
      unfolding hub_close_def upd_hub_def by (intro total_rules)
    ultimately show ?thesis using Inr bind fresh
      by (simp add: run_hub_program_def run_andThen finally_state)
        (simp add: hub_close_def serving_def syscall_defs upd_hub_def run_thenDo)
  qed
qed

lemma hub_program_closes_witness:
  "w_socks (snd (run_hub_program calm (lit ''*'') 5670
      [None, Some [[[9], [0xAA, 0xA0, 1, 1]]], Some [[[9], [0xAA, 0xA0, 1, 2]]]]
      \<lparr>w_hist = [], w_next_sock = 0, w_socks = [], hs = new_hub\<rparr>)) = []"
  by (subst hub_program_closes [THEN conjunct1]) (simp_all add: new_hub_def)

end
