(* ===== verification/Zre_Election_Properties.thy ===== *)
theory Zre_Election_Properties
  imports Zre_Run_Properties
begin

section \<open>Properties of the leader election\<close>

text \<open>
  What one step of an election does to the wave a node follows, the node that contends alone, and a
  whole election between two contenders: each handles the frames that the other sent, in order, and
  both end with the same leader.
\<close>

subsection \<open>The wave of a group\<close>

text \<open>The smallest id seen and the member it came from; \<open>None\<close> is no election.\<close>

definition wave_of :: "bytes \<Rightarrow> node \<Rightarrow> (pystr \<times> pystr option) option" where
  "wave_of g s = (case dict_get (n_groups s) g of
     None \<Rightarrow> None | Some G \<Rightarrow> map_option (\<lambda>el. (el_caw el, el_father el)) (g_election G))"

definition leader_of :: "bytes \<Rightarrow> node \<Rightarrow> pystr option" where
  "leader_of g s = (case dict_get (n_groups s) g of None \<Rightarrow> None | Some G \<Rightarrow> g_leader G)"

lemma run_upd_group:
  "dict_get (n_groups s) g = Some G \<Longrightarrow>
     upd_group g f s = (Inr (), s\<lparr>n_groups := dict_set g (f G) (n_groups s)\<rparr>)"
  by (simp add: upd_group_def)

lemma send_election_groups: "n_groups (snd (send_election E a cmd g ident s)) = n_groups s"
  by (simp add: send_election_def run_send_encoded stamped_def io_log_def run_peer_disconnect Let_def
      split: option.split bool.split sum.split send_result.split)

text \<open>The group after \<open>_require_group\<close>: as it was, or new, and contested if the node asked for it.\<close>

lemma run_require_group:
  "\<exists>G s'. require_group g s = (Inr G, s') \<and> dict_get (n_groups s') g = Some G
     \<and> (case dict_get (n_groups s) g of
          None \<Rightarrow> g_election G = None | Some G0 \<Rightarrow> g_election G = g_election G0 \<and> g_leader G = g_leader G0)
     \<and> (\<forall>k. k \<noteq> g \<longrightarrow> dict_get (n_groups s') k = dict_get (n_groups s) k)
     \<and> n_heap s' = n_heap s"
  by (cases "dict_get (n_groups s) g")
    (simp_all add: require_group_def new_group_def alist.get_put split: option.split)

definition wave_is :: "bytes \<Rightarrow> (bytes \<Rightarrow> grp option) \<Rightarrow> pystr \<times> pystr option \<Rightarrow> node \<Rightarrow> bool" where
  "wave_is g others w s \<longleftrightarrow> wave_of g s = Some w \<and> (\<forall>k. k \<noteq> g \<longrightarrow> dict_get (n_groups s) k = others k)"

lemma wave_is_groups: "n_groups s = n_groups s' \<Longrightarrow> wave_is g others w s \<longleftrightarrow> wave_is g others w s'"
  by (simp add: wave_is_def wave_of_def)

lemma wave_sends [keeps_rules]:
  "keeps (wave_is g others w) (send_election E a cmd g' ident)" "keeps (wave_is g others w) (deref a)"
  using wave_is_groups [OF send_election_groups] by (auto simp: keeps_def deref_def)

lemma wave_group:
  assumes "wave_is g others w s" and "dict_get (n_groups s) g = Some G" and "g_election G = Some el"
    and "el_caw el' = el_caw el" "el_father el' = el_father el"
  shows "wave_is g others w (s\<lparr>n_groups := dict_set g (G\<lparr>g_election := Some el'\<rparr>) (n_groups s)\<rparr>)"
  using assms by (auto simp: wave_is_def wave_of_def alist.get_put)

text \<open>Counting an echo does not change the wave.\<close>

lemma wave_count: "keeps (wave_is g others w) (count_elect E g challenger)"
proof (rule keepsI)
  fix s assume wave: "wave_is g others w s"
  show "wave_is g others w (snd (count_elect E g challenger s))"
  proof (cases "dict_get (n_groups s) g")
    case None
    with wave show ?thesis by (simp add: count_elect_def get_group_def)
  next
    case (Some G)
    with wave obtain el where el: "g_election G = Some el"
      by (auto simp: wave_is_def wave_of_def split: option.splits)
    let ?el = "el\<lparr>el_erec := Suc (el_erec el)\<rparr>"
    let ?s = "s\<lparr>n_groups := dict_set g (G\<lparr>g_election := Some ?el\<rparr>) (n_groups s)\<rparr>"
    have "wave_is g others w ?s" by (rule wave_group [OF wave Some el]) simp_all
    moreover have "keeps (wave_is g others w) (for_each (\<lambda>a. andThen (lift_exn r)
        (\<lambda>ident. andThen (send_election E a cmd g ident) (\<lambda>_. ret ()))) as)" for r cmd as
      by (intro keeps_rules)
    moreover have "keeps (wave_is g others w) (andThen (lift_exn r)
        (\<lambda>ident. andThen (send_election E a cmd g ident) (\<lambda>_. ret ())))" for r a cmd
      by (intro keeps_rules)
    ultimately show ?thesis using wave
      by (simp add: count_elect_def get_group_def Some el run_upd_group run_thenDo Let_def keeps_def
          split: option.split)
  qed
qed

text \<open>
  C14: an ELECT never raises the wave that a node follows. Afterwards the group has an election whose
  wave is the smaller of the challenger and the wave before, with the sender as father exactly if the
  challenger was strictly smaller or there was no election; the elections of all other groups stay as
  they are. All this holds whatever becomes of the messages sent on.
\<close>

theorem elect_lowers_wave:
  "wave_of k (snd (handle_elect E sender g challenger s)) =
    (if k = g then
       (let challenger_id = wire_id E (bdec challenger); father = Some (p_uuid_hex (n_heap s sender))
        in Some (case wave_of g s of
             None \<Rightarrow> (challenger_id, father)
           | Some (caw, old) \<Rightarrow> if challenger_id < caw then (challenger_id, father) else (caw, old)))
     else wave_of k s)"
proof -
  let ?c = "wire_id E (bdec challenger)" and ?f = "Some (p_uuid_hex (n_heap s sender))"
  let ?w = "case wave_of g s of None \<Rightarrow> (?c, ?f)
    | Some (caw, old) \<Rightarrow> if ?c < caw then (?c, ?f) else (caw, old)"
  let ?I = "wave_is g (dict_get (n_groups s)) ?w"
  from run_require_group [of g s] obtain G s1 where r: "require_group g s = (Inr G, s1)"
    and G: "dict_get (n_groups s1) g = Some G"
    and same: "case dict_get (n_groups s) g of None \<Rightarrow> g_election G = None
      | Some G0 \<Rightarrow> g_election G = g_election G0 \<and> g_leader G = g_leader G0"
    and others: "\<forall>k. k \<noteq> g \<longrightarrow> dict_get (n_groups s1) k = dict_get (n_groups s) k"
    and heap: "n_heap s1 = n_heap s" by blast
  have old: "wave_of g s = map_option (\<lambda>el. (el_caw el, el_father el)) (g_election G)"
    using same by (auto simp: wave_of_def split: option.splits)
  let ?t = "e_time E (w_hist s1)" and ?s = "io_log (IoTime (e_time E (w_hist s1))) s1"
  let ?adopt = "case g_election G of None \<Rightarrow> True | Some el \<Rightarrow> ?c < el_caw el"
  let ?el = "new_election ?c ?f ?t"
  let ?s2 = "?s\<lparr>n_groups := dict_set g (G\<lparr>g_election := Some ?el\<rparr>) (n_groups s1)\<rparr>"
  let ?relay = "andThen (gets (\<lambda>s. election_neighbors s G)) (\<lambda>neighbors.
      for_each (\<lambda>a. andThen (deref a) (\<lambda>q. only_if (p_uuid_hex q \<noteq> p_uuid_hex (n_heap s sender))
          (andThen (lift_exn (utf8_encode ?c)) (\<lambda>ident.
           andThen (send_election E a ELECT g ident) (\<lambda>_. ret ()))))) neighbors)"
  have count: "keeps ?I (count_elect E g ?c)" by (rule wave_count)
  have run: "handle_elect E sender g challenger s =
      (if ?adopt then thenDo ?relay (count_elect E g ?c) ?s2 else count_elect E g ?c ?s)"
    by (simp add: handle_elect_def run_andThen run_thenDo r read_clock_def deref_def heap Let_def
        run_upd_group G io_log_def del: run_andThen_simps)
  have "?I (snd (handle_elect E sender g challenger s))"
  proof (cases ?adopt)
    case True
    then have "?w = (?c, ?f)" using old by (auto split: option.splits)
    then have "?I ?s2" using others by (simp add: wave_is_def wave_of_def alist.get_put new_election_def)
    moreover have "keeps ?I (thenDo ?relay (count_elect E g ?c))"
      by (intro keeps_rules count)
    ultimately show ?thesis using True run by (simp add: keeps_def)
  next
    case False
    then have "wave_of g s1 = Some ?w" using old G by (auto simp: wave_of_def split: option.splits)
    then have "?I ?s" using others by (simp add: wave_is_def wave_of_def io_log_def)
    with count False run show ?thesis by (simp add: keeps_def)
  qed
  then show ?thesis by (simp add: wave_is_def wave_of_def Let_def)
qed

subsection \<open>A contender without neighbours\<close>

text \<open>
  A node that contends for a group in which no other member is connected becomes the leader at
  once: its own id is recorded, the election is over, and the last event posted is LEADER with its own
  id and name. Nothing is sent.
\<close>

theorem lone_contender_leads:
  assumes "dict_get (n_groups s) g = Some G" and "g_contest G" and "g \<in> set (n_own_groups s)"
    and "election_neighbors s G = []" and "c_peer_id_hex (n_cfg s) = bytes_hex own"
  shows "\<exists>s' t. start_election E g s = (Inr (), s') \<and> leader_of g s' = Some (bytes_hex own)
    \<and> wave_of g s' = None \<and> w_hist s' = IoTime t # w_hist s
    \<and> n_events s' = push_event (EvLeader (bytes_hex own) (bdec (c_name (n_cfg s))) (bdec g)) (n_events s)"
proof -
  have contest: "G\<lparr>g_contest := True\<rparr> = G" using assms(2) by simp
  have "dict_set g G (n_groups s) = n_groups s" by (rule AList.update_triv [OF assms(1)])
  with assms(1) contest have r: "require_group g s = (Inr G, s)"
    by (simp add: require_group_def)
  have "str_lower (e_rt E) (wire_id E (bytes_hex own)) = bytes_hex own"
    by (simp add: wire_id_def lower_upper_hex)
  with assms show ?thesis
    by (simp add: start_election_def run_andThen run_thenDo r read_clock_def io_log_def run_upd_group
        alist.get_put election_neighbors_def Let_def finish_election_def own_wire_id_def emit_def
        leader_of_def wave_of_def del: run_andThen_simps)
qed

subsection \<open>An election between two contenders\<close>

text \<open>
  One contender: the node \<open>own\<close> is in the group \<open>g\<close> and contends for it, and the only member is the
  connected peer \<open>other\<close>, the object \<open>a\<close>, whose DEALER is the socket \<open>h\<close>.
\<close>

definition contender :: "bytes \<Rightarrow> bytes \<Rightarrow> bytes \<Rightarrow> nat \<Rightarrow> nat \<Rightarrow> node \<Rightarrow> bool" where
  "contender own other g a h s \<longleftrightarrow>
     c_peer_id_hex (n_cfg s) = bytes_hex own \<and> dict_get (n_peers s) (bytes_hex other) = Some a
     \<and> p_uuid_hex (n_heap s a) = bytes_hex other \<and> p_connected (n_heap s a) \<and> p_ready (n_heap s a)
     \<and> p_dealer (n_heap s a) = Some h \<and> g \<in> set (n_own_groups s)
     \<and> (case dict_get (n_groups s) g of None \<Rightarrow> False | Some G \<Rightarrow> g_contest G \<and> map snd (g_peers G) = [a])"

definition election_of :: "bytes \<Rightarrow> node \<Rightarrow> election option" where
  "election_of g s = (case dict_get (n_groups s) g of None \<Rightarrow> None | Some G \<Rightarrow> g_election G)"

text \<open>An election whose wave, father and two counters are these.\<close>

definition stage :: "election option \<Rightarrow> pystr \<Rightarrow> pystr option \<Rightarrow> nat \<Rightarrow> nat \<Rightarrow> bool" where
  "stage e caw father erec lrec \<longleftrightarrow> (case e of None \<Rightarrow> False
     | Some el \<Rightarrow> el_caw el = caw \<and> el_father el = father \<and> el_erec el = erec \<and> el_lrec el = lrec)"

text \<open>The messages of an election, before they are numbered.\<close>

definition ballot :: "bytes \<Rightarrow> nat \<times> bytes \<Rightarrow> (int \<Rightarrow> exn + bytes) \<times> bytes list" where
  "ballot g m = ((\<lambda>q. encode_election (fst m) q (PyBytes g) (PyBytes (snd m))), [])"

definition ballots :: "bytes \<Rightarrow> nat \<Rightarrow> (nat \<times> bytes) list \<Rightarrow> node \<Rightarrow> bytes list list" where
  "ballots g a ms s = numbered (p_sent_seq (n_heap s a)) (map (ballot g) ms)"

text \<open>\<open>turn\<close>: from a state in \<open>P\<close>, \<open>m\<close> ends normally in \<open>Q\<close>, having sent the messages \<open>ms\<close> to the peer.\<close>

definition turn ::
  "bytes \<Rightarrow> nat \<Rightarrow> nat \<Rightarrow> (node \<Rightarrow> bool) \<Rightarrow> unit nprog \<Rightarrow> (nat \<times> bytes) list \<Rightarrow> (node \<Rightarrow> bool) \<Rightarrow> bool" where
  "turn g a h P m ms Q \<longleftrightarrow> (\<forall>s. P s \<longrightarrow> (\<exists>s'. m s = (Inr (), s') \<and> Q s'
     \<and> sends_of h (w_hist s') = sends_of h (w_hist s) @ ballots g a ms s
     \<and> p_sent_seq (n_heap s' a) = p_sent_seq (n_heap s a) + of_nat (length ms)))"

lemma numbered_append:
  "numbered q (ms @ ms') = numbered q ms @ numbered (q + of_nat (length ms)) ms'"
  by (induction ms arbitrary: q) (auto simp: algebra_simps)

lemma turn_then:
  assumes "turn g a h P m ms Q" and "turn g a h Q m' ms' R"
  shows "turn g a h P (thenDo m m') (ms @ ms') R"
  unfolding turn_def
proof (intro allI impI)
  fix s assume "P s"
  with assms(1) obtain s1 where 1: "m s = (Inr (), s1)" "Q s1"
    "sends_of h (w_hist s1) = sends_of h (w_hist s) @ ballots g a ms s"
    "p_sent_seq (n_heap s1 a) = p_sent_seq (n_heap s a) + of_nat (length ms)" by (auto simp: turn_def)
  with assms(2) obtain s2 where 2: "m' s1 = (Inr (), s2)" "R s2"
    "sends_of h (w_hist s2) = sends_of h (w_hist s1) @ ballots g a ms' s1"
    "p_sent_seq (n_heap s2 a) = p_sent_seq (n_heap s1 a) + of_nat (length ms')" by (auto simp: turn_def)
  from 1 2 show "\<exists>s'. thenDo m m' s = (Inr (), s') \<and> R s'
      \<and> sends_of h (w_hist s') = sends_of h (w_hist s) @ ballots g a (ms @ ms') s
      \<and> p_sent_seq (n_heap s' a) = p_sent_seq (n_heap s a) + of_nat (length (ms @ ms'))"
    by (simp add: thenDo_Inr ballots_def numbered_append add.assoc)
qed

lemma turn_nil: "turn g a h P (ret ()) [] P"
  by (simp add: turn_def ballots_def)

text \<open>Ids on the wire: the upper-case text of the id, in ASCII.\<close>

definition wire_text :: "bytes \<Rightarrow> pystr" where
  "wire_text i = map ascii_upper (bytes_hex i)"

definition wire_bytes :: "bytes \<Rightarrow> bytes" where
  "wire_bytes i = map of_nat (wire_text i)"

lemma wire_text_ascii: "ascii (wire_text i)"
  by (simp add: wire_text_def upper_ascii ascii_bytes_hex)

lemma wire_id_hex: "wire_id E (bytes_hex i) = wire_text i"
  by (simp add: wire_id_def str_upper_def ascii_bytes_hex wire_text_def)

lemma wire_id_text: "wire_id E (wire_text i) = wire_text i"
proof -
  have "ascii_upper (ascii_upper c) = ascii_upper c" for c by (auto simp: ascii_upper_def)
  then have "map ascii_upper (wire_text i) = wire_text i" by (simp add: wire_text_def)
  then show ?thesis by (simp add: wire_id_def str_upper_def wire_text_ascii)
qed

lemma lower_wire_text: "str_lower R (wire_text i) = bytes_hex i"
  using lower_upper_hex [of R i] wire_id_hex [of "undefined\<lparr>e_rt := R\<rparr>" i] by (simp add: wire_id_def)

lemma wire_text_inj: "wire_text i = wire_text j \<longleftrightarrow> i = j"
  by (metis bytes_hex_inj lower_wire_text)

lemma wire_bytes_text: "utf8_encode (wire_text i) = Inr (wire_bytes i)" "bdec (wire_bytes i) = wire_text i"
  by (simp_all add: wire_bytes_def bdec_def utf8_encode_ascii utf8_decode_replace_ascii wire_text_ascii)

lemma length_wire_bytes: "length (wire_bytes i) = 2 * length i"
  by (simp add: wire_bytes_def wire_text_def length_bytes_hex)

lemmas wire_simps = wire_id_hex wire_id_text lower_wire_text wire_text_inj wire_bytes_text

subsubsection \<open>Sending\<close>

definition reliable :: "env \<Rightarrow> bool" where
  "reliable E \<longleftrightarrow> (\<forall>hist h frames. e_send E hist h frames = SendOk)"

text \<open>A contender in a state of its election.\<close>

definition standing :: "bytes \<Rightarrow> bytes \<Rightarrow> bytes \<Rightarrow> nat \<Rightarrow> nat \<Rightarrow> election option \<Rightarrow> node \<Rightarrow> bool" where
  "standing own other g a h e s \<longleftrightarrow> contender own other g a h s \<and> election_of g s = e"

lemma standing_group:
  assumes "standing own other g a h e s"
  obtains G where "dict_get (n_groups s) g = Some G" "g_contest G" "map snd (g_peers G) = [a]" "g_election G = e"
  using assms by (auto simp: standing_def contender_def election_of_def split: option.splits)

lemma standing_io: "standing own other g a h e (io_log i s) \<longleftrightarrow> standing own other g a h e s"
  by (simp add: standing_def contender_def election_of_def io_log_def)

lemma standing_update:
  assumes "standing own other g a h e s" and "dict_get (n_groups s) g = Some G"
    and "g_contest G' = g_contest G" "g_peers G' = g_peers G" "g_election G' = e'"
  shows "standing own other g a h e' (s\<lparr>n_groups := dict_set g G' (n_groups s)\<rparr>)"
  using assms by (auto simp: standing_def contender_def election_of_def alist.get_put)

lemma standing_peer:
  assumes "standing own other g a h e s"
    and "p_uuid_hex (f (n_heap s a)) = p_uuid_hex (n_heap s a)" "p_connected (f (n_heap s a)) = p_connected (n_heap s a)"
      "p_ready (f (n_heap s a)) = p_ready (n_heap s a)" "p_dealer (f (n_heap s a)) = p_dealer (n_heap s a)"
  shows "standing own other g a h e (set_peer a f s)"
  using assms by (simp add: standing_def contender_def election_of_def)

lemma standing_neighbors:
  "standing own other g a h e s \<Longrightarrow> map snd (g_peers G) = [a] \<Longrightarrow> election_neighbors s G = [a]"
  by (simp add: election_neighbors_def standing_def contender_def)

lemma turn_send:
  assumes "reliable E" and "cmd \<in> {ELECT, LEADER}" and "length g \<le> 255" and "length i = 16"
  shows "turn g a h (standing own other g a h e)
    (andThen (send_election E a cmd g (wire_bytes i)) (\<lambda>_. ret ())) [(cmd, wire_bytes i)]
    (standing own other g a h e)"
  unfolding turn_def
proof (intro allI impI)
  fix s assume st: "standing own other g a h e s"
  let ?q = "uint (p_sent_seq (n_heap s a) + 1)"
  have "?q < 256 ^ 2" using uint_lt2p [of "p_sent_seq (n_heap s a) + 1"] by simp
  with election_frame [OF assms(2), of ?q g "wire_bytes i"] assms(3,4)
  obtain w where w: "encode_election cmd ?q (PyBytes g) (PyBytes (wire_bytes i)) = Inr w"
    by (auto simp: length_wire_bytes)
  from st have link: "p_connected (n_heap s a)" "p_dealer (n_heap s a) = Some h"
    by (auto simp: standing_def contender_def)
  have "standing own other g a h e (io_log (IoSend h [w] SendOk) (stamped a s))"
    unfolding standing_io stamped_def by (rule standing_peer [OF st]) simp_all
  with w link assms(1) show "\<exists>s'. andThen (send_election E a cmd g (wire_bytes i)) (\<lambda>_. ret ()) s = (Inr (), s')
      \<and> standing own other g a h e s'
      \<and> sends_of h (w_hist s') = sends_of h (w_hist s) @ ballots g a [(cmd, wire_bytes i)] s
      \<and> p_sent_seq (n_heap s' a) = p_sent_seq (n_heap s a) + of_nat (length [(cmd, wire_bytes i)])"
    by (simp add: run_andThen send_election_def run_send_encoded reliable_def ballots_def ballot_def)
      (simp add: io_log_def stamped_def)
qed

text \<open>A turn that begins with steps which neither send nor number anything.\<close>

definition silent :: "nat \<Rightarrow> nat \<Rightarrow> node \<Rightarrow> node \<Rightarrow> bool" where
  "silent a h s t \<longleftrightarrow> sends_of h (w_hist t) = sends_of h (w_hist s)
     \<and> p_sent_seq (n_heap t a) = p_sent_seq (n_heap s a)"

lemma turn_from:
  assumes "turn g a h P m' ms Q" and "\<And>s. R s \<Longrightarrow> \<exists>t. m s = m' t \<and> P t \<and> silent a h s t"
  shows "turn g a h R m ms Q"
  unfolding turn_def
proof (intro allI impI)
  fix s assume "R s"
  with assms(2) obtain t where t: "m s = m' t" "P t" "silent a h s t" by blast
  with assms(1) show "\<exists>s'. m s = (Inr (), s') \<and> Q s'
     \<and> sends_of h (w_hist s') = sends_of h (w_hist s) @ ballots g a ms s
     \<and> p_sent_seq (n_heap s' a) = p_sent_seq (n_heap s a) + of_nat (length ms)"
    by (auto simp: turn_def silent_def ballots_def)
qed

lemma turn_weaken: "turn g a h P m ms Q \<Longrightarrow> (\<And>s. Q s \<Longrightarrow> R s) \<Longrightarrow> turn g a h P m ms R"
  unfolding turn_def by blast

subsubsection \<open>The steps of the election\<close>

lemma require_standing:
  assumes "standing own other g a h e s" and "dict_get (n_groups s) g = Some G"
  shows "require_group g s = (Inr G, s)"
proof -
  from assms have "G\<lparr>g_contest := True\<rparr> = G"
    by (simp add: standing_def contender_def)
  moreover have "dict_set g G (n_groups s) = n_groups s" by (rule AList.update_triv [OF assms(2)])
  ultimately show ?thesis using assms(2) by (simp add: require_group_def)
qed

definition started :: "bytes \<Rightarrow> bytes \<Rightarrow> bytes \<Rightarrow> nat \<Rightarrow> nat \<Rightarrow> pystr \<Rightarrow> pystr option \<Rightarrow> nat \<Rightarrow> nat \<Rightarrow> node \<Rightarrow> bool" where
  "started own other g a h caw father erec lrec s \<longleftrightarrow>
     contender own other g a h s \<and> stage (election_of g s) caw father erec lrec"

lemma started_standing:
  "started own other g a h caw father erec lrec s \<Longrightarrow> \<exists>el. standing own other g a h (Some el) s
     \<and> el_caw el = caw \<and> el_father el = father \<and> el_erec el = erec \<and> el_lrec el = lrec"
  by (cases "election_of g s") (auto simp: started_def standing_def stage_def)

lemma standing_started:
  "standing own other g a h (Some el) s \<Longrightarrow> started own other g a h (el_caw el) (el_father el) (el_erec el) (el_lrec el) s"
  by (simp add: started_def standing_def stage_def)

lemma turn_started:
  assumes "\<And>el. el_caw el = caw \<Longrightarrow> el_father el = father \<Longrightarrow> el_erec el = erec \<Longrightarrow> el_lrec el = lrec
      \<Longrightarrow> turn g a h (standing own other g a h (Some el)) m ms Q"
  shows "turn g a h (started own other g a h caw father erec lrec) m ms Q"
  unfolding turn_def
proof (intro allI impI)
  fix s assume "started own other g a h caw father erec lrec s"
  with started_standing [OF this] assms show "\<exists>s'. m s = (Inr (), s') \<and> Q s'
     \<and> sends_of h (w_hist s') = sends_of h (w_hist s) @ ballots g a ms s
     \<and> p_sent_seq (n_heap s' a) = p_sent_seq (n_heap s a) + of_nat (length ms)"
    unfolding turn_def by blast
qed

text \<open>Steps up to a first message, from where the node stands with some election.\<close>

lemma turn_settle:
  assumes "\<And>e. turn g a h (standing own other g a h e) m' ms (standing own other g a h e)"
    and "\<And>s. P s \<Longrightarrow> \<exists>t e. m s = m' t \<and> standing own other g a h e t \<and> silent a h s t
      \<and> (\<forall>t'. standing own other g a h e t' \<longrightarrow> Q t')"
  shows "turn g a h P m ms Q"
  unfolding turn_def
proof (intro allI impI)
  fix s assume "P s"
  with assms(2) obtain t e where t: "m s = m' t" "standing own other g a h e t" "silent a h s t"
    and Q: "\<forall>t'. standing own other g a h e t' \<longrightarrow> Q t'" by blast
  from assms(1) t(2) obtain s' where "m' t = (Inr (), s')" "standing own other g a h e s'"
    "sends_of h (w_hist s') = sends_of h (w_hist t) @ ballots g a ms t"
    "p_sent_seq (n_heap s' a) = p_sent_seq (n_heap t a) + of_nat (length ms)"
    unfolding turn_def by blast
  with t Q show "\<exists>s'. m s = (Inr (), s') \<and> Q s'
     \<and> sends_of h (w_hist s') = sends_of h (w_hist s) @ ballots g a ms s
     \<and> p_sent_seq (n_heap s' a) = p_sent_seq (n_heap s a) + of_nat (length ms)"
    by (auto simp: silent_def ballots_def)
qed

text \<open>The messages of one kind to the only neighbour.\<close>

lemma wave_to_one:
  assumes "reliable E" and "cmd \<in> {ELECT, LEADER}" and "length g \<le> 255" and "length i = 16"
  shows "turn g a h (standing own other g a h e)
    (andThen (lift_exn (utf8_encode (wire_text i))) (\<lambda>ident.
       andThen (send_election E a cmd g ident) (\<lambda>_. ret ()))) [(cmd, wire_bytes i)]
    (standing own other g a h e)"
  by (rule turn_from [OF turn_send [OF assms]])
    (auto simp: run_andThen wire_simps silent_def)

lemma for_one: "for_each f [x] s = f x s"
  by (simp add: run_thenDo split: prod.split sum.split)

lemma turn_start:
  assumes "reliable E" and "length g \<le> 255" and "length own = 16"
  shows "turn g a h (contender own other g a h) (start_election E g) [(ELECT, wire_bytes own)]
    (started own other g a h (wire_text own) None 0 0)"
proof (rule turn_settle [OF turn_send [OF assms(1) _ assms(2,3), of ELECT]])
  fix s assume c: "contender own other g a h s"
  then have st: "standing own other g a h (election_of g s) s" by (simp add: standing_def)
  then obtain G where G: "dict_get (n_groups s) g = Some G" "g_contest G" "map snd (g_peers G) = [a]"
    by (rule standing_group)
  let ?now = "e_time E (w_hist s)"
  let ?el = "new_election (wire_text own) None ?now"
  let ?s1 = "s\<lparr>n_groups := dict_set g (G\<lparr>g_election := None\<rparr>) (n_groups s)\<rparr>"
  let ?s2 = "io_log (IoTime ?now) ?s1"
  let ?G = "G\<lparr>g_election := Some ?el, g_leader := None\<rparr>"
  let ?t = "?s2\<lparr>n_groups := dict_set g ?G (n_groups ?s2)\<rparr>"
  have "standing own other g a h None ?s2"
    unfolding standing_io by (rule standing_update [OF st G(1)]) simp_all
  moreover have "dict_get (n_groups ?s2) g = Some (G\<lparr>g_election := None\<rparr>)"
    by (simp add: io_log_def alist.get_put)
  ultimately have t: "standing own other g a h (Some ?el) ?t"
    by (rule standing_update) simp_all
  from c have own: "own_wire_id E s = wire_text own" "g \<in> set (n_own_groups s)"
    by (auto simp: contender_def own_wire_id_def wire_simps)
  have "election_neighbors ?t G = [a]" using standing_neighbors [OF t G(3)] .
  with own G have "start_election E g s = andThen (send_election E a ELECT g (wire_bytes own)) (\<lambda>_. ret ()) ?t"
    by (simp add: start_election_def require_standing [OF st G(1)] run_thenDo run_andThen
        read_clock_def run_upd_group alist.get_put Let_def wire_simps send_wave_def for_one io_log_def
        split: prod.split sum.split)
  moreover have "silent a h s ?t" by (simp add: silent_def io_log_def)
  ultimately show "\<exists>t e. start_election E g s = andThen (send_election E a ELECT g (wire_bytes own)) (\<lambda>_. ret ()) t
      \<and> standing own other g a h e t \<and> silent a h s t
      \<and> (\<forall>t'. standing own other g a h e t' \<longrightarrow> started own other g a h (wire_text own) None 0 0 t')"
    using t standing_started by (fastforce simp: new_election_def)
qed simp

text \<open>The beginning of \<open>_handle_elect\<close> when the node goes on with the election it has.\<close>

lemma elect_kept:
  assumes "standing own other g a h (Some el) s" and "\<not> wire_text i < el_caw el"
  shows "handle_elect E a g (wire_bytes i) s =
      count_elect E g (wire_text i) (io_log (IoTime (e_time E (w_hist s))) s)"
    and "standing own other g a h (Some el) (io_log (IoTime (e_time E (w_hist s))) s)"
    and "silent a h s (io_log (IoTime (e_time E (w_hist s))) s)"
proof -
  from assms(1) obtain G where G: "dict_get (n_groups s) g = Some G" "g_election G = Some el"
    by (rule standing_group)
  with assms(2) show "handle_elect E a g (wire_bytes i) s =
      count_elect E g (wire_text i) (io_log (IoTime (e_time E (w_hist s))) s)"
    by (simp add: handle_elect_def require_standing [OF assms(1) G(1)] run_andThen run_thenDo read_clock_def
        Let_def wire_simps)
qed (simp_all add: assms(1) standing_io silent_def, simp_all add: io_log_def)

text \<open>A larger id is ignored.\<close>

lemma turn_elect_larger:
  assumes "wire_text own < wire_text i"
  shows "turn g a h (started own other g a h (wire_text own) None 0 0) (handle_elect E a g (wire_bytes i)) []
    (started own other g a h (wire_text own) None 0 0)"
proof (rule turn_started)
  fix el :: election assume el: "el_caw el = wire_text own" "el_father el = None" "el_erec el = 0" "el_lrec el = 0"
  show "turn g a h (standing own other g a h (Some el)) (handle_elect E a g (wire_bytes i)) []
    (started own other g a h (wire_text own) None 0 0)"
  proof (rule turn_settle [OF turn_nil])
    fix s assume st: "standing own other g a h (Some el) s"
    let ?t = "io_log (IoTime (e_time E (w_hist s))) s"
    have "\<not> wire_text i < el_caw el" and other: "wire_text i \<noteq> wire_text own" using assms el by auto
    note kept = elect_kept [OF st this(1), of E]
    from kept(2) obtain G where "dict_get (n_groups ?t) g = Some G" "g_election G = Some el"
      by (rule standing_group)
    with kept(1) other el have "handle_elect E a g (wire_bytes i) s = ret () ?t"
      by (simp add: count_elect_def get_group_def)
    with kept standing_started el show "\<exists>t e. handle_elect E a g (wire_bytes i) s = ret () t
        \<and> standing own other g a h e t \<and> silent a h s t
        \<and> (\<forall>t'. standing own other g a h e t' \<longrightarrow> started own other g a h (wire_text own) None 0 0 t')"
      by fastforce
  qed
qed

text \<open>The own wave comes back: everybody has agreed to it, and the node announces itself as the leader.\<close>

lemma turn_elect_echo:
  assumes "reliable E" and "length g \<le> 255" and "length own = 16"
  shows "turn g a h (started own other g a h (wire_text own) None 0 0) (handle_elect E a g (wire_bytes own))
    [(LEADER, wire_bytes own)] (started own other g a h (wire_text own) None 1 0)"
proof (rule turn_started)
  fix el :: election assume el: "el_caw el = wire_text own" "el_father el = None" "el_erec el = 0" "el_lrec el = 0"
  show "turn g a h (standing own other g a h (Some el)) (handle_elect E a g (wire_bytes own))
    [(LEADER, wire_bytes own)] (started own other g a h (wire_text own) None 1 0)"
  proof (rule turn_settle [OF wave_to_one [OF assms(1) _ assms(2,3)]])
    fix s assume st: "standing own other g a h (Some el) s"
    let ?s = "io_log (IoTime (e_time E (w_hist s))) s"
    have "\<not> wire_text own < el_caw el" using el by simp
    note kept = elect_kept [OF st this, of E]
    from kept(2) obtain G where G: "dict_get (n_groups ?s) g = Some G" "g_election G = Some el"
      "map snd (g_peers G) = [a]" by (rule standing_group)
    let ?el = "el\<lparr>el_erec := 1\<rparr>"
    let ?t = "?s\<lparr>n_groups := dict_set g (G\<lparr>g_election := Some ?el\<rparr>) (n_groups ?s)\<rparr>"
    have t: "standing own other g a h (Some ?el) ?t"
      by (rule standing_update [OF kept(2) G(1)]) simp_all
    have "election_neighbors ?t G = [a]" by (rule standing_neighbors [OF t G(3)])
    moreover have "own_wire_id E ?t = wire_text own"
      using t by (simp add: standing_def contender_def own_wire_id_def wire_simps)
    ultimately have "handle_elect E a g (wire_bytes own) s = andThen (lift_exn (utf8_encode (wire_text own)))
        (\<lambda>ident. andThen (send_election E a LEADER g ident) (\<lambda>_. ret ())) ?t"
      using kept(1) el G by (simp add: count_elect_def get_group_def run_upd_group run_thenDo Let_def for_one
          del: run_andThen_simps(4)) (simp add: run_andThen wire_simps split: prod.split sum.split)
    moreover have "silent a h s ?t" using kept(3) by (simp add: silent_def)
    ultimately show "\<exists>t e. handle_elect E a g (wire_bytes own) s = andThen (lift_exn (utf8_encode (wire_text own)))
        (\<lambda>ident. andThen (send_election E a LEADER g ident) (\<lambda>_. ret ())) t
        \<and> standing own other g a h e t \<and> silent a h s t
        \<and> (\<forall>t'. standing own other g a h e t' \<longrightarrow> started own other g a h (wire_text own) None 1 0 t')"
      using t standing_started [of own other g a h ?el] el by fastforce
  qed simp
qed

text \<open>A smaller id of the only neighbour: it is adopted, and the echo goes back to where it came from.\<close>

lemma turn_elect_smaller:
  assumes "reliable E" and "length g \<le> 255" and "length other = 16" and "wire_text other < wire_text own"
  shows "turn g a h (started own other g a h (wire_text own) None 0 0) (handle_elect E a g (wire_bytes other))
    [(ELECT, wire_bytes other)]
    (started own other g a h (wire_text other) (Some (bytes_hex other)) 1 0)"
proof (rule turn_started)
  fix el :: election assume el: "el_caw el = wire_text own" "el_father el = None" "el_erec el = 0" "el_lrec el = 0"
  show "turn g a h (standing own other g a h (Some el)) (handle_elect E a g (wire_bytes other))
    [(ELECT, wire_bytes other)] (started own other g a h (wire_text other) (Some (bytes_hex other)) 1 0)"
  proof (rule turn_settle [OF wave_to_one [OF assms(1) _ assms(2,3)]])
    fix s assume st: "standing own other g a h (Some el) s"
    let ?now = "e_time E (w_hist s)"
    let ?s = "io_log (IoTime ?now) s"
    from st obtain G where G: "dict_get (n_groups s) g = Some G" "g_election G = Some el"
      "map snd (g_peers G) = [a]" by (rule standing_group)
    let ?el = "new_election (wire_text other) (Some (bytes_hex other)) ?now"
    let ?G1 = "G\<lparr>g_election := Some ?el\<rparr>"
    let ?s1 = "?s\<lparr>n_groups := dict_set g ?G1 (n_groups ?s)\<rparr>"
    let ?el2 = "?el\<lparr>el_erec := 1\<rparr>"
    let ?t = "?s1\<lparr>n_groups := dict_set g (G\<lparr>g_election := Some ?el2\<rparr>) (n_groups ?s1)\<rparr>"
    have g: "dict_get (n_groups ?s) g = Some G" using G by (simp add: io_log_def)
    have "standing own other g a h (Some el) ?s" by (simp add: standing_io st)
    then have st1: "standing own other g a h (Some ?el) ?s1"
      by (rule standing_update [OF _ g]) simp_all
    have g1: "dict_get (n_groups ?s1) g = Some ?G1" by (simp add: alist.get_put)
    have t: "standing own other g a h (Some ?el2) ?t"
      by (rule standing_update [OF st1 g1]) simp_all
    from st have peer: "p_uuid_hex (n_heap s a) = bytes_hex other" "dict_get (n_peers s) (bytes_hex other) = Some a"
      "own_wire_id E s = wire_text own"
      by (auto simp: standing_def contender_def own_wire_id_def wire_simps)
    have adopt: "handle_elect E a g (wire_bytes other) s = count_elect E g (wire_text other) ?s1"
      using G assms(4) el peer standing_neighbors [OF st1 G(3)]
      by (simp add: handle_elect_def require_standing [OF st G(1)] run_andThen run_thenDo read_clock_def
        Let_def wire_simps deref_def run_upd_group io_log_def for_one del: run_andThen_simps(4))
    have "election_neighbors ?t ?G1 = [a]" by (rule standing_neighbors [OF t]) (simp add: G(3))
    moreover have "other \<noteq> own" using assms(4) by auto
    ultimately have "count_elect E g (wire_text other) ?s1 = andThen (lift_exn (utf8_encode (wire_text other)))
        (\<lambda>ident. andThen (send_election E a ELECT g ident) (\<lambda>_. ret ())) ?t"
      using g1 peer
      by (simp add: count_elect_def get_group_def run_upd_group run_thenDo Let_def new_election_def)
        (simp add: run_andThen wire_simps own_wire_id_def io_log_def split: prod.split sum.split)
    moreover have "silent a h s ?t" by (simp add: silent_def io_log_def)
    ultimately show "\<exists>t e. handle_elect E a g (wire_bytes other) s = andThen (lift_exn (utf8_encode (wire_text other)))
        (\<lambda>ident. andThen (send_election E a ELECT g ident) (\<lambda>_. ret ())) t
        \<and> standing own other g a h e t \<and> silent a h s t
        \<and> (\<forall>t'. standing own other g a h e t'
          \<longrightarrow> started own other g a h (wire_text other) (Some (bytes_hex other)) 1 0 t')"
      using adopt t standing_started [of own other g a h ?el2] by (fastforce simp: new_election_def)
  qed simp
qed

text \<open>The LEADER of the only neighbour ends the election; that of another node is sent on first.\<close>

lemma turn_finish:
  assumes "map snd (g_peers G0) = [a]"
  shows "turn g a h (standing own other g a h (Some el))
    (thenDo (upd_group g (\<lambda>G. G\<lparr>g_election := Some (el\<lparr>el_lrec := 1, el_leader := Some (wire_text i)\<rparr>)\<rparr>))
       (andThen (gets (\<lambda>s. election_neighbors s G0)) (\<lambda>neighbors.
        only_if (length neighbors \<le> 1) (finish_election E g (wire_text i)))))
    [] (\<lambda>s. contender own other g a h s \<and> leader_of g s = Some (bytes_hex i))"
  unfolding turn_def
proof (intro allI impI)
  fix s assume st: "standing own other g a h (Some el) s"
  then obtain G where G: "dict_get (n_groups s) g = Some G" "g_contest G" "map snd (g_peers G) = [a]"
    by (rule standing_group)
  let ?el = "Some (el\<lparr>el_lrec := 1, el_leader := Some (wire_text i)\<rparr>)"
  let ?G1 = "G\<lparr>g_election := ?el\<rparr>"
  let ?G2 = "?G1\<lparr>g_leader := Some (bytes_hex i), g_election := None\<rparr>"
  let ?s1 = "s\<lparr>n_groups := dict_set g ?G1 (n_groups s)\<rparr>"
  let ?rest = "andThen (gets (\<lambda>s. election_neighbors s G0)) (\<lambda>neighbors.
      only_if (length neighbors \<le> 1) (finish_election E g (wire_text i)))"
  let ?s2 = "?s1\<lparr>n_groups := dict_set g ?G2 (n_groups ?s1)\<rparr>"
  have st1: "standing own other g a h ?el ?s1" by (rule standing_update [OF st G(1)]) simp_all
  have g1: "dict_get (n_groups ?s1) g = Some ?G1" by (simp add: alist.get_put)
  from st1 g1 have "standing own other g a h None ?s2" by (rule standing_update) simp_all
  then have "contender own other g a h (?s2\<lparr>n_events := es\<rparr>)" for es
    by (simp add: standing_def contender_def)
  moreover have "\<exists>es. thenDo (upd_group g (\<lambda>G. G\<lparr>g_election := ?el\<rparr>)) ?rest s =
      (Inr (), ?s2\<lparr>n_events := es\<rparr>)"
    using standing_neighbors [OF st1 assms]
    by (intro exI) (simp add: run_thenDo run_upd_group G(1) finish_election_def Let_def wire_simps
        alist.get_put emit_def)
  moreover have "leader_of g (?s2\<lparr>n_events := es\<rparr>) = Some (bytes_hex i)" for es
    by (simp add: leader_of_def alist.get_put)
  ultimately show "\<exists>s'. thenDo (upd_group g (\<lambda>G. G\<lparr>g_election := ?el\<rparr>)) ?rest s
      = (Inr (), s') \<and> (contender own other g a h s' \<and> leader_of g s' = Some (bytes_hex i))
      \<and> sends_of h (w_hist s') = sends_of h (w_hist s) @ ballots g a [] s
      \<and> p_sent_seq (n_heap s' a) = p_sent_seq (n_heap s a) + of_nat (length [])"
    by (fastforce simp: ballots_def)
qed

lemma turn_leader:
  assumes "reliable E" and "length g \<le> 255" and "length i = 16"
  shows "turn g a h (started own other g a h caw father erec 0) (handle_leader E a g (wire_bytes i))
    (if i = own then [] else [(LEADER, wire_bytes i)]) (\<lambda>s. leader_of g s = Some (bytes_hex i))"
proof (rule turn_started, unfold turn_def, intro allI impI)
  fix el :: election and s
  assume el: "el_lrec el = 0" and st: "standing own other g a h (Some el) s"
  from st obtain G where G: "dict_get (n_groups s) g = Some G" "g_election G = Some el" "map snd (g_peers G) = [a]"
    by (rule standing_group)
  let ?relay = "if i = own then ret () else andThen (lift_exn (utf8_encode (wire_text i)))
      (\<lambda>ident. andThen (send_election E a LEADER g ident) (\<lambda>_. ret ()))"
  let ?ms = "if i = own then [] else [(LEADER, wire_bytes i)]"
  let ?ending = "thenDo (upd_group g (\<lambda>G. G\<lparr>g_election := Some (el\<lparr>el_lrec := 1, el_leader := Some (wire_text i)\<rparr>)\<rparr>))
      (andThen (gets (\<lambda>s. election_neighbors s G)) (\<lambda>neighbors.
        only_if (length neighbors \<le> 1) (finish_election E g (wire_text i))))"
  have "turn g a h (standing own other g a h (Some el)) ?relay ?ms (standing own other g a h (Some el))"
    using wave_to_one [OF assms(1) _ assms(2,3), of LEADER] by (simp add: turn_nil)
  from turn_then [OF this turn_finish [OF G(3), where E = E and i = i]]
  have "turn g a h (standing own other g a h (Some el)) (thenDo ?relay ?ending) ?ms
      (\<lambda>s. contender own other g a h s \<and> leader_of g s = Some (bytes_hex i))"
    by (simp only: append_Nil2)
  with st obtain s' where "thenDo ?relay ?ending s = (Inr (), s')" "leader_of g s' = Some (bytes_hex i)"
    "sends_of h (w_hist s') = sends_of h (w_hist s) @ ballots g a ?ms s"
    "p_sent_seq (n_heap s' a) = p_sent_seq (n_heap s a) + of_nat (length ?ms)"
    unfolding turn_def by blast
  moreover from st have "own_wire_id E s = wire_text own"
    by (simp add: standing_def contender_def own_wire_id_def wire_simps)
  with el standing_neighbors [OF st G(3)] have "handle_leader E a g (wire_bytes i) s = thenDo ?relay ?ending s"
    by (simp add: handle_leader_def require_standing [OF st G(1)] run_andThen run_thenDo G(2) Let_def wire_simps for_one
        split: prod.split sum.split)
  ultimately show "\<exists>s'. handle_leader E a g (wire_bytes i) s = (Inr (), s') \<and> leader_of g s' = Some (bytes_hex i)
      \<and> sends_of h (w_hist s') = sends_of h (w_hist s) @ ballots g a ?ms s
      \<and> p_sent_seq (n_heap s' a) = p_sent_seq (n_heap s a) + of_nat (length ?ms)" by auto
qed

subsubsection \<open>Receiving\<close>

lemma run_track_seq:
  "cmd \<noteq> HELLO \<Longrightarrow> \<exists>b. track_seq a cmd q s = (Inr b, set_peer a (\<lambda>p. p\<lparr>p_want_seq := int q\<rparr>) s)"
  by (cases "p_want_seq (n_heap s a) + 1 = int q")
    (simp_all add: track_seq_def check_seq_def run_thenDo run_andThen upd_peer_def deref_def set_peer_def,
      blast+)

definition voted :: "env \<Rightarrow> bytes \<Rightarrow> nat \<Rightarrow> nat \<times> bytes \<Rightarrow> unit nprog" where
  "voted E g a m = (if fst m = ELECT then handle_elect E a g (snd m) else handle_leader E a g (snd m))"

lemma turn_receive:
  assumes "turn g a h (started own other g a h caw father erec lrec) (voted E g a (cmd, ident)) ms Q"
    and "cmd \<in> {ELECT, LEADER}" and "length g \<le> 255" "length ident \<le> 255" and "length other = 16"
  shows "turn g a h (started own other g a h caw father erec lrec)
    (handle_peer_msg E [1 # other, projr (encode_election cmd (uint (q :: 16 word)) (PyBytes g) (PyBytes ident))]) ms Q"
proof (rule turn_from [OF assms(1)])
  fix s assume st: "started own other g a h caw father erec lrec s"
  then obtain el where el: "standing own other g a h (Some el) s"
    "el_caw el = caw" "el_father el = father" "el_erec el = erec" "el_lrec el = lrec"
    using started_standing by blast
  have "uint q < 256 ^ 2" using uint_lt2p [of q] by simp
  with election_frame [OF assms(2), of "uint q" g ident] assms(3,4)
  obtain w n where w: "encode_election cmd (uint q) (PyBytes g) (PyBytes ident) = Inr w"
    "decode w = Some (cmd, ZRE_VERSION, n, if cmd = ELECT then no_fields\<lparr>f_group := Some g, f_challenger := Some ident\<rparr>
        else no_fields\<lparr>f_group := Some g, f_leader := Some ident\<rparr>)" by auto
  from el(1) have peer: "dict_get (n_peers s) (bytes_hex other) = Some a" "p_ready (n_heap s a)"
    by (auto simp: standing_def contender_def)
  let ?now = "e_time E (w_hist s)"
  let ?s1 = "(io_log (IoTime ?now) s)\<lparr>n_evasive_emit_at := dict_pop (bytes_hex other) (n_evasive_emit_at s)\<rparr>"
  let ?s2 = "set_peer a (\<lambda>p. p\<lparr>p_want_seq := int n\<rparr>) ?s1"
  let ?t = "set_peer a (refresh_peer ?now (c_ev_timeout (n_cfg s)) (c_ex_timeout (n_cfg s))) ?s2"
  have cmd: "cmd \<noteq> HELLO" using assms(2) by (auto simp: command_defs)
  have talk: "cmd \<in> {WHISPER, SHOUT, JOIN, LEAVE, ELECT, LEADER}" using assms(2) by auto
  from cmd obtain b where track: "track_seq a cmd n ?s1 = (Inr b, ?s2)" using run_track_seq by blast
  have "handle_peer_msg E [1 # other, w] s = dispatch_command E (bytes_hex other) a cmd
      (if cmd = ELECT then no_fields\<lparr>f_group := Some g, f_challenger := Some ident\<rparr>
       else no_fields\<lparr>f_group := Some g, f_leader := Some ident\<rparr>) [] ?now ?t"
    using peer cmd assms(5) track talk
    by (simp add: handle_peer_msg_def w Let_def read_clock_def run_andThen run_thenDo io_log_def deref_def refresh_def
        upd_peer_def)
  also have "\<dots> = voted E g a (cmd, ident) ?t"
    using assms(2) by (auto simp: dispatch_command_def voted_def command_defs)
  finally have "handle_peer_msg E [1 # other, w] s = voted E g a (cmd, ident) ?t" .
  moreover have "standing own other g a h (Some el) ?s1"
    using el(1) by (simp add: standing_def contender_def election_of_def io_log_def)
  then have "standing own other g a h (Some el) ?t"
    by (intro standing_peer) (simp_all add: refresh_peer_def)
  then have "started own other g a h caw father erec lrec ?t"
    using standing_started el by blast
  moreover have "silent a h s ?t" by (simp add: silent_def io_log_def refresh_peer_def)
  ultimately show "\<exists>t. handle_peer_msg E [1 # other, projr (encode_election cmd (uint q) (PyBytes g) (PyBytes ident))] s =
      voted E g a (cmd, ident) t \<and> started own other g a h caw father erec lrec t \<and> silent a h s t"
    using w(1) by auto
qed

definition hear :: "env \<Rightarrow> bytes \<Rightarrow> bytes list list \<Rightarrow> unit nprog" where
  "hear E other messages = for_each (\<lambda>frames. handle_peer_msg E ((1 # other) # frames)) messages"

lemma turn_hear_one:
  assumes "turn g a h P (handle_peer_msg E [1 # other, f]) ms Q"
  shows "turn g a h P (hear E other [[f]]) ms Q"
  using assms unfolding turn_def hear_def for_one by simp

lemma hear_Cons: "hear E other (m # messages) = thenDo (hear E other [m]) (hear E other messages)"
  by (rule ext) (simp add: hear_def run_thenDo split: prod.split sum.split)

text \<open>The node with the smaller id, and the node with the larger one.\<close>

lemma winner_turn:
  assumes "reliable E" and "length g \<le> 255" and "length own = 16" "length other = 16"
    and "wire_text own < wire_text other"
  shows "turn g a h (contender own other g a h)
    (thenDo (start_election E g) (hear E other
       (numbered q (map (ballot g) [(ELECT, wire_bytes other), (ELECT, wire_bytes own), (LEADER, wire_bytes own)]))))
    [(ELECT, wire_bytes own), (LEADER, wire_bytes own)] (\<lambda>s. leader_of g s = Some (bytes_hex own))"
proof -
  have len: "length (wire_bytes own) \<le> 255" "length (wire_bytes other) \<le> 255"
    using assms(3,4) by (simp_all add: length_wire_bytes)
  let ?f = "\<lambda>q cmd i. projr (encode_election cmd (uint (q :: 16 word)) (PyBytes g) (PyBytes (wire_bytes i)))"
  note one = turn_hear_one [OF turn_receive [OF _ _ assms(2) _ assms(4)]]
  have 1: "turn g a h (started own other g a h (wire_text own) None 0 0) (hear E other [[?f q ELECT other]]) []
      (started own other g a h (wire_text own) None 0 0)" for q
    by (rule one) (use turn_elect_larger [OF assms(5)] len in \<open>simp_all add: voted_def\<close>)
  have 2: "turn g a h (started own other g a h (wire_text own) None 0 0) (hear E other [[?f q ELECT own]])
      [(LEADER, wire_bytes own)] (started own other g a h (wire_text own) None 1 0)" for q
    by (rule one) (use turn_elect_echo [OF assms(1,2,3)] len in \<open>simp_all add: voted_def\<close>)
  have 3: "turn g a h (started own other g a h (wire_text own) None 1 0) (hear E other [[?f q LEADER own]])
      [] (\<lambda>s. leader_of g s = Some (bytes_hex own))" for q
    by (rule one) (use turn_leader [OF assms(1,2,3), of a h own other] len in \<open>simp_all add: voted_def command_defs\<close>)
  from turn_then [OF turn_start [OF assms(1,2,3)] turn_then [OF 1 turn_then [OF 2 3]]]
  show ?thesis by (simp add: ballot_def hear_Cons [of _ _ _ "_ # _"])
qed

lemma loser_turn:
  assumes "reliable E" and "length g \<le> 255" and "length own = 16" "length other = 16"
    and "wire_text other < wire_text own"
  shows "turn g a h (contender own other g a h)
    (thenDo (start_election E g) (hear E other
       (numbered q (map (ballot g) [(ELECT, wire_bytes other), (LEADER, wire_bytes other)]))))
    [(ELECT, wire_bytes own), (ELECT, wire_bytes other), (LEADER, wire_bytes other)]
    (\<lambda>s. leader_of g s = Some (bytes_hex other))"
proof -
  have len: "length (wire_bytes other) \<le> 255" and ne: "other \<noteq> own"
    using assms(4,5) by (auto simp: length_wire_bytes)
  let ?f = "\<lambda>q cmd i. projr (encode_election cmd (uint (q :: 16 word)) (PyBytes g) (PyBytes (wire_bytes i)))"
  note one = turn_hear_one [OF turn_receive [OF _ _ assms(2) _ assms(4)]]
  have 1: "turn g a h (started own other g a h (wire_text own) None 0 0) (hear E other [[?f q ELECT other]])
      [(ELECT, wire_bytes other)] (started own other g a h (wire_text other) (Some (bytes_hex other)) 1 0)" for q
    by (rule one) (use turn_elect_smaller [OF assms(1,2,4,5)] len in \<open>simp_all add: voted_def\<close>)
  have 2: "turn g a h (started own other g a h (wire_text other) (Some (bytes_hex other)) 1 0)
      (hear E other [[?f q LEADER other]])
      [(LEADER, wire_bytes other)] (\<lambda>s. leader_of g s = Some (bytes_hex other))" for q
    by (rule one) (use turn_leader [OF assms(1,2,4), of a h own other] ne len in \<open>simp_all add: voted_def command_defs\<close>)
  from turn_then [OF turn_start [OF assms(1,2,3)] turn_then [OF 1 2]]
  show ?thesis by (simp add: ballot_def hear_Cons [of _ _ _ "_ # _"])
qed

text \<open>
  C7: two contenders agree. Two nodes know each other, both are in a group and contend for it, and no
  other member is connected. Both start an election, and each then handles every frame that the other
  hands to its DEALER, in that order. Then both handle all of them without an exception and hold the same
  leader, the one of the two whose id is smaller as text on the wire, whatever the sequence numbers, the
  clocks and the rest of the two states.
\<close>

theorem two_contenders_agree:
  assumes "reliable E" "reliable F" and "length A = 16" "length B = 16" and "A \<noteq> B" and "length g \<le> 255"
    and "contender A B g a h s" and "contender B A g b k t"
  shows "\<exists>from_A from_B s' t'.
      thenDo (start_election E g) (hear E B from_B) s = (Inr (), s')
    \<and> thenDo (start_election F g) (hear F A from_A) t = (Inr (), t')
    \<and> sends_of h (w_hist s') = sends_of h (w_hist s) @ from_A
    \<and> sends_of k (w_hist t') = sends_of k (w_hist t) @ from_B
    \<and> leader_of g s' = leader_of g t'
    \<and> leader_of g s' = Some (bytes_hex (if wire_text A < wire_text B then A else B))"
proof (cases "wire_text A < wire_text B")
  case True
  let ?mA = "[(ELECT, wire_bytes A), (LEADER, wire_bytes A)]"
  let ?mB = "[(ELECT, wire_bytes B), (ELECT, wire_bytes A), (LEADER, wire_bytes A)]"
  from winner_turn [OF assms(1,6,3,4) True, of a h "p_sent_seq (n_heap t b)"] assms(7)
  obtain s' where "thenDo (start_election E g) (hear E B (ballots g b ?mB t)) s = (Inr (), s')"
    "leader_of g s' = Some (bytes_hex A)" "sends_of h (w_hist s') = sends_of h (w_hist s) @ ballots g a ?mA s"
    unfolding turn_def ballots_def by blast
  moreover from loser_turn [OF assms(2,6,4,3) True, of b k "p_sent_seq (n_heap s a)"] assms(8)
  obtain t' where "thenDo (start_election F g) (hear F A (ballots g a ?mA s)) t = (Inr (), t')"
    "leader_of g t' = Some (bytes_hex A)" "sends_of k (w_hist t') = sends_of k (w_hist t) @ ballots g b ?mB t"
    unfolding turn_def ballots_def by blast
  ultimately show ?thesis using True
    by - (rule exI [of _ "ballots g a ?mA s"], rule exI [of _ "ballots g b ?mB t"], auto)
next
  case False
  with assms(5) have less: "wire_text B < wire_text A" by (metis linorder_neqE wire_text_inj)
  let ?mA = "[(ELECT, wire_bytes A), (ELECT, wire_bytes B), (LEADER, wire_bytes B)]"
  let ?mB = "[(ELECT, wire_bytes B), (LEADER, wire_bytes B)]"
  from loser_turn [OF assms(1,6,3,4) less, of a h "p_sent_seq (n_heap t b)"] assms(7)
  obtain s' where "thenDo (start_election E g) (hear E B (ballots g b ?mB t)) s = (Inr (), s')"
    "leader_of g s' = Some (bytes_hex B)" "sends_of h (w_hist s') = sends_of h (w_hist s) @ ballots g a ?mA s"
    unfolding turn_def ballots_def by blast
  moreover from winner_turn [OF assms(2,6,4,3) less, of b k "p_sent_seq (n_heap s a)"] assms(8)
  obtain t' where "thenDo (start_election F g) (hear F A (ballots g a ?mA s)) t = (Inr (), t')"
    "leader_of g t' = Some (bytes_hex B)" "sends_of k (w_hist t') = sends_of k (w_hist t) @ ballots g b ?mB t"
    unfolding turn_def ballots_def by blast
  ultimately show ?thesis using False
    by - (rule exI [of _ "ballots g a ?mA s"], rule exI [of _ "ballots g b ?mB t"], auto)
qed

text \<open>Two concrete contenders, with the ids 16 times 1 and 16 times 2.\<close>

definition demo_contender :: "bytes \<Rightarrow> bytes \<Rightarrow> node" where
  "demo_contender own other = example_node\<lparr>n_cfg := example_cfg\<lparr>c_peer_id_hex := bytes_hex own\<rparr>,
     n_peers := [(bytes_hex other, 0)], n_own_groups := [[67]],
     n_heap := (n_heap example_node)(0 := example_peer\<lparr>p_uuid_hex := bytes_hex other\<rparr>),
     n_groups := [([67], (new_group [67])\<lparr>g_peers := [(bytes_hex other, 0)], g_contest := True\<rparr>)]\<rparr>"

lemma demo_contends: "contender own other [67] 0 0 (demo_contender own other)"
  by (simp add: contender_def demo_contender_def example_peer_def)

lemma calm_reliable: "reliable calm"
  by (simp add: reliable_def)

lemma two_contenders_agree_witness:
  "\<exists>s' t'.
      thenDo (start_election calm [67]) (hear calm (replicate 16 2) (sends_of 0 (w_hist t')))
        (demo_contender (replicate 16 1) (replicate 16 2)) = (Inr (), s')
    \<and> thenDo (start_election calm [67]) (hear calm (replicate 16 1) (sends_of 0 (w_hist s')))
        (demo_contender (replicate 16 2) (replicate 16 1)) = (Inr (), t')
    \<and> leader_of [67] s' = Some (bytes_hex (replicate 16 1)) \<and> leader_of [67] t' = leader_of [67] s'"
proof -
  let ?A = "replicate 16 1 :: bytes" and ?B = "replicate 16 2 :: bytes"
  have first: "replicate 16 x = x # replicate 15 x" for x :: byte
    using replicate_Suc [of 15 x] by simp
  have "wire_text ?A < wire_text ?B"
    unfolding first by (simp add: wire_text_def bytes_hex_def hex_byte_def hexdigit_def ascii_upper_def)
  moreover have "?A \<noteq> ?B" unfolding first by simp
  moreover have "w_hist (demo_contender own other) = []" for own other
    by (simp add: demo_contender_def)
  ultimately show ?thesis
    using two_contenders_agree [OF calm_reliable calm_reliable _ _ _ _ demo_contends [of ?A ?B] demo_contends]
    by simp metis
qed

lemma lone_contender_leads_witness:
  "\<exists>s' t. start_election calm [67] (demo_contender (replicate 16 1) (replicate 16 2)
        \<lparr>n_groups := [([67], (new_group [67])\<lparr>g_contest := True\<rparr>)]\<rparr>) = (Inr (), s')
    \<and> leader_of [67] s' = Some (bytes_hex (replicate 16 1)) \<and> w_hist s' = [IoTime t]"
  using lone_contender_leads [of "demo_contender (replicate 16 1) (replicate 16 2)
      \<lparr>n_groups := [([67], (new_group [67])\<lparr>g_contest := True\<rparr>)]\<rparr>" "[67]" _ "replicate 16 1" calm]
  by (fastforce simp: demo_contender_def election_neighbors_def new_group_def)

end
