(* ===== verification/Zre_Beacon_Properties.thy ===== *)
theory Zre_Beacon_Properties
  imports Zre_Run_Properties
begin

unbundle bit_operations_syntax

section \<open>Properties of beacons and of the event queue\<close>

text \<open>
  A broadcast address is the last address of its subnet; the beacon that one node builds is read by
  another as what it says; and the application gets every event that was queued.
\<close>

subsection \<open>Broadcast addresses\<close>

lemma and_broadcast: "broadcast_address a m AND m = a AND m"
  by (rule bit_word_eqI) (auto simp: broadcast_address_def bit_simps)

lemma below_broadcast:
  assumes "x AND m = a AND m"
  shows "x \<le> broadcast_address a m"
proof -
  have "x = x AND broadcast_address a m"
  proof (rule bit_word_eqI)
    fix n assume n: "n < LENGTH(32)"
    have "bit (x AND m) n \<longleftrightarrow> bit (a AND m) n" using assms by simp
    moreover have "bit (0xFFFFFFFF :: 32 word) n"
    proof -
      have eq: "(0xFFFFFFFF :: 32 word) = mask 32" by (simp add: mask_eq_exp_minus_1)
      show ?thesis unfolding eq bit_mask_iff using n by simp
    qed
    ultimately show "bit x n \<longleftrightarrow> bit (x AND broadcast_address a m) n"
      using n by (auto simp: broadcast_address_def bit_simps)
  qed
  then show ?thesis by (metis word_and_le1)
qed

text \<open>
  The address to which beacons for a subnet go is the last one of that subnet, for every address
  and every netmask.
\<close>

theorem broadcast_is_last:
  "broadcast_address a m = Max {x. x AND m = a AND m}"
  by (rule Max_eqI [symmetric]) (auto simp: below_broadcast and_broadcast)


subsection \<open>A beacon is read as it was built\<close>

lemma beacon_layout:
  assumes "build_beacon a port = Inr data" and "length (c_peer_id (n_cfg a)) = 16"
    and "n_beacon_version a = BEACON_VERSION_V1 \<and> key = []
      \<or> n_beacon_version a = BEACON_VERSION_V3 \<and> c_curve_public (n_cfg a) = Some key \<and> length key = 32"
  shows "slice 0 3 data = blit ''ZRE''" "3 < length data" "unat (data ! 3) = n_beacon_version a"
    "slice 4 20 data = c_peer_id (n_cfg a)" "int (be_nat (slice 20 22 data)) = port"
    "slice 22 BEACON_SIZE_V3 data = key" "length data = 22 + length key"
proof -
  from assms(1) have port: "0 \<le> port" "port < 256 ^ 2"
    by (auto simp: build_beacon_def pack_def split: if_splits)
  with assms have data: "data = blit ''ZRE'' @ [of_nat (n_beacon_version a)] @ c_peer_id (n_cfg a)
      @ be_bytes 2 (nat port) @ key"
    by (auto simp: build_beacon_def pack_def beacon_consts split: if_splits)
  have blit: "length (blit ''ZRE'') = 3" by (simp add: blit_def)
  have v: "n_beacon_version a < 256" using assms(3) by (auto simp: beacon_consts)
  have len: "length (be_bytes 2 (nat port)) = 2" by simp
  show "slice 0 3 data = blit ''ZRE''" "3 < length data" "length data = 22 + length key"
    "slice 4 20 data = c_peer_id (n_cfg a)"
    using assms(2) by (simp_all add: data slice_def blit len)
  show "unat (data ! 3) = n_beacon_version a"
    using v by (simp add: data nth_append blit unsigned_of_nat take_bit_nat_eq_self)
  have "slice 20 22 data = be_bytes 2 (nat port)"
    using assms(2) by (simp add: data slice_def blit len)
  with port be_nat_bytes [of "nat port" 2] show "int (be_nat (slice 20 22 data)) = port" by simp
  show "slice 22 BEACON_SIZE_V3 data = key"
    using assms(2,3) by (auto simp: data slice_def blit len beacon_consts)
qed

text \<open>What greeting a new peer cannot change.\<close>

definition same_entry :: "(pystr \<times> nat) list \<Rightarrow> nat \<Rightarrow> pystr \<Rightarrow> pystr \<Rightarrow> int \<Rightarrow> real \<Rightarrow> node \<Rightarrow> bool" where
  "same_entry peers p who ip port expires s \<longleftrightarrow> n_peers s = peers \<and> p_uuid_hex (n_heap s p) = who
     \<and> p_addr (n_heap s p) = ip \<and> p_port (n_heap s p) = port \<and> p_expired_at (n_heap s p) = expires"

lemma entry_send [keeps_rules]: "keeps (same_entry peers p who ip port expires) (send_encoded E a encode parts)"
  by (auto simp: keeps_def run_send_encoded same_entry_def stamped_def io_log_def run_peer_disconnect Let_def
      torn_down_def split: option.split bool.split sum.split send_result.split)

lemma entry_hello: "keeps (same_entry peers p who ip port expires) (send_hello E a)"
  unfolding send_hello_def deref_def by (intro keeps_rules)

lemma update_absent: "dict_get d k = None \<Longrightarrow> dict_set k v d = d @ [(k, v)]"
  by (induction d) (auto split: if_splits)

text \<open>Dialling with the keys there are, when the connect succeeds.\<close>

lemma dial_new:
  assumes "\<And>hist h addr. e_connect E hist h addr"
    and "curve_client_args s addr port rhex = (sk, pk, seck)" and "curve_of sk pk seck \<noteq> None"
    and "c_curve_secret (n_cfg s) = None \<or> sk \<noteq> None"
  shows "\<exists>s'. dial_peer E who addr port rhex s = (Inr (Some (n_next_addr s)), s') \<and> n_peers s' = n_peers s
    \<and> n_cfg s' = n_cfg s \<and> p_uuid_hex (n_heap s' (n_next_addr s)) = who
    \<and> p_addr (n_heap s' (n_next_addr s)) = addr \<and> p_port (n_heap s' (n_next_addr s)) = port"
proof -
  let ?s = "s\<lparr>n_heap := (n_heap s)(n_next_addr s := new_peer who addr port), n_next_addr := Suc (n_next_addr s)\<rparr>"
  have "\<not> p_connected (n_heap ?s (n_next_addr s))" by (simp add: new_peer_def)
  note connect = run_peer_connect [OF this, of E _ sk pk seck]
  have "curve_client_args ?s addr port rhex = curve_client_args s addr port rhex"
    by (simp add: curve_client_args_def cong: option.case_cong if_cong)
  with assms show ?thesis
    by (auto simp: dial_peer_def alloc_peer_def run_andThen connect Let_def) (simp_all add: new_peer_def)
qed

text \<open>A node that was not known is dialled, entered at the end of the table and greeted.\<close>

definition greet_new :: "env \<Rightarrow> pystr \<Rightarrow> pystr \<Rightarrow> int \<Rightarrow> real \<Rightarrow> unit nprog" where
  "greet_new E who ip port now =
     andThen (connect_known E who ip port now)
       (\<lambda>made. case made of None \<Rightarrow> ret () | Some (a, _) \<Rightarrow> send_hello E a)"

lemma greeted_entry:
  assumes "\<And>hist h addr. e_connect E hist h addr"
    and "curve_client_args s ip port (Some who) = (sk, pk, seck)" and "curve_of sk pk seck \<noteq> None"
    and "c_curve_secret (n_cfg s) = None \<or> sk \<noteq> None"
    and "dict_get (n_peers s) who = None" and "n_pending s = []"
  shows "same_entry (n_peers s @ [(who, n_next_addr s)]) (n_next_addr s) who ip port
    (now + of_int (c_ex_timeout (n_cfg s)) / 1000) (snd (greet_new E who ip port now s))"
proof -
  let ?p = "n_next_addr s"
  let ?I = "same_entry (n_peers s @ [(who, ?p)]) ?p who ip port (now + of_int (c_ex_timeout (n_cfg s)) / 1000)"
  obtain s2 where dial: "dial_peer E who ip port (Some who) s = (Inr (Some ?p), s2)" "n_peers s2 = n_peers s"
    "n_cfg s2 = n_cfg s" "p_uuid_hex (n_heap s2 ?p) = who" "p_addr (n_heap s2 ?p) = ip" "p_port (n_heap s2 ?p) = port"
    using dial_new [OF assms(1-4)] by blast
  let ?t = "set_peer ?p (refresh_peer now (c_ev_timeout (n_cfg s)) (c_ex_timeout (n_cfg s))) s2"
  have "connect_known E who ip port now s = (Inr (Some (?p, True)), ?t\<lparr>n_peers := n_peers s @ [(who, ?p)]\<rparr>)"
    using dial assms(6) update_absent [OF assms(5)]
    by (simp add: connect_known_def adopt_pending_def run_andThen run_thenDo refresh_def upd_peer_def)
  then have "greet_new E who ip port now s = send_hello E ?p (?t\<lparr>n_peers := n_peers s @ [(who, ?p)]\<rparr>)"
    by (simp add: greet_new_def run_andThen)
  moreover have "?I (?t\<lparr>n_peers := n_peers s @ [(who, ?p)]\<rparr>)"
    using dial by (simp add: same_entry_def refresh_peer_def)
  ultimately show ?thesis using entry_hello by (simp add: keeps_def)
qed

text \<open>
  C12: a beacon introduces its sender. What one node builds, in the plain or in the secure form, makes a
  running node of the same form that does not know it yet, and can connect, enter exactly one new peer at
  the end of its table: with the sender's id, the address the datagram came from, the port the sender
  announced, and a deadline counted from now. Whatever happens to the HELLO that follows, the entry stays.
\<close>

theorem beacon_introduces:
  assumes "build_beacon a port = Inr data" and "length (c_peer_id (n_cfg a)) = 16" and "port \<noteq> 0"
    and "n_beacon_version a = BEACON_VERSION_V1 \<and> c_curve_secret (n_cfg s) = None
      \<or> n_beacon_version a = BEACON_VERSION_V3 \<and> (\<exists>key pub sec. c_curve_public (n_cfg a) = Some key
          \<and> length key = 32 \<and> c_curve_public (n_cfg s) = Some pub \<and> c_curve_secret (n_cfg s) = Some sec)"
    and "n_running s" "n_beacon_version s = n_beacon_version a" "c_peer_id (n_cfg s) \<noteq> c_peer_id (n_cfg a)"
    and "dict_get (n_peers s) (bytes_hex (c_peer_id (n_cfg a))) = None" "n_pending s = []"
    and "\<And>hist h addr. e_connect E hist h addr"
  shows "\<exists>r s' p. handle_beacon E data ip s = (r, s')
    \<and> n_peers s' = n_peers s @ [(bytes_hex (c_peer_id (n_cfg a)), p)]
    \<and> p_uuid_hex (n_heap s' p) = bytes_hex (c_peer_id (n_cfg a)) \<and> p_addr (n_heap s' p) = ip
    \<and> p_port (n_heap s' p) = port
    \<and> p_expired_at (n_heap s' p) = e_time E (w_hist s) + of_int (c_ex_timeout (n_cfg s)) / 1000"
proof -
  let ?id = "bytes_hex (c_peer_id (n_cfg a))" and ?v3 = "n_beacon_version a = BEACON_VERSION_V3"
  let ?now = "e_time E (w_hist s)"
  obtain key where key: "n_beacon_version a = BEACON_VERSION_V1 \<and> key = []
      \<or> ?v3 \<and> c_curve_public (n_cfg a) = Some key \<and> length key = 32"
    using assms(4) by blast
  note layout = beacon_layout [OF assms(1,2) key]
  have size: "(if ?v3 then Some BEACON_SIZE_V3
      else if n_beacon_version a = BEACON_VERSION_V1 then Some BEACON_SIZE else None) = Some (length data)"
    using key layout(7) by (auto simp: beacon_consts)
  define keys' where "keys' = (if ?v3 then dict_set (host_port ip port) key (dict_set ?id key (n_peer_server_keys s))
      else n_peer_server_keys s)"
  define s1 where "s1 = s\<lparr>n_peer_server_keys := keys', w_hist := IoTime ?now # w_hist s\<rparr>"
  have read: "handle_beacon E data ip s = greet_new E ?id ip port ?now s1"
    using layout size assms(3,5-8)
    by (cases ?v3) (simp_all add: greet_new_def handle_beacon_def Let_def learn_key_def read_clock_def run_andThen
        run_thenDo io_log_def s1_def keys'_def del: run_andThen_simps)
  have "\<exists>sk pk seck. curve_client_args s1 ip port (Some ?id) = (sk, pk, seck) \<and> curve_of sk pk seck \<noteq> None
      \<and> (c_curve_secret (n_cfg s1) = None \<or> sk \<noteq> None)"
    using assms(4) by (auto simp: curve_client_args_def s1_def keys'_def curve_of_def alist.get_put beacon_consts
      split: option.split)
  then obtain sk pk seck where curve: "curve_client_args s1 ip port (Some ?id) = (sk, pk, seck)"
    "curve_of sk pk seck \<noteq> None" "c_curve_secret (n_cfg s1) = None \<or> sk \<noteq> None" by blast
  have "dict_get (n_peers s1) ?id = None" "n_pending s1 = []" using assms(8,9) by (simp_all add: s1_def)
  from greeted_entry [OF assms(10) curve this, of ?now] show ?thesis
    by (intro exI [of _ "fst (handle_beacon E data ip s)"] exI [of _ "snd (handle_beacon E data ip s)"]
        exI [of _ "n_next_addr s"]) (simp add: same_entry_def read s1_def)
qed

lemma beacon_introduces_witness:
  "\<exists>data r s' p. build_beacon (example_node\<lparr>n_cfg := example_cfg\<lparr>c_peer_id := replicate 16 7\<rparr>\<rparr>) 49152 = Inr data
    \<and> handle_beacon calm data (lit ''10.0.0.7'') example_node = (r, s')
    \<and> n_peers s' = [(lit ''02'', 0), (bytes_hex (replicate 16 7), p)] \<and> p_port (n_heap s' p) = 49152"
proof -
  let ?a = "example_node\<lparr>n_cfg := example_cfg\<lparr>c_peer_id := replicate 16 7\<rparr>\<rparr>"
  have v: "n_beacon_version ?a = BEACON_VERSION_V1" "n_beacon_version example_node = 1"
    by (simp_all add: example_node_def beacon_consts)
  obtain data where data: "build_beacon ?a 49152 = Inr data"
    using v by (simp add: build_beacon_def pack_def beacon_consts)
  have "bytes_hex (replicate 16 7) \<noteq> lit ''02''"
  proof
    assume "bytes_hex (replicate 16 7) = lit ''02''"
    from arg_cong [OF this, of length] show False by (simp add: length_bytes_hex lit_def)
  qed
  then show ?thesis
    using beacon_introduces [OF data, of example_node calm "lit ''10.0.0.7''"] data v
    by (simp add: example_cfg_def beacon_consts) blast
qed

subsection \<open>Events\<close>

text \<open>The application takes events from \<open>events()\<close>, at most \<open>k\<close>, while no other task runs.\<close>

fun taken_events :: "nat \<Rightarrow> (event list \<times> step) nprog" where
  "taken_events 0 = ret ([], Waiting)"
| "taken_events (Suc k) =
     andThen (events_next []) (\<lambda>r.
     case r of
       Yields e \<Rightarrow> andThen (taken_events k) (\<lambda>(es, last). ret (e # es, last))
     | _ \<Rightarrow> ret ([], r))"

text \<open>
  C28: no event is lost at the end. The application that goes on reading gets every queued event, in the
  order in which they were posted, also when the run loop has already ended; only then does the generator
  of a stopped node finish, and that of a running node wait. One step more than there are events is enough.
\<close>

theorem events_drained:
  "taken_events (Suc (length (n_events s) + spare)) s =
     (Inr (n_events s, if n_running s then Waiting else Finished), s\<lparr>n_events := []\<rparr>)"
proof (induction "n_events s" arbitrary: s)
  case Nil
  then have "s\<lparr>n_events := []\<rparr> = s" by (cases s) simp
  with Nil [symmetric] show ?case by (simp add: recv_def run_andThen)
next
  case (Cons e es)
  from Cons(1) [of "s\<lparr>n_events := es\<rparr>"] Cons(2) [symmetric] show ?case
    by (simp add: recv_def run_andThen)
qed

end
