(* ===== verification/Zre_Setup_Properties.thy ===== *)
theory Zre_Setup_Properties
  imports Zre_Run_Properties
begin

section \<open>The configuration is well typed\<close>

text \<open>
  What the constructor and the setters of a node leave in its configuration, in whatever order they are called and
  whether they raise or not: names, headers and keys that fit their fields, ports and intervals in range. A node
  configured in this way is one of those from which the reachable states start.
\<close>

subsection \<open>Calls before the start\<close>

datatype setting =
    Uuid pyval
  | Interface pystr
  | Port int
  | Interval int
  | EvasiveTimeout int
  | SilentTimeout int
  | ExpiredTimeout int
  | PeerPort int
  | Advertised pystr
  | Header pyval pyval
  | Zcert pyval pyval
  | ZapDomain pystr
  | Ipv6 bool
  | GossipBind pystr
  | GossipConnect pystr
  | GossipConnectCurve pyval pystr
  | Verbose bool
  | Contest pyval
  | Queue api_command
  | Connect pystr int "pyval option"

fun setter :: "env \<Rightarrow> setting \<Rightarrow> unit nprog" where
  "setter E (Uuid v) = set_uuid v"
| "setter E (Interface i) = set_interface i"
| "setter E (Port p) = set_port p"
| "setter E (Interval ms) = set_interval ms"
| "setter E (EvasiveTimeout ms) = set_evasive_timeout ms"
| "setter E (SilentTimeout ms) = set_silent_timeout ms"
| "setter E (ExpiredTimeout ms) = set_expired_timeout ms"
| "setter E (PeerPort p) = set_beacon_peer_port p"
| "setter E (Advertised ep) = set_advertised_endpoint E ep"
| "setter E (Header k v) = set_header k v"
| "setter E (Zcert pub sec) = set_zcert E pub sec"
| "setter E (ZapDomain d) = set_zap_domain d"
| "setter E (Ipv6 b) = set_ipv6 b"
| "setter E (GossipBind ep) = gossip_bind ep"
| "setter E (GossipConnect ep) = gossip_connect ep"
| "setter E (GossipConnectCurve k ep) = gossip_connect_curve k ep"
| "setter E (Verbose b) = set_verbose b"
| "setter E (Contest g) = set_contest_in_group g"
| "setter E (Queue cmd) = put_api cmd"
| "setter E (Connect host port k) = connect_peer E host port k"

text \<open>A node that was made (\<open>uuid4\<close> has 16 bytes) and configured; what a call raises, the caller may catch.\<close>

inductive set_up :: "env \<Rightarrow> node \<Rightarrow> bool" for E where
  made: "set_up E s" if "new_node name uuid_name uuid_id = Inr s" and "length uuid_id = 16"
| called: "set_up E (snd (setter E call s))" if "set_up E s"

subsection \<open>The types\<close>

definition well_typed :: "config \<Rightarrow> bool" where
  "well_typed c \<longleftrightarrow> length (c_name c) \<le> 255 \<and> length (c_peer_id c) = 16 \<and> c_peer_id_hex c = bytes_hex (c_peer_id c)
    \<and> is_dict (c_headers c) \<and> (\<forall>(k, v)\<in>set (c_headers c). length k \<le> 255 \<and> length v \<le> 255)
    \<and> 1 \<le> c_beacon_port c \<and> c_beacon_port c \<le> 65535 \<and> 0 < c_beacon_interval c
    \<and> pred_option (\<lambda>p. 1 \<le> p \<and> p \<le> 65535) (c_fixed_port c)
    \<and> pred_option (\<lambda>ep. length ep \<le> 255) (c_advertised_endpoint c)
    \<and> pred_option (\<lambda>k. length k = 32) (c_curve_public c) \<and> pred_option (\<lambda>k. length k = 32) (c_curve_secret c)
    \<and> (c_curve_secret c \<noteq> None \<longrightarrow> c_curve_public c \<noteq> None) \<and> c_zap_domain c \<noteq> []"

text \<open>What is relied on of Z85: 40 characters stand for 32 bytes.\<close>

definition z85_sized :: "env \<Rightarrow> bool" where
  "z85_sized E \<longleftrightarrow> (\<forall>k raw. length k = 40 \<longrightarrow> e_z85_decode E k = Inr raw \<longrightarrow> length raw = 32)"

definition awaiting :: "node \<Rightarrow> bool" where
  "awaiting s \<longleftrightarrow> (\<exists>c contests cmds ks. s = prepared c contests cmds ks \<and> well_typed c)"

lemma awaitingI: "well_typed c \<Longrightarrow> awaiting (prepared c contests cmds ks)"
  unfolding awaiting_def by blast

lemma curve_key_length: "z85_sized E \<Longrightarrow> curve_key_raw E v = Inr k \<Longrightarrow> length k = 32"
  by (auto simp: curve_key_raw_def obind_Inr z85_sized_def split: if_splits sum.splits)

lemma prepared_simps [simp]:
  "n_cfg (prepared c contests cmds ks) = c" "\<not> n_running (prepared c contests cmds ks)"
  "n_groups (prepared c contests cmds ks) = []" "n_api (prepared c contests cmds ks) = cmds"
  "n_contest_groups (prepared c contests cmds ks) = contests" "n_peer_server_keys (prepared c contests cmds ks) = ks"
  "(prepared c contests cmds ks)\<lparr>n_cfg := c'\<rparr> = prepared c' contests cmds ks"
  "(prepared c contests cmds ks)\<lparr>n_contest_groups := contests'\<rparr> = prepared c contests' cmds ks"
  "(prepared c contests cmds ks)\<lparr>n_api := cmds'\<rparr> = prepared c contests cmds' ks"
  "(prepared c contests cmds ks)\<lparr>n_peer_server_keys := ks'\<rparr> = prepared c contests cmds ks'"
  by (simp_all add: prepared_def new_node_state_def)

text \<open>Where nothing runs, the guard of the setters lets pass.\<close>

lemma guard_passed [simp]: "ensure_not_running (prepared c contests cmds ks) = (Inr (), prepared c contests cmds ks)"
  by (simp add: ensure_not_running_def run_andThen)

lemma upd_cfg_prepared [simp]: "upd_cfg f (prepared c contests cmds ks) = (Inr (), prepared (f c) contests cmds ks)"
  by (simp add: upd_cfg_def)

lemma new_node_prepared: "new_node_state c = prepared c [] [] []"
  by (simp add: prepared_def new_node_state_def)

lemma header_well_typed:
  assumes "well_typed c" "wire_string k = Inr kb" "wire_string v = Inr vb"
  shows "well_typed (c\<lparr>c_headers := dict_set kb vb (c_headers c)\<rparr>)"
  using assms wire_string_length [OF assms(2)] wire_string_length [OF assms(3)]
  by (auto simp: well_typed_def is_dict_update set_dict_set)

lemma set_header_awaiting:
  "well_typed c \<Longrightarrow> awaiting (snd (set_header k v (prepared c contests cmds ks)))"
  by (auto simp: set_header_def run_andThen intro!: awaitingI header_well_typed split: sum.split)

lemma set_uuid_awaiting:
  "well_typed c \<Longrightarrow> awaiting (snd (set_uuid v (prepared c contests cmds ks)))"
  by (auto simp: set_uuid_def run_andThen run_thenDo intro!: awaitingI split: sum.split) (simp add: well_typed_def)

lemma set_advertised_awaiting:
  "well_typed c \<Longrightarrow> awaiting (snd (set_advertised_endpoint E ep (prepared c contests cmds ks)))"
  by (auto simp: set_advertised_endpoint_def run_andThen run_thenDo well_typed_def intro!: awaitingI dest: wire_string_length
      split: sum.split)

lemma set_zcert_awaiting:
  assumes "z85_sized E" "well_typed c"
  shows "awaiting (snd (set_zcert E pub sec (prepared c contests cmds ks)))"
proof -
  note size = curve_key_length [OF assms(1)]
  show ?thesis
    using assms(2) size [of pub] size [of sec]
    by (auto simp: set_zcert_def run_andThen run_thenDo intro!: awaitingI set_header_awaiting split: sum.split)
      (auto simp: well_typed_def)
qed

lemma setter_awaiting:
  assumes "z85_sized E" "awaiting s"
  shows "awaiting (snd (setter E call s))"
proof -
  obtain c contests cmds ks where s: "s = prepared c contests cmds ks" and c: "well_typed c"
    using assms(2) unfolding awaiting_def by blast
  have typed: "awaiting (prepared c contests' cmds' ks')" for contests' cmds' ks' using c by (rule awaitingI)
  show ?thesis
    unfolding s
    by (cases call)
      (use c in \<open>auto simp: set_uuid_awaiting set_header_awaiting set_advertised_awaiting set_zcert_awaiting assms(1) typed
        set_interface_def set_port_def set_interval_def set_evasive_timeout_def set_silent_timeout_def
        set_expired_timeout_def set_beacon_peer_port_def set_zap_domain_def set_ipv6_def gossip_bind_def
        gossip_connect_def gossip_connect_curve_def set_verbose_def set_contest_in_group_def put_api_def
        connect_peer_def learn_key_def upd_group_def run_andThen run_thenDo well_typed_def
        intro!: awaitingI split: sum.split option.split\<close>)
qed

lemma new_node_awaiting: "new_node name u i = Inr s \<Longrightarrow> length i = 16 \<Longrightarrow> awaiting s"
  by (auto simp: new_node_def obind_Inr new_node_prepared new_config_def well_typed_def is_dict_def keys_def BEACON_PORT_def
      lit_def intro!: awaitingI dest: wire_string_length)

text \<open>
  C20: the configuration of a node is well typed, whatever calls of the constructor, the setters and the commands led to
  it, those that raised included: the name, the headers and the advertised endpoint fit one-byte lengths, the id has 16
  bytes and its text is that of the id, ports and the interval are in range, and keys have 32 bytes. A node that
  is then started is in a reachable state.
\<close>

theorem set_up_well_typed:
  assumes "set_up E s" and "z85_sized E"
  shows "well_typed (n_cfg s) \<and> \<not> n_running s
    \<and> (\<forall>s'. start E s = (Inr (), s') \<longrightarrow> reachable E (n_cfg s) s' \<and> n_cfg s' = n_cfg s)"
proof -
  from assms(1) have "awaiting s"
    by (induction rule: set_up.induct) (simp_all add: new_node_awaiting setter_awaiting assms(2))
  then obtain c contests cmds ks where s: "s = prepared c contests cmds ks" and c: "well_typed c"
    unfolding awaiting_def by blast
  have "reachable E c s' \<and> n_cfg s' = c" if "start E s = (Inr (), s')" for s'
  proof
    show r: "reachable E c s'" using that unfolding s by (rule reachable.started)
    show "n_cfg s' = c" using steady_run.holds [OF r] by (simp add: steady_def)
  qed
  with c show ?thesis by (simp add: s)
qed

lemma set_up_well_typed_witness:
  "well_typed demo_cfg \<and> reachable calm demo_cfg demo_start \<and> n_cfg demo_start = demo_cfg"
proof -
  have "new_node (Some (PyBytes [97])) [] (replicate 16 7) = Inr (prepared demo_cfg [] [] [])"
    by (simp add: new_node_def wire_string_def MAX_STRING_BYTES_def demo_cfg_def new_node_prepared)
  then have "set_up calm (prepared demo_cfg [] [] [])" by (rule set_up.made) simp
  from set_up_well_typed [OF this] demo_started show ?thesis by (simp add: z85_sized_def)
qed

end
