(* ===== verification/Zre_Gossip_Properties.thy ===== *)
theory Zre_Gossip_Properties
  imports Zre_Beacon_Properties Zre_Election_Properties Zre_Hub_Properties
begin

section \<open>Two nodes meet through a hub\<close>

text \<open>
  The way of an announcement: a node publishes its tuple on a link to a hub, the hub stores it and forwards it, and
  the node at the other end of another link dials what it reads. A newcomer learns of the others from the snapshot
  that its own HELLO asks for. All nodes are plain (no Curve keys).
\<close>

subsection \<open>The tuple of a node\<close>

definition tuple_of :: "node \<Rightarrow> pystr \<Rightarrow> bytes \<Rightarrow> bytes \<Rightarrow> bool" where
  "tuple_of s ip key v \<longleftrightarrow> own_id_ok (n_cfg s) \<and> set ip \<inter> {37, 91, 93, 124} = {}
     \<and> utf8_encode (c_peer_id_hex (n_cfg s)) = Inr key \<and> utf8_encode (tcp_address ip (n_inbox_port s)) = Inr v"

lemma split_once_none: "c \<notin> set s \<Longrightarrow> split_once [c] s = None"
  by (induction s) auto

lemma strip_chars_subset: "c \<in> set (strip_chars cs s) \<Longrightarrow> c \<in> set s"
  by (simp add: strip_chars_def lstrip_chars_def) (metis set_dropWhileD set_rev)

lemma lower_hexdigit: "d < 16 \<Longrightarrow> ascii_lower (hexdigit d) = hexdigit d"
  by (auto simp: hexdigit_def ascii_lower_def)

lemma lower_hex: "str_lower R (bytes_hex bs) = bytes_hex bs"
proof -
  have "map ascii_lower (bytes_hex bs) = bytes_hex bs"
    by (induction bs) (auto simp: bytes_hex_def hex_byte_def lower_hexdigit byte_nibbles)
  then show ?thesis by (simp add: str_lower_def ascii_bytes_hex)
qed

lemma tuple_read:
  assumes "tuple_of s ip key v" and "digits_fit R (n_inbox_port s)"
  shows "str_lower R (bdec key) = c_peer_id_hex (n_cfg s)" "split_once (lit ''|'') (bdec v) = None"
    "split_endpoint R (bdec v) = Inr (ip, n_inbox_port s)"
proof -
  have key: "bdec key = c_peer_id_hex (n_cfg s)" and v: "bdec v = tcp_address ip (n_inbox_port s)"
    using assms(1) by (simp_all add: tuple_of_def bdec_def decode_replace_encode)
  show "str_lower R (bdec key) = c_peer_id_hex (n_cfg s)"
    using assms(1) lower_hex unfolding key by (simp add: tuple_of_def own_id_ok_def)
  have "124 \<notin> set (tcp_address ip (n_inbox_port s))"
    using assms(1) show_int_no [of 124 "n_inbox_port s"]
      strip_chars_subset [of 124 "lit ''[]''" ip]
    by (auto simp: tcp_address_def Let_def lit_simps tuple_of_def)
  then show "split_once (lit ''|'') (bdec v) = None" by (simp add: v lit_def split_once_none)
  have "takeWhile (\<lambda>c. c \<noteq> 37) ip = ip" using assms(1) by (auto simp: tuple_of_def takeWhile_eq_all_conv)
  then show "split_endpoint R (bdec v) = Inr (ip, n_inbox_port s)"
    using split_tcp_address(1) [of ip R "n_inbox_port s"] assms by (auto simp: v tuple_of_def)
qed

subsection \<open>Announcing\<close>

definition plain_announcer :: "env \<Rightarrow> node \<Rightarrow> pystr \<Rightarrow> bool" where
  "plain_announcer E s ip \<longleftrightarrow> c_curve_public (n_cfg s) = None \<and> c_advertised_endpoint (n_cfg s) = None
     \<and> resolve_interface_ip E (n_cfg s) None = Inr ip \<and> ip \<noteq> []"

lemma publish_own_run:
  assumes "plain_announcer E s ip"
  shows "publish_own_tuple E key host port s = (Inr (), s\<lparr>n_gossip := (n_gossip s)\<lparr>gc_tuples :=
    dict_set key (PyStr (tcp_address ip (n_inbox_port s)), 0) (gc_tuples (n_gossip s))\<rparr>\<rparr>)"
  using assms
  by (simp add: publish_own_tuple_def gossip_publish_endpoint_def gossip_base_def plain_announcer_def run_andThen
      upd_gossip_def)

lemma zmq_send_reliable:
  "reliable E \<Longrightarrow> zmq_send E h body s = (Inr (), io_log (IoSend h [body] SendOk) s)"
  by (simp add: zmq_send_def send_multipart_def run_andThen reliable_def Let_def)

lemma announce_one:
  assumes "reliable E" and "gc_tuples (n_gossip s) = [(key, v, ttl)]"
    and "zgs_encode ZGS_PUBLISH (Some (PyBytes key)) (Some v) ttl = Inr w"
  shows "\<exists>hello. zgs_encode ZGS_HELLO None None 0 = Inr hello \<and> gossip_announce E sock s =
    (Inr (), io_log (IoSend sock [w] SendOk) (io_log (IoSend sock [hello] SendOk) s))"
  using assms
  by (simp add: gossip_announce_def catch_def zgs_hello_bytes run_andThen run_thenDo zmq_send_reliable io_log_def)

subsection \<open>At the hub\<close>

text \<open>A newcomer says HELLO and publishes its tuple: it gets the table as it was, and everyone gets the tuple.\<close>

lemma hub_newcomer:
  assumes "h_socket (hs H) = Some h" and "\<forall>(k, x, e)\<in>set (h_tuples (hs H)). zgs_tuple_ok k x"
    and "zgs_encode ZGS_HELLO None None 0 = Inr hello" and "zgs_publish key v 0 = Inr w" and "hub_table H key \<noteq> Some v"
  shows "\<exists>H' everyone. for_each (hub_handle_message E now) [[rid, hello], [rid, w]] H = (Inr (), H')
    \<and> set everyone = insert rid (set (h_clients (hs H)))
    \<and> sends_of h (w_hist H') = sends_of h (w_hist H)
        @ map (\<lambda>(k, x, _). [rid, projr (zgs_publish k x 0)]) (h_tuples (hs H)) @ map (\<lambda>r. [r, w]) everyone"
proof -
  let ?clients = "insert_last rid (h_clients (hs H))"
  have "\<exists>sent. hub_handle_message E now [rid, hello] H =
      (Inr (), H\<lparr>hs := (hs H)\<lparr>h_clients := ?clients\<rparr>, w_hist := sent @ w_hist H\<rparr>)
    \<and> sends_of h (sent @ w_hist H) = sends_of h (w_hist H) @
      map (\<lambda>(k, x, _). [rid, projr (zgs_publish k x 0)]) (h_tuples (hs H))"
    by (rule hub_hello_snapshot [OF assms(1) _ assms(3)]) (use assms(2) in fastforce)
  then obtain sent where
    first: "hub_handle_message E now [rid, hello] H =
      (Inr (), H\<lparr>hs := (hs H)\<lparr>h_clients := ?clients\<rparr>, w_hist := sent @ w_hist H\<rparr>)"
    and sent: "sends_of h (sent @ w_hist H) = sends_of h (w_hist H) @
      map (\<lambda>(k, x, _). [rid, projr (zgs_publish k x 0)]) (h_tuples (hs H))" by blast
  let ?H = "H\<lparr>hs := (hs H)\<lparr>h_clients := ?clients\<rparr>, w_hist := sent @ w_hist H\<rparr>"
  have again: "?H\<lparr>hs := (hs ?H)\<lparr>h_clients := insert_last rid (h_clients (hs ?H))\<rparr>\<rparr> = ?H"
    by (simp add: insert_last_def)
  have "hub_handle_message E now [rid, w] ?H =
      hub_answer E now rid \<lparr>z_command = ZGS_PUBLISH, z_key = Some key, z_value = Some v, z_ttl = Some (nat 0)\<rparr> ?H"
    unfolding run_hub_message again Let_def zgs_decode_publish [OF assms(4)] by simp
  then have "hub_handle_message E now [rid, w] ?H = hub_accept E key v 0 now ?H"
    by (simp add: hub_answer_def zgs_command_defs)
  moreover have "h_socket (hs ?H) = Some h" "hub_table ?H key \<noteq> Some v" using assms(1,5) by (simp_all add: hub_table_def)
  ultimately obtain more where
    second: "hub_handle_message E now [rid, w] ?H =
      (Inr (), ?H\<lparr>hs := hub_store key v 0 now (hs ?H), w_hist := more @ w_hist ?H\<rparr>)"
    and more: "sends_of h (more @ w_hist ?H) = sends_of h (w_hist ?H) @
      map (\<lambda>rid. [rid, w]) (set_iter E (w_hist ?H) (h_clients (hs ?H)))"
    using hub_accept_spec [OF _ assms(4), where s = ?H and h = h and E = E and now = now] by auto
  let ?everyone = "set_iter E (w_hist ?H) ?clients"
  have "set ?everyone = insert rid (set (h_clients (hs H)))"
    by (auto simp: set_set_iter insert_last_def)
  moreover have "for_each (hub_handle_message E now) [[rid, hello], [rid, w]] H =
      (Inr (), ?H\<lparr>hs := hub_store key v 0 now (hs ?H), w_hist := more @ w_hist ?H\<rparr>)"
    unfolding for_each.simps run_thenDo first prod.case sum.case second by simp
  moreover have "sends_of h (w_hist (?H\<lparr>hs := hub_store key v 0 now (hs ?H), w_hist := more @ w_hist ?H\<rparr>)) =
      sends_of h (w_hist H) @ map (\<lambda>(k, x, _). [rid, projr (zgs_publish k x 0)]) (h_tuples (hs H))
        @ map (\<lambda>r. [r, w]) ?everyone"
    using sent more by simp
  ultimately show ?thesis by blast
qed

subsection \<open>At the other node\<close>

text \<open>A running plain node that can dial and does not know the node of the tuple.\<close>

definition newcomer_to :: "env \<Rightarrow> pystr \<Rightarrow> bytes \<Rightarrow> node \<Rightarrow> bool" where
  "newcomer_to E who key s \<longleftrightarrow> n_running s \<and> c_curve_secret (n_cfg s) = None \<and> who \<noteq> c_peer_id_hex (n_cfg s)
     \<and> dict_get (n_peers s) who = None \<and> n_pending s = [] \<and> dict_get (gc_tuples (n_gossip s)) key = None
     \<and> (\<forall>hist h addr. e_connect E hist h addr)"

lemma tuple_taken:
  assumes "tuple_of t ip key v" and "zgs_publish key v ttl = Inr w" and "digits_fit (e_rt E) (n_inbox_port t)"
    and "newcomer_to E (c_peer_id_hex (n_cfg t)) key s"
  shows "\<exists>r s' p. gossip_client_message E sock w s = (r, s') \<and> n_peers s' = n_peers s @ [(c_peer_id_hex (n_cfg t), p)]
    \<and> p_addr (n_heap s' p) = ip \<and> p_port (n_heap s' p) = n_inbox_port t"
proof -
  let ?who = "c_peer_id_hex (n_cfg t)" and ?now = "e_time E (w_hist s)"
  note s = assms(4) [unfolded newcomer_to_def]
  note read = tuple_read [OF assms(1,3)]
  define s1 where "s1 = s\<lparr>w_hist := IoTime ?now # w_hist s, n_gossip := (n_gossip s)
    \<lparr>gc_last_rx := dict_set sock ?now (gc_last_rx (n_gossip s)),
     gc_tuples := dict_set key (PyBytes v, int (nat ttl)) (gc_tuples (n_gossip s))\<rparr>\<rparr>"
  have "gossip_client_message E sock w s = gossip_require E (bdec key) (bdec v) ?now s1"
    using s zgs_decode_publish [OF assms(2)]
    by (simp add: gossip_client_message_def read_clock_def Let_def run_andThen run_thenDo upd_gossip_def s1_def io_log_def)
  also have "\<dots> = greet_new E ?who ip (n_inbox_port t) ?now s1"
    using s read by (simp add: gossip_require_def Let_def run_andThen greet_new_def s1_def)
  finally have run: "gossip_client_message E sock w s = greet_new E ?who ip (n_inbox_port t) ?now s1" .
  have "curve_client_args s1 ip (n_inbox_port t) (Some ?who) = (None, None, None)"
    using s by (simp add: curve_client_args_def s1_def)
  moreover have "curve_of None None None \<noteq> None" by (simp add: curve_of_def)
  moreover have "c_curve_secret (n_cfg s1) = None" "dict_get (n_peers s1) ?who = None" "n_pending s1 = []"
    using s by (simp_all add: s1_def)
  ultimately have "same_entry (n_peers s1 @ [(?who, n_next_addr s1)]) (n_next_addr s1) ?who ip (n_inbox_port t)
      (?now + of_int (c_ex_timeout (n_cfg s1)) / 1000) (snd (greet_new E ?who ip (n_inbox_port t) ?now s1))"
    using s by (intro greeted_entry) auto
  then show ?thesis
    by (intro exI [of _ "fst (gossip_client_message E sock w s)"] exI [of _ "snd (gossip_client_message E sock w s)"]
        exI [of _ "n_next_addr s1"]) (simp add: same_entry_def run, simp add: s1_def)
qed

text \<open>
  C3: two nodes meet through a hub. A node that joins publishes its tuple on its link; the hub sends it the tuples it
  has, and the new tuple to every client; a client that does not know the newcomer enters it at the end of its table,
  with the address and the port it announced; and the newcomer enters a node whose tuple the hub had, in the same way.
\<close>

theorem gossip_introduces:
  assumes "reliable E" "plain_announcer E s ip" "gc_tuples (n_gossip s) = []" "tuple_of s ip key v"
    and "zgs_publish key v 0 = Inr w"
    and "h_socket (hs H) = Some h" "\<forall>(k, x, e)\<in>set (h_tuples (hs H)). zgs_tuple_ok k x"
    and "hub_table H key \<noteq> Some v" "other \<in> set (h_clients (hs H))" "(key', v', expiry) \<in> set (h_tuples (hs H))"
    and "tuple_of t ip' key' v'"
    and "newcomer_to E' (c_peer_id_hex (n_cfg s)) key t'" "digits_fit (e_rt E') (n_inbox_port s)"
    and "newcomer_to E (c_peer_id_hex (n_cfg t)) key' s'" "digits_fit (e_rt E) (n_inbox_port t)"
  shows "\<exists>s1 hello H1 frames w' r t2 p r' s2 q.
      thenDo (publish_own_tuple E key host port) (gossip_announce E sock) s = (Inr (), s1)
    \<and> sends_of sock (w_hist s1) = sends_of sock (w_hist s) @ [[hello], [w]]
    \<and> for_each (hub_handle_message Eh now) [[rid, hello], [rid, w]] H = (Inr (), H1)
    \<and> sends_of h (w_hist H1) = sends_of h (w_hist H) @ frames \<and> [other, w] \<in> set frames \<and> [rid, w'] \<in> set frames
    \<and> gossip_client_message E' link w t' = (r, t2)
    \<and> n_peers t2 = n_peers t' @ [(c_peer_id_hex (n_cfg s), p)]
    \<and> p_addr (n_heap t2 p) = ip \<and> p_port (n_heap t2 p) = n_inbox_port s
    \<and> gossip_client_message E sock w' s' = (r', s2)
    \<and> n_peers s2 = n_peers s' @ [(c_peer_id_hex (n_cfg t), q)]
    \<and> p_addr (n_heap s2 q) = ip' \<and> p_port (n_heap s2 q) = n_inbox_port t"
proof -
  let ?s = "s\<lparr>n_gossip := (n_gossip s)\<lparr>gc_tuples := [(key, PyStr (tcp_address ip (n_inbox_port s)), 0)]\<rparr>\<rparr>"
  have own: "publish_own_tuple E key host port s = (Inr (), ?s)"
    using publish_own_run [OF assms(2)] assms(3) by simp
  have "zgs_encode ZGS_PUBLISH (Some (PyBytes key)) (Some (PyStr (tcp_address ip (n_inbox_port s)))) 0 = Inr w"
    using assms(4,5) by (simp add: zgs_publish_def zgs_encode_def opt_bytes_def tuple_of_def)
  from announce_one [OF assms(1) _ this, of ?s sock] obtain hello where
    hello: "zgs_encode ZGS_HELLO None None 0 = Inr hello" and
    announce: "gossip_announce E sock ?s = (Inr (), io_log (IoSend sock [w] SendOk) (io_log (IoSend sock [hello] SendOk) ?s))"
    by auto
  from hub_newcomer [OF assms(6,7) hello assms(5,8), where E = Eh and now = now and rid = rid] obtain H1 everyone where
    H1: "for_each (hub_handle_message Eh now) [[rid, hello], [rid, w]] H = (Inr (), H1)"
      "set everyone = insert rid (set (h_clients (hs H)))"
      "sends_of h (w_hist H1) = sends_of h (w_hist H)
        @ map (\<lambda>(k, x, _). [rid, projr (zgs_publish k x 0)]) (h_tuples (hs H)) @ map (\<lambda>r. [r, w]) everyone"
    by blast
  from assms(7,10) obtain w' where w': "zgs_publish key' v' 0 = Inr w'" by (force simp: zgs_publish_bytes)
  let ?frames = "map (\<lambda>(k, x, _). [rid, projr (zgs_publish k x 0)]) (h_tuples (hs H)) @ map (\<lambda>r. [r, w]) everyone"
  have "[other, w] \<in> set ?frames" "[rid, w'] \<in> set ?frames"
    using H1(2) assms(9,10) w' by (force intro: rev_image_eqI)+
  moreover have "sends_of sock (w_hist (io_log (IoSend sock [w] SendOk) (io_log (IoSend sock [hello] SendOk) ?s))) =
      sends_of sock (w_hist s) @ [[hello], [w]]" by (simp add: io_log_def)
  ultimately show ?thesis
    using own announce H1(1,3) tuple_taken [OF assms(4,5,13,12), of link] tuple_taken [OF assms(11) w' assms(15,14), of sock]
    by (simp add: run_thenDo) blast
qed

text \<open>Two nodes, their tuples, and a hub that has one of them.\<close>

definition placed_node :: "byte \<Rightarrow> string \<Rightarrow> node" where
  "placed_node b ip = example_node\<lparr>n_cfg := example_cfg\<lparr>c_peer_id := replicate 16 b,
     c_peer_id_hex := bytes_hex (replicate 16 b), c_interface := Some (lit ip)\<rparr>\<rparr>"

definition placed_env :: env where
  "placed_env = calm\<lparr>e_inet_aton := (\<lambda>_. Some 0)\<rparr>"

definition placed_key :: "byte \<Rightarrow> bytes" where
  "placed_key b = map of_nat (bytes_hex (replicate 16 b))"

definition placed_value :: "string \<Rightarrow> bytes" where
  "placed_value ip = map of_nat (tcp_address (lit ip) 49152)"

definition placed_hub :: hub_state where
  "placed_hub = hub_example\<lparr>hs := (hs hub_example)\<lparr>h_tuples := [(placed_key 7, placed_value ''10.0.0.7'', 0)]\<rparr>\<rparr>"

lemma port_digits: "show_int 49152 = [52, 57, 49, 53, 50]"
  by (simp add: show_int_def show_nat.simps [of 49152] show_nat.simps [of 4915] show_nat.simps [of 491]
      show_nat.simps [of 49] show_nat.simps [of 4])

lemma placed_tuple:
  assumes "ip = ''10.0.0.1'' \<or> ip = ''10.0.0.7''"
  shows "tuple_of (placed_node b ip) (lit ip) (placed_key b) (placed_value ip)" "zgs_tuple_ok (placed_key b) (placed_value ip)"
proof -
  have written: "tcp_address (lit ip) 49152 = lit ''tcp://'' @ lit ip @ lit '':'' @ show_int 49152"
    using assms by (auto simp: tcp_address_def Let_def lit_def dest: strip_chars_subset)
  then have "ascii (tcp_address (lit ip) 49152)"
    using assms by (auto simp: ascii_def lit_def port_digits)
  then show "tuple_of (placed_node b ip) (lit ip) (placed_key b) (placed_value ip)"
    using assms by (auto simp: tuple_of_def placed_node_def placed_key_def placed_value_def own_id_ok_def lit_def
        utf8_encode_ascii ascii_bytes_hex)
  show "zgs_tuple_ok (placed_key b) (placed_value ip)"
    using assms written by (auto simp: zgs_tuple_ok_def placed_key_def placed_value_def length_bytes_hex port_digits lit_def)
qed

lemma placed_newcomer:
  assumes "bytes_hex (replicate 16 b) \<noteq> bytes_hex (replicate 16 c)"
  shows "newcomer_to placed_env (bytes_hex (replicate 16 b)) (placed_key b) (placed_node c ip)"
proof -
  have "bytes_hex (replicate 16 b) \<noteq> lit ''02''"
    by (rule notI, drule arg_cong [where f = length]) (simp add: length_bytes_hex lit_def)
  then show ?thesis
    using assms by (simp add: newcomer_to_def placed_node_def placed_env_def example_node_def example_cfg_def)
qed

lemma gossip_introduces_witness:
  "\<exists>w s1 hello H1 frames w' r t2 p r' s2 q.
      thenDo (publish_own_tuple placed_env (placed_key 1) [] 0) (gossip_announce placed_env 5) (placed_node 1 ''10.0.0.1'') =
        (Inr (), s1)
    \<and> sends_of 5 (w_hist s1) = sends_of 5 (w_hist (placed_node 1 ''10.0.0.1'')) @ [[hello], [w]]
    \<and> for_each (hub_handle_message calm 100) [[[9], hello], [[9], w]] placed_hub = (Inr (), H1)
    \<and> sends_of 0 (w_hist H1) = sends_of 0 (w_hist placed_hub) @ frames \<and> [[7], w] \<in> set frames \<and> [[9], w'] \<in> set frames
    \<and> gossip_client_message placed_env 3 w (placed_node 7 ''10.0.0.7'') = (r, t2)
    \<and> n_peers t2 = n_peers (placed_node 7 ''10.0.0.7'') @ [(c_peer_id_hex (n_cfg (placed_node 1 ''10.0.0.1'')), p)]
    \<and> p_addr (n_heap t2 p) = lit ''10.0.0.1'' \<and> p_port (n_heap t2 p) = n_inbox_port (placed_node 1 ''10.0.0.1'')
    \<and> gossip_client_message placed_env 5 w' (placed_node 1 ''10.0.0.1'') = (r', s2)
    \<and> n_peers s2 = n_peers (placed_node 1 ''10.0.0.1'') @ [(c_peer_id_hex (n_cfg (placed_node 7 ''10.0.0.7'')), q)]
    \<and> p_addr (n_heap s2 q) = lit ''10.0.0.7'' \<and> p_port (n_heap s2 q) = n_inbox_port (placed_node 7 ''10.0.0.7'')"
proof -
  let ?a = "placed_node 1 ''10.0.0.1''" and ?b = "placed_node 7 ''10.0.0.7''"
  have ids: "c_peer_id_hex (n_cfg (placed_node b ip)) = bytes_hex (replicate 16 b)" for b ip by (simp add: placed_node_def)
  have differ: "bytes_hex (replicate 16 1) \<noteq> bytes_hex (replicate 16 7)"
    by (rule notI, drule bytes_hex_inj) simp
  have fit: "digits_fit (e_rt placed_env) (n_inbox_port (placed_node b ip))" for b ip
  proof -
    have "show_int 49152 = show_nat 49152" by (simp add: show_int_def)
    with port_digits have "length (show_nat 49152) \<le> 4300" by simp
    then show ?thesis by (simp add: digits_fit_def placed_env_def placed_node_def plain_rt_def)
  qed
  have "bdec (placed_key b) = bytes_hex (replicate 16 b)" for b
    by (simp add: bdec_def placed_key_def utf8_decode_replace_ascii ascii_bytes_hex)
  with differ have placed_key_differ: "placed_key 7 \<noteq> placed_key 1" by metis
  obtain w where w: "zgs_publish (placed_key 1) (placed_value ''10.0.0.1'') 0 = Inr w"
    using placed_tuple(2) [of "''10.0.0.1''" 1] by (simp add: zgs_publish_bytes)
  have env: "reliable placed_env" by (simp add: reliable_def placed_env_def)
  have announcer: "plain_announcer placed_env ?a (lit ''10.0.0.1'')" "gc_tuples (n_gossip ?a) = []"
    by (simp_all add: plain_announcer_def resolve_interface_ip_def placed_env_def placed_node_def example_node_def
        example_cfg_def lit_def)
  have hub: "h_socket (hs placed_hub) = Some 0" "\<forall>(k, x, e)\<in>set (h_tuples (hs placed_hub)). zgs_tuple_ok k x"
    "hub_table placed_hub (placed_key 1) \<noteq> Some (placed_value ''10.0.0.1'')" "[7] \<in> set (h_clients (hs placed_hub))"
    "(placed_key 7, placed_value ''10.0.0.7'', 0) \<in> set (h_tuples (hs placed_hub))"
    using placed_tuple(2) [of "''10.0.0.7''" 7] placed_key_differ
    by (simp_all add: placed_hub_def hub_table_def hub_example_def)
  have new: "newcomer_to placed_env (c_peer_id_hex (n_cfg ?a)) (placed_key 1) ?b"
    "newcomer_to placed_env (c_peer_id_hex (n_cfg ?b)) (placed_key 7) ?a"
    unfolding ids using differ by (metis placed_newcomer)+
  have tuples: "tuple_of ?a (lit ''10.0.0.1'') (placed_key 1) (placed_value ''10.0.0.1'')"
    "tuple_of ?b (lit ''10.0.0.7'') (placed_key 7) (placed_value ''10.0.0.7'')"
    by (simp_all add: placed_tuple)
  show ?thesis
    by (rule exI [of _ w], rule gossip_introduces [OF env announcer tuples(1) w hub tuples(2) new(1) fit new(2) fit])
qed

end
