(* ===== verification/Zre_Mirror.thy ===== *)
theory Zre_Mirror
  imports Zre_Run
begin

section \<open>The events tell the whole story\<close>

text \<open>
  An application that only folds the events it receives into a table has the same picture of the
  network as the node: the relation \<open>agrees\<close> between that table and the roster, the invariant \<open>told\<close>
  that the events still queued complete it, and the handlers, one by one, keep it.
\<close>

subsection \<open>Folding events\<close>

text \<open>What the application knows: the peers that entered, and the names of the groups each joined.\<close>

type_synonym view = "pystr \<Rightarrow> pystr set option"

definition known_groups :: "view \<Rightarrow> pystr \<Rightarrow> pystr set" where
  "known_groups V k = (case V k of None \<Rightarrow> {} | Some W \<Rightarrow> W)"

fun see :: "event \<Rightarrow> view \<Rightarrow> view" where
  "see (EvEnter k _ _) V = V(k := Some (known_groups V k))"
| "see (EvExit k _) V = V(k := None)"
| "see (EvJoin k _ g) V = V(k := Some (insert g (known_groups V k)))"
| "see (EvLeave k _ g) V = V(k := map_option (\<lambda>W. W - {g}) (V k))"
| "see _ V = V"

lemma see_neutral: "neutral e \<Longrightarrow> see e V = V"
  by (cases e) simp_all

text \<open>
  An event carries a group's name as text, decoded with replacement: a name that no other name decodes
  to is \<open>sole\<close>, for instance every ASCII name.
\<close>

definition sole :: "bytes \<Rightarrow> bool" where
  "sole g \<longleftrightarrow> (\<forall>g'. bdec g' = bdec g \<longrightarrow> g' = g)"

lemma soleD: "sole g \<Longrightarrow> bdec g' = bdec g \<longleftrightarrow> g' = g"
  by (auto simp: sole_def)

definition high_lead :: "nat option list \<Rightarrow> bool" where
  "high_lead xs \<longleftrightarrow> xs \<noteq> [] \<and> (case hd xs of None \<Rightarrow> True | Some c \<Rightarrow> 128 \<le> c)"

lemma high_lead_simps: "high_lead (None # xs)" "high_lead (Some c # xs) \<longleftrightarrow> 128 \<le> c"
  by (simp_all add: high_lead_def)

lemma second_low: "second_ok b1 b2 \<Longrightarrow> 128 \<le> b2 \<and> (b1 = 224 \<longrightarrow> 160 \<le> b2) \<and> (b1 = 240 \<longrightarrow> 144 \<le> b2)"
  by (auto simp: second_ok_def is_cont_def split: if_splits)

lemma scan_lead:
  assumes "\<not> b < 128"
  shows "high_lead (utf8_scan (b # bs))"
  apply (subst utf8_scan.simps)
  using assms
  apply (simp only: if_False Let_def)
  by (auto simp: high_lead_simps Let_def split: list.split dest: second_low)

lemma ascii_scan_inj:
  assumes "map (\<lambda>c. case c of None \<Rightarrow> 65533 | Some c \<Rightarrow> c) (utf8_scan bs) = cs" and "list_all (\<lambda>c. c < 128) cs"
  shows "bs = cs"
  using assms
proof (induction cs arbitrary: bs)
  case Nil
  then show ?case
  proof (cases bs)
    case (Cons b bs')
    with Nil show ?thesis using scan_lead [of b bs'] by (cases "b < 128") (simp_all add: high_lead_def)
  qed simp
next
  case (Cons c cs)
  then obtain b bs' where bs: "bs = b # bs'" by (cases bs) simp_all
  have "b < 128"
  proof (rule ccontr)
    assume "\<not> b < 128"
    from scan_lead [OF this, of bs'] Cons.prems bs show False
      by (cases "utf8_scan (b # bs')") (auto simp: high_lead_def simp del: utf8_scan.simps split: option.splits)
  qed
  with Cons bs show ?case by simp
qed

lemma sole_ascii:
  assumes "list_all (\<lambda>b. b < 128) g"
  shows "sole g"
  unfolding sole_def
proof (intro allI impI)
  fix g' assume same: "bdec g' = bdec g"
  have small: "list_all (\<lambda>c. c < 128) (map unat g)"
    using assms by (auto simp: list_all_iff word_less_nat_alt)
  have "utf8_scan bs = map Some bs" if "list_all (\<lambda>c. c < 128) bs" for bs
    using that by (induction bs) simp_all
  from this [OF small] have "bdec g = map unat g"
    by (simp add: bdec_def utf8_decode_replace_def)
  with ascii_scan_inj [OF _ small, of "map unat g'"] same have "map unat g' = map unat g"
    by (simp add: bdec_def utf8_decode_replace_def)
  then show "g' = g" by (metis inj_map_eq_map inj_unsigned)
qed

subsection \<open>Agreement\<close>

text \<open>
  The application knows a peer only while the node lists it; its groups are groups of the peer, and
  every group of the peer with a sole name is among them. A peer that has not entered is in no group.
\<close>

fun fits :: "bytes set option \<Rightarrow> pystr set option \<Rightarrow> bool" where
  "fits None w \<longleftrightarrow> w = None"
| "fits (Some G) None \<longleftrightarrow> G = {}"
| "fits (Some G) (Some W) \<longleftrightarrow> W \<subseteq> bdec ` G \<and> (\<forall>g \<in> G. sole g \<longrightarrow> bdec g \<in> W)"

definition agrees :: "view \<Rightarrow> rosters \<Rightarrow> bool" where
  "agrees V R \<longleftrightarrow> (\<forall>k. fits (R k) (V k))"

lemma agrees_known: "agrees V R \<Longrightarrow> R k = Some G \<Longrightarrow> fits (Some G) (Some (known_groups V k))"
  by (drule agrees_def [THEN iffD1, THEN spec, of _ _ k])
    (auto simp: known_groups_def split: option.splits)

text \<open>Agreement after a change of the entry of one peer on both sides.\<close>

lemma agrees_point: "agrees V R \<Longrightarrow> fits G W \<Longrightarrow> agrees (V(k := W)) (R(k := G))"
  by (simp add: agrees_def)

lemma agrees_admit: "agrees V R \<Longrightarrow> R k = None \<Longrightarrow> agrees V (R(k := Some {}))"
  unfolding agrees_def by (metis fits.simps(1,2) fun_upd_apply)

lemma agrees_exit: "agrees V R \<Longrightarrow> agrees (see (EvExit k n) V) (R(k := None))"
  by (simp add: agrees_point)

lemma fits_insert: "fits (Some G) (Some W) \<Longrightarrow> fits (Some (insert g G)) (Some (insert (bdec g) W))"
  by auto

lemma fits_remove: "fits (Some G) w \<Longrightarrow> fits (Some (G - {g})) (map_option (\<lambda>W. W - {bdec g}) w)"
  by (cases w) (auto, metis soleD)

lemma agrees_join:
  assumes "agrees V R" and "R k \<noteq> None"
  shows "agrees (see (EvJoin k n (bdec g)) V) (R(k := Some (insert g (the (R k)))))"
proof -
  from assms(2) obtain G where G: "R k = Some G" by blast
  from fits_insert [OF agrees_known [OF assms(1) G]] show ?thesis
    by (simp only: G see.simps option.sel agrees_point [OF assms(1)])
qed

lemma agrees_leave:
  assumes "agrees V R" and "R k \<noteq> None"
  shows "agrees (see (EvLeave k n (bdec g)) V) (R(k := Some (the (R k) - {g})))"
proof -
  from assms obtain G where G: "R k = Some G" "fits (Some G) (V k)"
    by (metis agrees_def not_None_eq)
  from fits_remove [OF G(2)] show ?thesis
    by (simp only: G(1) see.simps option.sel agrees_point [OF assms(1)])
qed

text \<open>The events of a HELLO: ENTER, then a JOIN for each group.\<close>

lemma agrees_enter:
  assumes "agrees V R" and "R k = Some G"
  shows "agrees (fold see (EvEnter k n ep # map (\<lambda>g. EvJoin k n (bdec g)) gs) V) (R(k := Some (G \<union> set gs)))"
proof -
  have joins: "fold see (map (\<lambda>g. EvJoin k n (bdec g)) gs) (V(k := Some W)) = V(k := Some (W \<union> bdec ` set gs))"
    for W V
    by (induction gs arbitrary: W V) (simp_all add: known_groups_def insert_commute Un_assoc)
  have "fits (Some (G \<union> set gs)) (Some (known_groups V k \<union> bdec ` set gs))"
    using agrees_known [OF assms] by auto
  then show ?thesis
    by (simp only: fold_Cons comp_apply see.simps joins agrees_point [OF assms(1)])
qed

subsection \<open>The invariant\<close>

text \<open>
  \<open>logs V W s\<close>: after the queued events, an application that knew \<open>V\<close> knows \<open>W\<close>, unless the queue is full
  and may have lost an event. \<open>told V s\<close>: then it agrees with the node.
\<close>

definition logs :: "view \<Rightarrow> view \<Rightarrow> node \<Rightarrow> bool" where
  "logs V W s \<longleftrightarrow> (length (n_events s) < EVENT_QUEUE_SIZE \<longrightarrow> fold see (n_events s) V = W)"

definition told :: "view \<Rightarrow> node \<Rightarrow> bool" where
  "told V s \<longleftrightarrow> orderly s \<and> (\<exists>W. logs V W s \<and> agrees W (roster s))"

lemma logs_post:
  "logs V W s \<Longrightarrow> logs V (see e W) (s\<lparr>n_events := push_event e (n_events s)\<rparr>)"
  by (auto simp: logs_def push_event_def)

interpretation logging: bystander "logs V W" for V W
proof
  show "logs V W s \<Longrightarrow> outside s' = outside s \<Longrightarrow> logs V W s'" for s s'
    by (simp add: logs_def outside_eq)
  show "neutral e \<Longrightarrow> logs V W s \<Longrightarrow> logs V W (s\<lparr>n_events := push_event e (n_events s)\<rparr>)" for e s
    using logs_post [of V W s e] by (simp add: see_neutral)
qed

text \<open>A program that reports nothing may still admit a peer.\<close>

lemma told_silent:
  assumes "\<And>P Q R. leads P Q R m (Rs R)" and "\<And>W. keeps (logs V W) m"
    and "\<And>R. Rs R \<subseteq> admitted R k"
  shows "keeps (told V) m"
proof (rule keepsI)
  fix s assume "told V s"
  then obtain W where s: "orderly s" "logs V W s" "agrees W (roster s)" by (auto simp: told_def)
  from leads_roster [where Rs = Rs, OF assms(1) s(1)] assms(3)
  have "roster (snd (m s)) \<in> admitted (roster s) k" and "orderly (snd (m s))" by blast+
  moreover from this(1) agrees_admit [OF s(3), of k] s(3) have "agrees W (roster (snd (m s)))"
    by (auto simp: admitted_def split: if_splits)
  moreover have "logs V W (snd (m s))" using assms(2) s(2) by (simp add: keeps_def)
  ultimately show "told V (snd (m s))" by (auto simp: told_def)
qed

text \<open>A node with given tables and a given log, and the programs that end with the application told.\<close>

definition mid where
  "mid V W P Q R s \<longleftrightarrow> talk {} P Q R s \<and> logs V W s"

lemma mid_keeps: "keeps (talk {} P Q R) m \<Longrightarrow> keeps (logs V W) m \<Longrightarrow> keeps (mid V W P Q R) m"
  by (simp add: keeps_def mid_def)

interpretation mid: session "mid V W P Q R" for V W P Q R
proof
  show "core s' = core s \<Longrightarrow> mid V W P Q R s \<Longrightarrow> mid V W P Q R s'" for s s' :: node
    using talking.bookkeeping [of s' s] logging.bookkeeping [of s' s] by (simp add: mid_def)
  show "neutral e \<Longrightarrow> mid V W P Q R s \<Longrightarrow> mid V W P Q R (s\<lparr>n_events := push_event e (n_events s)\<rparr>)" for e s
    by (simp add: mid_def talk_events logging.posted)
  show "(\<And>p. calmer p (f p)) \<Longrightarrow> mid V W P Q R s \<Longrightarrow> mid V W P Q R (set_peer a f s)" for f a s
    using talking.peer [of f] logging.peer [of f] by (simp add: mid_def)
  show "mid V W P Q R s \<Longrightarrow> mid V W P Q R (set_peer a (\<lambda>p. p\<lparr>p_expired_at := t\<rparr>) s)" for a t s
    by (simp add: mid_def talking.heard logging.heard)
  show "(\<And>G. g_peers (h G) = g_peers G) \<Longrightarrow> keeps (mid V W P Q R) (upd_group g h)" for g h
    by (intro mid_keeps talking.election logging.election)
  show "keeps (mid V W P Q R) (require_group g)" for g
    by (intro mid_keeps talking.require logging.require)
qed

lemma mid_told: "mid V W P Q R s \<Longrightarrow> agrees W R \<Longrightarrow> told V s"
  by (auto simp: mid_def told_def orderly_talk talk_def)

lemma told_mid:
  assumes "told V s"
  obtains W where "mid V W (n_peers s) (n_pending s) (roster s) s" "agrees W (roster s)"
  using assms by (auto simp: told_def mid_def orderly_talk)

definition tells where
  "tells V W P Q R m \<longleftrightarrow> (\<forall>s. mid V W P Q R s \<longrightarrow> told V (snd (m s)))"

lemma told_tells: "(\<And>W P Q R. agrees W R \<Longrightarrow> tells V W P Q R m) \<Longrightarrow> keeps (told V) m"
  by (rule keepsI) (auto simp: tells_def elim: told_mid)

lemma tells_kept: "agrees W R \<Longrightarrow> keeps (mid V W P Q R) m \<Longrightarrow> tells V W P Q R m"
  unfolding tells_def keeps_def using mid_told by blast

lemma tells_andThen:
  assumes "agrees W R" and m: "keeps (mid V W P Q R) m" and k: "\<And>x. tells V W P Q R (k x)"
  shows "tells V W P Q R (andThen m k)"
  unfolding tells_def
proof (intro allI impI)
  fix s assume s: "mid V W P Q R s"
  obtain r s' where run: "m s = (r, s')" by fastforce
  from keepsD [OF m s run] have "mid V W P Q R s'" .
  with k mid_told [OF this assms(1)] show "told V (snd (andThen m k s))"
    by (cases r) (simp_all add: run_andThen run tells_def)
qed

lemma tells_thenDo:
  "agrees W R \<Longrightarrow> keeps (mid V W P Q R) m \<Longrightarrow> tells V W P Q R k \<Longrightarrow> tells V W P Q R (thenDo m k)"
  unfolding thenDo_def by (rule tells_andThen)

lemma tells_gets:
  "(\<And>s. mid V W P Q R s \<Longrightarrow> tells V W P Q R (k (f s))) \<Longrightarrow> tells V W P Q R (andThen (gets f) k)"
  "(\<And>s. mid V W P Q R s \<Longrightarrow> tells V W P Q R (h (n_heap s a))) \<Longrightarrow> tells V W P Q R (andThen (deref a) h)"
  by (simp_all add: tells_def deref_def)

text \<open>Before a report, the application may be behind; it is told by the report.\<close>

lemma tells_quiet_then:
  assumes "never_raises m" and m: "keeps (mid V W P Q R) m" and k: "tells V W P Q R k"
  shows "tells V W P Q R (thenDo m k)"
  unfolding tells_def
proof (intro allI impI)
  fix s assume s: "mid V W P Q R s"
  obtain x s' where run: "m s = (Inr x, s')" using assms(1) unfolding never_raises_def by blast
  from keepsD [OF m s run] k show "told V (snd (thenDo m k s))"
    by (simp add: run_thenDo run tells_def)
qed

lemma tells_emit:
  "tells V (see e W) P Q R k \<Longrightarrow> tells V W P Q R (thenDo (emit e) k)"
  by (simp add: tells_def emit_def mid_def talk_events logs_post)

lemma tells_emits:
  "tells V (fold see (map f xs) W) P Q R k \<Longrightarrow> tells V W P Q R (thenDo (for_each (\<lambda>x. emit (f x)) xs) k)"
proof (induction xs arbitrary: W)
  case Nil
  then show ?case by (simp add: tells_def run_thenDo)
next
  case (Cons x xs)
  have "thenDo (for_each (\<lambda>x. emit (f x)) (x # xs)) k =
      thenDo (emit (f x)) (thenDo (for_each (\<lambda>x. emit (f x)) xs) k)"
    by (simp add: fun_eq_iff run_thenDo split: prod.split sum.split)
  then show ?case using Cons by (simp add: tells_emit)
qed

lemma tells_step:
  assumes "\<And>s. mid V W P Q R s \<Longrightarrow> \<exists>s'. m s = k s' \<and> mid V W P' Q' R' s'" and "tells V W P' Q' R' k"
  shows "tells V W P Q R m"
  unfolding tells_def
proof (intro allI impI)
  fix s assume "mid V W P Q R s"
  from assms(1) [OF this] obtain s' where "m s = k s'" "mid V W P' Q' R' s'" by blast
  with assms(2) show "told V (snd (m s))" by (simp add: tells_def)
qed

lemma tells_via: "m s = k s' \<Longrightarrow> tells V W P Q R k \<Longrightarrow> mid V W P Q R s' \<Longrightarrow> told V (snd (m s))"
  by (simp add: tells_def)

subsection \<open>Departures\<close>

lemma cleared_events: "n_events (cleared E k a s) = n_events s"
  by (simp add: cleared_def Let_def run_peer_disconnect set_peer_def split: option.split)

lemma mid_cleared:
  assumes "mid V W P Q R s" and "dict_get P k = Some a"
  shows "mid V W (dict_pop k P) Q (R(k := None)) (cleared E k a s)"
  using assms talk_cleared [OF _ assms(2)] by (simp add: mid_def logs_def cleared_events)

lemma tells_farewell:
  assumes "agrees W R"
  shows "tells V W P Q (R(k := None)) (farewell E k n gs)"
  unfolding farewell_def
proof (rule tells_quiet_then)
  show "tells V W P Q (R(k := None)) (thenDo (emit (EvExit k n)) (for_each (restart_election_if_needed E) gs))"
    by (intro tells_emit tells_kept agrees_exit assms keeps_rules session_rules)
qed (simp add: never_raises_def, intro session_rules)

lemma remove_peer_told:
  assumes "mid V W P Q R s" and "agrees W R" and "dict_get P k = Some a"
  shows "told V (snd (remove_peer E a s))"
proof -
  from assms(1) have "talk {} P Q R s" by (simp add: mid_def)
  from run_remove_peer [OF this assms(3)] show ?thesis
    by (rule tells_via [OF _ tells_farewell [OF assms(2)] mid_cleared [OF assms(1,3)]])
qed

lemma beacon_exit_told: "keeps (told V) (beacon_exit E k)"
proof (rule told_tells)
  fix W P Q R assume W: "agrees W R"
  show "tells V W P Q R (beacon_exit E k)"
    unfolding tells_def
  proof (intro allI impI)
    fix s assume s: "mid V W P Q R s"
    then have t: "talk {} P Q R s" by (simp add: mid_def)
    show "told V (snd (beacon_exit E k s))"
    proof (cases "dict_get P k")
      case None
      with mid_told [OF s W] show ?thesis by (simp add: run_beacon_exit [OF t])
    next
      case (Some a)
      then have "beacon_exit E k s = remove_peer E a s"
        by (simp add: run_beacon_exit [OF t] run_remove_peer [OF t])
      with remove_peer_told [OF s W Some] show ?thesis by simp
    qed
  qed
qed

subsection \<open>Joining and leaving\<close>

lemma require_events: "n_events (snd (require_group g s)) = n_events s"
  using outside_groups(2) [of g s] by (simp add: outside_eq)

lemma tells_on_join:
  assumes k: "dict_get P k = Some a" "R k \<noteq> None" and W: "agrees W R"
  shows "tells V W P Q R (on_join E k a g)"
  unfolding on_join_def
proof (rule tells_step)
  fix s assume s: "mid V W P Q R s"
  let ?s = "snd (require_group g s)"
  have "talk {} P Q R ?s" using talking.require s by (simp add: keeps_def mid_def)
  from talk_joined [OF this k(1)] run_require(2) [of g s]
  have "talk {} P Q (R(k := Some (insert g (the (R k))))) (joined a g ?s)" by simp
  with s have "mid V W P Q (R(k := Some (insert g (the (R k))))) (joined a g ?s)"
    by (simp add: mid_def logs_def joined_def Let_def require_events)
  then show "\<exists>s'. thenDo (upd_peer a (\<lambda>p. p\<lparr>p_groups := insert_last g (p_groups p)\<rparr>))
      (thenDo (andThen (require_group g) (\<lambda>_. group_join g a)) (andThen (deref a) (\<lambda>p.
        thenDo (emit (EvJoin k (pname p) (bdec g))) (start_election E g)))) s =
    andThen (deref a) (\<lambda>p. thenDo (emit (EvJoin k (pname p) (bdec g))) (start_election E g)) s' \<and>
    mid V W P Q (R(k := Some (insert g (the (R k))))) s'"
    by (intro exI [of _ "joined a g ?s"] conjI) (rule run_join_start)
qed (intro tells_gets tells_emit tells_kept agrees_join W k(2) session_rules)

lemma tells_on_leave:
  assumes k: "dict_get P k = Some a" "R k \<noteq> None" and W: "agrees W R"
  shows "tells V W P Q R (on_leave E k a g)"
  unfolding on_leave_def
proof (rule tells_step)
  fix s assume s: "mid V W P Q R s"
  from s talk_left [OF _ k(1), of "{}" Q R s g] have "mid V W P Q (R(k := Some (the (R k) - {g}))) (left a g s)"
    by (simp add: mid_def logs_def left_def Let_def)
  then show "\<exists>s'. thenDo (upd_peer a (\<lambda>p. p\<lparr>p_groups := removeAll g (p_groups p)\<rparr>))
      (thenDo (group_leave g a) (andThen (deref a) (\<lambda>p.
        thenDo (emit (EvLeave k (pname p) (bdec g))) (restart_election_if_needed E g)))) s =
    andThen (deref a) (\<lambda>p. thenDo (emit (EvLeave k (pname p) (bdec g))) (restart_election_if_needed E g)) s' \<and>
    mid V W P Q (R(k := Some (the (R k) - {g}))) s'"
    by (intro exI [of _ "left a g s"] conjI) (rule run_leave_start)
qed (intro tells_gets tells_emit tells_kept agrees_leave W k(2) session_rules)

subsection \<open>HELLO\<close>

lemma mid_joins:
  assumes "mid V W P Q R s" and "dict_get P k = Some a"
  shows "\<exists>s'. for_each (hello_join a) gs s = (Inr (), s') \<and> mid V W P Q (R(k := Some (the (R k) \<union> set gs))) s'"
proof -
  from assms have t: "talk {} P Q R s" and l: "logs V W s" by (simp_all add: mid_def)
  from run_hello_joins [OF t assms(2), of gs] obtain s' where
    s': "for_each (hello_join a) gs s = (Inr (), s')" "talk {} P Q (R(k := Some (the (R k) \<union> set gs))) s'" by blast
  have "keeps (logs V W) (for_each (hello_join a) gs)" by (intro keeps_rules session_rules)
  from keepsD [OF this l s'(1)] s' show ?thesis by (auto simp: mid_def)
qed

lemma tells_hello_enter:
  assumes k: "dict_get P k = Some a" "R k = Some G" and W: "agrees W R"
  shows "tells V W P Q R (hello_enter E k extra a reply ep)"
proof -
  let ?gs = "case f_groups extra of Some gs \<Rightarrow> gs | None \<Rightarrow> []"
  let ?R = "R(k := Some (the (R k) \<union> set ?gs))"
  let ?rest = "andThen (deref a) (\<lambda>p.
        thenDo (emit (EvEnter k (pname p) ep))
        (thenDo (for_each (\<lambda>g. emit (EvJoin k (pname p) (bdec g))) ?gs)
          (for_each (start_election E) ?gs)))"
  have told: "agrees (fold see (map (\<lambda>g. EvJoin k n (bdec g)) ?gs) (see (EvEnter k n ep) W)) ?R" for n
    using agrees_enter [OF W k(2), of n ep ?gs] k(2) by simp
  have rest: "tells V W P Q ?R ?rest"
    by (intro tells_gets tells_emit tells_emits tells_kept told keeps_rules session_rules)
  have joins: "tells V W P Q R (thenDo (for_each (hello_join a) ?gs) ?rest)"
  proof (rule tells_step [OF _ rest])
    fix s assume "mid V W P Q R s"
    from mid_joins [OF this k(1), of ?gs] obtain s' where
      "for_each (hello_join a) ?gs s = (Inr (), s')" "mid V W P Q ?R s'" by blast
    then show "\<exists>s'. thenDo (for_each (hello_join a) ?gs) ?rest s = ?rest s' \<and> mid V W P Q ?R s'"
      by (intro exI [of _ s']) (simp add: run_thenDo [of "for_each (hello_join a) _"])
  qed
  show ?thesis
    unfolding hello_enter_def Let_def
    by (intro tells_thenDo [OF W mid.peer_fields_kept(4)] tells_thenDo [OF W _ joins] keeps_rules session_rules)
qed

subsection \<open>Connections\<close>

lemma told_laws:
  assumes "\<And>W P Q R. mid V W P Q R s \<Longrightarrow> mid V W P Q R s'" and "told V s"
  shows "told V s'"
proof -
  from assms(2) obtain W where W: "mid V W (n_peers s) (n_pending s) (roster s) s" "agrees W (roster s)"
    by (rule told_mid)
  from assms(1) [OF W(1)] W(2) show ?thesis by (rule mid_told)
qed

interpretation telling: session "told V" for V
proof
  show "core s' = core s \<Longrightarrow> told V s \<Longrightarrow> told V s'" for s s' :: node
    by (rule told_laws [OF mid.bookkeeping])
  show "neutral e \<Longrightarrow> told V s \<Longrightarrow> told V (s\<lparr>n_events := push_event e (n_events s)\<rparr>)" for e s
    by (rule told_laws [OF mid.events])
  show "(\<And>p. calmer p (f p)) \<Longrightarrow> told V s \<Longrightarrow> told V (set_peer a f s)" for f a s
    by (rule told_laws [OF mid.peer])
  show "told V s \<Longrightarrow> told V (set_peer a (\<lambda>p. p\<lparr>p_expired_at := t\<rparr>) s)" for a t s
    by (rule told_laws [OF mid.heard])
  show "(\<And>G. g_peers (h G) = g_peers G) \<Longrightarrow> keeps (told V) (upd_group g h)" for g h
    by (intro told_tells tells_kept mid.election)
  show "keeps (told V) (require_group g)" for g
    by (intro told_tells tells_kept mid.require)
qed

lemma tells_connect_known:
  assumes W: "agrees W R" and fresh: "dict_get P k = None" and none: "tells V W P Q R (f None)"
    and some: "\<And>P' Q' a b. dict_get P' k = Some a \<Longrightarrow> tells V W P' Q' (R(k := Some {})) (f (Some (a, b)))"
  shows "tells V W P Q R (andThen (connect_known E k addr port now) f)"
  unfolding tells_def
proof (intro allI impI)
  fix s assume s: "mid V W P Q R s"
  then have t: "talk {} P Q R s" by (simp add: mid_def)
  from run_connect_known [OF t fresh, of E addr port now] obtain r s' where
      run: "connect_known E k addr port now s = (Inr r, s')"
    and r: "case r of None \<Rightarrow> talk {} P Q R s'
       | Some (a, _) \<Rightarrow> \<exists>P' Q'. talk {} P' Q' (R(k := Some {})) s' \<and> dict_get P' k = Some a"
    by blast
  note then_run = andThen_Inr [where m = "connect_known E k addr port now", OF run]
  have l: "logs V W s'"
    using keepsD [OF logging.connect_known_kept _ run] s by (simp add: mid_def)
  show "told V (snd (andThen (connect_known E k addr port now) f s))"
  proof (cases r)
    case None
    with r l none show ?thesis by (simp add: then_run tells_def mid_def)
  next
    case (Some ab)
    obtain a b where ab: "ab = (a, b)" by fastforce
    with Some r obtain P' Q' where "talk {} P' Q' (R(k := Some {})) s'" and a: "dict_get P' k = Some a" by auto
    with l have "mid V W P' Q' (R(k := Some {})) s'" by (simp add: mid_def)
    with some [OF a, of Q' b] Some ab show ?thesis by (simp add: then_run tells_def)
  qed
qed

lemma mid_none: "mid V W P Q R s \<Longrightarrow> R k = None \<longleftrightarrow> dict_get P k = None"
  by (auto simp: mid_def roster_none)

lemma mid_peers: "mid V W P Q R s \<Longrightarrow> n_peers s = P"
  by (auto simp: mid_def talk_def)

lemma mid_at: "mid V W P Q R s \<Longrightarrow> dict_get P k = Some a \<Longrightarrow> R k \<noteq> None"
  using mid_none [of V W P Q R s k] by simp

lemma tells_hello_after:
  assumes W: "agrees W R" and s: "mid V W P Q R s" and fresh: "dict_get P k = None"
  shows "tells V W P Q R (andThen (connect_known E k addr port now) (\<lambda>made.
      case made of None \<Rightarrow> ret () | Some (a, _) \<Rightarrow> send_hello E a))"
proof (rule tells_connect_known [OF W fresh])
  have "agrees W (R(k := Some {}))" using agrees_admit [OF W] mid_none [OF s] fresh by simp
  then show "tells V W P' Q' (R(k := Some {}))
      (case Some (a, b) of None \<Rightarrow> ret () | Some (a, _) \<Rightarrow> send_hello E a)" for P' Q' a b
    by (auto intro: tells_kept mid.send_hello_kept)
qed (auto intro: tells_kept [OF W] keeps_ret)

lemma handlers_told [session_rules]:
  "keeps (told V) (do_connect E host port)" "keeps (told V) (gossip_require E uuid endpoint now)"
  by (rule told_silent [OF leads_do_connect logging.do_connect_kept], simp)
    (rule told_silent [where Rs = "\<lambda>R. admitted R (str_lower (e_rt E) uuid)",
        OF leads_gossip_require logging.gossip_require_kept], rule subset_refl)

lemma handle_beacon_told [session_rules]: "keeps (told V) (handle_beacon E data ip)"
proof -
  let ?id = "bytes_hex (slice 4 20 data)"
  have "keeps (told V) (andThen (gets (\<lambda>s. dict_get (n_peers s) ?id)) (\<lambda>known.
      case known of
        Some a \<Rightarrow> refresh a now
      | None \<Rightarrow> andThen (connect_known E ?id ip port now) (\<lambda>made.
          case made of None \<Rightarrow> ret () | Some (a, _) \<Rightarrow> send_hello E a)))" for now port
  proof (intro told_tells tells_gets(1))
    fix W P Q R s assume W: "agrees W R" and s: "mid V W P Q R s"
    show "tells V W P Q R (case dict_get (n_peers s) ?id of
        Some a \<Rightarrow> refresh a now
      | None \<Rightarrow> andThen (connect_known E ?id ip port now) (\<lambda>made.
          case made of None \<Rightarrow> ret () | Some (a, _) \<Rightarrow> send_hello E a))"
      by (cases "dict_get P ?id")
        (simp_all add: mid_peers [OF s] tells_hello_after [OF W s] tells_kept [OF W mid.timers_kept(1)])
  qed
  note [session_rules] = this beacon_exit_told
  show ?thesis
    unfolding handle_beacon_def Let_def by (intro keeps_rules session_rules)
qed

subsection \<open>Messages\<close>

lemma tells_cases:
  "(b \<Longrightarrow> tells V W P Q R m) \<Longrightarrow> (\<not> b \<Longrightarrow> tells V W P Q R k) \<Longrightarrow> tells V W P Q R (if b then m else k)"
  "(v = None \<Longrightarrow> tells V W P Q R m') \<Longrightarrow> (\<And>x. v = Some x \<Longrightarrow> tells V W P Q R (f x)) \<Longrightarrow>
     tells V W P Q R (case v of None \<Rightarrow> m' | Some x \<Rightarrow> f x)"
  by (auto split: option.split)

lemma tells_end: "agrees W R \<Longrightarrow> tells V W P Q R (ret x)" "agrees W R \<Longrightarrow> tells V W P Q R (throw e)"
  "agrees W R \<Longrightarrow> tells V W P Q R (Pair r)"
  by (auto simp: tells_def intro: mid_told)

lemma hello_new_peer_told:
  assumes W: "agrees W R" and s: "mid V W P Q R s" and fresh: "dict_get P k = None"
  shows "tells V W P Q R (andThen (hello_new_peer E k extra ep now) (\<lambda>made.
      case made of None \<Rightarrow> ret ()
      | Some (a, reply, ep_str) \<Rightarrow> hello_enter E k extra a reply ep_str))"
proof -
  have W': "agrees W (R(k := Some {}))" using agrees_admit [OF W] mid_none [OF s] fresh by simp
  have enter: "tells V W P' Q' (R(k := Some {})) (hello_enter E k extra a reply ep')"
    if "dict_get P' k = Some a" for P' Q' a reply ep'
    by (rule tells_hello_enter [OF that _ W']) simp
  have conn: "tells V W P Q R (andThen (connect_known E k addr port now) (\<lambda>made.
      andThen (case made of None \<Rightarrow> ret None | Some (a, reply) \<Rightarrow> ret (Some (a, reply, ep')))
        (\<lambda>made. case made of None \<Rightarrow> ret ()
         | Some (a, reply, ep_str) \<Rightarrow> hello_enter E k extra a reply ep_str)))" for addr port ep'
    by (rule tells_connect_known [OF W fresh]) (simp_all add: andThen_ret tells_end [OF W] enter)
  have learn: "keeps (mid V W P Q R) (learn_advertised_key E k key)" for key
    unfolding learn_advertised_key_def by (intro keeps_rules session_rules)
  show ?thesis
    unfolding hello_new_peer_def andThen_assoc
  proof (rule tells_thenDo [OF W])
    show "keeps (mid V W P Q R) (case (case f_headers extra of Some h \<Rightarrow> dict_get h PUBLIC_KEY_HEADER | None \<Rightarrow> None) of
        None \<Rightarrow> ret () | Some advertised \<Rightarrow> learn_advertised_key E k (PyBytes advertised))"
      by (intro keeps_rules learn)
  qed (rule tells_andThen [OF W], intro keeps_rules learn,
    simp add: Let_def andThen_assoc andThen_ret tells_end [OF W] conn split: sum.split)
qed

lemma handle_hello_told: "keeps (told V) (handle_hello E k extra found)"
proof (rule told_tells)
  fix W P Q R assume W: "agrees W R"
  have known: "tells V W P Q R (case dict_get (n_peers s) k of
      Some a \<Rightarrow> hello_enter E k extra a False ep
    | None \<Rightarrow> andThen (hello_new_peer E k extra ep now) (\<lambda>made.
        case made of None \<Rightarrow> ret ()
        | Some (a, reply, ep_str) \<Rightarrow> hello_enter E k extra a reply ep_str))"
    if s: "mid V W P Q R s" for s ep now
  proof (cases "dict_get P k")
    case None
    then show ?thesis using hello_new_peer_told [OF W s None] by (simp add: mid_peers [OF s])
  next
    case (Some a)
    with mid_at [OF s] obtain G where "R k = Some G" by blast
    with tells_hello_enter [OF Some _ W] Some show ?thesis by (simp add: mid_peers [OF s])
  qed
  show "tells V W P Q R (handle_hello E k extra found)"
    unfolding handle_hello_def
    by (intro tells_gets tells_cases tells_end W tells_thenDo [OF W] tells_andThen [OF W]
        tells_kept [OF W] known keeps_rules session_rules; simp)
qed

lemma tells_dispatch_command:
  assumes W: "agrees W R" and k: "dict_get P k = Some a" "R k \<noteq> None"
  shows "tells V W P Q R (dispatch_command E k a cmd x parts now)"
proof -
  have remove: "tells V W P Q R (remove_peer E a)"
    using remove_peer_told [OF _ W k(1)] by (simp add: tells_def)
  have talks: "keeps (mid V W P Q R) (andThen (deref a) (\<lambda>p. emit (EvWhisper k (pname p) b)))"
    "keeps (mid V W P Q R) (andThen (deref a) (\<lambda>p. emit (EvShout k (pname p) g b)))"
    "keeps (mid V W P Q R) (andThen (send_cmd E a c None None []) (\<lambda>_. ret ()))"
    "keeps (mid V W P Q R) (handle_elect E a g' ident)" "keeps (mid V W P Q R) (handle_leader E a g' ident)"
    "keeps (mid V W P Q R) (refresh a now)" for b g g' c ident
    by (intro keeps_rules session_rules)+
  note talks = talks [THEN tells_kept [OF W]]
  show ?thesis
    unfolding dispatch_command_def Let_def
    by (auto simp: talks remove tells_end [OF W] tells_on_join [OF k W] tells_on_leave [OF k W] split: option.split)
qed

lemma handle_peer_msg_told [session_rules]: "keeps (told V) (handle_peer_msg E frames)"
proof (cases "\<exists>rid data parts cmd ver q x. frames = rid # data # parts \<and> length rid = 17 \<and> hd rid = 1
    \<and> decode data = Some (cmd, ver, q, x)")
  case False
  then have "handle_peer_msg E frames = ret ()"
    by (fastforce simp: handle_peer_msg_def Let_def split: list.splits option.splits)
  then show ?thesis by (simp add: keeps_def)
next
  case True
  then obtain rid data parts cmd ver q x where f: "frames = rid # data # parts"
      "length rid = 17" "hd rid = 1" "decode data = Some (cmd, ver, q, x)" by blast
  let ?k = "bytes_hex (tl rid)"
  note eqs = handle_peer_msg_eqs [OF f(2-4)]
  show ?thesis
  proof (rule keepsI)
    fix s assume "told V s"
    then obtain W where s: "mid V W (n_peers s) (n_pending s) (roster s) s" and W: "agrees W (roster s)"
      by (rule told_mid)
    let ?tells = "tells V W (n_peers s) (n_pending s) (roster s)"
    have via: "told V (snd (handle_peer_msg E frames s))"
      if "?tells K" "handle_peer_msg E frames s = K s" for K using that s by (simp add: tells_def)
    note clock = tells_andThen [OF W mid.syscalls_kept(7)]
    consider (hello) "cmd = HELLO"
      | (known) a where "cmd \<noteq> HELLO" "dict_get (n_peers s) ?k = Some a" "p_ready (n_heap s a)"
      | (unknown) "cmd \<noteq> HELLO" "\<And>a. dict_get (n_peers s) ?k = Some a \<Longrightarrow> \<not> p_ready (n_heap s a)"
      by blast
    then show "told V (snd (handle_peer_msg E frames s))"
    proof cases
      case hello
      have answer: "?tells (handle_hello E ?k x (dict_get (n_peers s) ?k))"
        using handle_hello_told mid_told [OF _ W] by (auto simp: tells_def keeps_def)
      have restart: "keeps (mid V W (n_peers s) (n_pending s) (roster s)) (case dict_get (n_peers s) ?k of
          Some a \<Rightarrow> upd_peer a (\<lambda>p. p\<lparr>p_want_seq := 1\<rparr>) | None \<Rightarrow> ret ())"
        by (intro keeps_rules session_rules)
      show ?thesis
        by (rule via [OF clock [OF tells_thenDo [OF W restart answer]]])
          (rule eqs(3) [OF hello, of E parts s, folded f(1)])
    next
      case known
      have "?tells (serve_command E ?k a cmd q x parts now)" for now
        unfolding serve_command_def
        by (intro tells_thenDo [OF W] tells_dispatch_command [OF W known(2) mid_at [OF s known(2)]]
            keeps_rules session_rules)
      then show ?thesis by (rule via [OF clock]) (rule eqs(1) [OF known, of E parts, folded f(1)])
    next
      case unknown
      show ?thesis 
        by (rule via [OF clock [OF tells_end(1) [OF W]]])
          (rule eqs(2) [OF unknown, of E parts, folded f(1)])
    qed
  qed
qed

subsection \<open>Reaping\<close>

lemma reap_peer_told:
  assumes "told V s" and "talk {} P Q R s" and "dict_get P k = Some a"
  shows "told V (snd (reap_peer E now a s))"
proof (cases "p_expired_at (n_heap s a) \<noteq> 0 \<and> p_expired_at (n_heap s a) < now")
  case True
  from assms(1) obtain W where W: "mid V W (n_peers s) (n_pending s) (roster s) s" "agrees W (roster s)"
    by (rule told_mid)
  have "n_peers s = P" using assms(2) by (simp add: talk_def)
  with remove_peer_told [OF W] assms(3) True show ?thesis by (simp add: reap_peer_def deref_def)
next
  case False
  then have "reap_peer E now a s = (if p_evasive_at (n_heap s a) \<noteq> 0 \<and> p_evasive_at (n_heap s a) < now
      then probe_quiet_peer E a now else ret ()) s"
    by (auto simp: reap_peer_def deref_def)
  moreover have "keeps (told V) (if p_evasive_at (n_heap s a) \<noteq> 0 \<and> p_evasive_at (n_heap s a) < now
      then probe_quiet_peer E a now else ret ())"
    by (intro keeps_rules session_rules)
  ultimately show ?thesis using assms(1) by (simp only: keeps_def)
qed

lemma reap_peers_told:
  assumes "told V s" and "aged D P Q R s" and "\<And>a. a \<in> set as \<Longrightarrow> a \<in> snd ` set P" and "distinct as"
  shows "told V (snd (for_each (reap_peer E now) as s))"
  using assms
proof (induction as arbitrary: P R s)
  case Nil
  then show ?case by simp
next
  case (Cons a as)
  from Cons.prems(2) have t: "talk {} P Q R s" by (simp add: aged_def)
  from Cons.prems(3) [of a] dict_mem [OF talkD(1) [OF t]] obtain k where k: "dict_get P k = Some a" by auto
  obtain r s' where run: "reap_peer E now a s = (r, s')" by fastforce
  define P1 where "P1 = (if due now (D a) then dict_pop k P else P)"
  have told: "told V s'" using reap_peer_told [OF Cons.prems(1) t k, of E now] run by simp
  have aged: "aged D P1 Q (if due now (D a) then R(k := None) else R) s'"
    using aged_reap_peer [OF Cons.prems(2) k, of now E] by (simp add: run P1_def split: if_splits)
  have P1: "P1 = filter (\<lambda>i. \<not> (snd i = a \<and> due now (D (snd i)))) P"
    using dict_pop_filter [OF Cons.prems(2) k] by (auto simp: P1_def cong: filter_cong)
  have "b \<in> snd ` set P1" if "b \<in> set as" for b
    using Cons.prems(3) [of b] Cons.prems(4) that by (auto simp: P1 image_iff)
  from Cons.IH [OF told aged this] Cons.prems(4) told show ?case
    by (cases r) (simp_all add: run_thenDo run)
qed

text \<open>What leaves the roster and the log alone leaves the application told.\<close>

lemma told_same:
  assumes "told V s" and "orderly s'" "roster s' = roster s" and "\<And>W. logs V W s \<Longrightarrow> logs V W s'"
  shows "told V s'"
  using assms by (auto simp: told_def)

lemma reap_pendings_told: "keeps (told V) (andThen (gets n_pending) (\<lambda>items. for_each (reap_pending now) items))"
proof (rule keepsI)
  fix s assume s: "told V s"
  then have t: "talk {} (n_peers s) (n_pending s) (roster s) s" by (simp add: told_def orderly_talk)
  then have "aged (deadlines s) (n_peers s) (n_pending s) (roster s) s" by (simp add: aged_def)
  from reap_pendings [OF this, of "n_pending s" now] snapshot_peers(2,3) [OF t] obtain s' Q' where
    run: "for_each (reap_pending now) (n_pending s) s = (Inr (), s')" "aged (deadlines s) (n_peers s) Q' (roster s) s'"
    by blast
  have "keeps (logs V W) (for_each (reap_pending now) (n_pending s))" for W by (intro keeps_rules session_rules)
  from keepsD [OF this _ run(1)] run(2) have "told V s'"
    by (intro told_same [OF s]) (auto simp: aged_def orderly_talk talk_def)
  then show "told V (snd (andThen (gets n_pending) (\<lambda>items. for_each (reap_pending now) items) s))"
    by (simp add: run(1))
qed

lemma reap_told [session_rules]: "keeps (told V) (reap E now)"
proof -
  have peers: "keeps (told V) (andThen (gets (\<lambda>s. map snd (n_peers s))) (\<lambda>peers. for_each (reap_peer E now) peers))"
  proof (rule keepsI)
    fix s assume s: "told V s"
    then have t: "talk {} (n_peers s) (n_pending s) (roster s) s" by (simp add: told_def orderly_talk)
    then have "aged (deadlines s) (n_peers s) (n_pending s) (roster s) s" by (simp add: aged_def)
    from reap_peers_told [OF s this _ snapshot_peers(1) [OF t]]
    show "told V (snd (andThen (gets (\<lambda>s. map snd (n_peers s))) (\<lambda>peers. for_each (reap_peer E now) peers) s))"
      by simp
  qed
  note [session_rules] = peers reap_pendings_told
  show ?thesis
    unfolding reap_def gossip_maintain_def gossip_redial_def open_hub_link_def register_hub_link_def
      zmq_send_def gossip_announce_def
    by (intro session_rules keeps_rules)
qed

subsection \<open>A node and its application\<close>

lemma told_modify:
  assumes "\<And>s. tables (f s) = tables s \<and> n_events (f s) = n_events s"
  shows "keeps (told V) (modify f)"
proof (rule keeps_modify)
  fix s assume s: "told V s"
  have "roster (f s) = roster s" by (rule roster_cong) (use assms in \<open>simp_all add: tables_eq\<close>)
  with s assms [of s] orderly_tables [of "f s" s] show "told V (f s)" by (auto simp: told_def logs_def)
qed

lemma run_hub_told [session_rules]: "keeps (told V) (run_hub h m)"
  by (rule telling.quiet) (simp add: core_eq run_hub_def split_beta)

lemma loop_told [session_rules]:
  "keeps (told V) (send_beacon E port)" "keeps (told V) (gossip_announce E sock)"
  "keeps (told V) (serve_hub E now inbound)" "keeps (told V) (gossip_client_message E sock body)"
  unfolding send_beacon_def build_send_sock_def gossip_announce_def zmq_send_def serve_hub_def
    gossip_client_message_def Let_def
  by (intro keeps_rules session_rules)+

lemma api_step_told [session_rules]: "keeps (told V) (api_step E cmd)"
  unfolding api_step_def by (cases cmd) (simp_all only: api_command.case, (intro session_rules)+)

lemma run_iteration_told: "keeps (told V) (run_iteration E polled last_reap)"
proof -
  have "keeps (told V) (serve_socket E now r)" for now r
    unfolding serve_socket_def handle_gossip_client_def
    by (cases r) (simp_all only: ready.case, (intro keeps_rules session_rules)+)
  note [session_rules] = this
  have "keeps (told V) (drain_api E)"
    unfolding drain_api_def by (intro keeps_rules session_rules)
  note [session_rules] = this
  show ?thesis
    unfolding run_iteration_def by (intro keeps_rules session_rules)
qed

lemma start_told: "keeps (told V) (start E)"
  unfolding start_def start_inbox_def start_gossip_def start_hub_def start_hub_link_def start_beacon_def
    publish_own_tuple_def open_hub_link_def register_hub_link_def zmq_send_def Let_def
  by (intro keeps_rules session_rules told_modify; simp add: tables_eq)

lemma calls_told:
  "keeps (told V) (put_api cmd)" "keeps (told V) (connect_peer E host port key)"
  "keeps (told V) (set_contest_in_group g)"
  unfolding put_api_def connect_peer_def set_contest_in_group_def
  by (intro keeps_rules session_rules told_modify; simp add: tables_eq)+

text \<open>
  The application begins knowing nobody and folds each event that \<open>recv\<close> gives it. From a full queue it
  may have missed one, so it goes on only while the queue is not full.
\<close>

inductive watched :: "env \<Rightarrow> config \<Rightarrow> view \<Rightarrow> node \<Rightarrow> bool" for E c where
  opened: "watched E c Map.empty s" if "start E (prepared c contests cmds ks) = (Inr (), s)"
| iterated: "watched E c V (snd (run_iteration E polled last_reap s))" if "watched E c V s" and "n_running s"
| commanded: "watched E c V (snd (put_api cmd s))" if "watched E c V s"
| contacted: "watched E c V (snd (connect_peer E host port key s))" if "watched E c V s"
| contested: "watched E c V (snd (set_contest_in_group g s))" if "watched E c V s"
| received: "watched E c (see e V) s'" if "watched E c V s" and "recv s = (Inr (Some e), s')"
    and "length (n_events s) < EVENT_QUEUE_SIZE"

lemma watched_reachable: "watched E c V s \<Longrightarrow> reachable E c s"
proof (induction rule: watched.induct)
  case (received V s e s')
  from reachable.step [OF received.IH node_step.consume] received.hyps(2) show ?case by simp
qed (auto intro: reachable.intros node_step.intros)

lemma received_told:
  assumes "told V s" and "recv s = (Inr (Some e), s')" and "length (n_events s) < EVENT_QUEUE_SIZE"
  shows "told (see e V) s'"
proof -
  from assms(2) obtain es where es: "n_events s = e # es" "s' = s\<lparr>n_events := es\<rparr>"
    by (auto simp: recv_def split: list.splits)
  have "orderly s' \<longleftrightarrow> orderly s" "roster s' = roster s"
    by (rule orderly_tables roster_cong; simp add: tables_eq es(2))+
  with assms(1,3) show ?thesis by (auto simp: told_def logs_def es)
qed

lemma watched_told: "watched E c V s \<Longrightarrow> told V s"
proof (induction rule: watched.induct)
  case (opened contests cmds ks s)
  have "told Map.empty (prepared c contests cmds ks)"
    using prepared_orderly [of c contests cmds ks] unfolding told_def
    by (intro conjI exI [of _ Map.empty])
      (simp_all add: logs_def agrees_def roster_def prepared_def new_node_state_def)
  from keepsD [OF start_told this opened] show ?case .
next
  case (received V s e s')
  then show ?case by (blast intro: received_told)
qed (simp_all add: calls_told [unfolded keeps_def] run_iteration_told [unfolded keeps_def])

end
