(* ===== verification/Zre_Mirror_Properties.thy ===== *)
theory Zre_Mirror_Properties
  imports Zre_Mirror Zre_Run_Properties
begin

section \<open>Properties of the event stream\<close>

text \<open>
  What an application can conclude from the events alone, without asking the node.
\<close>

text \<open>Starting a node reports nothing and lists nobody.\<close>

lemma send_beacon_silent [session_rules]: "keeps (\<lambda>s. n_events s = es \<and> n_peers s = ps) (send_beacon E port)"
  unfolding send_beacon_def build_send_sock_def Let_def
  by (intro keeps_rules keeps_modify)
    (simp_all add: keeps_def syscall_defs Let_def)

lemma start_silent: "keeps (\<lambda>s. n_events s = es \<and> n_peers s = ps) (start E)"
  unfolding start_def start_inbox_def start_gossip_def start_hub_def start_hub_link_def start_beacon_def
    publish_own_tuple_def open_hub_link_def register_hub_link_def gossip_announce_def zmq_send_def Let_def
  by (intro keeps_rules keeps_modify session_rules)
    (simp_all add: keeps_def syscall_defs Let_def run_hub_def upd_gossip_def split_beta)

lemma demo_start_empty: "n_events demo_start = []" "n_peers demo_start = []"
proof -
  have "n_events (prepared demo_cfg [] [] []) = [] \<and> n_peers (prepared demo_cfg [] [] []) = []"
    by (simp add: prepared_def new_node_state_def)
  from keepsD [OF start_silent this demo_started] show "n_events demo_start = []" "n_peers demo_start = []"
    by simp_all
qed



end
