(* ===== verification/Zre_Delivery_Properties.thy ===== *)
theory Zre_Delivery_Properties
  imports Zre_Election_Properties Zre_Run_Properties
begin

section \<open>From one application to another\<close>

text \<open>
  Two nodes at once: what the application of one asks for, and what the application of the other is
  told. The messages that leave a node are read off its history; a DEALER puts its identity, the byte 1
  and the sender's id, in front of the frames that the other node's ROUTER reads.
\<close>

subsection \<open>Sending to several peers\<close>

definition encodes :: "(int \<Rightarrow> exn + bytes) \<Rightarrow> bool" where
  "encodes enc \<longleftrightarrow> (\<forall>q. 0 \<le> q \<and> q < 256 ^ 2 \<longrightarrow> (\<exists>w. enc q = Inr w))"

text \<open>The messages with one payload, in the encoding \<open>enc\<close>.\<close>

definition frames_of :: "(int \<Rightarrow> exn + bytes) \<Rightarrow> bytes list \<Rightarrow> bytes list set" where
  "frames_of enc parts = {w # parts | w q. 0 \<le> q \<and> q < 256 ^ 2 \<and> enc q = Inr w}"

lemma run_send_reliable:
  assumes "reliable E" and "encodes enc" and "p_connected (n_heap s a)" "p_dealer (n_heap s a) = Some h"
  shows "\<exists>w \<in> frames_of enc parts. send_encoded E a enc parts s = (Inr True, io_log (IoSend h w SendOk) (stamped a s))"
proof -
  let ?q = "uint (p_sent_seq (n_heap s a) + 1)"
  have q: "0 \<le> ?q" "?q < 256 ^ 2" using uint_lt2p [of "p_sent_seq (n_heap s a) + 1"] by simp_all
  with assms(2) obtain w where "enc ?q = Inr w" unfolding encodes_def by blast
  with q assms show ?thesis
    by (intro bexI [of _ "w # parts"]) (auto simp: run_send_encoded reliable_def frames_of_def)
qed

lemma run_sends:
  assumes E: "reliable E" "encodes enc" and "\<And>a. p_connected (n_heap s a) \<Longrightarrow> p_dealer (n_heap s a) \<noteq> None"
  shows "\<exists>s' sent. for_each (\<lambda>a. andThen (deref a) (\<lambda>p. only_if (p_connected p)
        (andThen (send_encoded E a enc parts) (\<lambda>_. ret ())))) as s = (Inr (), s')
    \<and> delivered (w_hist s') = delivered (w_hist s) @ sent
    \<and> map fst sent = map (\<lambda>a. the (p_dealer (n_heap s a))) (filter (\<lambda>a. p_connected (n_heap s a)) as)
    \<and> set (map snd sent) \<subseteq> frames_of enc parts"
  using assms(3)
proof (induction as arbitrary: s)
  case Nil
  then show ?case by (intro exI [of _ s] exI [of _ "[]"]) simp
next
  case (Cons a as)
  show ?case
  proof (cases "p_connected (n_heap s a)")
    case False
    with Cons.IH [OF Cons.prems] show ?thesis by (simp add: run_thenDo run_andThen deref_def)
  next
    case True
    with Cons.prems obtain h where h: "p_dealer (n_heap s a) = Some h" by blast
    from run_send_reliable [OF E True h, of parts] obtain w where
      w: "w \<in> frames_of enc parts" "send_encoded E a enc parts s = (Inr True, io_log (IoSend h w SendOk) (stamped a s))"
      by blast
    let ?s = "io_log (IoSend h w SendOk) (stamped a s)"
    have one: "andThen (deref a) (\<lambda>p. only_if (p_connected p)
        (andThen (send_encoded E a enc parts) (\<lambda>_. ret ()))) s = (Inr (), ?s)"
      using True w(2) by (simp add: run_andThen deref_def)
    have same: "p_connected (n_heap ?s b) = p_connected (n_heap s b)" "p_dealer (n_heap ?s b) = p_dealer (n_heap s b)"
      for b by (simp_all add: io_log_def stamped_def)
    have "delivered (w_hist ?s) = delivered (w_hist s) @ [(h, w)]" by (simp add: io_log_def stamped_def)
    moreover have "\<And>b. p_connected (n_heap ?s b) \<Longrightarrow> p_dealer (n_heap ?s b) \<noteq> None"
      unfolding same by (rule Cons.prems)
    from Cons.IH [OF this] obtain s' sent where rest:
      "for_each (\<lambda>a. andThen (deref a) (\<lambda>p. only_if (p_connected p)
        (andThen (send_encoded E a enc parts) (\<lambda>_. ret ())))) as ?s = (Inr (), s')"
      "delivered (w_hist s') = delivered (w_hist ?s) @ sent"
      "map fst sent = map (\<lambda>a. the (p_dealer (n_heap s a))) (filter (\<lambda>a. p_connected (n_heap s a)) as)"
      "set (map snd sent) \<subseteq> frames_of enc parts"
      unfolding same by blast
    ultimately have "delivered (w_hist s') = delivered (w_hist s) @ (h, w) # sent" by simp
    moreover have loop: "for_each (\<lambda>a. andThen (deref a) (\<lambda>p. only_if (p_connected p)
        (andThen (send_encoded E a enc parts) (\<lambda>_. ret ())))) (a # as) s = (Inr (), s')"
      by (simp only: for_each.simps thenDo_Inr [where m = "andThen (deref a) _", OF one] rest(1))
    ultimately show ?thesis
      using True h w(1) rest(3,4) by (intro exI [of _ s'] exI [of _ "(h, w) # sent"] conjI, intro loop) simp_all
  qed
qed

subsection \<open>Reading a message\<close>

lemma run_message:
  assumes "length i = 16" and "decode data = Some (cmd, ver, q, x)" and "cmd \<noteq> HELLO"
    and "dict_get (n_peers s) (bytes_hex i) = Some a" and "p_ready (n_heap s a)"
  shows "\<exists>t. handle_peer_msg E ((1 # i) # data # parts) s =
      dispatch_command E (bytes_hex i) a cmd x parts (e_time E (w_hist s)) t
    \<and> n_events t = n_events s \<and> pname (n_heap t a) = pname (n_heap s a)"
proof -
  let ?now = "e_time E (w_hist s)" and ?s0 = "io_log (IoTime (e_time E (w_hist s))) s"
  define s1 where "s1 = (if cmd \<in> {WHISPER, SHOUT, JOIN, LEAVE, ELECT, LEADER}
    then ?s0\<lparr>n_evasive_emit_at := dict_pop (bytes_hex i) (n_evasive_emit_at s)\<rparr> else ?s0)"
  have s1: "only_if (cmd \<in> {WHISPER, SHOUT, JOIN, LEAVE, ELECT, LEADER})
      (modify (\<lambda>s. s\<lparr>n_evasive_emit_at := dict_pop (bytes_hex i) (n_evasive_emit_at s)\<rparr>)) ?s0 = (Inr (), s1)"
    by (simp add: only_if_def s1_def io_log_def)
  have same: "n_heap s1 = n_heap s" "n_cfg s1 = n_cfg s" "n_events s1 = n_events s"
    by (simp_all add: s1_def io_log_def)
  let ?s2 = "set_peer a (\<lambda>p. p\<lparr>p_want_seq := int q\<rparr>) s1"
  let ?t = "set_peer a (refresh_peer ?now (c_ev_timeout (n_cfg s)) (c_ex_timeout (n_cfg s))) ?s2"
  have "handle_peer_msg E ((1 # i) # data # parts) s =
      andThen (read_clock E) (serve_command E (bytes_hex i) a cmd q x parts) s"
    using handle_peer_msg_eqs(1) [of "1 # i" data cmd ver q x s a E parts] assms by simp
  also have "\<dots> = serve_command E (bytes_hex i) a cmd q x parts ?now ?s0"
    by (simp only: andThen_Inr [where m = "read_clock E", OF read_clock_run])
  also obtain b where "track_seq a cmd q s1 = (Inr b, ?s2)" using run_track_seq [OF assms(3)] by blast
  then have "serve_command E (bytes_hex i) a cmd q x parts ?now ?s0 =
      dispatch_command E (bytes_hex i) a cmd x parts ?now ?t"
    unfolding serve_command_def thenDo_Inr [where m = "only_if _ _", OF s1]
    by (simp add: run_thenDo run_andThen refresh_def upd_peer_def same)
  finally show ?thesis
    by (intro exI [of _ ?t]) (simp add: same refresh_peer_def pname_def)
qed

text \<open>What a payload message is to the node that reads it.\<close>

lemma payload_posted:
  assumes "length i = 16" and "dict_get (n_peers s) (bytes_hex i) = Some a" and "p_ready (n_heap s a)"
    and "length (n_events s) < EVENT_QUEUE_SIZE"
  shows "frames \<in> frames_of (\<lambda>q. encode_simple SHOUT q (Some g) None) [payload] \<Longrightarrow>
      n_events (snd (handle_peer_msg E ((1 # i) # frames) s)) =
        n_events s @ [EvShout (bytes_hex i) (pname (n_heap s a)) (bdec g) payload]"
    and "frames \<in> frames_of (\<lambda>q. encode_simple WHISPER q None None) [payload] \<Longrightarrow>
      n_events (snd (handle_peer_msg E ((1 # i) # frames) s)) =
        n_events s @ [EvWhisper (bytes_hex i) (pname (n_heap s a)) payload]"
proof -
  assume "frames \<in> frames_of (\<lambda>q. encode_simple SHOUT q (Some g) None) [payload]"
  then obtain w q where f: "frames = [w, payload]" "encode_simple SHOUT q (Some g) None = Inr w"
    by (auto simp: frames_of_def)
  have "SHOUT \<noteq> HELLO" by (simp add: command_defs)
  from run_message [OF assms(1) decode_simple_shout [OF f(2)] this assms(2,3), of E "[payload]"] assms(4)
  show "n_events (snd (handle_peer_msg E ((1 # i) # frames) s)) =
        n_events s @ [EvShout (bytes_hex i) (pname (n_heap s a)) (bdec g) payload]"
    by (auto simp: f(1) dispatch_command_def command_defs deref_def emit_def push_event_def first_frame_def)
next
  assume "frames \<in> frames_of (\<lambda>q. encode_simple WHISPER q None None) [payload]"
  then obtain w q where f: "frames = [w, payload]" "encode_simple WHISPER q None None = Inr w"
    by (auto simp: frames_of_def)
  have c: "WHISPER \<noteq> HELLO" "WHISPER \<notin> {HELLO, SHOUT, JOIN, LEAVE, ELECT, LEADER}" by (simp_all add: command_defs)
  from run_message [OF assms(1) decode_simple_plain [OF f(2) c(2)] c(1) assms(2,3), of E "[payload]"] assms(4)
  show "n_events (snd (handle_peer_msg E ((1 # i) # frames) s)) =
        n_events s @ [EvWhisper (bytes_hex i) (pname (n_heap s a)) payload]"
    by (auto simp: f(1) dispatch_command_def command_defs deref_def emit_def push_event_def first_frame_def)
qed

text \<open>
  C5: a shout reaches every member once, word for word. On a node in order whose sockets accept, it
  leaves exactly one message for each connected member of the group, on that member's own connection, in
  the order of the group's table; and any of these messages, read by a node that has the sender as a
  ready peer, hands its application exactly one event, with the sender's id and name, the group and the
  payload unchanged.
\<close>

theorem shout_delivered:
  assumes "orderly s" and "reliable E" and "dict_get (n_groups s) g = Some G" and "length g \<le> 255"
    and "length i = 16" and "dict_get (n_peers t) (bytes_hex i) = Some a" and "p_ready (n_heap t a)"
    and "length (n_events t) < EVENT_QUEUE_SIZE"
  shows "\<exists>s' sent. do_shout E g payload s = (Inr (), s')
    \<and> delivered (w_hist s') = delivered (w_hist s) @ sent
    \<and> map fst sent = map (\<lambda>p. the (p_dealer (n_heap s p)))
         (filter (\<lambda>p. p_connected (n_heap s p)) (map snd (g_peers G)))
    \<and> (\<forall>frames \<in> set (map snd sent). n_events (snd (handle_peer_msg E' ((1 # i) # frames) t)) =
         n_events t @ [EvShout (bytes_hex i) (pname (n_heap t a)) (bdec g) payload])"
proof -
  let ?enc = "\<lambda>q. encode_simple SHOUT q (Some g) None"
  have "encodes ?enc"
    using assms(4) encode_simple_defined [of SHOUT _ g None] by (auto simp: encodes_def command_defs)
  moreover have "p_connected (n_heap s p) \<Longrightarrow> p_dealer (n_heap s p) \<noteq> None" for p
    using assms(1) consistentD(9) by (fastforce simp: orderly_def roster_ok_def)
  ultimately obtain s' sent where
    "group_send E G ?enc [payload] s = (Inr (), s')" "delivered (w_hist s') = delivered (w_hist s) @ sent"
    "map fst sent = map (\<lambda>p. the (p_dealer (n_heap s p)))
         (filter (\<lambda>p. p_connected (n_heap s p)) (map snd (g_peers G)))"
    "set (map snd sent) \<subseteq> frames_of ?enc [payload]"
    using run_sends [OF assms(2), of ?enc s "[payload]" "map snd (g_peers G)"] unfolding group_send_def by blast
  with assms(3) payload_posted(1) [OF assms(5-8), of _ g payload E'] show ?thesis
    by (intro exI [of _ s'] exI [of _ sent]) (auto simp: do_shout_def get_group_def)
qed

lemma shout_delivered_witness:
  "\<exists>s' w. do_shout calm [67] [1, 2] demo_talk = (Inr (), s') \<and> delivered (w_hist s') = [(0, w)]
    \<and> n_events (snd (handle_peer_msg calm ((1 # demo_id) # w) demo_talk)) =
        [EvShout (bytes_hex demo_id) (lit ''unknown'') (bdec [67]) [1, 2]]"
proof -
  have G: "dict_get (n_groups demo_talk) [67] = Some ((new_group [67])\<lparr>g_peers := [(bytes_hex demo_id, 0)]\<rparr>)"
    and p: "p_connected (n_heap demo_talk 0)" "p_dealer (n_heap demo_talk 0) = Some 0"
      "pname (n_heap demo_talk 0) = lit ''unknown''" "w_hist demo_talk = []" "n_events demo_talk = []"
    by (simp_all add: demo_talk_def pname_def example_node_def example_peer_def new_peer_def)
  have "length demo_id = 16" by (simp add: demo_id_def)
  from shout_delivered [OF demo_talk_orderly calm_reliable G _ this demo_talk_simps(1,2), of "[1, 2]" calm]
  show ?thesis by (auto simp: p EVENT_QUEUE_SIZE_def)
qed

text \<open>
  C6: a whisper reaches its one addressee, word for word: exactly one message leaves, on the connection of
  the peer named, and the node that reads it hands its application exactly one event with that payload.
\<close>

theorem whisper_delivered:
  assumes "reliable E" and "utf8_decode name = Inr k" and "dict_get (n_peers s) k = Some p"
    and "p_connected (n_heap s p)" and "p_dealer (n_heap s p) = Some h"
    and "length i = 16" and "dict_get (n_peers t) (bytes_hex i) = Some a" and "p_ready (n_heap t a)"
    and "length (n_events t) < EVENT_QUEUE_SIZE"
  shows "\<exists>s' frames. do_whisper E name payload s = (Inr (), s')
    \<and> delivered (w_hist s') = delivered (w_hist s) @ [(h, frames)]
    \<and> n_events (snd (handle_peer_msg E' ((1 # i) # frames) t)) =
        n_events t @ [EvWhisper (bytes_hex i) (pname (n_heap t a)) payload]"
proof -
  let ?enc = "\<lambda>q. encode_simple WHISPER q None None"
  have "encodes ?enc"
    by (simp add: encodes_def encode_simple_def zre_header_def pack_def ZRE_SIGNATURE_def ZRE_VERSION_def command_defs)
  from run_send_reliable [OF assms(1) this assms(4,5), of "[payload]"] obtain w where
    w: "w \<in> frames_of ?enc [payload]"
      "send_encoded E p ?enc [payload] s = (Inr True, io_log (IoSend h w SendOk) (stamped p s))" by blast
  then have "do_whisper E name payload s = (Inr (), io_log (IoSend h w SendOk) (stamped p s))"
    using assms(2-4) by (simp add: do_whisper_def send_cmd_def run_andThen)
  moreover have "delivered (w_hist (io_log (IoSend h w SendOk) (stamped p s))) = delivered (w_hist s) @ [(h, w)]"
    by (simp add: io_log_def stamped_def)
  ultimately show ?thesis using payload_posted(2) [OF assms(6-9) w(1), of E'] by blast
qed

lemma whisper_delivered_witness:
  "\<exists>s' w. do_whisper calm (map of_nat (bytes_hex demo_id)) [1] demo_talk = (Inr (), s')
    \<and> delivered (w_hist s') = [(0, w)]
    \<and> n_events (snd (handle_peer_msg calm ((1 # demo_id) # w) demo_talk)) =
        [EvWhisper (bytes_hex demo_id) (lit ''unknown'') [1]]"
proof -
  have p: "p_connected (n_heap demo_talk 0)" "p_dealer (n_heap demo_talk 0) = Some 0"
      "pname (n_heap demo_talk 0) = lit ''unknown''" "w_hist demo_talk = []" "n_events demo_talk = []"
    by (simp_all add: demo_talk_def pname_def example_node_def example_peer_def new_peer_def)
  have "length demo_id = 16" by (simp add: demo_id_def)
  moreover have "utf8_decode (map of_nat (bytes_hex demo_id)) = Inr (bytes_hex demo_id)"
    by (simp add: demo_id_def numeral_nat) code_simp
  ultimately show ?thesis
    using whisper_delivered [OF calm_reliable _ demo_talk_simps(1) p(1,2) _ demo_talk_simps(1,2),
        of "map of_nat (bytes_hex demo_id)" "[1]" calm]
    by (simp add: p EVENT_QUEUE_SIZE_def)
qed

end
