(* ===== verification/Zre_Meeting_Properties.thy ===== *)
theory Zre_Meeting_Properties
  imports Zre_Delivery_Properties Zre_Beacon_Properties
begin

section \<open>Two nodes meet\<close>

text \<open>
  The whole introduction of two nodes, over both of them: a beacon, the HELLO that it causes and the HELLO
  that answers it. The nodes are plain (no Curve keys) and contest no group, so that nothing but the
  introduction happens.
\<close>

subsection \<open>HELLO on the wire\<close>

definition hello_encoder :: "env \<Rightarrow> node \<Rightarrow> pystr \<Rightarrow> int \<Rightarrow> exn + bytes" where
  "hello_encoder E s addr q =
     obind (public_endpoint_for E s addr) (\<lambda>endpoint.
     encode_hello q (PyBytes endpoint) (map PyBytes (n_own_groups s)) (uint (n_status s))
       (PyBytes (c_name (n_cfg s))) (map (map_prod PyBytes PyBytes) (c_headers (n_cfg s))))"

text \<open>An endpoint that a node without Curve keys can dial.\<close>

definition dialable :: "env \<Rightarrow> bytes \<Rightarrow> bool" where
  "dialable E ep \<longleftrightarrow> ep \<noteq> [] \<and> split_once (lit ''|'') (bdec ep) = None
     \<and> (\<exists>addr port. split_endpoint (e_rt E) (bdec ep) = Inr (addr, port))"

text \<open>A node whose HELLO can be encoded for every peer, and announces an endpoint that the other can dial.\<close>

definition can_greet :: "env \<Rightarrow> env \<Rightarrow> node \<Rightarrow> bool" where
  "can_greet E E' s \<longleftrightarrow> PUBLIC_KEY_HEADER \<notin> fst ` set (c_headers (n_cfg s))
     \<and> (\<forall>hist addr. encodes (hello_encoder E (s\<lparr>w_hist := hist\<rparr>) addr)
          \<and> (\<forall>ep. public_endpoint_for E (s\<lparr>w_hist := hist\<rparr>) addr = Inr ep \<longrightarrow> dialable E' ep))"

text \<open>What HELLO is made from: the own side of a node.\<close>

definition own_side where
  "own_side s = (n_own_groups s, n_status s, n_cfg s, n_inbox_port s)" for s :: node

lemma encoder_own_side:
  assumes "own_side t = own_side s"
  shows "hello_encoder E t addr = hello_encoder E (s\<lparr>w_hist := w_hist t\<rparr>) addr"
    "public_endpoint_for E t addr = public_endpoint_for E (s\<lparr>w_hist := w_hist t\<rparr>) addr"
proof -
  from assms have same: "n_own_groups t = n_own_groups s" "n_status t = n_status s" "n_cfg t = n_cfg s"
    "n_inbox_port t = n_inbox_port s" by (simp_all add: own_side_def)
  then show ep: "public_endpoint_for E t addr = public_endpoint_for E (s\<lparr>w_hist := w_hist t\<rparr>) addr" for addr
    by (simp add: public_endpoint_for_def own_address_for_def split: option.split)
  show "hello_encoder E t addr = hello_encoder E (s\<lparr>w_hist := w_hist t\<rparr>) addr"
    unfolding hello_encoder_def [abs_def] ep by (simp add: same)
qed

text \<open>The HELLO messages of a node with the own side of \<open>s\<close>, as the other node decodes them.\<close>

definition hello_of :: "env \<Rightarrow> node \<Rightarrow> bytes list \<Rightarrow> bool" where
  "hello_of E s frames \<longleftrightarrow> (\<exists>data ver q ep hs. frames = [data] \<and> dialable E ep \<and> dict_get hs PUBLIC_KEY_HEADER = None
     \<and> decode data = Some (HELLO, ver, q, no_fields\<lparr>f_endpoint := Some ep, f_groups := Some (n_own_groups s),
         f_status := Some (unat (n_status s)), f_name := Some (c_name (n_cfg s)), f_headers := Some hs\<rparr>))"

lemma no_header:
  "k \<notin> fst ` set xs \<Longrightarrow> dict_get (fold (\<lambda>(k, v). dict_set k v) xs d) k = dict_get d k"
  by (induction xs arbitrary: d) (auto simp: alist.get_put)

lemma greeting:
  assumes "reliable E" and "can_greet E E' s" and "own_side t = own_side s"
    and "p_connected (n_heap t a)" "p_dealer (n_heap t a) = Some h"
  shows "\<exists>frames. hello_of E' s frames \<and> send_hello E a t = (Inr (), io_log (IoSend h frames SendOk) (stamped a t))"
proof -
  let ?addr = "p_addr (n_heap t a)" and ?s = "s\<lparr>w_hist := w_hist t\<rparr>"
  note enc = encoder_own_side [OF assms(3), of E ?addr]
  from assms(2) have greet: "encodes (hello_encoder E t ?addr)"
    "\<And>ep. public_endpoint_for E t ?addr = Inr ep \<Longrightarrow> dialable E' ep"
    unfolding enc by (auto simp: can_greet_def)
  from run_send_reliable [OF assms(1) greet(1) assms(4,5), of "[]"] obtain w where
    w: "w \<in> frames_of (hello_encoder E t ?addr) []"
      "send_encoded E a (hello_encoder E t ?addr) [] t = (Inr True, io_log (IoSend h w SendOk) (stamped a t))" by blast
  from w(1) obtain data q where data: "w = [data]" "hello_encoder E t ?addr q = Inr data"
    by (auto simp: frames_of_def)
  from data(2) obtain ep where ep: "public_endpoint_for E t ?addr = Inr ep"
    and hello: "encode_hello q (PyBytes ep) (map PyBytes (n_own_groups t)) (uint (n_status t))
       (PyBytes (c_name (n_cfg t))) (map (map_prod PyBytes PyBytes) (c_headers (n_cfg t))) = Inr data"
    by (auto simp: hello_encoder_def obind_Inr)
  have "nat (uint (n_status t)) = unat (n_status t)" by simp
  moreover have "dict_get (fold (\<lambda>(k, v). dict_set k v) (c_headers (n_cfg s)) []) PUBLIC_KEY_HEADER = None"
    by (subst no_header) (use assms(2) in \<open>simp_all add: can_greet_def\<close>)
  ultimately have "hello_of E' s w"
    using decode_hello_written [OF hello] greet(2) [OF ep] assms(3)
    unfolding pairs_of_bytes groups_of_bytes hello_of_def data(1) own_side_def by auto
  moreover have "send_hello E a t = (Inr (), io_log (IoSend h w SendOk) (stamped a t))"
    using w(2) by (simp add: send_hello_def deref_def run_andThen hello_encoder_def [abs_def])
  ultimately show ?thesis by blast
qed

subsection \<open>Entering\<close>

text \<open>A node that contests no group.\<close>

definition uncontested :: "node \<Rightarrow> bool" where
  "uncontested s \<longleftrightarrow> n_contest_groups s = [] \<and> (\<forall>g G. dict_get (n_groups s) g = Some G \<longrightarrow> \<not> g_contest G)"

lemma start_election_uncontested:
  assumes "uncontested s" and "dict_get (n_groups s) g \<noteq> None"
  shows "start_election E g s = (Inr (), s)"
proof -
  from assms(2) obtain G where G: "dict_get (n_groups s) g = Some G" by blast
  with assms(1) have "require_group g s = (Inr G, s)" "\<not> g_contest G"
    by (auto simp: require_group_def run_thenDo uncontested_def)
  then show ?thesis by (simp add: start_election_def run_andThen)
qed

lemma start_elections_uncontested:
  "uncontested s \<Longrightarrow> (\<And>g. g \<in> set gs \<Longrightarrow> dict_get (n_groups s) g \<noteq> None) \<Longrightarrow>
   for_each (start_election E) gs s = (Inr (), s)"
  by (induction gs) (simp_all add: thenDo_Inr [OF start_election_uncontested])

text \<open>What joining a peer to groups leaves alone.\<close>

definition beside_groups where
  "beside_groups s = (w_hist s, n_cfg s, n_running s, n_peers s, n_pending s, n_events s, n_own_groups s, n_status s,
     n_inbox_port s, n_contest_groups s)" for s :: node

lemma joined_frame:
  "beside_groups (joined a g (create_group g s)) = beside_groups s"
  "n_heap (joined a g (create_group g s)) = (n_heap s)(a := (n_heap s a)\<lparr>p_groups := insert_last g (p_groups (n_heap s a))\<rparr>)"
  by (simp_all add: beside_groups_def joined_def create_group_def Let_def split: option.split)

lemma joined_groups:
  assumes "uncontested s"
  shows "uncontested (joined a g (create_group g s))"
    "dict_get (n_groups (joined a g (create_group g s))) j \<noteq> None \<longleftrightarrow> j = g \<or> dict_get (n_groups s) j \<noteq> None"
  using assms by (auto simp: uncontested_def joined_def create_group_def Let_def alist.get_put new_group_def
      split: option.splits if_splits)

lemma run_joins:
  assumes "uncontested s"
  shows "\<exists>s'. for_each (hello_join a) gs s = (Inr (), s') \<and> beside_groups s' = beside_groups s \<and> uncontested s'
    \<and> n_heap s' = (n_heap s)(a := (n_heap s a)\<lparr>p_groups := fold insert_last gs (p_groups (n_heap s a))\<rparr>)
    \<and> (\<forall>g. dict_get (n_groups s') g \<noteq> None \<longleftrightarrow> g \<in> set gs \<or> dict_get (n_groups s) g \<noteq> None)"
  using assms
proof (induction gs arbitrary: s)
  case Nil
  then show ?case by simp
next
  case (Cons g gs)
  let ?s = "joined a g (create_group g s)"
  from Cons.IH [OF joined_groups(1) [OF Cons.prems], of a g] obtain s' where
    "for_each (hello_join a) gs ?s = (Inr (), s')" "beside_groups s' = beside_groups ?s" "uncontested s'"
    "n_heap s' = (n_heap ?s)(a := (n_heap ?s a)\<lparr>p_groups := fold insert_last gs (p_groups (n_heap ?s a))\<rparr>)"
    "\<forall>j. dict_get (n_groups s') j \<noteq> None \<longleftrightarrow> j \<in> set gs \<or> dict_get (n_groups ?s) j \<noteq> None" by blast
  then show ?case
    unfolding joined_frame joined_groups(2) [OF Cons.prems]
    by (intro exI [of _ s']) (simp add: thenDo_Inr [OF run_hello_join] fun_eq_iff, blast)
qed

lemma set_fold_insert_last: "set (fold insert_last gs xs) = set gs \<union> set xs"
  by (induction gs arbitrary: xs) auto

lemma run_emits: "for_each (\<lambda>x. emit (f x)) xs s = (Inr (), s\<lparr>n_events := fold push_event (map f xs) (n_events s)\<rparr>)"
  by (induction xs arbitrary: s) (simp_all add: run_thenDo emit_def)

text \<open>A peer that is listed with a name and groups, and what the application is told when it enters.\<close>

definition listed :: "pystr \<Rightarrow> nat \<Rightarrow> bytes \<Rightarrow> bytes set \<Rightarrow> node \<Rightarrow> bool" where
  "listed k a name gs s \<longleftrightarrow> dict_get (n_peers s) k = Some a \<and> p_ready (n_heap s a) \<and> p_connected (n_heap s a)
     \<and> p_name (n_heap s a) = Some name \<and> set (p_groups (n_heap s a)) = gs"

definition entrance :: "pystr \<Rightarrow> bytes \<Rightarrow> bytes \<Rightarrow> bytes list \<Rightarrow> event list" where
  "entrance k name ep gs = EvEnter k (bdec name) (bdec ep) # map (\<lambda>g. EvJoin k (bdec name) (bdec g)) gs"

text \<open>The state before the groups are joined.\<close>

definition greeted :: "nat \<Rightarrow> fields \<Rightarrow> pystr \<Rightarrow> node \<Rightarrow> node" where
  "greeted a x ep = set_peer a (\<lambda>p. (take_hello_fields x p)\<lparr>p_ready := True, p_endpoint_str := ep\<rparr>)"

lemma run_entrance:
  assumes "uncontested s" and "p_name (n_heap s a) = Some name"
  shows "\<exists>s'. thenDo (for_each (hello_join a) gs)
      (andThen (deref a) (\<lambda>p.
        thenDo (emit (EvEnter k (pname p) (bdec ep)))
        (thenDo (for_each (\<lambda>g. emit (EvJoin k (pname p) (bdec g))) gs)
          (for_each (start_election E) gs)))) s = (Inr (), s')
    \<and> w_hist s' = w_hist s \<and> n_peers s' = n_peers s \<and> n_cfg s' = n_cfg s
    \<and> n_events s' = fold push_event (entrance k name ep gs) (n_events s)
    \<and> n_heap s' = (n_heap s)(a := (n_heap s a)\<lparr>p_groups := fold insert_last gs (p_groups (n_heap s a))\<rparr>)"
proof -
  from run_joins [OF assms(1), of a gs] obtain s1 where
    joins: "for_each (hello_join a) gs s = (Inr (), s1)" "beside_groups s1 = beside_groups s" "uncontested s1"
    and heap: "n_heap s1 = (n_heap s)(a := (n_heap s a)\<lparr>p_groups := fold insert_last gs (p_groups (n_heap s a))\<rparr>)"
    and there: "\<And>g. g \<in> set gs \<Longrightarrow> dict_get (n_groups s1) g \<noteq> None" by blast
  let ?s = "s1\<lparr>n_events := fold push_event (entrance k name ep gs) (n_events s1)\<rparr>"
  have name: "pname (n_heap s1 a) = bdec name" using assms(2) by (simp add: heap pname_def)
  have "uncontested ?s" using joins(3) by (simp add: uncontested_def)
  from start_elections_uncontested [OF this, of gs E] there
  have "andThen (deref a) (\<lambda>p. thenDo (emit (EvEnter k (pname p) (bdec ep)))
        (thenDo (for_each (\<lambda>g. emit (EvJoin k (pname p) (bdec g))) gs)
          (for_each (start_election E) gs))) s1 = (Inr (), ?s)"
    by (simp add: deref_def emit_def [of "EvEnter _ _ _"] run_thenDo run_emits name entrance_def)
  with joins(2) heap show ?thesis
    by (intro exI [of _ ?s]) (simp add: thenDo_Inr [where m = "for_each _ _", OF joins(1)] beside_groups_def)
qed

lemma run_hello_enter:
  assumes "uncontested s" and x: "f_groups x = Some gs" "f_name x = Some name"
  shows "\<exists>s'. hello_enter E k x a False (bdec ep) s = (Inr (), s')
      \<and> w_hist s' = w_hist s \<and> n_peers s' = n_peers s \<and> n_cfg s' = n_cfg s
      \<and> n_events s' = fold push_event (entrance k name ep gs) (n_events s)
      \<and> (dict_get (n_peers s) k = Some a \<longrightarrow> p_connected (n_heap s a) \<longrightarrow>
           listed k a name (set gs \<union> set (p_groups (n_heap s a))) s')"
    and "reliable E \<Longrightarrow> can_greet E E' s \<Longrightarrow> p_connected (n_heap s a) \<Longrightarrow> p_dealer (n_heap s a) = Some h \<Longrightarrow>
      \<exists>s' frames. hello_enter E k x a True (bdec ep) s = (Inr (), s') \<and> hello_of E' s frames
      \<and> delivered (w_hist s') = delivered (w_hist s) @ [(h, frames)] \<and> n_peers s' = n_peers s \<and> n_cfg s' = n_cfg s
      \<and> n_events s' = fold push_event (entrance k name ep gs) (n_events s)
      \<and> (dict_get (n_peers s) k = Some a \<longrightarrow>
           listed k a name (set gs \<union> set (p_groups (n_heap s a))) s')"
proof -
  let ?s1 = "greeted a x (bdec ep) s"
  have s1: "uncontested ?s1" "p_name (n_heap ?s1 a) = Some name" "n_events ?s1 = n_events s" "w_hist ?s1 = w_hist s"
    "n_peers ?s1 = n_peers s" "p_ready (n_heap ?s1 a)" "p_groups (n_heap ?s1 a) = p_groups (n_heap s a)"
    "p_connected (n_heap ?s1 a) = p_connected (n_heap s a)" "own_side ?s1 = own_side s" "n_cfg ?s1 = n_cfg s"
    "p_dealer (n_heap ?s1 a) = p_dealer (n_heap s a)"
    using assms by (simp_all add: greeted_def take_hello_fields_def uncontested_def own_side_def) (simp add: set_peer_def)
  let ?rest = "thenDo (for_each (hello_join a) gs)
      (andThen (deref a) (\<lambda>p.
        thenDo (emit (EvEnter k (pname p) (bdec ep)))
        (thenDo (for_each (\<lambda>g. emit (EvJoin k (pname p) (bdec g))) gs)
          (for_each (start_election E) gs))))"
  have enter: "hello_enter E k x a reply (bdec ep) s = thenDo (if reply then send_hello E a else ret ()) ?rest ?s1" for reply
    by (simp add: hello_enter_def x upd_peer_def greeted_def)
  from run_entrance [OF s1(1,2), of gs k ep E] obtain s' where s':
    "?rest ?s1 = (Inr (), s')" "w_hist s' = w_hist s" "n_peers s' = n_peers s" "n_cfg s' = n_cfg s"
    "n_events s' = fold push_event (entrance k name ep gs) (n_events s)"
    "n_heap s' = (n_heap ?s1)(a := (n_heap ?s1 a)\<lparr>p_groups := fold insert_last gs (p_groups (n_heap s a))\<rparr>)"
    unfolding s1 by blast
  then show "\<exists>s'. hello_enter E k x a False (bdec ep) s = (Inr (), s')
      \<and> w_hist s' = w_hist s \<and> n_peers s' = n_peers s \<and> n_cfg s' = n_cfg s
      \<and> n_events s' = fold push_event (entrance k name ep gs) (n_events s)
      \<and> (dict_get (n_peers s) k = Some a \<longrightarrow> p_connected (n_heap s a) \<longrightarrow>
           listed k a name (set gs \<union> set (p_groups (n_heap s a))) s')"
    by (intro exI [of _ s']) (simp add: enter listed_def s1 set_fold_insert_last)
  assume E: "reliable E" "can_greet E E' s" "p_connected (n_heap s a)" "p_dealer (n_heap s a) = Some h"
  from greeting [OF E(1,2) s1(9), of a h] E(3,4) obtain frames where
    f: "hello_of E' s frames" "send_hello E a ?s1 = (Inr (), io_log (IoSend h frames SendOk) (stamped a ?s1))"
    by (auto simp: s1)
  let ?s2 = "io_log (IoSend h frames SendOk) (stamped a ?s1)"
  have s2: "uncontested ?s2" "p_name (n_heap ?s2 a) = Some name" "n_events ?s2 = n_events s"
    "delivered (w_hist ?s2) = delivered (w_hist s) @ [(h, frames)]" "n_peers ?s2 = n_peers s" "n_cfg ?s2 = n_cfg s"
    "p_ready (n_heap ?s2 a)" "p_groups (n_heap ?s2 a) = p_groups (n_heap s a)" "p_connected (n_heap ?s2 a)"
    using s1 E(3) by (simp_all add: io_log_def stamped_def uncontested_def)
  from run_entrance [OF s2(1,2), of gs k ep E] obtain s' where s':
    "?rest ?s2 = (Inr (), s')" "w_hist s' = w_hist ?s2" "n_peers s' = n_peers s" "n_cfg s' = n_cfg s"
    "n_events s' = fold push_event (entrance k name ep gs) (n_events s)"
    "n_heap s' = (n_heap ?s2)(a := (n_heap ?s2 a)\<lparr>p_groups := fold insert_last gs (p_groups (n_heap s a))\<rparr>)"
    unfolding s2(3,5,6,8) by blast
  moreover have "hello_enter E k x a True (bdec ep) s = (Inr (), s')"
    unfolding enter if_True thenDo_Inr [where m = "send_hello E a", OF f(2)] by (rule s'(1))
  ultimately show "\<exists>s' frames. hello_enter E k x a True (bdec ep) s = (Inr (), s') \<and> hello_of E' s frames
      \<and> delivered (w_hist s') = delivered (w_hist s) @ [(h, frames)] \<and> n_peers s' = n_peers s \<and> n_cfg s' = n_cfg s
      \<and> n_events s' = fold push_event (entrance k name ep gs) (n_events s)
      \<and> (dict_get (n_peers s) k = Some a \<longrightarrow>
           listed k a name (set gs \<union> set (p_groups (n_heap s a))) s')"
    using f(1) by (intro exI [of _ s'] exI [of _ frames]) (simp add: listed_def s2 set_fold_insert_last)
qed

subsection \<open>Dialling\<close>

text \<open>A node without Curve keys that dials a peer it does not know.\<close>

definition dialling :: "env \<Rightarrow> bool" where
  "dialling E \<longleftrightarrow> (\<forall>hist h addr. e_connect E hist h addr)"

lemma port_set_peer [simp]: "n_inbox_port (set_peer a f s) = n_inbox_port s"
  by (simp add: set_peer_def)

lemma run_connect_new:
  assumes "dialling E" and "c_curve_secret (n_cfg s) = None" and "n_pending s = []"
    and "dict_get (n_peers s) k = None"
  shows "\<exists>s' a h. connect_known E k addr port now s = (Inr (Some (a, True)), s')
    \<and> delivered (w_hist s') = delivered (w_hist s) \<and> own_side s' = own_side s \<and> n_events s' = n_events s
    \<and> n_groups s' = n_groups s \<and> n_contest_groups s' = n_contest_groups s \<and> n_pending s' = []
    \<and> n_running s' = n_running s \<and> dict_get (n_peers s') k = Some a
    \<and> p_connected (n_heap s' a) \<and> p_dealer (n_heap s' a) = Some h \<and> p_groups (n_heap s' a) = []
    \<and> \<not> p_ready (n_heap s' a)"
proof -
  let ?a = "n_next_addr s"
  let ?s = "s\<lparr>n_heap := (n_heap s)(?a := new_peer k addr port), n_next_addr := Suc ?a\<rparr>"
  have "\<not> p_connected (n_heap ?s ?a)" by (simp add: new_peer_def)
  note connect = run_peer_connect [OF this, of E _ None None None]
  have opts: "delivered (rev (map (IoOpt h) opts) @ hist) = delivered hist" for h opts hist
    by (induction opts rule: rev_induct) simp_all
  obtain s1 where dial: "dial_peer E k addr port (Some k) s = (Inr (Some ?a), s1)"
    "delivered (w_hist s1) = delivered (w_hist s)" "own_side s1 = own_side s" "n_events s1 = n_events s"
    "n_groups s1 = n_groups s" "n_contest_groups s1 = n_contest_groups s" "n_pending s1 = n_pending s"
    "n_running s1 = n_running s" "n_peers s1 = n_peers s"
    "n_heap s1 = (n_heap s)(?a := (new_peer k addr port)\<lparr>p_dealer := Some (w_next_sock s), p_connected := True\<rparr>)"
    using assms(1,2)
    by (simp add: dial_peer_def alloc_peer_def run_andThen curve_client_args_def connect Let_def curve_of_def
        dialling_def opts) (simp add: own_side_def)
  then show ?thesis
    using assms(3,4)
    by (simp add: connect_known_def adopt_pending_def run_andThen run_thenDo refresh_def upd_peer_def alist.get_put)
      (simp add: own_side_def refresh_peer_def new_peer_def)
qed

subsection \<open>Answering\<close>

text \<open>A node that is ready to meet another: running, without Curve keys, and not in the middle of anything.\<close>

definition open_to :: "bytes \<Rightarrow> node \<Rightarrow> bool" where
  "open_to i s \<longleftrightarrow> n_running s \<and> c_curve_secret (n_cfg s) = None \<and> n_pending s = [] \<and> uncontested s
     \<and> bytes_hex i \<noteq> c_peer_id_hex (n_cfg s)"

lemma can_greet_own_side:
  assumes "own_side t = own_side s"
  shows "can_greet E E' t \<longleftrightarrow> can_greet E E' s" "hello_of E' t frames \<longleftrightarrow> hello_of E' s frames"
proof -
  have "own_side (t\<lparr>w_hist := hist\<rparr>) = own_side s" for hist
    using assms by (simp add: own_side_def)
  from encoder_own_side [OF this] assms show "can_greet E E' t \<longleftrightarrow> can_greet E E' s"
    by (simp add: can_greet_def own_side_def)
  show "hello_of E' t frames \<longleftrightarrow> hello_of E' s frames"
    using assms by (simp add: hello_of_def own_side_def)
qed

text \<open>The HELLO of a node that is not known yet: it is dialled, greeted and listed.\<close>

lemma hello_answered:
  assumes E: "reliable E" "dialling E" "can_greet E E' s" and s: "open_to i s" "dict_get (n_peers s) (bytes_hex i) = None"
    and "hello_of E from frames" and "length i = 16"
  shows "\<exists>s' a h answer ep. handle_peer_msg E ((1 # i) # frames) s = (Inr (), s')
    \<and> delivered (w_hist s') = delivered (w_hist s) @ [(h, answer)] \<and> hello_of E' s answer
    \<and> listed (bytes_hex i) a (c_name (n_cfg from)) (set (n_own_groups from)) s'
    \<and> n_events s' = fold push_event (entrance (bytes_hex i) (c_name (n_cfg from)) ep (n_own_groups from)) (n_events s)"
proof -
  let ?k = "bytes_hex i" and ?now = "e_time E (w_hist s)"
  from assms(6) obtain data ver q ep hs where f: "frames = [data]" "dialable E ep" "dict_get hs PUBLIC_KEY_HEADER = None"
    and d: "decode data = Some (HELLO, ver, q, no_fields\<lparr>f_endpoint := Some ep, f_groups := Some (n_own_groups from),
         f_status := Some (unat (n_status from)), f_name := Some (c_name (n_cfg from)), f_headers := Some hs\<rparr>)"
    by (auto simp: hello_of_def)
  let ?x = "no_fields\<lparr>f_endpoint := Some ep, f_groups := Some (n_own_groups from),
         f_status := Some (unat (n_status from)), f_name := Some (c_name (n_cfg from)), f_headers := Some hs\<rparr>"
  from f(2) obtain addr port where ep: "ep \<noteq> []" "split_once (lit ''|'') (bdec ep) = None"
    "split_endpoint (e_rt E) (bdec ep) = Inr (addr, port)" by (auto simp: dialable_def)
  define host where "host = (if addr = lit ''0.0.0.0'' \<or> addr = lit ''*'' then lit ''127.0.0.1'' else addr)"
  let ?s0 = "io_log (IoTime ?now) s"
  let ?s1 = "?s0\<lparr>n_evasive_emit_at := dict_pop ?k (n_evasive_emit_at s)\<rparr>"
  define now1 where "now1 = e_time E (w_hist ?s1)"
  define s2 where "s2 = io_log (IoTime now1) ?s1"
  have same: "n_peers s2 = n_peers s" "own_side s2 = own_side s" "delivered (w_hist s2) = delivered (w_hist s)"
    "n_events s2 = n_events s" "n_pending s2 = []" "c_curve_secret (n_cfg s2) = None" "n_groups s2 = n_groups s"
    "n_contest_groups s2 = n_contest_groups s"
    using s(1) by (simp_all add: s2_def io_log_def own_side_def open_to_def)
  from run_connect_new [OF E(2) same(6,5), of ?k host port now1] s(2) obtain s3 a h where
    conn: "connect_known E ?k host port now1 s2 = (Inr (Some (a, True)), s3)"
    and s3: "delivered (w_hist s3) = delivered (w_hist s)" "own_side s3 = own_side s" "n_events s3 = n_events s"
      "n_groups s3 = n_groups s" "n_contest_groups s3 = n_contest_groups s" "dict_get (n_peers s3) ?k = Some a"
      "p_connected (n_heap s3 a)" "p_dealer (n_heap s3 a) = Some h" "p_groups (n_heap s3 a) = []"
    unfolding same by blast
  have new: "hello_new_peer E ?k ?x (bdec ep) now1 s2 = (Inr (Some (a, True, bdec ep)), s3)"
    by (simp add: hello_new_peer_def f(3) ep Let_def host_def [symmetric] run_andThen [of "connect_known E _ _ _ _"] conn
        del: if_split)
  have "handle_peer_msg E ((1 # i) # frames) s = andThen (read_clock E) (\<lambda>_.
      thenDo (case dict_get (n_peers s) (bytes_hex (tl (1 # i))) of
                Some a \<Rightarrow> upd_peer a (\<lambda>p. p\<lparr>p_want_seq := 1\<rparr>) | None \<Rightarrow> ret ())
        (handle_hello E (bytes_hex (tl (1 # i))) ?x (dict_get (n_peers s) (bytes_hex (tl (1 # i)))))) s"
    unfolding f(1) by (rule handle_peer_msg_eqs(3) [OF _ _ d refl]) (use assms(7) in simp_all)
  then have "handle_peer_msg E ((1 # i) # frames) s = handle_hello E ?k ?x None ?s0"
    by (simp add: s(2) andThen_Inr [where m = "read_clock E", OF read_clock_run])
  also have "\<dots> = andThen (hello_new_peer E ?k ?x (bdec ep) now1) (\<lambda>made. case made of
      None \<Rightarrow> ret () | Some (a, reply, ep_str) \<Rightarrow> hello_enter E ?k ?x a reply ep_str) s2"
    using s by (simp add: handle_hello_def open_to_def ep(1) s2_def now1_def io_log_def
        andThen_Inr [where m = "read_clock E", OF read_clock_run])
  also have "\<dots> = hello_enter E ?k ?x a True (bdec ep) s3"
    by (simp add: andThen_Inr [where m = "hello_new_peer _ _ _ _ _", OF new])
  finally have run: "handle_peer_msg E ((1 # i) # frames) s = hello_enter E ?k ?x a True (bdec ep) s3" .
  have "uncontested s3" using s(1) s3(4,5) by (simp add: open_to_def uncontested_def)
  from run_hello_enter(2) [OF this _ _ E(1) _ s3(7,8), of ?x "n_own_groups from" "c_name (n_cfg from)" E' ?k ep]
  show ?thesis
    using E(3) s3 can_greet_own_side [OF s3(2)] by (auto simp: run)
qed

text \<open>The HELLO of a peer that was dialled already: it is listed, and no answer is due.\<close>

lemma hello_taken:
  assumes s: "open_to i s" "dict_get (n_peers s) (bytes_hex i) = Some a" "\<not> p_ready (n_heap s a)"
      "p_connected (n_heap s a)" "p_groups (n_heap s a) = []"
    and "hello_of E from frames" and "length i = 16"
  shows "\<exists>s' ep. handle_peer_msg E ((1 # i) # frames) s = (Inr (), s')
    \<and> delivered (w_hist s') = delivered (w_hist s)
    \<and> listed (bytes_hex i) a (c_name (n_cfg from)) (set (n_own_groups from)) s'
    \<and> n_events s' = fold push_event (entrance (bytes_hex i) (c_name (n_cfg from)) ep (n_own_groups from)) (n_events s)"
proof -
  let ?k = "bytes_hex i" and ?now = "e_time E (w_hist s)"
  from assms(6) obtain data ver q ep hs where f: "frames = [data]" "dialable E ep"
    and d: "decode data = Some (HELLO, ver, q, no_fields\<lparr>f_endpoint := Some ep, f_groups := Some (n_own_groups from),
         f_status := Some (unat (n_status from)), f_name := Some (c_name (n_cfg from)), f_headers := Some hs\<rparr>)"
    by (auto simp: hello_of_def)
  let ?x = "no_fields\<lparr>f_endpoint := Some ep, f_groups := Some (n_own_groups from),
         f_status := Some (unat (n_status from)), f_name := Some (c_name (n_cfg from)), f_headers := Some hs\<rparr>"
  let ?s0 = "set_peer a (\<lambda>p. p\<lparr>p_want_seq := 1\<rparr>) (io_log (IoTime ?now) s)"
  let ?s1 = "?s0\<lparr>n_evasive_emit_at := dict_pop ?k (n_evasive_emit_at ?s0)\<rparr>"
  let ?s2 = "io_log (IoTime (e_time E (w_hist ?s1))) ?s1"
  have "handle_peer_msg E ((1 # i) # frames) s = andThen (read_clock E) (\<lambda>_.
      thenDo (case dict_get (n_peers s) (bytes_hex (tl (1 # i))) of
                Some a \<Rightarrow> upd_peer a (\<lambda>p. p\<lparr>p_want_seq := 1\<rparr>) | None \<Rightarrow> ret ())
        (handle_hello E (bytes_hex (tl (1 # i))) ?x (dict_get (n_peers s) (bytes_hex (tl (1 # i)))))) s"
    unfolding f(1) by (rule handle_peer_msg_eqs(3) [OF _ _ d refl]) (use assms(7) in simp_all)
  then have "handle_peer_msg E ((1 # i) # frames) s = handle_hello E ?k ?x (Some a) ?s0"
    by (simp add: s(2) andThen_Inr [where m = "read_clock E", OF read_clock_run] upd_peer_def)
  also have "\<dots> = hello_enter E ?k ?x a False (bdec ep) ?s2"
    using s f(2) by (simp add: handle_hello_def open_to_def dialable_def io_log_def
        andThen_Inr [where m = "read_clock E", OF read_clock_run])
  finally have run: "handle_peer_msg E ((1 # i) # frames) s = hello_enter E ?k ?x a False (bdec ep) ?s2" .
  have "uncontested ?s2" "n_peers ?s2 = n_peers s" "p_connected (n_heap ?s2 a)" "p_groups (n_heap ?s2 a) = []"
    "delivered (w_hist ?s2) = delivered (w_hist s)" "n_events ?s2 = n_events s"
    using s by (simp_all add: open_to_def uncontested_def io_log_def)
  with run_hello_enter(1) [OF this(1), of ?x "n_own_groups from" "c_name (n_cfg from)" E ?k a ep] s(2)
  show ?thesis by (auto simp: run)
qed

subsection \<open>The introduction\<close>

text \<open>The beacon of a node that is not known yet: it is dialled and greeted, and listed without groups.\<close>

lemma beacon_greeted:
  assumes E: "reliable E" "dialling E" "can_greet E E' s"
    and s: "open_to (c_peer_id (n_cfg b)) s" "dict_get (n_peers s) (bytes_hex (c_peer_id (n_cfg b))) = None"
      "c_peer_id (n_cfg s) \<noteq> c_peer_id (n_cfg b)" "n_beacon_version s = BEACON_VERSION_V1"
    and b: "build_beacon b port = Inr data" "port \<noteq> 0" "length (c_peer_id (n_cfg b)) = 16"
      "n_beacon_version b = BEACON_VERSION_V1"
  shows "\<exists>s' a h frames. handle_beacon E data ip s = (Inr (), s')
    \<and> delivered (w_hist s') = delivered (w_hist s) @ [(h, frames)] \<and> hello_of E' s frames
    \<and> dict_get (n_peers s') (bytes_hex (c_peer_id (n_cfg b))) = Some a \<and> \<not> p_ready (n_heap s' a)
    \<and> p_connected (n_heap s' a) \<and> p_groups (n_heap s' a) = [] \<and> n_events s' = n_events s
    \<and> open_to (c_peer_id (n_cfg b)) s'"
proof -
  let ?i = "c_peer_id (n_cfg b)" and ?now = "e_time E (w_hist s)"
  let ?k = "bytes_hex ?i"
  define s1 where "s1 = io_log (IoTime ?now) s"
  have s1: "n_peers s1 = n_peers s" "own_side s1 = own_side s" "delivered (w_hist s1) = delivered (w_hist s)"
    "n_events s1 = n_events s" "n_pending s1 = []" "c_curve_secret (n_cfg s1) = None" "n_groups s1 = n_groups s"
    "n_contest_groups s1 = n_contest_groups s" "n_running s1"
    using s(1) by (simp_all add: s1_def io_log_def own_side_def open_to_def)
  from run_connect_new [OF E(2) s1(6,5), of ?k ip port ?now] s(2) obtain s2 a h where
    conn: "connect_known E ?k ip port ?now s1 = (Inr (Some (a, True)), s2)"
    and s2: "delivered (w_hist s2) = delivered (w_hist s)" "own_side s2 = own_side s" "n_events s2 = n_events s"
      "n_groups s2 = n_groups s" "n_contest_groups s2 = n_contest_groups s" "n_pending s2 = []" "n_running s2"
      "dict_get (n_peers s2) ?k = Some a" "p_connected (n_heap s2 a)" "p_dealer (n_heap s2 a) = Some h"
      "p_groups (n_heap s2 a) = []" "\<not> p_ready (n_heap s2 a)"
    unfolding s1 using s1(9) by blast
  from greeting [OF E(1,3) s2(2,9,10)] obtain frames where
    f: "hello_of E' s frames" "send_hello E a s2 = (Inr (), io_log (IoSend h frames SendOk) (stamped a s2))" by blast
  let ?s = "io_log (IoSend h frames SendOk) (stamped a s2)"
  have "n_beacon_version b = BEACON_VERSION_V1 \<and> [] = [] \<or> n_beacon_version b = BEACON_VERSION_V3
      \<and> c_curve_public (n_cfg b) = Some [] \<and> length ([] :: bytes) = 32" using b(4) by simp
  note layout = beacon_layout [OF b(1,3) this]
  have "n_running s" using s(1) by (simp add: open_to_def)
  have "handle_beacon E data ip s = andThen (connect_known E ?k ip port ?now)
      (\<lambda>made. case made of None \<Rightarrow> ret () | Some (a, _) \<Rightarrow> send_hello E a) s1"
    using layout b(2,4) s(2-4) \<open>n_running s\<close>
    by (simp add: handle_beacon_def Let_def beacon_consts s1_def io_log_def
        andThen_Inr [where m = "read_clock E", OF read_clock_run])
  then have "handle_beacon E data ip s = (Inr (), ?s)"
    by (simp add: andThen_Inr [where m = "connect_known _ _ _ _ _", OF conn] f(2))
  moreover have "uncontested s2" using s(1) s2(4,5) by (simp add: open_to_def uncontested_def)
  then have "open_to ?i ?s"
    using s(1) s2 by (simp add: open_to_def uncontested_def io_log_def stamped_def own_side_def)
  moreover have "delivered (w_hist ?s) = delivered (w_hist s) @ [(h, frames)]" "n_peers ?s = n_peers s2"
    "n_events ?s = n_events s" "\<not> p_ready (n_heap ?s a)" "p_connected (n_heap ?s a)" "p_groups (n_heap ?s a) = []"
    using s2 by (simp_all add: io_log_def stamped_def)
  ultimately show ?thesis
    using f(1) s2(8) by (intro exI [of _ ?s] exI [of _ a] exI [of _ h] exI [of _ frames]) simp
qed

text \<open>
  C2: two nodes meet. A node that hears another's beacon dials the sender and sends it one HELLO; the other
  node, reading that message, dials back, answers with one HELLO and lists the first as a ready peer with
  exactly its name and groups; the first, reading the answer, does the same and sends nothing more. Each
  application is told ENTER, then one JOIN for each group, in the order in which they were announced.
  Nothing raises on the way.
\<close>

theorem nodes_meet:
  assumes "reliable E" "dialling E" "can_greet E E' s" and "reliable E'" "dialling E'" "can_greet E' E t"
    and "build_beacon t port = Inr data" "port \<noteq> 0"
    and "n_beacon_version s = BEACON_VERSION_V1" "n_beacon_version t = BEACON_VERSION_V1"
  defines "i \<equiv> c_peer_id (n_cfg s)" and "j \<equiv> c_peer_id (n_cfg t)"
  assumes "length i = 16" "length j = 16" "i \<noteq> j" and "open_to j s" "open_to i t"
    and "dict_get (n_peers s) (bytes_hex j) = None" "dict_get (n_peers t) (bytes_hex i) = None"
  shows "\<exists>s1 t1 s2 h h' hello answer ep ep' a b.
      handle_beacon E data ip s = (Inr (), s1)
    \<and> delivered (w_hist s1) = delivered (w_hist s) @ [(h, hello)]
    \<and> handle_peer_msg E' ((1 # i) # hello) t = (Inr (), t1)
    \<and> delivered (w_hist t1) = delivered (w_hist t) @ [(h', answer)]
    \<and> handle_peer_msg E ((1 # j) # answer) s1 = (Inr (), s2)
    \<and> delivered (w_hist s2) = delivered (w_hist s1)
    \<and> listed (bytes_hex i) a (c_name (n_cfg s)) (set (n_own_groups s)) t1
    \<and> listed (bytes_hex j) b (c_name (n_cfg t)) (set (n_own_groups t)) s2
    \<and> n_events t1 = fold push_event (entrance (bytes_hex i) (c_name (n_cfg s)) ep (n_own_groups s)) (n_events t)
    \<and> n_events s2 = fold push_event (entrance (bytes_hex j) (c_name (n_cfg t)) ep' (n_own_groups t)) (n_events s)"
proof -
  from beacon_greeted [OF assms(1-3) _ _ _ assms(9,7,8) _ assms(10), of ip, folded i_def j_def, OF assms(16,18,15,14)]
  obtain s1 b h hello where
    s1: "handle_beacon E data ip s = (Inr (), s1)" "delivered (w_hist s1) = delivered (w_hist s) @ [(h, hello)]"
      "hello_of E' s hello" "dict_get (n_peers s1) (bytes_hex j) = Some b" "\<not> p_ready (n_heap s1 b)"
      "p_connected (n_heap s1 b)" "p_groups (n_heap s1 b) = []" "n_events s1 = n_events s" "open_to j s1"
    by blast
  from hello_answered [OF assms(4-6) assms(17,19) s1(3) assms(13)] obtain t1 a h' answer ep where
    t1: "handle_peer_msg E' ((1 # i) # hello) t = (Inr (), t1)"
      "delivered (w_hist t1) = delivered (w_hist t) @ [(h', answer)]" "hello_of E t answer"
      "listed (bytes_hex i) a (c_name (n_cfg s)) (set (n_own_groups s)) t1"
      "n_events t1 = fold push_event (entrance (bytes_hex i) (c_name (n_cfg s)) ep (n_own_groups s)) (n_events t)"
    by blast
  from hello_taken [OF s1(9,4-7) t1(3) assms(14)] obtain s2 ep' where
    "handle_peer_msg E ((1 # j) # answer) s1 = (Inr (), s2)" "delivered (w_hist s2) = delivered (w_hist s1)"
      "listed (bytes_hex j) b (c_name (n_cfg t)) (set (n_own_groups t)) s2"
      "n_events s2 = fold push_event (entrance (bytes_hex j) (c_name (n_cfg t)) ep' (n_own_groups t)) (n_events s)"
    unfolding s1(8) by blast
  with s1(1,2) t1(1,2,4,5) show ?thesis by blast
qed

text \<open>Two nodes on one network, with one group each.\<close>

definition demo_side :: "byte \<Rightarrow> bytes \<Rightarrow> node" where
  "demo_side b g = example_node\<lparr>n_peers := [], n_own_groups := [g],
     n_cfg := example_cfg\<lparr>c_name := [b], c_peer_id := replicate 16 b, c_peer_id_hex := bytes_hex (replicate 16 b),
       c_advertised_endpoint := Some (blit ''tcp://10.0.0.7:5'')\<rparr>\<rparr>"

lemma demo_dialable: "dialable calm (blit ''tcp://10.0.0.7:5'')"
proof -
  have "blit ''tcp://10.0.0.7:5'' = map of_nat (lit ''tcp://10.0.0.7:5'')"
    "ascii (lit ''tcp://10.0.0.7:5'')" by (simp_all add: blit_def lit_def ascii_def)
  then have "bdec (blit ''tcp://10.0.0.7:5'') = lit ''tcp://10.0.0.7:5''"
    by (simp add: bdec_def utf8_decode_replace_ascii)
  moreover have "split_once (lit ''|'') (lit ''tcp://10.0.0.7:5'') = None" by code_simp
  moreover have port: "show_int 5 = lit ''5''"
    by (simp add: show_int_def show_nat.simps [of 5] lit_def)
  have "split_endpoint plain_rt (lit ''tcp://'' @ lit ''10.0.0.7'' @ lit '':'' @ show_int 5) =
      Inr (takeWhile (\<lambda>c. c \<noteq> 37) (lit ''10.0.0.7''), 5)"
    by (rule split_endpoint_plain) (simp_all add: lit_def digits_fit_def plain_rt_def show_nat.simps [of 5])
  then have "split_endpoint plain_rt (lit ''tcp://10.0.0.7:5'') = Inr (lit ''10.0.0.7'', 5)"
    by (simp add: port) (simp add: lit_def)
  ultimately show ?thesis by (simp add: dialable_def) (simp add: blit_def)
qed

lemma demo_can_greet:
  assumes "length g \<le> 255"
  shows "can_greet calm calm (demo_side b g)"
proof -
  have side: "n_own_groups (demo_side b g) = [g]" "n_status (demo_side b g) = 0" "c_name (n_cfg (demo_side b g)) = [b]"
    "c_headers (n_cfg (demo_side b g)) = []"
    "c_advertised_endpoint (n_cfg (demo_side b g)) = Some (blit ''tcp://10.0.0.7:5'')"
    by (simp_all add: demo_side_def example_cfg_def)
  have ep: "public_endpoint_for calm ((demo_side b g)\<lparr>w_hist := hist\<rparr>) addr = Inr (blit ''tcp://10.0.0.7:5'')"
    for hist addr
    by (simp add: public_endpoint_for_def side) (simp add: blit_def)
  have "hello_encoder calm ((demo_side b g)\<lparr>w_hist := hist\<rparr>) addr q =
      encode_hello_bytes q (blit ''tcp://10.0.0.7:5'') [g] 0 [b] []" for hist addr q
    by (simp add: hello_encoder_def ep side encode_hello_bytes_def)
  moreover have "hello_ok q (blit ''tcp://10.0.0.7:5'') [g] 0 [b] []" if "0 \<le> q" "q < 256 ^ 2" for q
    using that assms by (simp add: hello_ok_def blit_def)
  ultimately have "encodes (hello_encoder calm ((demo_side b g)\<lparr>w_hist := hist\<rparr>) addr)" for hist addr
    by (auto simp: encodes_def encode_hello_defined)
  with demo_dialable show ?thesis by (simp add: can_greet_def ep side)
qed

lemma demo_open: "i \<noteq> replicate 16 b \<Longrightarrow> length i = 16 \<Longrightarrow> open_to i (demo_side b g)"
  by (auto simp: open_to_def demo_side_def uncontested_def example_node_def example_cfg_def bytes_hex_inj)

lemma nodes_meet_witness:
  "\<exists>data s1 t1 s2 h h' hello answer a b. handle_beacon calm data (lit ''10.0.0.8'') (demo_side 3 [67]) = (Inr (), s1)
    \<and> delivered (w_hist s1) = [(h, hello)]
    \<and> handle_peer_msg calm ((1 # replicate 16 3) # hello) (demo_side 4 [68]) = (Inr (), t1)
    \<and> delivered (w_hist t1) = [(h', answer)]
    \<and> handle_peer_msg calm ((1 # replicate 16 4) # answer) s1 = (Inr (), s2)
    \<and> listed (bytes_hex (replicate 16 3)) a [3] {[67]} t1 \<and> listed (bytes_hex (replicate 16 4)) b [4] {[68]} s2"
proof -
  let ?s = "demo_side 3 [67]" and ?t = "demo_side 4 [68]"
  have side: "n_cfg (demo_side b g) = example_cfg\<lparr>c_name := [b], c_peer_id := replicate 16 b,
      c_peer_id_hex := bytes_hex (replicate 16 b), c_advertised_endpoint := Some (blit ''tcp://10.0.0.7:5'')\<rparr>"
    "n_peers (demo_side b g) = []" "n_own_groups (demo_side b g) = [g]" "w_hist (demo_side b g) = []"
    "n_beacon_version (demo_side b g) = BEACON_VERSION_V1" for b g
    by (simp_all add: demo_side_def example_node_def beacon_consts)
  have E: "reliable calm" "dialling calm" by (simp_all add: reliable_def dialling_def)
  obtain data where data: "build_beacon ?t 49152 = Inr data"
    by (simp add: build_beacon_def pack_def side beacon_consts)
  have ids: "length (replicate 16 b) = 16" "c_peer_id (n_cfg (demo_side b g)) = replicate 16 b"
    "c_name (n_cfg (demo_side b g)) = [b]" for b :: byte and g
    by (simp_all add: side)
  have apart: "replicate 16 3 \<noteq> (replicate 16 4 :: bytes)" by (simp add: numeral_nat)
  have "\<exists>s1 t1 s2 h h' hello answer ep ep' a b.
      handle_beacon calm data (lit ''10.0.0.8'') ?s = (Inr (), s1)
    \<and> delivered (w_hist s1) = delivered (w_hist ?s) @ [(h, hello)]
    \<and> handle_peer_msg calm ((1 # replicate 16 3) # hello) ?t = (Inr (), t1)
    \<and> delivered (w_hist t1) = delivered (w_hist ?t) @ [(h', answer)]
    \<and> handle_peer_msg calm ((1 # replicate 16 4) # answer) s1 = (Inr (), s2)
    \<and> delivered (w_hist s2) = delivered (w_hist s1)
    \<and> listed (bytes_hex (replicate 16 3)) a [3] (set (n_own_groups ?s)) t1
    \<and> listed (bytes_hex (replicate 16 4)) b [4] (set (n_own_groups ?t)) s2
    \<and> n_events t1 = fold push_event (entrance (bytes_hex (replicate 16 3)) [3] ep (n_own_groups ?s)) (n_events ?t)
    \<and> n_events s2 = fold push_event (entrance (bytes_hex (replicate 16 4)) [4] ep' (n_own_groups ?t)) (n_events ?s)"
    by (rule nodes_meet [where s = ?s and t = ?t and E = calm and E' = calm and port = 49152, unfolded ids, OF E _ E])
      (use data apart in \<open>simp_all add: demo_can_greet demo_open side(2,5) numeral_nat\<close>)
  then show ?thesis unfolding side by (simp only: delivered_simps append_Nil list.set) blast
qed

end
