(* ===== verification/Zre_Ex_Common.thy ===== *)
theory Zre_Ex_Common
  imports Zre_Api
begin

section \<open>What the example programs share\<close>

text \<open>
  \<open>examples/_common.py\<close> and the steps that every program of \<open>examples/\<close> begins with. An example runs
  on the node and on variables of its own, so its state is a pair. Its coroutines share one thread:
  where it waits, other tasks run, above all the node's run loop. What they do there is an argument, a
  program on the node or a list of turns; an exception of theirs stays in their own task.

  Files, the digest \<open>sha256\<close> and \<open>uuid4()\<close> belong to the system; they are arguments too. What is printed
  is not modelled.
\<close>

subsection \<open>Events as the dictionaries they are\<close>

fun ev_type :: "event \<Rightarrow> pystr" where
  "ev_type (EvEnter _ _ _) = lit ''ENTER''"
| "ev_type (EvExit _ _) = lit ''EXIT''"
| "ev_type (EvEvasive _ _) = lit ''EVASIVE''"
| "ev_type (EvJoin _ _ _) = lit ''JOIN''"
| "ev_type (EvLeave _ _ _) = lit ''LEAVE''"
| "ev_type (EvWhisper _ _ _) = lit ''WHISPER''"
| "ev_type (EvShout _ _ _ _) = lit ''SHOUT''"
| "ev_type (EvLeader _ _ _) = lit ''LEADER''"
| "ev_type (EvCollision _) = lit ''COLLISION''"

text \<open>\<open>check_collision_event\<close>, the first statement of every event loop.\<close>

definition check_collision_event :: "event \<Rightarrow> ('s, unit) prog" where
  "check_collision_event e =
     (case e of EvCollision detail \<Rightarrow> throw (CollisionExit detail) | _ \<Rightarrow> ret ())"

subsection \<open>Identities\<close>

text \<open>\<open>parse_uuid\<close>: 32 hexadecimal digits, or the digest of a label.\<close>

definition parse_uuid :: "(bytes \<Rightarrow> bytes) \<Rightarrow> pyrt \<Rightarrow> pystr \<Rightarrow> exn + pystr" where
  "parse_uuid sha256 R text =
    (let of_label = obind (utf8_encode text) (\<lambda>b. Inr (take 32 (bytes_hex (sha256 b))))
     in case bytes_fromhex text of
          Inr raw \<Rightarrow> if length raw = 16 then Inr (str_lower R text) else of_label
        | Inl e \<Rightarrow> if is_value_error e then of_label else Inl e)"

text \<open>How a program of the examples ends, and its exit code.\<close>

datatype ending = Returned | Interrupted | Failed exn

definition exit_on_uuid_collision :: "exn \<Rightarrow> int" where
  "exit_on_uuid_collision e = 3"

definition run_until_keyboard_interrupt :: "ending \<Rightarrow> exn + int" where
  "run_until_keyboard_interrupt r =
    (case r of
       Returned \<Rightarrow> Inr 0
     | Interrupted \<Rightarrow> Inr 0
     | Failed e \<Rightarrow> if is_collision e then Inr (exit_on_uuid_collision e) else Inl e)"

subsection \<open>The node of an example\<close>

type_synonym ('x, 'a) app = "(node \<times> 'x, 'a) prog"

definition on_node :: "'a nprog \<Rightarrow> ('x, 'a) app" where
  "on_node m = (\<lambda>(n, x). case m n of (r, n') \<Rightarrow> (r, (n', x)))"

definition on_own :: "('x, 'a) prog \<Rightarrow> ('x, 'a) app" where
  "on_own m = (\<lambda>(n, x). case m x of (r, x') \<Rightarrow> (r, (n, x')))"

text \<open>Another task of the same loop: what it raises does not reach this one.\<close>

definition meanwhile :: "('s, unit) prog \<Rightarrow> ('s, unit) prog" where
  "meanwhile m = (\<lambda>s. (Inr (), snd (m s)))"

text \<open>\<open>if text: f(text)\<close> for an option of the command line.\<close>

definition if_given :: "pystr option \<Rightarrow> (pystr \<Rightarrow> unit nprog) \<Rightarrow> unit nprog" where
  "if_given v f = (case v of None \<Rightarrow> ret () | Some s \<Rightarrow> only_if (s \<noteq> []) (f s))"

text \<open>The options \<open>--port\<close>, \<open>--interface\<close>, \<open>--verbose\<close>.\<close>

record options =
  o_uuid :: "pystr option"
  o_port :: int
  o_interface :: "pystr option"
  o_verbose :: bool

definition set_options :: "options \<Rightarrow> unit nprog" where
  "set_options opts =
     thenDo (only_if (o_port opts \<noteq> 0) (set_port (o_port opts)))
     (thenDo (if_given (o_interface opts) set_interface)
       (only_if (o_verbose opts) (set_verbose True)))"

definition set_own_uuid :: "options \<Rightarrow> unit nprog" where
  "set_own_uuid opts = if_given (o_uuid opts) (\<lambda>u. set_uuid (PyStr u))"

text \<open>
  \<open>for _ in range(n): if done: break; await asyncio.sleep(0.2)\<close>. While this task sleeps for the time
  that \<open>k\<close> rounds are left after, the others do \<open>others k\<close>.
\<close>

primrec wait_until :: "(node \<Rightarrow> bool) \<Rightarrow> (nat \<Rightarrow> unit nprog) \<Rightarrow> nat \<Rightarrow> unit nprog" where
  "wait_until ready others 0 = ret ()"
| "wait_until ready others (Suc k) =
     andThen (gets ready) (\<lambda>r.
     if r then ret () else thenDo (meanwhile (others k)) (wait_until ready others k))"

definition has_peers :: "node \<Rightarrow> bool" where
  "has_peers s \<longleftrightarrow> peer_ids s \<noteq> []"

text \<open>
  \<open>async for event in node.events(): check_collision_event(event); body(event)\<close>. The loop takes turns
  with the other tasks; the list says whose turn it is and which event is delivered.
\<close>

datatype turn = Others "unit nprog" | Delivered event

definition event_turn :: "(event \<Rightarrow> ('x, unit) app) \<Rightarrow> turn \<Rightarrow> ('x, unit) app" where
  "event_turn body t =
    (case t of
       Others m \<Rightarrow> on_node (meanwhile m)
     | Delivered e \<Rightarrow> thenDo (check_collision_event e) (body e))"

definition event_loop :: "(event \<Rightarrow> ('x, unit) app) \<Rightarrow> turn list \<Rightarrow> ('x, unit) app" where
  "event_loop body turns = for_each (event_turn body) turns"

text \<open>
  \<open>asyncio.gather(node.run(), ...)\<close> around such a loop: there an exception of the run loop ends both.
\<close>

definition gather_turn :: "(event \<Rightarrow> ('x, unit) app) \<Rightarrow> turn \<Rightarrow> ('x, unit) app" where
  "gather_turn body t =
    (case t of
       Others m \<Rightarrow> on_node m
     | Delivered e \<Rightarrow> thenDo (check_collision_event e) (body e))"

definition gather_loop :: "(event \<Rightarrow> ('x, unit) app) \<Rightarrow> turn list \<Rightarrow> ('x, unit) app" where
  "gather_loop body turns = for_each (gather_turn body) turns"

text \<open>\<open>s.split(c)\<close> for a one-character separator.\<close>

fun split_on :: "nat \<Rightarrow> pystr \<Rightarrow> pystr list" where
  "split_on c [] = [[]]"
| "split_on c (x # xs) =
    (case split_on c xs of
       [] \<Rightarrow> [[x]]
     | w # ws \<Rightarrow> if x = c then [] # w # ws else (x # w) # ws)"

text \<open>A file that is read as text: every line end is a newline.\<close>

fun universal_newlines :: "pystr \<Rightarrow> pystr" where
  "universal_newlines [] = []"
| "universal_newlines (c # s) =
    (if c = 13
     then 10 # (case s of [] \<Rightarrow> [] | x # rest \<Rightarrow> if x = 10 then universal_newlines rest else universal_newlines s)
     else c # universal_newlines s)"

text \<open>\<open>s.strip()\<close>.\<close>

definition py_strip :: "pyrt \<Rightarrow> pystr \<Rightarrow> pystr" where
  "py_strip R s = rev (dropWhile (py_space R) (rev (dropWhile (py_space R) s)))"

subsection \<open>Lemmas\<close>

lemma split_on_nonempty: "split_on c s \<noteq> []"
  by (induction s) (auto split: list.split)

lemma split_on_none: "c \<notin> set s \<Longrightarrow> split_on c s = [s]"
  by (induction s) auto

lemma split_on_sep: "c \<notin> set a \<Longrightarrow> split_on c (a @ c # b) = a # split_on c b"
proof (induction a)
  case Nil
  then show ?case using split_on_nonempty [of c b] by (auto split: list.split)
qed auto

lemma run_on_node: "on_node m (n, x) = (fst (m n), (snd (m n), x))"
  by (simp add: on_node_def split_beta)

lemma run_on_own: "on_own m (n, x) = (fst (m x), (n, snd (m x)))"
  by (simp add: on_own_def split_beta)

lemma run_meanwhile [simp]: "meanwhile m s = (Inr (), snd (m s))"
  by (simp add: meanwhile_def)

lemma meanwhile_total [total_rules]: "never_raises (meanwhile m)"
  by (simp add: never_raises_def)

lemma wait_until_total [total_rules]: "never_raises (wait_until ready others n)"
proof (induction n)
  case 0
  show ?case unfolding wait_until.simps by (rule never_raises_simps)
next
  case (Suc n)
  then show ?case unfolding wait_until.simps by (intro total_rules)
qed

end
