(* ===== verification/Zre_Ex_Transfer.thy ===== *)
theory Zre_Ex_Transfer
  imports Zre_Ex_Common
begin

section \<open>File transfer\<close>

text \<open>
  \<open>examples/file_transfer.py\<close> and \<open>examples/media_stream.py\<close>: a file goes over as a header, chunks of
  at most 64 KiB and an end mark, by WHISPER to one peer or by SHOUT to the group \<open>MEDIA\<close>. The
  receiver keeps one open file. Paths are those of \<open>pathlib\<close>; whether a file can be opened for writing
  is an argument.
\<close>

subsection \<open>Paths\<close>

text \<open>\<open>PurePosixPath\<close>: the number of leading slashes that count (0, 1 or 2), and the parts.\<close>

type_synonym path = "nat \<times> pystr list"

definition path_of :: "pystr \<Rightarrow> path" where
  "path_of s =
    (let slashes = length (takeWhile (\<lambda>c. c = 47) s)
     in (if slashes = 0 then 0 else if slashes = 2 then 2 else 1,
         filter (\<lambda>w. w \<noteq> [] \<and> w \<noteq> lit ''.'') (split_on 47 s)))"

text \<open>\<open>directory / name\<close>: an absolute name replaces the directory.\<close>

definition path_join :: "path \<Rightarrow> pystr \<Rightarrow> path" where
  "path_join directory name =
    (let p = path_of name
     in if fst p \<noteq> 0 then p else (fst directory, snd directory @ snd p))"

subsection \<open>Sending\<close>

definition CHUNK_SIZE :: nat where
  "CHUNK_SIZE = 64 * 1024"

text \<open>A file to send: its name, the size that \<open>stat\<close> tells, and what \<open>read\<close> yields.\<close>

record local_file =
  lf_name :: pystr
  lf_size :: nat
  lf_content :: bytes

text \<open>The header, an f-string that is then encoded.\<close>

definition transfer_header :: "string \<Rightarrow> local_file \<Rightarrow> exn + bytes" where
  "transfer_header tag f = utf8_encode (lit tag @ lit '':'' @ lf_name f @ lit '':'' @ show_int (int (lf_size f)))"

function send_chunks :: "(bytes \<Rightarrow> unit nprog) \<Rightarrow> bytes \<Rightarrow> unit nprog" where
  "send_chunks send content =
    (if take CHUNK_SIZE content = [] then ret ()
     else thenDo (send (blit ''CHUNK:'' @ take CHUNK_SIZE content))
            (send_chunks send (drop CHUNK_SIZE content)))"
  by pat_completeness auto
termination
  by (relation "measure (\<lambda>(_, content). length content)") (auto simp: CHUNK_SIZE_def)

declare send_chunks.simps [simp del]

definition send_file :: "pystr \<Rightarrow> local_file option \<Rightarrow> unit nprog" where
  "send_file peer_id filepath =
    (case filepath of
       None \<Rightarrow> ret ()
     | Some f \<Rightarrow>
         (let whisper = (\<lambda>payload. api_whisper (PyStr peer_id) (PyBytes payload))
          in andThen (lift_exn (transfer_header ''FILE_START'' f)) (\<lambda>header.
             thenDo (whisper header)
             (thenDo (send_chunks whisper (lf_content f))
               (whisper (blit ''FILE_END''))))))"

subsection \<open>Receiving\<close>

record receiver =
  rc_files :: "(path \<times> bytes) list"     \<comment> \<open>what has been written\<close>
  rc_handle :: "path option"             \<comment> \<open>the open file\<close>
  rc_expected :: int
  rc_received :: nat

text \<open>\<open>payload.decode(errors="replace").split(":", 2)\<close>, when it has three parts.\<close>

definition header_parts :: "bytes \<Rightarrow> (pystr \<times> pystr) option" where
  "header_parts payload =
    (case split_once (lit '':'') (utf8_decode_replace payload) of
       None \<Rightarrow> None
     | Some (_, rest) \<Rightarrow> split_once (lit '':'') rest)"

text \<open>\<open>(output_dir / filename).open("wb")\<close>: the file is emptied.\<close>

definition open_output :: "(path \<Rightarrow> bool) \<Rightarrow> path \<Rightarrow> pystr \<Rightarrow> ('r receiver_scheme, unit) prog" where
  "open_output opens output_dir filename =
    (let p = path_join output_dir filename
     in if 0 \<in> set filename then throw ValueError
        else if \<not> opens p then throw OSError
        else modify (\<lambda>r. r\<lparr>rc_files := dict_set p [] (rc_files r), rc_handle := Some p, rc_received := 0\<rparr>))"

definition write_chunk :: "bytes \<Rightarrow> ('r receiver_scheme, unit) prog" where
  "write_chunk chunk =
     modify (\<lambda>r. case rc_handle r of
       None \<Rightarrow> r
     | Some p \<Rightarrow> r\<lparr>rc_files := dict_set p (the (dict_get (rc_files r) p) @ chunk) (rc_files r),
                     rc_received := rc_received r + length chunk\<rparr>)"

definition close_output :: "('r receiver_scheme, unit) prog" where
  "close_output = modify (\<lambda>r. r\<lparr>rc_handle := None\<rparr>)"

definition receive_payload :: "pyrt \<Rightarrow> (path \<Rightarrow> bool) \<Rightarrow> path \<Rightarrow> bytes \<Rightarrow> (receiver, unit) prog" where
  "receive_payload R opens output_dir payload =
    (if starts_with (blit ''FILE_START:'') payload then
       (case header_parts payload of
          None \<Rightarrow> ret ()
        | Some (filename, size_str) \<Rightarrow>
            andThen (lift_exn (py_int R size_str)) (\<lambda>expected.
            thenDo (modify (\<lambda>r. r\<lparr>rc_expected := expected\<rparr>))
              (open_output opens output_dir filename)))
     else if starts_with (blit ''CHUNK:'') payload then
       andThen (gets rc_handle) (\<lambda>h. only_if (h \<noteq> None) (write_chunk (drop 6 payload)))
     else if payload = blit ''FILE_END'' then
       andThen (gets rc_handle) (\<lambda>h. only_if (h \<noteq> None) close_output)
     else ret ())"

definition receive_event :: "pyrt \<Rightarrow> (path \<Rightarrow> bool) \<Rightarrow> path \<Rightarrow> event \<Rightarrow> (receiver, unit) prog" where
  "receive_event R opens output_dir e =
    (case e of
       EvWhisper _ _ payload \<Rightarrow> receive_payload R opens output_dir payload
     | _ \<Rightarrow> ret ())"

definition new_receiver :: receiver where
  "new_receiver = \<lparr>rc_files = [], rc_handle = None, rc_expected = 0, rc_received = 0\<rparr>"

definition receive_loop ::
  "pyrt \<Rightarrow> (path \<Rightarrow> bool) \<Rightarrow> path \<Rightarrow> turn list \<Rightarrow> (receiver, unit) app" where
  "receive_loop R opens output_dir turns =
     event_loop (\<lambda>e. on_own (receive_event R opens output_dir e)) turns"

text \<open>\<open>peer_list_loop\<close>: the peers seen, by id.\<close>

definition list_event :: "event \<Rightarrow> ((pystr \<times> pystr) list, unit) prog" where
  "list_event e =
    (case e of
       EvEnter pid peer_name _ \<Rightarrow> modify (dict_set pid peer_name)
     | EvExit pid _ \<Rightarrow> modify (dict_pop pid)
     | _ \<Rightarrow> ret ())"

definition peer_list_loop :: "turn list \<Rightarrow> ((pystr \<times> pystr) list, unit) app" where
  "peer_list_loop turns = event_loop (\<lambda>e. on_own (list_event e)) turns"

subsection \<open>The three programs\<close>

text \<open>
  \<open>_spinup_node\<close>, on the node that \<open>ZreNode(...)\<close> made. The run loop is started as a task; \<open>others\<close> is
  what it does during the waits.
\<close>

definition spinup_node :: "env \<Rightarrow> options \<Rightarrow> (nat \<Rightarrow> unit nprog) \<Rightarrow> unit nprog \<Rightarrow> unit nprog" where
  "spinup_node E opts others last_wait =
     thenDo (set_own_uuid opts)
     (thenDo (set_options opts)
     (thenDo (start E)
     (thenDo (wait_until has_peers others 30)
     (thenDo (api_join (PyBytes (blit ''FILE_XFER'')))
       (meanwhile last_wait)))))"

text \<open>Cancelling the run task ends it where it waits, without a further step; then the node stops.\<close>

definition main_receive ::
  "env \<Rightarrow> options \<Rightarrow> (path \<Rightarrow> bool) \<Rightarrow> path \<Rightarrow> (nat \<Rightarrow> unit nprog) \<Rightarrow> unit nprog \<Rightarrow> turn list \<Rightarrow>
   (receiver, unit) app" where
  "main_receive E opts opens output_dir others last_wait turns =
     thenDo (on_node (spinup_node E opts others last_wait))
       (try_finally (receive_loop (e_rt E) opens output_dir turns) (on_node (stop E)))"

definition main_list ::
  "env \<Rightarrow> options \<Rightarrow> (nat \<Rightarrow> unit nprog) \<Rightarrow> unit nprog \<Rightarrow> turn list \<Rightarrow> ((pystr \<times> pystr) list, unit) app" where
  "main_list E opts others last_wait turns =
     thenDo (on_node (spinup_node E opts others last_wait))
       (try_finally (peer_list_loop turns) (on_node (stop E)))"

definition main_send ::
  "env \<Rightarrow> options \<Rightarrow> pystr \<Rightarrow> local_file option \<Rightarrow> (nat \<Rightarrow> unit nprog) \<Rightarrow> unit nprog \<Rightarrow>
   (nat \<Rightarrow> unit nprog) \<Rightarrow> unit nprog \<Rightarrow> unit nprog" where
  "main_send E opts peer_id filepath others last_wait searching sending =
     thenDo (spinup_node E opts others last_wait)
     (thenDo (wait_until (\<lambda>s. peer_id \<in> set (peer_ids s)) searching 30)
     (andThen (gets peer_ids) (\<lambda>peers.
      thenDo (only_if (peer_id \<in> set peers)
                (thenDo (send_file peer_id filepath) (meanwhile sending)))
        (stop E))))"

subsection \<open>Streaming to a group\<close>

text \<open>
  \<open>examples/media_stream.py\<close>. The sender lets the others run after every 512 KiB; \<open>others sent\<close> is what
  they do then.
\<close>

definition MEDIA_GROUP :: bytes where
  "MEDIA_GROUP = blit ''MEDIA''"

function send_stream :: "(bytes \<Rightarrow> unit nprog) \<Rightarrow> (nat \<Rightarrow> unit nprog) \<Rightarrow> nat \<Rightarrow> bytes \<Rightarrow> unit nprog" where
  "send_stream send others sent content =
    (let chunk = take CHUNK_SIZE content; sent' = sent + length chunk
     in if chunk = [] then ret ()
        else thenDo (send (blit ''CHUNK:'' @ chunk))
             (thenDo (only_if (sent' mod (512 * 1024) = 0) (meanwhile (others sent')))
               (send_stream send others sent' (drop CHUNK_SIZE content))))"
  by pat_completeness auto
termination
  by (relation "measure (\<lambda>(_, _, _, content). length content)") (auto simp: CHUNK_SIZE_def)

declare send_stream.simps [simp del]

definition stream_file :: "local_file \<Rightarrow> (nat \<Rightarrow> unit nprog) \<Rightarrow> unit nprog" where
  "stream_file f others =
    (let shout = (\<lambda>payload. api_shout (PyBytes MEDIA_GROUP) (PyBytes payload))
     in andThen (lift_exn (transfer_header ''MEDIA_START'' f)) (\<lambda>header.
        thenDo (shout header)
        (thenDo (send_stream shout others 0 (lf_content f))
          (shout (blit ''MEDIA_END'')))))"

definition media_node :: "env \<Rightarrow> options \<Rightarrow> string \<Rightarrow> (nat \<Rightarrow> unit nprog) \<Rightarrow> unit nprog" where
  "media_node E opts role others =
     thenDo (set_own_uuid opts)
     (thenDo (set_header (PyStr (lit ''X-ROLE'')) (PyStr (lit role)))
     (thenDo (set_options opts)
     (thenDo (start E)
     (thenDo (wait_until has_peers others 30)
       (api_join (PyBytes MEDIA_GROUP))))))"

definition send_media ::
  "env \<Rightarrow> options \<Rightarrow> local_file option \<Rightarrow> (nat \<Rightarrow> unit nprog) \<Rightarrow> (nat \<Rightarrow> unit nprog) \<Rightarrow>
   (nat \<Rightarrow> unit nprog) \<Rightarrow> unit nprog \<Rightarrow> unit nprog" where
  "send_media E opts filepath others others' during last_wait =
    (case filepath of
       None \<Rightarrow> ret ()
     | Some f \<Rightarrow>
         thenDo (media_node E opts ''media-send'' others)
         (thenDo (wait_until has_peers others' 30)
         (thenDo (stream_file f during)
         (thenDo (meanwhile last_wait) (stop E)))))"

record media_receiver = receiver +
  rm_name :: pystr

definition media_payload :: "pyrt \<Rightarrow> (path \<Rightarrow> bool) \<Rightarrow> path \<Rightarrow> bytes \<Rightarrow> (media_receiver, unit) prog" where
  "media_payload R opens out_dir payload =
    (if starts_with (blit ''MEDIA_START:'') payload then
       (case header_parts payload of
          None \<Rightarrow> ret ()
        | Some (filename, size_str) \<Rightarrow>
            andThen (lift_exn (py_int R size_str)) (\<lambda>expected.
            thenDo (modify (\<lambda>r. r\<lparr>rc_expected := expected, rm_name := filename\<rparr>))
              (open_output opens out_dir filename)))
     else if starts_with (blit ''CHUNK:'') payload then
       andThen (gets rc_handle) (\<lambda>h. only_if (h \<noteq> None) (write_chunk (drop 6 payload)))
     else if payload = blit ''MEDIA_END'' then
       andThen (gets rc_handle) (\<lambda>h. only_if (h \<noteq> None)
         (thenDo close_output
           (modify (\<lambda>r. r\<lparr>rc_expected := 0, rc_received := 0, rm_name := []\<rparr>))))
     else ret ())"

definition media_event :: "pyrt \<Rightarrow> (path \<Rightarrow> bool) \<Rightarrow> path \<Rightarrow> event \<Rightarrow> (media_receiver, unit) prog" where
  "media_event R opens out_dir e =
    (case e of
       EvShout _ _ g payload \<Rightarrow> only_if (g = lit ''MEDIA'') (media_payload R opens out_dir payload)
     | _ \<Rightarrow> ret ())"

definition recv_media ::
  "env \<Rightarrow> options \<Rightarrow> (path \<Rightarrow> bool) \<Rightarrow> path \<Rightarrow> (nat \<Rightarrow> unit nprog) \<Rightarrow> turn list \<Rightarrow>
   (media_receiver, unit) app" where
  "recv_media E opts opens out_dir others turns =
     thenDo (on_node (media_node E opts ''media-recv'' others))
       (try_finally (event_loop (\<lambda>e. on_own (media_event (e_rt E) opens out_dir e)) turns)
         (thenDo (on_own close_output) (on_node (stop E))))"

end
