(* ===== verification/Zre_Ex_Transfer_Properties.thy ===== *)
theory Zre_Ex_Transfer_Properties
  imports Zre_Ex_Transfer Zre_Peer_Properties
begin

section \<open>Properties of the file transfers\<close>

text \<open>
  A transfer that nothing interferes with arrives byte for byte, whichever of the two programs sends
  it; one that another transfer overlaps does not; and the name in the header decides alone where the
  file is written. The chunk loop of either receiver satisfies one contract, the locale \<open>chunk_sink\<close>.
\<close>

subsection \<open>Chunks\<close>

function chunks :: "bytes \<Rightarrow> bytes list" where
  "chunks content =
    (if content = [] then [] else take CHUNK_SIZE content # chunks (drop CHUNK_SIZE content))"
  by pat_completeness auto
termination
  by (relation "measure length") (auto simp: CHUNK_SIZE_def)

declare chunks.simps [simp del]

lemma take_chunk: "take CHUNK_SIZE content = [] \<longleftrightarrow> content = []"
  by (simp add: CHUNK_SIZE_def)

lemma concat_chunks: "concat (chunks content) = content"
  by (induction content rule: chunks.induct) (subst chunks.simps, simp)

lemma chunk_sizes: "c \<in> set (chunks content) \<Longrightarrow> 0 < length c \<and> length c \<le> CHUNK_SIZE"
proof (induction content rule: chunks.induct)
  case (1 content)
  from "1.prems" have "content \<noteq> []" "c = take CHUNK_SIZE content \<or> c \<in> set (chunks (drop CHUNK_SIZE content))"
    by (subst (asm) chunks.simps, auto split: if_splits)+
  with "1.IH" show ?case by (auto simp: CHUNK_SIZE_def)
qed

text \<open>The messages of a transfer.\<close>

definition chunk_messages :: "bytes \<Rightarrow> bytes list" where
  "chunk_messages content = map (\<lambda>c. blit ''CHUNK:'' @ c) (chunks content)"

lemma send_chunks_messages: "send_chunks send content = for_each send (chunk_messages content)"
proof (induction content rule: chunks.induct)
  case (1 content)
  show ?case
  proof (cases "content = []")
    case True
    then show ?thesis
      by (simp add: send_chunks.simps [of send "[]"] chunk_messages_def chunks.simps [of "[]"] fun_eq_iff)
  next
    case False
    let ?m = "blit ''CHUNK:'' @ take CHUNK_SIZE content" and ?rest = "drop CHUNK_SIZE content"
    have "send_chunks send content = thenDo (send ?m) (send_chunks send ?rest)"
      by (subst send_chunks.simps) (simp only: take_chunk False if_False)
    moreover have "chunk_messages content = ?m # chunk_messages ?rest"
      unfolding chunk_messages_def by (subst chunks.simps) (simp only: False if_False list.map)
    ultimately show ?thesis using 1 [OF False] by simp
  qed
qed

lemma whispers_queued:
  assumes "utf8_encode peer_id = Inr k"
  shows "for_each (\<lambda>m. api_whisper (PyStr peer_id) (PyBytes m)) ms s =
    (Inr (), s\<lparr>n_api := n_api s @ map (CmdWhisper k) ms\<rparr>)"
  by (induction ms arbitrary: s) (simp_all add: api_whisper_def put_api_def run_thenDo run_andThen assms)

subsection \<open>Headers\<close>

lemma split_once_colon: "58 \<notin> set a \<Longrightarrow> split_once (lit '':'') (a @ lit '':'' @ b) = Some (a, b)"
  by (induction a) (auto simp: lit_def)

lemma utf8_encode_starts:
  assumes "utf8_encode (a @ b) = Inr h" and "ascii a"
  shows "starts_with (map of_nat a) h"
proof -
  have "concat (map utf8_char a) = a" using assms(2) by (induction a) (auto simp: utf8_char_def)
  with assms(1) show ?thesis by (auto simp: utf8_encode_def starts_with_def split: if_splits)
qed

lemma of_nat_lit: "map of_nat (lit s) = blit s"
  by (simp add: lit_def blit_def of_nat_of_char comp_def)

lemma header_accepted:
  assumes h: "transfer_header tag f = Inr h" and tag: "ascii (lit tag)" "58 \<notin> set (lit tag)"
    and name: "58 \<notin> set (lf_name f)"
  shows "header_parts h = Some (lf_name f, show_int (int (lf_size f)))"
    and "starts_with (blit tag @ blit '':'') h"
proof -
  from h have e: "utf8_encode (lit tag @ lit '':'' @ lf_name f @ lit '':'' @ show_int (int (lf_size f))) = Inr h"
    by (simp add: transfer_header_def)
  show "header_parts h = Some (lf_name f, show_int (int (lf_size f)))"
    by (simp add: header_parts_def decode_replace_encode [OF e] split_once_colon tag(2) name)
  have "ascii (lit tag @ lit '':'')" using tag(1) by (simp add: lit_def)
  with utf8_encode_starts [of "lit tag @ lit '':''"] e
  show "starts_with (blit tag @ blit '':'') h" by (simp flip: of_nat_lit)
qed

lemma tags_ascii:
  "ascii (lit ''FILE_START'')" "58 \<notin> set (lit ''FILE_START'')"
  "ascii (lit ''MEDIA_START'')" "58 \<notin> set (lit ''MEDIA_START'')"
  "blit ''FILE_START:'' = blit ''FILE_START'' @ blit '':''"
  "blit ''MEDIA_START:'' = blit ''MEDIA_START'' @ blit '':''"
  by (simp_all add: lit_def blit_def)

lemma chunk_marks:
  "\<not> starts_with (blit ''FILE_START:'') (blit ''CHUNK:'' @ c)"
  "\<not> starts_with (blit ''MEDIA_START:'') (blit ''CHUNK:'' @ c)"
  "starts_with (blit ''CHUNK:'') (blit ''CHUNK:'' @ c)" "length (blit ''CHUNK:'') = 6"
  "\<not> starts_with (blit ''FILE_START:'') (blit ''FILE_END'')"
  "\<not> starts_with (blit ''CHUNK:'') (blit ''FILE_END'')"
  "\<not> starts_with (blit ''MEDIA_START:'') (blit ''MEDIA_END'')"
  "\<not> starts_with (blit ''CHUNK:'') (blit ''MEDIA_END'')"
  by (simp_all add: starts_with_def blit_def)

subsection \<open>The contract of a receiver\<close>

text \<open>While a file is open, a chunk is appended to it and counted, and nothing else is written.\<close>

locale chunk_sink =
  fixes step :: "bytes \<Rightarrow> ('s, unit) prog"
    and target :: "'s \<Rightarrow> path option"
    and files :: "'s \<Rightarrow> path \<Rightarrow> bytes option"
    and got :: "'s \<Rightarrow> nat"
    and due :: "'s \<Rightarrow> int"
  assumes chunk: "target s = Some p \<Longrightarrow> files s p = Some b \<Longrightarrow>
    \<exists>s'. step (blit ''CHUNK:'' @ c) s = (Inr (), s') \<and> target s' = Some p \<and>
      files s' = (files s)(p \<mapsto> b @ c) \<and> got s' = got s + length c \<and> due s' = due s"
begin

lemma chunks_appended:
  assumes "target s = Some p" and "files s p = Some b"
  shows "\<exists>s'. for_each step (map (\<lambda>c. blit ''CHUNK:'' @ c) cs) s = (Inr (), s') \<and> target s' = Some p \<and>
    files s' = (files s)(p \<mapsto> b @ concat cs) \<and> got s' = got s + length (concat cs) \<and> due s' = due s"
  using assms
proof (induction cs arbitrary: s b)
  case Nil
  then show ?case by (auto simp: fun_upd_idem)
next
  case (Cons c cs)
  from chunk [OF Cons.prems, of c] obtain s1 where s1: "step (blit ''CHUNK:'' @ c) s = (Inr (), s1)"
      "target s1 = Some p" "files s1 = (files s)(p \<mapsto> b @ c)" "got s1 = got s + length c" "due s1 = due s"
    by blast
  from s1(3) have "files s1 p = Some (b @ c)" by simp
  from Cons.IH [OF s1(2) this] s1 show ?case
    by (force simp: run_thenDo fun_upd_upd [symmetric] simp del: fun_upd_apply)
qed

text \<open>A whole file: all its chunks, in order.\<close>

lemma file_appended:
  assumes "target s = Some p" and "files s p = Some []" and "got s = 0"
  shows "\<exists>s'. for_each step (chunk_messages content) s = (Inr (), s') \<and> target s' = Some p \<and>
    files s' = (files s)(p \<mapsto> content) \<and> got s' = length content \<and> due s' = due s"
  using chunks_appended [OF assms(1,2), of "chunks content"] assms(3)
  by (simp add: chunk_messages_def concat_chunks)

end

definition stored_files :: "'r receiver_scheme \<Rightarrow> path \<Rightarrow> bytes option" where
  "stored_files r = dict_get (rc_files r)"

lemma write_chunk_run:
  assumes "rc_handle r = Some p" and "dict_get (rc_files r) p = Some b"
  shows "write_chunk c r = (Inr (), r\<lparr>rc_files := dict_set p (b @ c) (rc_files r),
    rc_received := rc_received r + length c\<rparr>)"
  using assms by (simp add: write_chunk_def)

interpretation file_sink:
  chunk_sink "receive_payload R opens output_dir" rc_handle stored_files rc_received rc_expected
  for R opens output_dir
  by unfold_locales
    (auto simp: receive_payload_def chunk_marks stored_files_def write_chunk_run AList.update_conv')

interpretation media_sink:
  chunk_sink "media_payload R opens out_dir" rc_handle stored_files rc_received rc_expected
  for R opens out_dir
  by unfold_locales
    (auto simp: media_payload_def chunk_marks stored_files_def write_chunk_run AList.update_conv')

lemma open_output_run:
  assumes "opens (path_join d name)" and "0 \<notin> set name"
  shows "open_output opens d name r = (Inr (), r\<lparr>rc_files := dict_set (path_join d name) [] (rc_files r),
    rc_handle := Some (path_join d name), rc_received := 0\<rparr>)"
  using assms by (simp add: open_output_def Let_def)

subsection \<open>Transfers that nothing interferes with\<close>

text \<open>A file that can be sent and whose name the receiver can open.\<close>

definition sendable :: "pyrt \<Rightarrow> string \<Rightarrow> local_file \<Rightarrow> bytes \<Rightarrow> bool" where
  "sendable R tag f header \<longleftrightarrow> transfer_header tag f = Inr header \<and> 58 \<notin> set (lf_name f)
     \<and> 0 \<notin> set (lf_name f) \<and> digits_fit R (int (lf_size f))"

lemma send_file_queues:
  assumes "transfer_header ''FILE_START'' f = Inr header" and "utf8_encode peer_id = Inr k"
  shows "send_file peer_id (Some f) s = (Inr (), s\<lparr>n_api := n_api s @ map (CmdWhisper k)
    (header # chunk_messages (lf_content f) @ [blit ''FILE_END''])\<rparr>)"
proof -
  have one: "api_whisper (PyStr peer_id) (PyBytes m) s = (Inr (), s\<lparr>n_api := n_api s @ [CmdWhisper k m]\<rparr>)"
    for m s by (simp add: api_whisper_def put_api_def run_andThen assms(2))
  show ?thesis
    by (simp add: send_file_def Let_def run_andThen [of "lift_exn _"] run_thenDo send_chunks_messages assms(1)
        whispers_queued [OF assms(2)] one)
qed

lemma receive_header:
  assumes "sendable R ''FILE_START'' f header" and "opens (path_join d (lf_name f))"
  shows "receive_payload R opens d header r = (Inr (), r\<lparr>rc_expected := int (lf_size f),
    rc_files := dict_set (path_join d (lf_name f)) [] (rc_files r),
    rc_handle := Some (path_join d (lf_name f)), rc_received := 0\<rparr>)"
  using assms header_accepted [of "''FILE_START''" f header, OF _ tags_ascii(1,2)]
  by (simp add: sendable_def receive_payload_def tags_ascii(5) py_int_show run_andThen [of "lift_exn _"]
      open_output_run)

text \<open>
  C26: \<open>send_file\<close> and \<open>receive_loop\<close> of the file transfer example fit together. Sending a file only queues
  whispers, and a receiver that gets exactly them, in any state it is in, ends with no file open and
  with the very bytes of the file stored under its name in the output directory; every other file is
  as before, and the count it kept is the length of the file.
\<close>

theorem transfer_round_trip:
  assumes "sendable R ''FILE_START'' f header" and "utf8_encode peer_id = Inr k"
    and "opens (path_join d (lf_name f))"
  shows "\<exists>ms r'. send_file peer_id (Some f) s = (Inr (), s\<lparr>n_api := n_api s @ map (CmdWhisper k) ms\<rparr>)
    \<and> for_each (\<lambda>m. receive_event R opens d (EvWhisper sender nm m)) ms r = (Inr (), r')
    \<and> stored_files r' = (stored_files r)(path_join d (lf_name f) \<mapsto> lf_content f)
    \<and> rc_handle r' = None \<and> rc_received r' = length (lf_content f) \<and> rc_expected r' = int (lf_size f)"
proof -
  let ?p = "path_join d (lf_name f)" and ?ms = "header # chunk_messages (lf_content f) @ [blit ''FILE_END'']"
  let ?r1 = "r\<lparr>rc_expected := int (lf_size f), rc_files := dict_set ?p [] (rc_files r),
    rc_handle := Some ?p, rc_received := 0\<rparr>"
  note run1 = receive_header [of R f header opens d r, OF assms(1,3)]
  have new: "rc_handle ?r1 = Some ?p" "stored_files ?r1 ?p = Some []" "rc_received ?r1 = 0"
    by (simp_all add: stored_files_def alist.get_put)
  from file_sink.file_appended [OF new, of R opens d "lf_content f"] obtain r2 where
      run2: "for_each (receive_payload R opens d) (chunk_messages (lf_content f)) ?r1 = (Inr (), r2)"
    and r2: "rc_handle r2 = Some ?p" "stored_files r2 = (stored_files ?r1)(?p \<mapsto> lf_content f)"
      "rc_received r2 = length (lf_content f)" "rc_expected r2 = int (lf_size f)" by auto
  have run3: "receive_payload R opens d (blit ''FILE_END'') r2 = (Inr (), r2\<lparr>rc_handle := None\<rparr>)"
    by (simp add: receive_payload_def chunk_marks close_output_def r2(1))
  have loop: "(\<lambda>m. receive_event R opens d (EvWhisper sender nm m)) = receive_payload R opens d"
    by (simp add: receive_event_def fun_eq_iff)
  have "for_each (receive_payload R opens d) ?ms r = (Inr (), r2\<lparr>rc_handle := None\<rparr>)"
    by (simp add: run_thenDo run1 for_each_append run2 run3)
  moreover have "stored_files (r2\<lparr>rc_handle := None\<rparr>) = (stored_files r)(?p \<mapsto> lf_content f)"
    using r2(2) by (simp add: stored_files_def AList.update_conv')
  moreover have "send_file peer_id (Some f) s = (Inr (), s\<lparr>n_api := n_api s @ map (CmdWhisper k) ?ms\<rparr>)"
    using assms(1) by (intro send_file_queues assms(2)) (simp add: sendable_def)
  ultimately show ?thesis using r2(3,4)
    unfolding loop by (intro exI [of _ ?ms] exI [of _ "r2\<lparr>rc_handle := None\<rparr>"]) simp
qed

definition demo_file :: local_file where
  "demo_file = \<lparr>lf_name = lit ''a.txt'', lf_size = 3, lf_content = [1, 2, 3]\<rparr>"

definition demo_header :: bytes where
  "demo_header = blit ''FILE_START:a.txt:3''"

lemma demo_sendable: "sendable plain_rt ''FILE_START'' demo_file demo_header"
proof -
  have full: "lit ''FILE_START'' @ lit '':'' @ lit ''a.txt'' @ lit '':'' @ show_int 3 = lit ''FILE_START:a.txt:3''"
    by (simp add: lit_def show_int_def show_nat.simps [of 3])
  have "ascii (lit ''FILE_START:a.txt:3'')" by (simp add: lit_def)
  from utf8_encode_ascii [OF this] full show ?thesis
    by (simp add: sendable_def transfer_header_def demo_file_def demo_header_def of_nat_lit)
      (simp add: lit_def digits_fit_def plain_rt_def show_nat.simps [of 3])
qed

lemma transfer_round_trip_witness:
  "\<exists>ms r'. send_file (lit ''ab'') (Some demo_file) example_node =
      (Inr (), example_node\<lparr>n_api := n_api example_node @ map (CmdWhisper [97, 98]) ms\<rparr>)
    \<and> for_each (\<lambda>m. receive_event plain_rt (\<lambda>_. True) (0, []) (EvWhisper [] [] m)) ms new_receiver = (Inr (), r')
    \<and> stored_files r' = (stored_files new_receiver)(path_join (0, []) (lf_name demo_file) \<mapsto> [1, 2, 3])
    \<and> rc_handle r' = None \<and> rc_received r' = 3 \<and> rc_expected r' = 3"
proof -
  have k: "utf8_encode (lit ''ab'') = Inr [97, 98]" by (simp add: lit_def utf8_encode_ascii)
  from transfer_round_trip [OF demo_sendable k, of "\<lambda>_. True" "(0, [])" example_node "[]" "[]" new_receiver]
  show ?thesis by (simp add: demo_file_def numeral_3_eq_3)
qed

subsection \<open>Transfers that interfere\<close>

text \<open>
  A receiver does not tell its senders apart. When a second file is announced, by the same peer or
  by another, while a first one is under way, the chunks of the first go into the second file and the
  first stays empty.
\<close>

theorem interleaved_transfers_mix:
  assumes "sendable R ''FILE_START'' f hf" and "sendable R ''FILE_START'' g hg"
    and "opens (path_join d (lf_name f))" and "opens (path_join d (lf_name g))"
    and "path_join d (lf_name f) \<noteq> path_join d (lf_name g)"
  shows "\<exists>r'. for_each (receive_event R opens d)
      (EvWhisper a na hf # EvWhisper b nb hg # map (EvWhisper a na) (chunk_messages (lf_content f) @ [blit ''FILE_END''])) r
      = (Inr (), r')
    \<and> stored_files r' = (stored_files r)(path_join d (lf_name f) \<mapsto> [], path_join d (lf_name g) \<mapsto> lf_content f)
    \<and> rc_handle r' = None"
proof -
  let ?p = "path_join d (lf_name f)" and ?q = "path_join d (lf_name g)"
  define r1 where "r1 = r\<lparr>rc_expected := int (lf_size f), rc_files := dict_set ?p [] (rc_files r),
    rc_handle := Some ?p, rc_received := 0\<rparr>"
  define r2 where "r2 = r1\<lparr>rc_expected := int (lf_size g), rc_files := dict_set ?q [] (rc_files r1),
    rc_handle := Some ?q, rc_received := 0\<rparr>"
  have run1: "receive_payload R opens d hf r = (Inr (), r1)"
    unfolding r1_def by (rule receive_header [where opens = opens, OF assms(1,3)])
  have run2: "receive_payload R opens d hg r1 = (Inr (), r2)"
    unfolding r2_def by (rule receive_header [where opens = opens, OF assms(2,4)])
  have new: "rc_handle r2 = Some ?q" "stored_files r2 ?q = Some []" "rc_received r2 = 0"
    by (simp_all add: r2_def stored_files_def alist.get_put)
  from file_sink.file_appended [OF new, of R opens d "lf_content f"] obtain r3 where
      run3: "for_each (receive_payload R opens d) (chunk_messages (lf_content f)) r2 = (Inr (), r3)"
    and r3: "rc_handle r3 = Some ?q" "stored_files r3 = (stored_files r2)(?q \<mapsto> lf_content f)" by auto
  have loop: "for_each (receive_event R opens d) (map (EvWhisper a na) ms) = for_each (receive_payload R opens d) ms"
    for ms by (simp add: for_each_map receive_event_def)
  have files: "stored_files r2 = (stored_files r)(?p \<mapsto> [], ?q \<mapsto> [])"
    by (simp add: r2_def r1_def stored_files_def AList.update_conv')
  show ?thesis
    using r3 files
    by (intro exI [of _ "r3\<lparr>rc_handle := None\<rparr>"])
      (simp add: receive_event_def [of R opens d "EvWhisper _ _ _"] run_thenDo run1 run2 loop for_each_append run3
        receive_payload_def [of R opens d "blit ''FILE_END''"] chunk_marks close_output_def stored_files_def)
qed

definition demo_file2 :: local_file where
  "demo_file2 = demo_file\<lparr>lf_name := lit ''b.txt''\<rparr>"

lemma demo_sendable2: "sendable plain_rt ''FILE_START'' demo_file2 (blit ''FILE_START:b.txt:3'')"
proof -
  have full: "lit ''FILE_START'' @ lit '':'' @ lit ''b.txt'' @ lit '':'' @ show_int 3 = lit ''FILE_START:b.txt:3''"
    by (simp add: lit_def show_int_def show_nat.simps [of 3])
  have "ascii (lit ''FILE_START:b.txt:3'')" by (simp add: lit_def)
  from utf8_encode_ascii [OF this] full show ?thesis
    by (simp add: sendable_def transfer_header_def demo_file_def demo_file2_def of_nat_lit)
      (simp add: lit_def digits_fit_def plain_rt_def show_nat.simps [of 3])
qed

lemma interleaved_transfers_mix_witness:
  "\<exists>r'. for_each (receive_event plain_rt (\<lambda>_. True) (0, []))
      (EvWhisper [1] [] demo_header # EvWhisper [2] [] (blit ''FILE_START:b.txt:3'') #
       map (EvWhisper [1] []) (chunk_messages [1, 2, 3] @ [blit ''FILE_END''])) new_receiver = (Inr (), r')
    \<and> stored_files r' = (stored_files new_receiver)((0, [lit ''a.txt'']) \<mapsto> [], (0, [lit ''b.txt'']) \<mapsto> [1, 2, 3])
    \<and> rc_handle r' = None"
proof -
  have p: "path_join (0, []) (lf_name demo_file) = (0, [lit ''a.txt''])"
    "path_join (0, []) (lf_name demo_file2) = (0, [lit ''b.txt''])" "lf_content demo_file = [1, 2, 3]"
    by (simp_all add: path_join_def path_of_def Let_def demo_file_def demo_file2_def lit_def)
  from interleaved_transfers_mix [OF demo_sendable demo_sendable2, of "\<lambda>_. True" "(0, [])" "[1]" "[]" "[2]" "[]" new_receiver]
  show ?thesis by (simp add: p) (simp add: lit_def)
qed

text \<open>
  The output directory does not confine a receiver. An absolute name in the header of any peer is
  opened, and so emptied, where it points, whatever the output directory is.
\<close>

theorem absolute_name_escapes:
  assumes "sendable R ''FILE_START'' f header" and "lf_name f = 47 # rest"
    and "opens (path_of (lf_name f))"
  shows "\<exists>r'. receive_event R opens output_dir (EvWhisper sender nm header) r = (Inr (), r')
    \<and> stored_files r' = (stored_files r)(path_of (lf_name f) \<mapsto> []) \<and> rc_handle r' = Some (path_of (lf_name f))"
proof -
  have "path_join output_dir (lf_name f) = path_of (lf_name f)"
    using assms(2) by (simp add: path_join_def path_of_def Let_def)
  with receive_header [OF assms(1), of opens output_dir r] assms(3) show ?thesis
    by (simp add: receive_event_def stored_files_def AList.update_conv')
qed

lemma absolute_name_escapes_witness:
  "\<exists>r'. receive_event plain_rt (\<lambda>_. True) (1, [lit ''out'']) (EvWhisper [] [] (blit ''FILE_START:/x:0'')) new_receiver
      = (Inr (), r')
    \<and> stored_files r' = (stored_files new_receiver)((1, [lit ''x'']) \<mapsto> []) \<and> rc_handle r' = Some (1, [lit ''x''])"
proof -
  define f where "f = \<lparr>lf_name = lit ''/x'', lf_size = 0, lf_content = []\<rparr>"
  have full: "lit ''FILE_START'' @ lit '':'' @ lit ''/x'' @ lit '':'' @ show_int 0 = lit ''FILE_START:/x:0''"
    by (simp add: lit_def show_int_def show_nat.simps [of 0])
  have "ascii (lit ''FILE_START:/x:0'')" by (simp add: lit_def)
  from utf8_encode_ascii [OF this] full have s: "sendable plain_rt ''FILE_START'' f (blit ''FILE_START:/x:0'')"
    by (simp add: sendable_def transfer_header_def f_def of_nat_lit)
      (simp add: lit_def digits_fit_def plain_rt_def show_nat.simps [of 0])
  have p: "path_of (47 # lit ''x'') = (1, [lit ''x''])" "lf_name f = 47 # lit ''x''"
    by (simp_all add: path_of_def Let_def f_def lit_def)
  from absolute_name_escapes [OF s p(2), of "\<lambda>_. True" "(1, [lit ''out''])" "[]" "[]" new_receiver] p(1)
  show ?thesis by (simp add: p(2))
qed

subsection \<open>Streams\<close>

lemma send_stream_messages:
  "send_stream send (\<lambda>_. ret ()) sent content = for_each send (chunk_messages content)"
proof (induction content arbitrary: sent rule: chunks.induct)
  case (1 content)
  show ?case
  proof (cases "content = []")
    case True
    then show ?thesis
      by (simp add: send_stream.simps [of send _ _ "[]"] chunk_messages_def chunks.simps [of "[]"] fun_eq_iff)
  next
    case False
    let ?m = "blit ''CHUNK:'' @ take CHUNK_SIZE content" and ?rest = "drop CHUNK_SIZE content"
    let ?sent = "sent + length (take CHUNK_SIZE content)"
    have quiet: "thenDo (only_if b (meanwhile (ret ()))) k = k" for b and k :: "unit nprog"
      by (cases b) (simp_all add: fun_eq_iff run_thenDo)
    have "send_stream send (\<lambda>_. ret ()) sent content =
        thenDo (send ?m) (send_stream send (\<lambda>_. ret ()) ?sent ?rest)"
      by (subst send_stream.simps) (simp only: take_chunk False if_False Let_def quiet)
    moreover have "chunk_messages content = ?m # chunk_messages ?rest"
      unfolding chunk_messages_def by (subst chunks.simps) (simp only: False if_False list.map)
    ultimately show ?thesis by (simp only: 1 [OF False] for_each.simps)
  qed
qed

lemma shouts_queued:
  "for_each (\<lambda>m. api_shout (PyBytes MEDIA_GROUP) (PyBytes m)) ms s =
    (Inr (), s\<lparr>n_api := n_api s @ map (CmdShout MEDIA_GROUP) ms\<rparr>)"
proof -
  have "wire_string (PyBytes MEDIA_GROUP) = Inr MEDIA_GROUP"
    by (simp add: wire_string_def MEDIA_GROUP_def blit_def MAX_STRING_BYTES_def)
  then show ?thesis
    by (induction ms arbitrary: s) (simp_all add: api_shout_def put_api_def run_thenDo run_andThen)
qed

text \<open>
  The same for the media stream example: what \<open>stream_file\<close> shouts to the group, when nothing else is
  queued meanwhile, makes a receiver that gets it store exactly the bytes of the file.
\<close>

theorem stream_round_trip:
  assumes "sendable R ''MEDIA_START'' f header" and "opens (path_join d (lf_name f))"
  shows "\<exists>ms r'. stream_file f (\<lambda>_. ret ()) s = (Inr (), s\<lparr>n_api := n_api s @ map (CmdShout MEDIA_GROUP) ms\<rparr>)
    \<and> for_each (\<lambda>m. media_event R opens d (EvShout sender nm (lit ''MEDIA'') m)) ms r = (Inr (), r')
    \<and> stored_files r' = (stored_files r)(path_join d (lf_name f) \<mapsto> lf_content f)
    \<and> rc_handle r' = None \<and> rc_received r' = 0"
proof -
  let ?p = "path_join d (lf_name f)" and ?ms = "header # chunk_messages (lf_content f) @ [blit ''MEDIA_END'']"
  have h: "transfer_header ''MEDIA_START'' f = Inr header" "58 \<notin> set (lf_name f)" "0 \<notin> set (lf_name f)"
    "digits_fit R (int (lf_size f))"
    using assms(1) by (simp_all add: sendable_def)
  define r1 where "r1 = r\<lparr>rc_expected := int (lf_size f), rm_name := lf_name f,
    rc_files := dict_set ?p [] (rc_files r), rc_handle := Some ?p, rc_received := 0\<rparr>"
  have run1: "media_payload R opens d header r = (Inr (), r1)"
    using header_accepted [OF h(1) tags_ascii(3,4) h(2)] h(3,4) assms(2)
    by (simp add: media_payload_def tags_ascii(6) py_int_show run_andThen [of "lift_exn _"] open_output_run r1_def)
  have new: "rc_handle r1 = Some ?p" "stored_files r1 ?p = Some []" "rc_received r1 = 0"
    by (simp_all add: r1_def stored_files_def alist.get_put)
  from media_sink.file_appended [OF new, of R opens d "lf_content f"] obtain r2 where
      run2: "for_each (media_payload R opens d) (chunk_messages (lf_content f)) r1 = (Inr (), r2)"
    and r2: "rc_handle r2 = Some ?p" "stored_files r2 = (stored_files r1)(?p \<mapsto> lf_content f)" by auto
  let ?r3 = "r2\<lparr>rc_handle := None, rc_expected := 0, rc_received := 0, rm_name := []\<rparr>"
  have run3: "media_payload R opens d (blit ''MEDIA_END'') r2 = (Inr (), ?r3)"
    by (simp add: media_payload_def chunk_marks close_output_def r2(1))
  have loop: "(\<lambda>m. media_event R opens d (EvShout sender nm (lit ''MEDIA'') m)) = media_payload R opens d"
    by (simp add: media_event_def fun_eq_iff)
  have "for_each (media_payload R opens d) ?ms r = (Inr (), ?r3)"
    by (simp add: run_thenDo run1 for_each_append run2 run3)
  moreover have "stored_files ?r3 = (stored_files r)(?p \<mapsto> lf_content f)"
    using r2(2) by (simp add: r1_def stored_files_def AList.update_conv')
  moreover have "stream_file f (\<lambda>_. ret ()) s = (Inr (), s\<lparr>n_api := n_api s @ map (CmdShout MEDIA_GROUP) ?ms\<rparr>)"
    using shouts_queued [of ?ms s]
    by (simp add: stream_file_def Let_def run_andThen [of "lift_exn _"] h(1) send_stream_messages run_thenDo
        for_each_append split: prod.splits sum.splits)
  ultimately show ?thesis
    unfolding loop by (intro exI [of _ ?ms] exI [of _ ?r3]) simp
qed

lemma stream_round_trip_witness:
  "\<exists>ms r'. stream_file demo_file (\<lambda>_. ret ()) example_node =
      (Inr (), example_node\<lparr>n_api := n_api example_node @ map (CmdShout MEDIA_GROUP) ms\<rparr>)
    \<and> for_each (\<lambda>m. media_event plain_rt (\<lambda>_. True) (0, []) (EvShout [] [] (lit ''MEDIA'') m)) ms
        (receiver.extend new_receiver \<lparr>rm_name = []\<rparr>) = (Inr (), r')
    \<and> stored_files r' = (stored_files (receiver.extend new_receiver \<lparr>rm_name = []\<rparr>))
        (path_join (0, []) (lf_name demo_file) \<mapsto> lf_content demo_file)
    \<and> rc_handle r' = None \<and> rc_received r' = 0"
proof -
  have full: "lit ''MEDIA_START'' @ lit '':'' @ lit ''a.txt'' @ lit '':'' @ show_int 3 = lit ''MEDIA_START:a.txt:3''"
    by (simp add: lit_def show_int_def show_nat.simps [of 3])
  have "ascii (lit ''MEDIA_START:a.txt:3'')" by (simp add: lit_def)
  from utf8_encode_ascii [OF this] full
  have s: "sendable plain_rt ''MEDIA_START'' demo_file (blit ''MEDIA_START:a.txt:3'')"
    by (simp add: sendable_def transfer_header_def demo_file_def of_nat_lit)
      (simp add: lit_def digits_fit_def plain_rt_def show_nat.simps [of 3])
  show ?thesis by (rule stream_round_trip [OF s]) simp
qed

end
