(* ===== verification/Zre_Ex_Trackers.thy ===== *)
theory Zre_Ex_Trackers
  imports Zre_Ex_Common
begin

section \<open>Programs that follow the events\<close>

text \<open>
  The example programs that keep a table of the peers by the events of their node: \<open>presence.py\<close>,
  \<open>health_monitor.py\<close> and \<open>service_discovery.py\<close>, with the small programs \<open>leader_election.py\<close> and
  \<open>chat.py\<close>. What \<open>time.time()\<close> tells, given what has happened, is an argument.
\<close>

subsection \<open>The health monitor\<close>

datatype health_status = Healthy | Evasive | Dead

record peer_health =
  ph_peer_id :: pystr
  ph_name :: pystr
  ph_status :: health_status
  ph_last_seen :: real
  ph_evasive_count :: nat
  ph_groups :: "pystr list"     \<comment> \<open>a Python set\<close>

text \<open>The monitor, with the calls it made of its callbacks: which one, the entry, the old status.\<close>

record monitor =
  mo_peers :: "(pystr \<times> peer_health) list"
  mo_callbacks :: "nat list"
  mo_calls :: "(nat \<times> peer_health \<times> health_status) list"

definition new_health :: "pystr \<Rightarrow> pystr \<Rightarrow> real \<Rightarrow> peer_health" where
  "new_health peer_id name now =
     \<lparr>ph_peer_id = peer_id, ph_name = name, ph_status = Healthy, ph_last_seen = now,
      ph_evasive_count = 0, ph_groups = []\<rparr>"

definition register_status_callback :: "nat \<Rightarrow> monitor \<Rightarrow> monitor" where
  "register_status_callback cb m = m\<lparr>mo_callbacks := mo_callbacks m @ [cb]\<rparr>"

text \<open>\<open>_notify\<close>: what a callback raises is printed only.\<close>

definition notify :: "peer_health \<Rightarrow> health_status \<Rightarrow> monitor \<Rightarrow> monitor" where
  "notify h old m = m\<lparr>mo_calls := mo_calls m @ map (\<lambda>cb. (cb, h, old)) (mo_callbacks m)\<rparr>"

definition upd_health :: "pystr \<Rightarrow> (peer_health \<Rightarrow> peer_health) \<Rightarrow> monitor \<Rightarrow> monitor" where
  "upd_health peer_id f m =
    (case dict_get (mo_peers m) peer_id of
       None \<Rightarrow> m
     | Some h \<Rightarrow> m\<lparr>mo_peers := dict_set peer_id (f h) (mo_peers m)\<rparr>)"

definition notify_of :: "pystr \<Rightarrow> health_status \<Rightarrow> monitor \<Rightarrow> monitor" where
  "notify_of peer_id old m =
    (case dict_get (mo_peers m) peer_id of None \<Rightarrow> m | Some h \<Rightarrow> notify h old m)"

definition health_event :: "real \<Rightarrow> event \<Rightarrow> monitor \<Rightarrow> monitor" where
  "health_event now e m =
    (case e of
       EvEnter peer_id name _ \<Rightarrow>
         (let m = (case dict_get (mo_peers m) peer_id of
                     None \<Rightarrow> m\<lparr>mo_peers := dict_set peer_id (new_health peer_id name now) (mo_peers m)\<rparr>
                   | Some _ \<Rightarrow> upd_health peer_id (\<lambda>h. h\<lparr>ph_name := name\<rparr>) m)
          in upd_health peer_id (\<lambda>h. h\<lparr>ph_status := Healthy, ph_last_seen := now\<rparr>) m)
     | EvExit peer_id _ \<Rightarrow>
         (case dict_get (mo_peers m) peer_id of
            None \<Rightarrow> m
          | Some h \<Rightarrow> notify_of peer_id (ph_status h) (upd_health peer_id (\<lambda>h. h\<lparr>ph_status := Dead\<rparr>) m))
     | EvEvasive peer_id _ \<Rightarrow>
         (case dict_get (mo_peers m) peer_id of
            None \<Rightarrow> m
          | Some h \<Rightarrow> notify_of peer_id (ph_status h) (upd_health peer_id
              (\<lambda>h. h\<lparr>ph_status := Evasive, ph_evasive_count := ph_evasive_count h + 1\<rparr>) m))
     | EvJoin peer_id _ g \<Rightarrow> upd_health peer_id (\<lambda>h. h\<lparr>ph_groups := List.insert g (ph_groups h)\<rparr>) m
     | EvLeave peer_id _ g \<Rightarrow> upd_health peer_id (\<lambda>h. h\<lparr>ph_groups := removeAll g (ph_groups h)\<rparr>) m
     | _ \<Rightarrow> m)"

record cluster_health =
  ch_total :: nat
  ch_healthy :: nat
  ch_evasive :: nat
  ch_dead :: nat
  ch_percentage :: real

definition count_status :: "health_status \<Rightarrow> monitor \<Rightarrow> nat" where
  "count_status st m = length (filter (\<lambda>(_, h). ph_status h = st) (mo_peers m))"

definition get_cluster_health :: "monitor \<Rightarrow> cluster_health" where
  "get_cluster_health m =
    (let total = length (mo_peers m); healthy = count_status Healthy m
     in \<lparr>ch_total = total, ch_healthy = healthy, ch_evasive = count_status Evasive m,
         ch_dead = count_status Dead m,
         ch_percentage = (if 0 < total then real healthy / real total * 100 else 100)\<rparr>)"

definition new_monitor :: monitor where
  "new_monitor = \<lparr>mo_peers = [], mo_callbacks = [], mo_calls = []\<rparr>"

text \<open>An event handler that looks at the clock.\<close>

definition timed :: "(io list \<Rightarrow> real) \<Rightarrow> (real \<Rightarrow> event \<Rightarrow> 'x \<Rightarrow> 'x) \<Rightarrow> event \<Rightarrow> ('x, unit) app" where
  "timed wall f e = andThen (on_node (gets w_hist)) (\<lambda>hist. on_own (modify (f (wall hist) e)))"

text \<open>\<open>start\<close> and \<open>run\<close>; the two groups are a set, so the order of the joins is not fixed.\<close>

definition monitor_start :: "env \<Rightarrow> options \<Rightarrow> unit nprog" where
  "monitor_start E opts =
     thenDo (set_options opts)
     (thenDo (start E)
     (andThen (gets w_hist) (\<lambda>hist.
      for_each (\<lambda>g. api_join (PyBytes g)) (set_iter E hist [blit ''ALL'', blit ''HEALTH'']))))"

definition monitor_init :: "options \<Rightarrow> unit nprog" where
  "monitor_init opts =
     thenDo (set_own_uuid opts) (set_header (PyStr (lit ''X-ROLE'')) (PyStr (lit ''health-monitor'')))"

definition monitor_run :: "env \<Rightarrow> options \<Rightarrow> (io list \<Rightarrow> real) \<Rightarrow> turn list \<Rightarrow> (monitor, unit) app" where
  "monitor_run E opts wall turns =
     thenDo (on_node (monitor_start E opts))
       (try_finally (gather_loop (timed wall health_event) turns) (on_node (stop E)))"

subsection \<open>Presence\<close>

record presence =
  pr_name :: pystr
  pr_seen :: real

definition presence_event :: "real \<Rightarrow> event \<Rightarrow> (pystr \<times> presence) list \<Rightarrow> (pystr \<times> presence) list" where
  "presence_event now e peers =
    (case e of
       EvEnter peer_id name _ \<Rightarrow> dict_set peer_id \<lparr>pr_name = name, pr_seen = now\<rparr> peers
     | EvExit peer_id _ \<Rightarrow> dict_pop peer_id peers
     | _ \<Rightarrow> peers)"

definition run_presence ::
  "env \<Rightarrow> options \<Rightarrow> (nat \<Rightarrow> unit nprog) \<Rightarrow> (io list \<Rightarrow> real) \<Rightarrow> turn list \<Rightarrow>
   ((pystr \<times> presence) list, unit) app" where
  "run_presence E opts others wall turns =
     thenDo (on_node
       (thenDo (set_own_uuid opts)
       (thenDo (set_header (PyStr (lit ''X-ROLE'')) (PyStr (lit ''presence'')))
       (thenDo (set_options opts)
       (thenDo (start E)
       (thenDo (wait_until has_peers others 15)
         (api_join (PyBytes (blit ''ALL'')))))))))
     (try_finally (event_loop (timed wall presence_event) turns) (on_node (stop E)))"

subsection \<open>Service discovery\<close>

text \<open>The registry keeps the names of the services that are there.\<close>

definition registry_event :: "event \<Rightarrow> (pystr \<times> pystr) list \<Rightarrow> (pystr \<times> pystr) list" where
  "registry_event e services =
    (case e of
       EvEnter peer_id name _ \<Rightarrow> dict_set peer_id name services
     | EvExit peer_id _ \<Rightarrow> if peer_id \<in> set (keys services) then dict_pop peer_id services else services
     | _ \<Rightarrow> services)"

definition SERVICES :: bytes where
  "SERVICES = blit ''SERVICES''"

definition start_in_services :: "env \<Rightarrow> options \<Rightarrow> int \<Rightarrow> unit nprog \<Rightarrow> unit nprog \<Rightarrow> unit nprog" where
  "start_in_services E opts interval_ms headers late_headers =
     thenDo (set_own_uuid opts)
     (thenDo headers
     (thenDo (only_if (o_port opts \<noteq> 0) (set_port (o_port opts)))
     (thenDo (if_given (o_interface opts) set_interface)
     (thenDo (set_interval interval_ms)
     (thenDo late_headers
     (thenDo (only_if (o_verbose opts) (set_verbose True))
     (thenDo (start E)
       (api_join (PyBytes SERVICES)))))))))"

definition header_text :: "string \<Rightarrow> pystr \<Rightarrow> unit nprog" where
  "header_text key text = set_header (PyStr (lit key)) (PyStr text)"

definition run_service_registry ::
  "env \<Rightarrow> options \<Rightarrow> int \<Rightarrow> turn list \<Rightarrow> ((pystr \<times> pystr) list, unit) app" where
  "run_service_registry E opts interval_ms turns =
     thenDo (on_node (start_in_services E opts interval_ms
         (thenDo (header_text ''X-SERVICE'' (lit ''registry'')) (header_text ''X-VERSION'' (lit ''1.0''))) (ret ())))
       (try_finally (gather_loop (\<lambda>e. on_own (modify (registry_event e))) turns) (on_node (stop E)))"

definition announcement :: "pystr \<Rightarrow> pystr \<Rightarrow> int \<Rightarrow> exn + bytes" where
  "announcement name kind svc_port = utf8_encode (name @ lit '':'' @ kind @ lit '':'' @ show_int svc_port)"

text \<open>\<open>announce\<close>: a shout after each sleep; the list is what the run loop does in each sleep.\<close>

definition run_service ::
  "env \<Rightarrow> options \<Rightarrow> int \<Rightarrow> pystr \<Rightarrow> pystr \<Rightarrow> int \<Rightarrow> unit nprog list \<Rightarrow> unit nprog" where
  "run_service E opts interval_ms name kind svc_port sleeps =
     thenDo (start_in_services E opts interval_ms
       (thenDo (header_text ''X-SERVICE'' kind) (header_text ''X-PORT'' (show_int svc_port)))
       (andThen (gets n_cfg) (\<lambda>c.
        andThen (lift_exn (resolve_interface_ip E c None)) (\<lambda>ip.
        header_text ''X-HOST'' (if ip = [] then lit ''localhost'' else ip)))))
     (andThen (lift_exn (announcement name kind svc_port)) (\<lambda>text.
      let shout = api_shout (PyBytes SERVICES) (PyBytes text)
      in thenDo shout
        (try_finally (for_each (\<lambda>others. thenDo others shout) sleeps) (stop E))))"

text \<open>What the client makes of a shout: name, type and port of a service.\<close>

definition parse_announcement :: "bytes \<Rightarrow> (pystr \<times> pystr \<times> pystr) option" where
  "parse_announcement payload =
    (case split_on 58 (utf8_decode_replace payload) of
       a # b # c # _ \<Rightarrow> Some (a, b, c)
     | _ \<Rightarrow> None)"

definition client_event :: "event \<Rightarrow> (pystr \<times> pystr \<times> pystr) list \<Rightarrow> (pystr \<times> pystr \<times> pystr) list" where
  "client_event e found =
    (case e of
       EvShout _ _ g payload \<Rightarrow>
         (if g = lit ''SERVICES''
          then (case parse_announcement payload of None \<Rightarrow> found | Some svc \<Rightarrow> found @ [svc])
          else found)
     | _ \<Rightarrow> found)"

definition run_client ::
  "env \<Rightarrow> options \<Rightarrow> int \<Rightarrow> turn list \<Rightarrow> ((pystr \<times> pystr \<times> pystr) list, unit) app" where
  "run_client E opts interval_ms turns =
     thenDo (on_node (start_in_services E opts interval_ms (ret ()) (ret ())))
       (try_finally (gather_loop (\<lambda>e. on_own (modify (client_event e))) turns) (on_node (stop E)))"

subsection \<open>Leader election and chat\<close>

definition run_voter :: "env \<Rightarrow> options \<Rightarrow> pystr \<Rightarrow> turn list \<Rightarrow> (unit, unit) app" where
  "run_voter E opts g turns =
     thenDo (on_node
       (thenDo (set_own_uuid opts)
       (thenDo (set_options opts)
       (thenDo (set_contest_in_group (PyStr g))
       (thenDo (start E)
         (andThen (lift_exn (utf8_encode g)) (\<lambda>gb. api_join (PyBytes gb))))))))
     (try_finally (event_loop (\<lambda>e. ret ()) turns) (on_node (stop E)))"

text \<open>A line of the chat's input: \<open>/w <peer> <text>\<close> whispers, anything else is shouted.\<close>

definition strip_bytes :: "bytes \<Rightarrow> bytes" where
  "strip_bytes line =
    (let blank = (\<lambda>b. ascii_space (unat b))
     in rev (dropWhile blank (rev (dropWhile blank line))))"

definition chat_line :: "bytes \<Rightarrow> unit nprog" where
  "chat_line raw =
    (let line = strip_bytes raw
     in if line = [] then ret ()
        else if starts_with (blit ''/w '') line then
          (let rest = drop 3 line; peer = takeWhile (\<lambda>b. b \<noteq> 32) rest
           in if 32 \<in> set rest
              then api_whisper (PyBytes peer) (PyBytes (drop (Suc (length peer)) rest))
              else ret ())
        else api_shout (PyBytes (blit ''CHAT'')) (PyBytes line))"

datatype chat_turn = Line bytes | Rest "unit nprog" | Heard event

text \<open>An empty line is the end of the input; the chat then goes on without it.\<close>

fun chat_turns :: "bool \<Rightarrow> chat_turn list \<Rightarrow> unit nprog" where
  "chat_turns reading [] = ret ()"
| "chat_turns reading (Line raw # ts) =
    (if reading \<and> raw \<noteq> [] then thenDo (chat_line raw) (chat_turns True ts) else chat_turns False ts)"
| "chat_turns reading (Rest m # ts) = thenDo m (chat_turns reading ts)"
| "chat_turns reading (Heard e # ts) = thenDo (check_collision_event e) (chat_turns reading ts)"

definition chat_loop :: "env \<Rightarrow> options \<Rightarrow> chat_turn list \<Rightarrow> unit nprog" where
  "chat_loop E opts turns =
     thenDo (set_own_uuid opts)
     (thenDo (set_options opts)
     (thenDo (start E)
     (thenDo (api_join (PyBytes (blit ''CHAT'')))
       (try_finally (chat_turns True turns) (stop E)))))"

end
