(* ===== verification/Zre_Ex_Lock.thy ===== *)
theory Zre_Ex_Lock
  imports Zre_Ex_Common
begin

section \<open>The distributed lock\<close>

text \<open>
  \<open>examples/distributed_lock.py\<close>: a lock is asked for by a shout, granted by whispers, and taken once a
  majority of the peers seen has voted. Messages are JSON objects. The texts that \<open>json.dumps\<close> writes
  and \<open>json.loads\<close> reads are arguments; numbers are real numbers (Python's integers and floats compare
  and hash as such), and an object has each of its keys once.
\<close>

subsection \<open>JSON values\<close>

datatype json = JNull | JBool bool | JNum real | JStr pystr | JList "json list"
  | JObj "(pystr \<times> json) list"

record jsonlib =
  j_dumps :: "json \<Rightarrow> bytes"             \<comment> \<open>\<open>json.dumps(v).encode()\<close>\<close>
  j_loads :: "pystr \<Rightarrow> exn + json"

text \<open>A value as the key of a dictionary or in a set: lists and dictionaries have no hash.\<close>

fun as_key :: "json \<Rightarrow> exn + json" where
  "as_key (JBool b) = Inr (JNum (if b then 1 else 0))"
| "as_key (JList vs) = Inl TypeError"
| "as_key (JObj d) = Inl TypeError"
| "as_key v = Inr v"

fun json_get :: "json \<Rightarrow> pystr \<Rightarrow> exn + json" where
  "json_get (JObj d) k = Inr (case dict_get d k of None \<Rightarrow> JNull | Some v \<Rightarrow> v)"
| "json_get v k = Inl AttributeError"

text \<open>\<open>C(**v)\<close> for a dataclass: an object with exactly its fields, or a \<open>TypeError\<close>.\<close>

fun keyword_args :: "string list \<Rightarrow> json \<Rightarrow> exn + (string \<Rightarrow> json)" where
  "keyword_args names (JObj d) =
    (if set (keys d) = set (map lit names)
     then Inr (\<lambda>k. case dict_get d (lit k) of None \<Rightarrow> JNull | Some v \<Rightarrow> v)
     else Inl TypeError)"
| "keyword_args names v = Inl TypeError"

definition load_payload :: "jsonlib \<Rightarrow> bytes \<Rightarrow> exn + json" where
  "load_payload J payload = obind (utf8_decode payload) (j_loads J)"

subsection \<open>State\<close>

datatype lock_state = Free | Locked | Requested

record lock_request =
  lr_lock_name :: pystr
  lr_requester_id :: pystr
  lr_request_id :: pystr
  lr_timestamp :: real

record dlock =
  dl_node_id :: pystr
  dl_locks :: "(json \<times> lock_state) list"
  dl_pending :: "(pystr \<times> lock_request list) list"
  dl_held :: "pystr list"                  \<comment> \<open>a Python set\<close>
  dl_votes :: "(json \<times> json list) list"   \<comment> \<open>of sets\<close>
  dl_awaiting :: "(pystr \<times> pystr) option"

definition LOCKS :: bytes where
  "LOCKS = blit ''LOCKS''"

definition new_dlock :: "pystr \<Rightarrow> dlock" where
  "new_dlock node_name =
     \<lparr>dl_node_id = lit ''lock-'' @ node_name, dl_locks = [], dl_pending = [], dl_held = [],
      dl_votes = [], dl_awaiting = None\<rparr>"

definition lock_init :: "options \<Rightarrow> unit nprog" where
  "lock_init opts =
     thenDo (set_own_uuid opts) (set_header (PyStr (lit ''X-ROLE'')) (PyStr (lit ''lock-manager'')))"

definition lock_start :: "env \<Rightarrow> options \<Rightarrow> unit nprog" where
  "lock_start E opts =
     thenDo (set_options opts) (thenDo (start E) (api_join (PyBytes LOCKS)))"

subsection \<open>Votes\<close>

definition votes_for :: "dlock \<Rightarrow> json \<Rightarrow> json list" where
  "votes_for d key = (case dict_get (dl_votes d) key of None \<Rightarrow> [] | Some vs \<Rightarrow> vs)"

text \<open>\<open>self.votes.setdefault(name, set()).add(voter)\<close>.\<close>

definition add_vote :: "json \<Rightarrow> json \<Rightarrow> (dlock, unit) prog" where
  "add_vote name voter =
     andThen (lift_exn (as_key name)) (\<lambda>key.
     thenDo (modify (\<lambda>d. d\<lparr>dl_votes := dict_set key (votes_for d key) (dl_votes d)\<rparr>))
     (andThen (lift_exn (as_key voter)) (\<lambda>v.
      modify (\<lambda>d. d\<lparr>dl_votes := dict_set key (List.insert v (votes_for d key)) (dl_votes d)\<rparr>))))"

subsection \<open>Acquire and release\<close>

definition shout_json :: "jsonlib \<Rightarrow> json \<Rightarrow> unit nprog" where
  "shout_json J v = api_shout (PyBytes LOCKS) (PyBytes (j_dumps J v))"

definition lock_request_json :: "lock_request \<Rightarrow> json" where
  "lock_request_json req =
     JObj [(lit ''type'', JStr (lit ''LOCK_REQUEST'')), (lit ''lock_name'', JStr (lr_lock_name req)),
       (lit ''requester_id'', JStr (lr_requester_id req)), (lit ''request_id'', JStr (lr_request_id req)),
       (lit ''timestamp'', JNum (lr_timestamp req))]"

definition acquire_begin :: "jsonlib \<Rightarrow> pystr \<Rightarrow> pystr \<Rightarrow> real \<Rightarrow> (dlock, unit) app" where
  "acquire_begin J lock_name request_id now =
     andThen (on_own (gets dl_node_id)) (\<lambda>me.
     let req = \<lparr>lr_lock_name = lock_name, lr_requester_id = me, lr_request_id = request_id, lr_timestamp = now\<rparr>
     in thenDo (on_own (modify (\<lambda>d. d\<lparr>dl_pending := dict_set lock_name
            ((case dict_get (dl_pending d) lock_name of None \<Rightarrow> [] | Some rs \<Rightarrow> rs) @ [req]) (dl_pending d)\<rparr>)))
        (thenDo (on_own (add_vote (JStr lock_name) (JStr me)))
        (thenDo (on_own (modify (\<lambda>d. d\<lparr>dl_awaiting := Some (lock_name, request_id)\<rparr>)))
          (on_node (shout_json J (lock_request_json req))))))"

definition votes_needed :: "nat \<Rightarrow> nat" where
  "votes_needed peers = max 1 ((peers + 1) div 2 + 1)"

definition take_lock :: "pystr \<Rightarrow> dlock \<Rightarrow> dlock" where
  "take_lock lock_name d =
     d\<lparr>dl_held := List.insert lock_name (dl_held d),
       dl_locks := dict_set (JStr lock_name) Locked (dl_locks d), dl_awaiting := None\<rparr>"

text \<open>
  The loop of \<open>acquire\<close>, one round for each look at the clock: the time it tells, and what the other tasks
  do in the sleep that follows. \<open>None\<close>: the loop is still waiting when the rounds end.
\<close>

fun acquire_wait ::
  "pystr \<Rightarrow> real \<Rightarrow> real \<Rightarrow> (real \<times> (dlock, unit) app) list \<Rightarrow> (dlock, bool option) app" where
  "acquire_wait lock_name timeout started [] = ret None"
| "acquire_wait lock_name timeout started ((now, others) # rounds) =
     (if now - started < timeout then
        andThen (on_node (gets peer_ids)) (\<lambda>peers.
        andThen (on_own (gets (\<lambda>d. votes_for d (JStr lock_name)))) (\<lambda>votes.
        if votes_needed (length peers) \<le> length votes
        then thenDo (on_own (modify (take_lock lock_name))) (ret (Some True))
        else thenDo (meanwhile others) (acquire_wait lock_name timeout started rounds)))
      else thenDo (on_own (modify (\<lambda>d. d\<lparr>dl_awaiting := None\<rparr>))) (ret (Some False)))"

definition acquire ::
  "jsonlib \<Rightarrow> pystr \<Rightarrow> real \<Rightarrow> pystr \<Rightarrow> real \<Rightarrow> real \<Rightarrow> (real \<times> (dlock, unit) app) list \<Rightarrow>
   (dlock, bool option) app" where
  "acquire J lock_name timeout request_id asked_at started rounds =
     thenDo (acquire_begin J lock_name request_id asked_at) (acquire_wait lock_name timeout started rounds)"

definition release :: "jsonlib \<Rightarrow> pystr \<Rightarrow> (dlock, unit) app" where
  "release J lock_name =
     andThen (on_own (gets id)) (\<lambda>d.
     if lock_name \<notin> set (dl_held d) then ret ()
     else thenDo (on_own (modify (\<lambda>d. d\<lparr>dl_held := removeAll lock_name (dl_held d),
             dl_locks := dict_set (JStr lock_name) Free (dl_locks d)\<rparr>)))
       (on_node (shout_json J (JObj [(lit ''type'', JStr (lit ''LOCK_RELEASE'')),
          (lit ''lock_name'', JStr lock_name), (lit ''holder_id'', JStr (dl_node_id d))]))))"

subsection \<open>Messages\<close>

text \<open>
  The id to whisper to is what the request says. When it is no string, the run loop will find no peer
  under it, and the queued command is without effect; it is left out here.
\<close>

definition whisper_json :: "jsonlib \<Rightarrow> json \<Rightarrow> json \<Rightarrow> unit nprog" where
  "whisper_json J peer v =
    (case peer of
       JStr peer_id \<Rightarrow> api_whisper (PyStr peer_id) (PyBytes (j_dumps J v))
     | _ \<Rightarrow> ret ())"

definition on_grant :: "json \<Rightarrow> (dlock, unit) prog" where
  "on_grant payload =
     andThen (lift_exn (json_get payload (lit ''type''))) (\<lambda>kind.
     if kind \<noteq> JStr (lit ''LOCK_GRANT'') then ret ()
     else andThen (gets dl_awaiting) (\<lambda>awaiting.
       case awaiting of
         None \<Rightarrow> ret ()
       | Some (lock_name, request_id) \<Rightarrow>
           andThen (lift_exn (json_get payload (lit ''request_id''))) (\<lambda>answered.
           andThen (lift_exn (json_get payload (lit ''holder_id''))) (\<lambda>holder.
           only_if (answered = JStr request_id) (add_vote (JStr lock_name) holder)))))"

definition on_lock_message :: "jsonlib \<Rightarrow> json \<Rightarrow> (dlock, unit) app" where
  "on_lock_message J payload =
     andThen (lift_exn (json_get payload (lit ''type''))) (\<lambda>kind.
     andThen (lift_exn (json_get payload (lit ''lock_name''))) (\<lambda>lock_name.
     if kind = JStr (lit ''LOCK_REQUEST'') then
       andThen (lift_exn (json_get payload (lit ''requester_id''))) (\<lambda>requester.
       andThen (lift_exn (as_key lock_name)) (\<lambda>key.
       andThen (on_own (gets id)) (\<lambda>d.
       if dict_get (dl_locks d) key = Some Locked then ret ()
       else
         thenDo (on_own (add_vote lock_name requester))
         (andThen (lift_exn (json_get payload (lit ''request_id''))) (\<lambda>request_id.
          on_node (whisper_json J requester
            (JObj [(lit ''type'', JStr (lit ''LOCK_GRANT'')), (lit ''lock_name'', lock_name),
              (lit ''requester_id'', requester), (lit ''request_id'', request_id),
              (lit ''holder_id'', JStr (dl_node_id d))])))))))
     else if kind = JStr (lit ''LOCK_RELEASE'') then
       andThen (lift_exn (as_key lock_name)) (\<lambda>key.
       on_own (modify (\<lambda>d. if dict_get (dl_locks d) key = None then d
         else d\<lparr>dl_locks := dict_set key Free (dl_locks d)\<rparr>)))
     else ret ()))"

definition handle_message :: "jsonlib \<Rightarrow> event \<Rightarrow> (dlock, unit) app" where
  "handle_message J e =
    (case e of
       EvWhisper _ _ payload \<Rightarrow>
         (case load_payload J payload of
            Inl x \<Rightarrow> if is_value_error x then ret () else throw x
          | Inr v \<Rightarrow> on_own (on_grant v))
     | EvShout _ _ g payload \<Rightarrow>
         only_if (g = lit ''LOCKS'')
           (suppress any_exception (andThen (lift_exn (load_payload J payload)) (on_lock_message J)))
     | _ \<Rightarrow> ret ())"

subsection \<open>Running\<close>

text \<open>
  The \<open>finally\<close> part enters \<open>with asyncio.CancelledError, ...\<close> for every lock held. A class is no context
  manager, so that statement raises (\<open>TypeError\<close>; before Python 3.11 it was \<open>AttributeError\<close>), and \<open>stop\<close>
  is not reached.
\<close>

definition with_class :: "('s, unit) prog \<Rightarrow> ('s, unit) prog" where
  "with_class body = throw TypeError"

definition lock_cleanup :: "env \<Rightarrow> jsonlib \<Rightarrow> (dlock, unit) app" where
  "lock_cleanup E J =
     andThen (on_own (gets dl_held)) (\<lambda>held.
     thenDo (for_each (\<lambda>lk. with_class (suppress any_exception (release J lk))) held)
       (on_node (stop E)))"

definition lock_run :: "env \<Rightarrow> jsonlib \<Rightarrow> options \<Rightarrow> turn list \<Rightarrow> (dlock, unit) app" where
  "lock_run E J opts turns =
     thenDo (on_node (lock_start E opts))
       (try_finally (gather_loop (handle_message J) turns) (lock_cleanup E J))"

text \<open>
  The coroutine \<open>demo\<close> of \<open>main\<close>. The class's \<open>run\<close> is a task, part of what happens in each sleep; how it has ended
  by the time it is awaited is an argument (\<open>CancelledError\<close> is suppressed, any other exception is raised here).
\<close>

primrec wait_for_peers :: "(nat \<Rightarrow> (dlock, unit) app) \<Rightarrow> nat \<Rightarrow> (dlock, unit) app" where
  "wait_for_peers others 0 = ret ()"
| "wait_for_peers others (Suc k) =
     andThen (on_node (gets has_peers)) (\<lambda>r.
     if r then ret () else thenDo (meanwhile (others k)) (wait_for_peers others k))"

definition lock_demo ::
  "env \<Rightarrow> jsonlib \<Rightarrow> pystr \<Rightarrow> real \<Rightarrow> real \<Rightarrow> (real \<times> (dlock, unit) app) list \<Rightarrow> (nat \<Rightarrow> (dlock, unit) app) \<Rightarrow>
   (nat \<Rightarrow> (dlock, unit) app) \<Rightarrow> exn + unit \<Rightarrow> (dlock, unit) app" where
  "lock_demo E J request_id asked_at started rounds others rests run_ended =
     thenDo (meanwhile (rests 0))
     (thenDo (wait_for_peers others 25)
     (andThen (acquire J (lit ''resource-1'') 10 request_id asked_at started rounds) (\<lambda>success.
      thenDo (only_if (success = Some True)
          (thenDo (meanwhile (rests 1)) (release J (lit ''resource-1''))))
      (thenDo (meanwhile (rests 2))
      (thenDo (lift_exn run_ended)
        (on_node (stop E)))))))"

end
