(* ===== verification/Zre_Ex_Properties.thy ===== *)
theory Zre_Ex_Properties
  imports Zre_Ex_Trackers Zre_Ex_Lock Zre_Run_Properties
begin

section \<open>Properties of the example programs\<close>

text \<open>
  The identities that the command line takes, the health monitor's counts, service announcements, and
  the distributed lock, which does not exclude.
\<close>

subsection \<open>Identities\<close>

lemma hexval_lower: "hexval (ascii_lower c) = hexval c"
  by (simp add: hexval_def ascii_lower_def)

lemma hexval_ascii: "hexval c = Some x \<Longrightarrow> c < 128"
  by (simp add: hexval_def split: if_splits)

lemma space_lower: "ascii_space (ascii_lower c) = ascii_space c" "ascii_space c \<Longrightarrow> c < 128"
  by (auto simp: ascii_space_def ascii_lower_def)

lemma fromhex_lower:
  assumes "bytes_fromhex s = Inr raw"
  shows "ascii s \<and> bytes_fromhex (map ascii_lower s) = Inr raw"
  using assms
proof (induction s arbitrary: raw rule: bytes_fromhex.induct)
  case (2 c cs)
  show ?case
  proof (cases "ascii_space c")
    case True
    with 2 show ?thesis by (simp add: space_lower)
  next
    case False
    with "2.prems" obtain d ds x y bs where cs: "cs = d # ds" "hexval c = Some x" "hexval d = Some y"
        "bytes_fromhex ds = Inr bs" "raw = of_nat (16 * x + y) # bs"
      by (auto simp: obind_Inr split: list.splits option.splits)
    have "ascii ds \<and> bytes_fromhex (map ascii_lower ds) = Inr bs"
      by (rule "2.IH"(2) [OF False cs(1)]) (use cs(2-4) in auto)
    with cs False hexval_ascii [OF cs(2)] hexval_ascii [OF cs(3)] show ?thesis
      by (simp add: hexval_lower space_lower(1))
  qed
qed simp

lemma take_bytes_hex: "take 32 (bytes_hex b) = bytes_hex (take 16 b)"
proof -
  have "take (2 * n) (bytes_hex b) = bytes_hex (take n b)" for n
  proof (induction b arbitrary: n)
    case (Cons x b)
    then show ?case by (cases n) (simp_all add: bytes_hex_def hex_byte_def)
  qed (simp add: bytes_hex_def)
  from this [of 16] show ?thesis by simp
qed

text \<open>
  Whatever \<open>parse_uuid\<close> of the examples returns, for hexadecimal digits in either case or for a label,
  is the text of 16 bytes that \<open>set_uuid\<close> accepts on a node that is not running, all zeros excepted.
\<close>

theorem parse_uuid_accepted:
  assumes "parse_uuid sha256 R v = Inr u" and "\<And>b. 16 \<le> length (sha256 b)" and "\<not> n_running s"
  shows "\<exists>raw. length raw = 16 \<and> bytes_fromhex u = Inr raw \<and>
    set_uuid (PyStr u) s =
      (if raw = replicate 16 0 then (Inl ValueError, s)
       else (Inr (), s\<lparr>n_cfg := (n_cfg s)\<lparr>c_peer_id := raw, c_peer_id_hex := bytes_hex raw\<rparr>\<rparr>))"
proof -
  have "\<exists>raw. length raw = 16 \<and> bytes_fromhex u = Inr raw"
  proof (cases "\<exists>raw. bytes_fromhex v = Inr raw \<and> length raw = 16")
    case True
    then obtain raw where raw: "bytes_fromhex v = Inr raw" "length raw = 16" by blast
    with assms(1) have "u = str_lower R v" by (simp add: parse_uuid_def Let_def)
    with fromhex_lower [OF raw(1)] raw(2) show ?thesis by (simp add: str_lower_def)
  next
    case False
    with assms(1) obtain b where "utf8_encode v = Inr b" "u = take 32 (bytes_hex (sha256 b))"
      by (auto simp: parse_uuid_def Let_def obind_Inr split: sum.splits if_splits)
    then have "u = bytes_hex (take 16 (sha256 b))" by (simp add: take_bytes_hex)
    with assms(2) [of b] show ?thesis by (auto simp: fromhex_hex)
  qed
  then obtain raw where raw: "length raw = 16" "bytes_fromhex u = Inr raw" by blast
  with assms(3) show ?thesis
    by (intro exI [of _ raw])
      (auto simp: set_uuid_def ensure_not_running_def upd_cfg_def run_thenDo run_andThen)
qed

lemma parse_uuid_accepted_witness:
  "\<exists>raw. length raw = 16 \<and> bytes_fromhex (bytes_hex (replicate 16 7)) = Inr raw \<and>
    set_uuid (PyStr (bytes_hex (replicate 16 7))) (new_node_state (new_config [] [])) =
      (if raw = replicate 16 0 then (Inl ValueError, new_node_state (new_config [] []))
       else (Inr (), (new_node_state (new_config [] []))\<lparr>n_cfg := (n_cfg (new_node_state (new_config [] [])))
         \<lparr>c_peer_id := raw, c_peer_id_hex := bytes_hex raw\<rparr>\<rparr>))"
proof -
  have "parse_uuid (\<lambda>_. replicate 32 7) plain_rt (lit ''a'') = Inr (bytes_hex (replicate 16 7))"
    by (simp add: parse_uuid_def Let_def lit_def ascii_space_def utf8_encode_ascii take_bytes_hex)
  then show ?thesis by (rule parse_uuid_accepted) (simp_all add: new_node_state_def)
qed

subsection \<open>The health monitor\<close>

definition monitor_ok :: "monitor \<Rightarrow> bool" where
  "monitor_ok m \<longleftrightarrow> is_dict (mo_peers m) \<and> (\<forall>k h. dict_get (mo_peers m) k = Some h \<longrightarrow> ph_peer_id h = k)"

lemma monitor_ok_upd:
  "monitor_ok m \<Longrightarrow> (\<And>h. ph_peer_id (f h) = ph_peer_id h) \<Longrightarrow> monitor_ok (upd_health k f m)"
  by (auto simp: monitor_ok_def upd_health_def is_dict_update alist.get_put split: option.split)

lemma monitor_ok_notify: "monitor_ok m \<Longrightarrow> monitor_ok (notify_of k old m)"
  by (auto simp: monitor_ok_def notify_of_def notify_def split: option.split)

lemma monitor_ok_event: "monitor_ok m \<Longrightarrow> monitor_ok (health_event now e m)"
proof (cases e)
  case (EvEnter peer_id name addr)
  assume m: "monitor_ok m"
  then have "monitor_ok (case dict_get (mo_peers m) peer_id of
      None \<Rightarrow> m\<lparr>mo_peers := dict_set peer_id (new_health peer_id name now) (mo_peers m)\<rparr>
    | Some _ \<Rightarrow> upd_health peer_id (\<lambda>h. h\<lparr>ph_name := name\<rparr>) m)"
    using monitor_ok_upd [OF m, of "\<lambda>h. h\<lparr>ph_name := name\<rparr>"]
    by (auto simp: monitor_ok_def new_health_def is_dict_update alist.get_put split: option.split)
  from monitor_ok_upd [OF this] show ?thesis by (simp add: EvEnter health_event_def Let_def)
qed (auto simp: health_event_def intro!: monitor_ok_upd monitor_ok_notify split: option.split)

lemma count_statuses: "count_status Healthy m + count_status Evasive m + count_status Dead m = length (mo_peers m)"
proof -
  have "length (filter (\<lambda>(_, h). ph_status h = Healthy) ps) + length (filter (\<lambda>(_, h). ph_status h = Evasive) ps)
      + length (filter (\<lambda>(_, h). ph_status h = Dead) ps) = length ps" for ps :: "(pystr \<times> peer_health) list"
  proof (induction ps)
    case (Cons p ps)
    then show ?case by (cases "ph_status (snd p)") (auto simp: split_beta)
  qed simp
  then show ?thesis by (simp add: count_status_def)
qed

text \<open>
  After any events, the health monitor has one entry per peer, under the id of that peer; its three
  counts add up to the number of entries; and its percentage is between 0 and 100.
\<close>

theorem cluster_health_adds_up:
  defines "m es \<equiv> fold (\<lambda>(now, e). health_event now e) es new_monitor"
  shows "is_dict (mo_peers (m es)) \<and> (\<lambda>(k, h). ph_peer_id h = k) ` set (mo_peers (m es)) \<subseteq> {True}
    \<and> (let c = get_cluster_health (m es)
       in ch_total c = length (mo_peers (m es)) \<and> ch_healthy c + ch_evasive c + ch_dead c = ch_total c
          \<and> 0 \<le> ch_percentage c \<and> ch_percentage c \<le> 100)"
proof -
  have "monitor_ok (fold (\<lambda>(now, e). health_event now e) es m)" if "monitor_ok m" for m
    using that by (induction es arbitrary: m) (auto intro: monitor_ok_event)
  moreover have "monitor_ok new_monitor" by (simp add: monitor_ok_def new_monitor_def is_dict_def keys_def)
  ultimately have ok: "monitor_ok (m es)" by (simp add: m_def)
  then have "(\<lambda>(k, h). ph_peer_id h = k) ` set (mo_peers (m es)) \<subseteq> {True}"
    by (auto simp: monitor_ok_def dict_mem)
  moreover have "count_status Healthy (m es) \<le> length (mo_peers (m es))"
    using count_statuses [of "m es"] by linarith
  ultimately show ?thesis
    using ok count_statuses [of "m es"]
    by (auto simp: monitor_ok_def get_cluster_health_def Let_def divide_le_eq)
qed

subsection \<open>Announcements\<close>

text \<open>
  The client of the service discovery example reads back what a service announces, its name, its type
  and its port, as long as neither name nor type has a colon in it.
\<close>

theorem announcement_round_trip:
  assumes "announcement name kind svc_port = Inr payload" and "58 \<notin> set name" and "58 \<notin> set kind"
  shows "parse_announcement payload = Some (name, kind, show_int svc_port)"
proof -
  have "utf8_decode_replace payload = name @ 58 # kind @ 58 # show_int svc_port"
    using decode_replace_encode [OF assms(1) [unfolded announcement_def]] by (simp add: lit_def)
  moreover have "58 \<notin> set (show_nat n)" for n
    using show_nat_digits [of n] by (auto simp: list_all_iff is_digit_def)
  then have "58 \<notin> set (show_int svc_port)" by (simp add: show_int_def)
  ultimately show ?thesis
    by (simp add: parse_announcement_def split_on_sep assms(2,3) split_on_none)
qed

lemma announcement_round_trip_witness:
  "\<exists>payload. announcement (lit ''db'') (lit ''sql'') 80 = Inr payload
    \<and> parse_announcement payload = Some (lit ''db'', lit ''sql'', show_int 80)"
proof -
  have "ascii (lit ''db'' @ lit '':'' @ lit ''sql'' @ lit '':'' @ show_int 80)"
    using show_int_ascii [of 80] by (simp add: lit_def)
  from utf8_encode_ascii [OF this] obtain payload where p: "announcement (lit ''db'') (lit ''sql'') 80 = Inr payload"
    by (auto simp: announcement_def)
  from announcement_round_trip [OF p] p show ?thesis by (simp add: lit_def)
qed

subsection \<open>The distributed lock\<close>

lemma shout_json_run:
  "shout_json J v n = (Inr (), n\<lparr>n_api := n_api n @ [CmdShout LOCKS (j_dumps J v)]\<rparr>)"
  by (simp add: shout_json_def api_shout_def put_api_def wire_string_def run_andThen LOCKS_def blit_def
      MAX_STRING_BYTES_def)

lemma acquire_begin_run:
  "acquire_begin J l rid now (n, new_dlock a) =
    (Inr (), (n\<lparr>n_api := n_api n @ [CmdShout LOCKS (j_dumps J (lock_request_json
        \<lparr>lr_lock_name = l, lr_requester_id = lit ''lock-'' @ a, lr_request_id = rid, lr_timestamp = now\<rparr>))]\<rparr>,
      (new_dlock a)\<lparr>dl_pending := [(l, [\<lparr>lr_lock_name = l, lr_requester_id = lit ''lock-'' @ a,
          lr_request_id = rid, lr_timestamp = now\<rparr>])],
        dl_votes := [(JStr l, [JStr (lit ''lock-'' @ a)])], dl_awaiting := Some (l, rid)\<rparr>))"
  by (simp add: acquire_begin_def Let_def run_on_own run_on_node shout_json_run add_vote_def run_andThen run_thenDo
      votes_for_def new_dlock_def)

text \<open>The other node's request arrives: it counts as a vote here.\<close>

lemma request_counted:
  assumes J: "load_payload J (j_dumps J (lock_request_json req)) = Inr (lock_request_json req)"
    and free: "dict_get (dl_locks d) (JStr (lr_lock_name req)) \<noteq> Some Locked"
  shows "\<exists>n'. handle_message J (EvShout k nm (lit ''LOCKS'') (j_dumps J (lock_request_json req))) (n, d) =
      (Inr (), (n', d\<lparr>dl_votes := dict_set (JStr (lr_lock_name req))
        (List.insert (JStr (lr_requester_id req)) (votes_for d (JStr (lr_lock_name req))))
        (dict_set (JStr (lr_lock_name req)) (votes_for d (JStr (lr_lock_name req))) (dl_votes d))\<rparr>))
    \<and> n_peers n' = n_peers n"
proof -
  let ?grant = "JObj [(lit ''type'', JStr (lit ''LOCK_GRANT'')), (lit ''lock_name'', JStr (lr_lock_name req)),
    (lit ''requester_id'', JStr (lr_requester_id req)), (lit ''request_id'', JStr (lr_request_id req)),
    (lit ''holder_id'', JStr (dl_node_id d))]"
  obtain r n' where w: "whisper_json J (JStr (lr_requester_id req)) ?grant n = (r, n')" by fastforce
  then have "n_peers n' = n_peers n"
    by (auto simp: whisper_json_def api_whisper_def put_api_def run_andThen split: sum.splits)
  moreover have "lit ''lock_name'' \<noteq> lit ''type''" "lit ''requester_id'' \<noteq> lit ''type''"
    "lit ''request_id'' \<noteq> lit ''type''" "lit ''requester_id'' \<noteq> lit ''lock_name''"
    "lit ''request_id'' \<noteq> lit ''lock_name''" "lit ''request_id'' \<noteq> lit ''requester_id''"
    by (simp_all add: lit_def)
  ultimately show ?thesis
    using J free w
    by (cases r) (auto simp: handle_message_def lock_request_json_def suppress_def catch_def any_exception_def
        run_andThen on_lock_message_def run_on_own run_on_node add_vote_def run_thenDo votes_for_def
        alist.get_put)
qed

text \<open>A node asks for a lock, hears the request of another, and looks at its votes.\<close>

definition lock_ask :: "pystr \<Rightarrow> real \<Rightarrow> pystr \<Rightarrow> pystr \<Rightarrow> lock_request" where
  "lock_ask l now name rid =
     \<lparr>lr_lock_name = l, lr_requester_id = lit ''lock-'' @ name, lr_request_id = rid, lr_timestamp = now\<rparr>"

definition contend :: "jsonlib \<Rightarrow> pystr \<Rightarrow> real \<Rightarrow> real \<Rightarrow> pystr \<Rightarrow> lock_request \<Rightarrow> (dlock, bool option) app" where
  "contend J l timeout now rid req =
     thenDo (acquire_begin J l rid now)
     (thenDo (handle_message J (EvShout [] [] (lit ''LOCKS'') (j_dumps J (lock_request_json req))))
       (acquire_wait l timeout now [(now, ret ())]))"

definition readable :: "jsonlib \<Rightarrow> json \<Rightarrow> bool" where
  "readable J v \<longleftrightarrow> load_payload J (j_dumps J v) = Inr v"

lemma contend_wins:
  assumes J: "readable J (lock_request_json (lock_ask l now other rid'))"
    and n0: "length (peer_ids n0) = 1" and ne: "own \<noteq> other" and "0 < timeout"
  shows "\<exists>n d. contend J l timeout now rid (lock_ask l now other rid') (n0, new_dlock own) =
    (Inr (Some True), (n, d)) \<and> l \<in> set (dl_held d)"
proof -
  define req where "req = lock_ask l now other rid'"
  have req: "lr_lock_name req = l" "lr_requester_id req = lit ''lock-'' @ other"
    by (simp_all add: req_def lock_ask_def)
  obtain n1 d1 where asked: "acquire_begin J l rid now (n0, new_dlock own) = (Inr (), (n1, d1))"
    and n1: "n_peers n1 = n_peers n0" and d1: "dl_locks d1 = []" "dl_held d1 = []"
      "dl_votes d1 = [(JStr l, [JStr (lit ''lock-'' @ own)])]"
    by (simp add: acquire_begin_run) (simp add: new_dlock_def)
  from d1(1) have "dict_get (dl_locks d1) (JStr (lr_lock_name req)) \<noteq> Some Locked" by simp
  from request_counted [OF _ this, of J "[]" "[]" n1] J obtain n2 where
      heard: "handle_message J (EvShout [] [] (lit ''LOCKS'') (j_dumps J (lock_request_json req))) (n1, d1) =
        (Inr (), (n2, d1\<lparr>dl_votes := [(JStr l, [JStr (lit ''lock-'' @ other), JStr (lit ''lock-'' @ own)])]\<rparr>))"
    and n2: "n_peers n2 = n_peers n1"
    using ne by (auto simp: req req_def [symmetric] readable_def d1(3) votes_for_def)
  have "length (peer_ids n2) = 1" using n0 n1 n2 by (simp add: peer_ids_def)
  with assms(4) show ?thesis
    by (simp add: contend_def run_thenDo asked heard [unfolded req_def])
      (simp add: run_andThen run_thenDo run_on_node votes_for_def votes_needed_def take_lock_def run_on_own)
qed

text \<open>
  C27: the distributed lock excludes nobody. Two nodes that see each other and ask for the same lock at
  about the same time both get it: each takes the other's request for a vote, two votes are the
  majority of two, and no grant is needed.
\<close>

theorem lock_held_twice:
  assumes "readable J (lock_request_json (lock_ask l now a ra))"
    and "readable J (lock_request_json (lock_ask l now b rb))"
    and "length (peer_ids na) = 1" and "length (peer_ids nb) = 1" and "a \<noteq> b" and "0 < timeout"
  shows "(\<exists>n d. contend J l timeout now ra (lock_ask l now b rb) (na, new_dlock a) = (Inr (Some True), (n, d))
      \<and> l \<in> set (dl_held d))
    \<and> (\<exists>n d. contend J l timeout now rb (lock_ask l now a ra) (nb, new_dlock b) = (Inr (Some True), (n, d))
      \<and> l \<in> set (dl_held d))"
  using contend_wins [OF assms(2,3,5,6)] contend_wins [OF assms(1,4) assms(5) [symmetric] assms(6)] by blast

definition demo_json :: jsonlib where
  "demo_json =
     \<lparr>j_dumps = (\<lambda>v. if v = lock_request_json (lock_ask (lit ''r'') 0 [97] [1]) then [97] else [98]),
      j_loads = (\<lambda>t. Inr (lock_request_json (lock_ask (lit ''r'') 0 t (if t = [97] then [1] else [2]))))\<rparr>"

lemma lock_held_twice_witness:
  "(\<exists>n d. contend demo_json (lit ''r'') 10 0 [1] (lock_ask (lit ''r'') 0 [98] [2])
      (example_node\<lparr>n_peers := [([], 0)]\<rparr>, new_dlock [97]) = (Inr (Some True), (n, d)) \<and> lit ''r'' \<in> set (dl_held d))
    \<and> (\<exists>n d. contend demo_json (lit ''r'') 10 0 [2] (lock_ask (lit ''r'') 0 [97] [1])
      (example_node\<lparr>n_peers := [([], 0)]\<rparr>, new_dlock [98]) = (Inr (Some True), (n, d)) \<and> lit ''r'' \<in> set (dl_held d))"
proof -
  have decode: "utf8_decode [97] = Inr [97]" "utf8_decode [98] = Inr [98]"
    by (simp_all add: utf8_decode_def)
  have "readable demo_json (lock_request_json (lock_ask (lit ''r'') 0 [97] [1]))"
    "readable demo_json (lock_request_json (lock_ask (lit ''r'') 0 [98] [2]))"
    by (simp_all add: readable_def demo_json_def load_payload_def decode lock_request_json_def lock_ask_def)
  then show ?thesis by (rule lock_held_twice) (simp_all add: peer_ids_def keys_def)
qed

text \<open>
  A lock held when the program ends keeps its node from stopping. The clean-up raises \<open>TypeError\<close> at the
  first lock, so nothing is released and the node is left as it was, running, with its sockets open.
\<close>

theorem held_lock_blocks_stop:
  assumes "lock_start E opts n = (Inr (), n1)"
    and "gather_loop (handle_message J) turns (n1, d) = (r, (n2, d2))" and "dl_held d2 \<noteq> []"
  shows "lock_run E J opts turns (n, d) = (Inl TypeError, (n2, d2))"
proof -
  obtain lk rest where "dl_held d2 = lk # rest" using assms(3) by (cases "dl_held d2") auto
  then have "lock_cleanup E J (n2, d2) = (Inl TypeError, (n2, d2))"
    by (simp add: lock_cleanup_def run_andThen run_thenDo run_on_own with_class_def)
  then show ?thesis
    by (simp add: lock_run_def run_thenDo run_on_node assms(1,2) try_finally_def)
qed

lemma held_lock_blocks_stop_witness:
  "\<exists>n2. lock_run calm demo_json \<lparr>o_uuid = None, o_port = 0, o_interface = None, o_verbose = False\<rparr> []
      (prepared demo_cfg [] [] [], (new_dlock [97])\<lparr>dl_held := [[98]]\<rparr>) =
    (Inl TypeError, (n2, (new_dlock [97])\<lparr>dl_held := [[98]]\<rparr>))"
proof -
  let ?opts = "\<lparr>o_uuid = None, o_port = 0, o_interface = None, o_verbose = False\<rparr>"
  let ?n = "demo_start\<lparr>n_api := n_api demo_start @ [CmdJoin LOCKS]\<rparr>"
  have join: "api_join (PyBytes LOCKS) demo_start = (Inr (), ?n)"
    by (simp add: api_join_def put_api_def wire_string_def run_andThen LOCKS_def blit_def MAX_STRING_BYTES_def)
  have "set_options ?opts (prepared demo_cfg [] [] []) = (Inr (), prepared demo_cfg [] [] [])"
    by (simp add: set_options_def if_given_def run_thenDo)
  with demo_started join have "lock_start calm ?opts (prepared demo_cfg [] [] []) = (Inr (), ?n)"
    by (simp add: lock_start_def run_thenDo)
  from held_lock_blocks_stop [OF this, where turns = "[]" and J = demo_json] show ?thesis
    by (simp add: gather_loop_def)
qed

end
