(* ===== verification/Zre_Ex_Config.thy ===== *)
theory Zre_Ex_Config
  imports Zre_Ex_Lock
begin

section \<open>Configuration in sync\<close>

text \<open>
  \<open>examples/config_sync.py\<close>: every node keeps a table of configuration values with a version number for
  each key; a value that is set is shouted, and the whole table is shouted again when a peer enters. What
  \<open>json.dumps(v, sort_keys=True)\<close> writes and the digest are arguments, next to those of the lock.
\<close>

record cfglib = jsonlib +
  j_dumps_sorted :: "json \<Rightarrow> bytes"
  j_sha256 :: "bytes \<Rightarrow> bytes"

subsection \<open>State\<close>

record config_update =
  cu_key :: json
  cu_value :: json
  cu_version :: json
  cu_timestamp :: json
  cu_source_id :: json
  cu_checksum :: json

text \<open>
  A key that arrives in a message can be any value with a hash. A dictionary looks keys up by equality, where
  \<open>True\<close> equals 1, and keeps the key that was used first; so the tables are filed under \<open>as_key\<close> of the
  key, and \<open>cm_config\<close> has the key itself next to the value. A watcher is a number; \<open>cm_calls\<close> are the
  calls made, whose exceptions are only logged.
\<close>

record config_manager =
  cm_node_id :: pystr
  cm_config :: "(json \<times> (json \<times> json)) list"
  cm_versions :: "(json \<times> json) list"
  cm_watchers :: "(json \<times> nat list) list"
  cm_calls :: "(nat \<times> json \<times> json) list"

definition CONFIG_GROUP :: bytes where
  "CONFIG_GROUP = blit ''CONFIG''"

definition new_config_manager :: "pystr \<Rightarrow> config_manager" where
  "new_config_manager node_name =
     \<lparr>cm_node_id = lit ''config-'' @ node_name, cm_config = [], cm_versions = [], cm_watchers = [], cm_calls = []\<rparr>"

definition config_init :: "options \<Rightarrow> unit nprog" where
  "config_init opts =
     thenDo (set_own_uuid opts) (set_header (PyStr (lit ''X-ROLE'')) (PyStr (lit ''config-manager'')))"

definition config_start :: "env \<Rightarrow> options \<Rightarrow> unit nprog" where
  "config_start E opts =
     thenDo (set_options opts) (thenDo (start E) (api_join (PyBytes CONFIG_GROUP)))"

definition config_checksum :: "cfglib \<Rightarrow> json \<Rightarrow> pystr" where
  "config_checksum L v = take 16 (bytes_hex (j_sha256 L (j_dumps_sorted L v)))"

subsection \<open>The tables\<close>

definition config_get :: "json \<Rightarrow> config_manager \<Rightarrow> json option" where
  "config_get key m = map_option snd (dict_get (cm_config m) key)"

definition version_of :: "json \<Rightarrow> config_manager \<Rightarrow> json" where
  "version_of key m = (case dict_get (cm_versions m) key of None \<Rightarrow> JNum 0 | Some v \<Rightarrow> v)"

text \<open>\<open>self.config[key] = value\<close>, with \<open>slot\<close> for \<open>as_key key\<close>.\<close>

definition store_value :: "json \<Rightarrow> json \<Rightarrow> json \<Rightarrow> config_manager \<Rightarrow> config_manager" where
  "store_value slot key v m = m\<lparr>cm_config := dict_set slot
     (case dict_get (cm_config m) slot of None \<Rightarrow> key | Some (used, _) \<Rightarrow> used, v) (cm_config m)\<rparr>"

definition store_version :: "json \<Rightarrow> json \<Rightarrow> config_manager \<Rightarrow> config_manager" where
  "store_version slot ver m = m\<lparr>cm_versions := dict_set slot ver (cm_versions m)\<rparr>"

definition call_watchers :: "json \<Rightarrow> json \<Rightarrow> json \<Rightarrow> config_manager \<Rightarrow> config_manager" where
  "call_watchers slot key v m = m\<lparr>cm_calls := cm_calls m @ map (\<lambda>cb. (cb, key, v))
     (case dict_get (cm_watchers m) slot of None \<Rightarrow> [] | Some cbs \<Rightarrow> cbs)\<rparr>"

definition config_watch :: "pystr \<Rightarrow> nat \<Rightarrow> config_manager \<Rightarrow> config_manager" where
  "config_watch key callback m = m\<lparr>cm_watchers := dict_set (JStr key)
     ((case dict_get (cm_watchers m) (JStr key) of None \<Rightarrow> [] | Some cbs \<Rightarrow> cbs) @ [callback]) (cm_watchers m)\<rparr>"

subsection \<open>Numbers in messages\<close>

text \<open>A value as a number, where the code adds or compares: \<open>TypeError\<close> for anything but numbers and booleans.\<close>

fun as_number :: "json \<Rightarrow> exn + real" where
  "as_number (JNum r) = Inr r"
| "as_number (JBool b) = Inr (if b then 1 else 0)"
| "as_number v = Inl TypeError"

subsection \<open>Setting and sending\<close>

text \<open>\<open>asdict(update)\<close>.\<close>

definition update_json :: "config_update \<Rightarrow> json" where
  "update_json u =
     JObj [(lit ''key'', cu_key u), (lit ''value'', cu_value u), (lit ''version'', cu_version u),
       (lit ''timestamp'', cu_timestamp u), (lit ''source_id'', cu_source_id u), (lit ''checksum'', cu_checksum u)]"

definition make_update :: "cfglib \<Rightarrow> config_manager \<Rightarrow> json \<Rightarrow> json \<Rightarrow> json \<Rightarrow> real \<Rightarrow> config_update" where
  "make_update L m key v ver now =
     \<lparr>cu_key = key, cu_value = v, cu_version = ver, cu_timestamp = JNum now,
      cu_source_id = JStr (cm_node_id m), cu_checksum = JStr (config_checksum L v)\<rparr>"

text \<open>
  \<open>asyncio.create_task(self.node.shout(...))\<close>: the shout is a task of its own. It does nothing but queue a
  command, in the order in which the tasks were made, and its exceptions stay in it.
\<close>

definition shout_update :: "cfglib \<Rightarrow> config_update \<Rightarrow> (config_manager, unit) app" where
  "shout_update L u =
     on_node (meanwhile (api_shout (PyBytes CONFIG_GROUP) (PyBytes (j_dumps (jsonlib.truncate L) (update_json u)))))"

definition config_set :: "cfglib \<Rightarrow> (io list \<Rightarrow> real) \<Rightarrow> pystr \<Rightarrow> json \<Rightarrow> (config_manager, unit) app" where
  "config_set L wall key v =
     andThen (on_own (gets (version_of (JStr key)))) (\<lambda>current.
     andThen (lift_exn (as_number current)) (\<lambda>n.
     let ver = JNum (n + 1)
     in thenDo (on_own (modify (store_version (JStr key) ver)))
        (andThen (on_node (gets w_hist)) (\<lambda>hist.
         andThen (on_own (gets (\<lambda>m. make_update L m (JStr key) v ver (wall hist)))) (\<lambda>update.
         thenDo (on_own (modify (store_value (JStr key) (JStr key) v)))
         (thenDo (on_own (modify (call_watchers (JStr key) (JStr key) v)))
           (shout_update L update)))))))"

definition broadcast_full_config :: "cfglib \<Rightarrow> (io list \<Rightarrow> real) \<Rightarrow> (config_manager, unit) app" where
  "broadcast_full_config L wall =
     andThen (on_own (gets cm_config)) (\<lambda>items.
     for_each (\<lambda>(slot, key, v).
       andThen (on_node (gets w_hist)) (\<lambda>hist.
       andThen (on_own (gets (\<lambda>m. make_update L m key v (version_of slot m) (wall hist)))) (shout_update L))) items)"

subsection \<open>Messages\<close>

text \<open>\<open>ConfigUpdate(**payload)\<close>.\<close>

definition parse_update :: "json \<Rightarrow> exn + config_update" where
  "parse_update v =
     obind (keyword_args [''key'', ''value'', ''version'', ''timestamp'', ''source_id'', ''checksum''] v) (\<lambda>field.
     Inr \<lparr>cu_key = field ''key'', cu_value = field ''value'', cu_version = field ''version'',
       cu_timestamp = field ''timestamp'', cu_source_id = field ''source_id'', cu_checksum = field ''checksum''\<rparr>)"

definition apply_update :: "cfglib \<Rightarrow> config_update \<Rightarrow> (config_manager, unit) prog" where
  "apply_update L u =
     andThen (gets id) (\<lambda>m.
     if cu_source_id u = JStr (cm_node_id m) then ret ()
     else
       andThen (lift_exn (as_key (cu_key u))) (\<lambda>slot.
       andThen (lift_exn (as_number (cu_version u))) (\<lambda>ver.
       andThen (lift_exn (as_number (version_of slot m))) (\<lambda>current.
       if ver \<le> current then ret ()
       else if JStr (config_checksum L (cu_value u)) \<noteq> cu_checksum u then ret ()
       else modify (\<lambda>m. call_watchers slot (cu_key u) (cu_value u)
         (store_version slot (cu_version u) (store_value slot (cu_key u) (cu_value u) m)))))))"

definition handle_config_message ::
  "cfglib \<Rightarrow> (io list \<Rightarrow> real) \<Rightarrow> event \<Rightarrow> (config_manager, unit) app" where
  "handle_config_message L wall e =
    (case e of
       EvEnter peer_id _ _ \<Rightarrow>
         andThen (on_node (gets n_cfg)) (\<lambda>c.
         andThen (on_own (gets cm_config)) (\<lambda>items.
         only_if (peer_id \<noteq> c_peer_id_hex c \<and> items \<noteq> []) (broadcast_full_config L wall)))
     | EvShout _ _ g payload \<Rightarrow>
         only_if (g = lit ''CONFIG'')
           (on_own (suppress any_exception
             (andThen (lift_exn (load_payload (jsonlib.truncate L) payload)) (\<lambda>v.
              andThen (lift_exn (parse_update v)) (apply_update L)))))
     | _ \<Rightarrow> ret ())"

subsection \<open>Running\<close>

definition config_run ::
  "env \<Rightarrow> cfglib \<Rightarrow> options \<Rightarrow> (io list \<Rightarrow> real) \<Rightarrow> turn list \<Rightarrow> (config_manager, unit) app" where
  "config_run E L opts wall turns =
     thenDo (on_node (config_start E opts))
       (try_finally (gather_loop (handle_config_message L wall) turns) (on_node (stop E)))"

text \<open>
  The coroutine \<open>full\<close> of \<open>main\<close>: the run loop and the event loop are tasks, which run while this one
  sleeps; what they do in each sleep is an argument.
\<close>

definition config_demo ::
  "env \<Rightarrow> cfglib \<Rightarrow> options \<Rightarrow> pystr \<Rightarrow> (io list \<Rightarrow> real) \<Rightarrow> (nat \<Rightarrow> (config_manager, unit) app) \<Rightarrow> (config_manager, unit) app" where
  "config_demo E L opts node_name wall others =
     thenDo (on_node (config_init opts))
     (thenDo (on_own (modify (\<lambda>m. config_watch (lit ''feature_flags'') 1 (config_watch (lit ''database_url'') 0 m))))
     (thenDo (on_node (config_start E opts))
     (thenDo
       (only_if (node_name = lit ''node-1'')
         (thenDo (meanwhile (others 0))
         (thenDo (config_set L wall (lit ''database_url'') (JStr (lit ''postgresql://localhost:5432/mydb'')))
         (thenDo (meanwhile (others 1))
         (thenDo (config_set L wall (lit ''feature_flags'')
            (JObj [(lit ''new_ui'', JBool True), (lit ''beta'', JBool False)]))
         (thenDo (meanwhile (others 2))
           (config_set L wall (lit ''cache_ttl'') (JNum 300))))))))
     (thenDo (meanwhile (others 3))
       (on_node (stop E))))))"

end
