(* ===== verification/Zre_Ex_Config_Properties.thy ===== *)
theory Zre_Ex_Config_Properties
  imports Zre_Ex_Config Zre_Ex_Properties
begin

section \<open>When configuration tables agree\<close>

text \<open>
  What the version numbers of \<open>examples/config_sync.py\<close> give, and what they do not: tables converge as long
  as no two updates of a key have the same number; two nodes that change a key at the same time part for good.
\<close>

subsection \<open>Updates as they arrive\<close>

definition heard_update :: "cfglib \<Rightarrow> config_update \<Rightarrow> event" where
  "heard_update L u = EvShout [] [] (lit ''CONFIG'') (j_dumps (jsonlib.truncate L) (update_json u))"

definition hear_updates ::
  "cfglib \<Rightarrow> (io list \<Rightarrow> real) \<Rightarrow> config_update list \<Rightarrow> (config_manager, unit) app" where
  "hear_updates L wall us = for_each (\<lambda>u. handle_config_message L wall (heard_update L u)) us"

definition readable_update :: "cfglib \<Rightarrow> config_update \<Rightarrow> bool" where
  "readable_update L u \<longleftrightarrow> readable (jsonlib.truncate L) (update_json u)"

lemma parse_update_json: "parse_update (update_json u) = Inr u"
  by (simp add: parse_update_def update_json_def keys_def lit_def)

text \<open>What one update makes of a manager.\<close>

definition taken :: "cfglib \<Rightarrow> config_update \<Rightarrow> config_manager \<Rightarrow> config_manager" where
  "taken L u m = snd (apply_update L u m)"

lemma hear_one:
  assumes "readable_update L u"
  shows "handle_config_message L wall (heard_update L u) (n, m) = (Inr (), (n, taken L u m))"
proof -
  obtain r m' where a: "apply_update L u m = (r, m')" by fastforce
  show ?thesis
    using assms
    by (cases r) (simp_all add: handle_config_message_def heard_update_def readable_update_def readable_def run_on_own
        suppress_def catch_def any_exception_def run_andThen parse_update_json taken_def a)
qed

lemma hear_all:
  assumes "\<forall>u\<in>set us. readable_update L u"
  shows "hear_updates L wall us (n, m) = (Inr (), (n, fold (taken L) us m))"
  using assms
proof (induction us arbitrary: m)
  case Nil
  then show ?case by (simp add: hear_updates_def)
next
  case (Cons u us)
  then show ?case by (simp add: hear_updates_def run_thenDo hear_one)
qed

subsection \<open>One update\<close>

text \<open>An update that can be taken: another node's, with a key that has a hash, a number and the right checksum.\<close>

definition sound_update :: "cfglib \<Rightarrow> config_update \<Rightarrow> json \<Rightarrow> real \<Rightarrow> bool" where
  "sound_update L u slot ver \<longleftrightarrow> as_key (cu_key u) = Inr slot \<and> as_number (cu_version u) = Inr ver
    \<and> cu_checksum u = JStr (config_checksum L (cu_value u))"

definition foreign :: "config_manager \<Rightarrow> config_update \<Rightarrow> bool" where
  "foreign m u \<longleftrightarrow> cu_source_id u \<noteq> JStr (cm_node_id m)"

text \<open>The number of a key's version.\<close>

definition level :: "json \<Rightarrow> config_manager \<Rightarrow> exn + real" where
  "level slot m = as_number (version_of slot m)"

lemma taken_id [simp]: "cm_node_id (taken L u m) = cm_node_id m"
  by (auto simp: taken_def apply_update_def run_andThen call_watchers_def store_version_def store_value_def
      split: sum.split)

lemma folded_id [simp]: "cm_node_id (fold (taken L) us m) = cm_node_id m"
  by (induction us arbitrary: m) simp_all

lemma taken_newer:
  assumes "sound_update L u slot ver" "foreign m u" "level slot m = Inr cur" "cur < ver"
  shows "config_get k (taken L u m) = (if k = slot then Some (cu_value u) else config_get k m)"
    and "level k (taken L u m) = (if k = slot then Inr ver else level k m)"
  using assms
  by (auto simp: taken_def apply_update_def sound_update_def foreign_def level_def run_andThen config_get_def
      version_of_def call_watchers_def store_version_def store_value_def alist.get_put split: option.splits)

lemma taken_older:
  assumes "sound_update L u slot ver" "level slot m = Inr cur" "ver \<le> cur"
  shows "taken L u m = m"
  using assms by (simp add: taken_def apply_update_def sound_update_def level_def run_andThen)

subsection \<open>Many updates\<close>

text \<open>The newest update heard of each key is the one in the table.\<close>

definition newest :: "cfglib \<Rightarrow> config_update set \<Rightarrow> config_manager \<Rightarrow> bool" where
  "newest L us m \<longleftrightarrow> (\<forall>k. (config_get k m = None \<and> level k m = Inr 0 \<and> (\<forall>u\<in>us. \<forall>ver. \<not> sound_update L u k ver))
    \<or> (\<exists>u\<in>us. \<exists>ver. sound_update L u k ver \<and> config_get k m = Some (cu_value u) \<and> level k m = Inr ver
        \<and> (\<forall>w\<in>us. \<forall>ver'. sound_update L w k ver' \<longrightarrow> ver' \<le> ver)))"

definition acceptable :: "cfglib \<Rightarrow> config_manager \<Rightarrow> config_update \<Rightarrow> bool" where
  "acceptable L m u \<longleftrightarrow> readable_update L u \<and> foreign m u \<and> (\<exists>slot ver. sound_update L u slot ver \<and> 0 < ver)"

lemma newest_new: "newest L {} (new_config_manager a)"
  by (simp add: newest_def config_get_def level_def version_of_def new_config_manager_def)

lemma sound_unique: "sound_update L u k v \<Longrightarrow> sound_update L u k' v' \<Longrightarrow> k' = k \<and> v' = v"
  by (simp add: sound_update_def)

lemma newest_level: "newest L us m \<Longrightarrow> \<exists>cur. level k m = Inr cur"
  unfolding newest_def by blast

lemma newest_taken:
  assumes new: "newest L us m" and u: "sound_update L u slot ver" "0 < ver" "foreign m u"
  shows "newest L (insert u us) (taken L u m)"
proof -
  obtain cur where cur: "level slot m = Inr cur" using newest_level [OF new] by blast
  show ?thesis
  proof (cases "cur < ver")
    case True
    note get = taken_newer(1) [OF u(1,3) cur True] and lev = taken_newer(2) [OF u(1,3) cur True]
    have top: "ver' \<le> ver" if "w \<in> insert u us" "sound_update L w slot ver'" for w ver'
    proof (cases "w = u")
      case True
      then show ?thesis using sound_unique [OF u(1)] that(2) by simp
    next
      case False
      then have "w \<in> us" using that(1) by simp
      with new that(2) cur have "ver' \<le> cur" unfolding newest_def by (metis sum.inject(2))
      then show ?thesis using \<open>cur < ver\<close> by simp
    qed
    show ?thesis
      unfolding newest_def
    proof
      fix k
      show "(config_get k (taken L u m) = None \<and> level k (taken L u m) = Inr 0
          \<and> (\<forall>u\<in>insert u us. \<forall>ver. \<not> sound_update L u k ver))
        \<or> (\<exists>w\<in>insert u us. \<exists>ver. sound_update L w k ver \<and> config_get k (taken L u m) = Some (cu_value w)
            \<and> level k (taken L u m) = Inr ver \<and> (\<forall>w\<in>insert u us. \<forall>ver'. sound_update L w k ver' \<longrightarrow> ver' \<le> ver))"
      proof (cases "k = slot")
        case True
        then show ?thesis using u(1) top get lev by auto
      next
        case False
        then have "\<not> sound_update L u k v" for v using sound_unique [OF u(1)] by blast
        then show ?thesis using new False unfolding newest_def get lev by auto
      qed
    qed
  next
    case False
    then have same: "taken L u m = m" using taken_older [OF u(1) cur] by simp
    show ?thesis
      unfolding newest_def same
    proof
      fix k
      show "(config_get k m = None \<and> level k m = Inr 0 \<and> (\<forall>u\<in>insert u us. \<forall>ver. \<not> sound_update L u k ver))
        \<or> (\<exists>w\<in>insert u us. \<exists>ver. sound_update L w k ver \<and> config_get k m = Some (cu_value w)
            \<and> level k m = Inr ver \<and> (\<forall>w\<in>insert u us. \<forall>ver'. sound_update L w k ver' \<longrightarrow> ver' \<le> ver))"
      proof (cases "k = slot")
        case True
        from new [unfolded newest_def, THEN spec, of k] show ?thesis
        proof (elim disjE)
          assume "config_get k m = None \<and> level k m = Inr 0 \<and> (\<forall>u\<in>us. \<forall>ver. \<not> sound_update L u k ver)"
          with True cur have "cur = 0" by simp
          with \<open>\<not> cur < ver\<close> u(2) show ?thesis by simp
        next
          assume "\<exists>w\<in>us. \<exists>ver. sound_update L w k ver \<and> config_get k m = Some (cu_value w) \<and> level k m = Inr ver
            \<and> (\<forall>w\<in>us. \<forall>ver'. sound_update L w k ver' \<longrightarrow> ver' \<le> ver)"
          then obtain w x where w: "w \<in> us" "sound_update L w k x" "config_get k m = Some (cu_value w)"
              "level k m = Inr x" "\<And>w ver'. w \<in> us \<Longrightarrow> sound_update L w k ver' \<Longrightarrow> ver' \<le> x" by blast
          have "ver' \<le> x" if "sound_update L u k ver'" for ver'
            using sound_unique [OF u(1) that] True cur w(4) \<open>\<not> cur < ver\<close> by simp
          with w show ?thesis by blast
        qed
      next
        case other: False
        then have "\<not> sound_update L u k v" for v using sound_unique [OF u(1)] by blast
        then show ?thesis using new unfolding newest_def by auto
      qed
    qed
  qed
qed

lemma newest_heard:
  assumes "\<forall>u\<in>set us. acceptable L (new_config_manager a) u"
  shows "newest L (set us) (fold (taken L) us (new_config_manager a))"
  using assms
proof (induction us rule: rev_induct)
  case Nil
  then show ?case by (simp add: newest_new)
next
  case (snoc u us)
  then obtain slot ver where "sound_update L u slot ver" "0 < ver" "foreign (new_config_manager a) u"
    by (auto simp: acceptable_def)
  with snoc show ?case by (simp add: newest_taken foreign_def)
qed

text \<open>Tables in which the newest is in agree.\<close>

lemma newest_agree:
  assumes m: "newest L us m" and m': "newest L us m'"
    and one: "\<And>u w k ver. u \<in> us \<Longrightarrow> w \<in> us \<Longrightarrow> sound_update L u k ver \<Longrightarrow> sound_update L w k ver \<Longrightarrow>
      cu_value u = cu_value w"
  shows "config_get k m = config_get k m'"
proof (cases "\<exists>u\<in>us. \<exists>ver. sound_update L u k ver")
  case False
  then show ?thesis using m m' unfolding newest_def by metis
next
  case True
  then obtain u ver where u: "u \<in> us" "sound_update L u k ver" "config_get k m = Some (cu_value u)"
      "\<forall>w\<in>us. \<forall>ver'. sound_update L w k ver' \<longrightarrow> ver' \<le> ver"
    using m unfolding newest_def by metis
  obtain w ver' where w: "w \<in> us" "sound_update L w k ver'" "config_get k m' = Some (cu_value w)"
      "\<forall>x\<in>us. \<forall>v. sound_update L x k v \<longrightarrow> v \<le> ver'"
    using m' True unfolding newest_def by metis
  have "ver = ver'" using u w by (meson order_antisym)
  with one u w show ?thesis by metis
qed

text \<open>
  C32: configuration tables converge. Two nodes that start empty and hear the same updates, each in any order
  and any number of times, have the same value for every key, if each number of a key was given to one value
  only. No update ends the event loop.
\<close>

theorem config_converges:
  assumes "\<forall>u\<in>set us. acceptable L (new_config_manager a) u \<and> acceptable L (new_config_manager b) u"
    and "set vs = set us"
    and "\<forall>u\<in>set us. \<forall>w\<in>set us. \<forall>k ver. sound_update L u k ver \<and> sound_update L w k ver \<longrightarrow> cu_value u = cu_value w"
  shows "\<exists>m m'. hear_updates L wall us (n, new_config_manager a) = (Inr (), (n, m))
    \<and> hear_updates L wall' vs (n', new_config_manager b) = (Inr (), (n', m'))
    \<and> (\<forall>k. config_get k m = config_get k m')"
proof -
  let ?m = "fold (taken L) us (new_config_manager a)" and ?m' = "fold (taken L) vs (new_config_manager b)"
  have "newest L (set us) ?m" "newest L (set us) ?m'"
    using newest_heard [of us L a] newest_heard [of vs L b] assms(1,2) by simp_all
  then have "config_get k ?m = config_get k ?m'" for k by (rule newest_agree) (use assms(3) in blast)
  moreover have "hear_updates L wall us (n, new_config_manager a) = (Inr (), (n, ?m))"
    "hear_updates L wall' vs (n', new_config_manager b) = (Inr (), (n', ?m'))"
    using assms(1,2) by (simp_all add: hear_all acceptable_def)
  ultimately show ?thesis by blast
qed

text \<open>Two nodes and two updates, one of each node, for which the library reads what it writes.\<close>

definition demo_update :: "pystr \<Rightarrow> json \<Rightarrow> real \<Rightarrow> config_update" where
  "demo_update who v ver =
     \<lparr>cu_key = JStr (lit ''k''), cu_value = v, cu_version = JNum ver, cu_timestamp = JNum 0,
      cu_source_id = JStr who, cu_checksum = JStr []\<rparr>"

definition demo_cfglib :: cfglib where
  "demo_cfglib = \<lparr>j_dumps = (\<lambda>v. if v = update_json (demo_update [3] JNull 1) then [97] else [98]),
     j_loads = (\<lambda>t. Inr (update_json (if t = [97] then demo_update [3] JNull 1 else demo_update [2] (JNum 7) 2))),
     j_dumps_sorted = (\<lambda>v. []), j_sha256 = (\<lambda>b. [])\<rparr>"

lemma demo_update_acceptable:
  "acceptable demo_cfglib (new_config_manager a) (demo_update [3] JNull 1)"
  "acceptable demo_cfglib (new_config_manager a) (demo_update [2] (JNum 7) 2)"
proof -
  have decode: "utf8_decode [97] = Inr [97]" "utf8_decode [98] = Inr [98]"
    by (simp_all add: utf8_decode_def)
  show "acceptable demo_cfglib (new_config_manager a) (demo_update [3] JNull 1)"
    "acceptable demo_cfglib (new_config_manager a) (demo_update [2] (JNum 7) 2)"
    by (simp_all add: acceptable_def readable_update_def readable_def demo_cfglib_def load_payload_def decode
        update_json_def demo_update_def foreign_def new_config_manager_def lit_def sound_update_def
        config_checksum_def bytes_hex_def jsonlib.truncate_def)
qed

lemma config_converges_witness:
  "\<exists>m m'. hear_updates demo_cfglib (\<lambda>_. 0) [demo_update [3] JNull 1, demo_update [2] (JNum 7) 2]
      (example_node, new_config_manager [5]) = (Inr (), (example_node, m))
    \<and> hear_updates demo_cfglib (\<lambda>_. 0) [demo_update [2] (JNum 7) 2, demo_update [3] JNull 1, demo_update [3] JNull 1]
      (example_node, new_config_manager [6]) = (Inr (), (example_node, m'))
    \<and> (\<forall>k. config_get k m = config_get k m')"
  by (rule config_converges) (auto simp: demo_update_acceptable, auto simp: demo_update_def sound_update_def)

subsection \<open>Changes at the same time\<close>

text \<open>What \<open>set\<close> leaves in the table.\<close>

lemma config_set_table:
  assumes "level (JStr key) m = Inr cur"
  shows "\<exists>n' m'. config_set L wall key v (n, m) = (Inr (), (n', m')) \<and> cm_node_id m' = cm_node_id m
    \<and> config_get (JStr key) m' = Some v \<and> level (JStr key) m' = Inr (cur + 1)"
proof -
  let ?m = "call_watchers (JStr key) (JStr key) v (store_value (JStr key) (JStr key) v
    (store_version (JStr key) (JNum (cur + 1)) m))"
  have "\<exists>n'. config_set L wall key v (n, m) = (Inr (), (n', ?m))"
    using assms by (simp add: config_set_def Let_def level_def run_andThen run_thenDo run_on_own run_on_node shout_update_def)
  moreover have "cm_node_id ?m = cm_node_id m" "config_get (JStr key) ?m = Some v" "level (JStr key) ?m = Inr (cur + 1)"
    by (simp_all add: level_def config_get_def version_of_def store_version_def store_value_def call_watchers_def
        alist.get_put)
  ultimately show ?thesis by blast
qed

text \<open>An update whose number for a key is no higher than the one in the table.\<close>

definition stale :: "json \<Rightarrow> real \<Rightarrow> config_update \<Rightarrow> bool" where
  "stale slot cur u \<longleftrightarrow> as_key (cu_key u) \<noteq> Inr slot
    \<or> (case as_number (cu_version u) of Inl _ \<Rightarrow> True | Inr ver \<Rightarrow> ver \<le> cur)"

lemma taken_stale:
  assumes "level slot m = Inr cur" "stale slot cur u"
  shows "config_get slot (taken L u m) = config_get slot m" and "level slot (taken L u m) = Inr cur"
  using assms
  by (auto simp: taken_def apply_update_def stale_def level_def run_andThen config_get_def version_of_def
      call_watchers_def store_version_def store_value_def alist.get_put split: sum.split)

lemma old_news:
  assumes "level slot m = Inr cur" and "\<forall>u\<in>set us. stale slot cur u"
  shows "config_get slot (fold (taken L) us m) = config_get slot m"
  using assms by (induction us arbitrary: m) (simp_all add: taken_stale)

text \<open>A change by the user, and then updates that are heard.\<close>

definition set_then_hear ::
  "cfglib \<Rightarrow> (io list \<Rightarrow> real) \<Rightarrow> pystr \<Rightarrow> json \<Rightarrow> config_update list \<Rightarrow> (config_manager, unit) app" where
  "set_then_hear L wall key v us = thenDo (config_set L wall key v) (hear_updates L wall us)"

lemma set_stays:
  assumes "level (JStr key) m = Inr cur" and "\<forall>u\<in>set us. readable_update L u \<and> stale (JStr key) (cur + 1) u"
  shows "\<exists>n' m'. set_then_hear L wall key v us (n, m) = (Inr (), (n', m')) \<and> config_get (JStr key) m' = Some v"
proof -
  obtain n1 m1 where "config_set L wall key v (n, m) = (Inr (), (n1, m1))"
    and m1: "config_get (JStr key) m1 = Some v" "level (JStr key) m1 = Inr (cur + 1)"
    using config_set_table [OF assms(1), of L wall v n] by blast
  moreover have "config_get (JStr key) (fold (taken L) us m1) = Some v"
    using old_news [OF m1(2), of us L] assms(2) m1(1) by simp
  ultimately show ?thesis using assms(2) by (simp add: set_then_hear_def run_thenDo hear_all)
qed

text \<open>The update that a \<open>set\<close> shouts, and every repetition of it, has the number of the change.\<close>

lemma own_update_stale:
  "stale slot cur (make_update L m key v (JNum ver) now) \<longleftrightarrow> as_key key \<noteq> Inr slot \<or> ver \<le> cur"
  by (simp add: stale_def make_update_def)

text \<open>
  C33: changes made at the same time part the tables for good. Two nodes with the same number for a key set it
  to different values; then each hears the other's update, the tables that are shouted again when peers enter,
  in any order and any number of times, in fact any updates with no higher number for that key. Both keep
  their own value: the time stamp of an update is never looked at, so the last writer does not win.
\<close>

theorem concurrent_sets_diverge:
  assumes "level (JStr key) a = Inr cur" and "level (JStr key) b = Inr cur" and "v \<noteq> w"
    and "\<forall>u\<in>set us \<union> set vs. readable_update L u \<and> stale (JStr key) (cur + 1) u"
  shows "\<exists>n a' n' b'. set_then_hear L wall key v us (na, a) = (Inr (), (n, a'))
    \<and> set_then_hear L wall' key w vs (nb, b) = (Inr (), (n', b'))
    \<and> config_get (JStr key) a' = Some v \<and> config_get (JStr key) b' = Some w \<and> config_get (JStr key) a' \<noteq> config_get (JStr key) b'"
  using set_stays [OF assms(1), of us L wall v na] set_stays [OF assms(2), of vs L wall' w nb] assms(3,4) by auto

lemma concurrent_sets_diverge_witness:
  "\<exists>n a' n' b'. set_then_hear demo_cfglib (\<lambda>_. 0) (lit ''k'') JNull [demo_update [3] JNull 1]
        (example_node, new_config_manager [5]) = (Inr (), (n, a'))
    \<and> set_then_hear demo_cfglib (\<lambda>_. 1) (lit ''k'') (JBool True) [demo_update [3] JNull 1]
        (example_node, new_config_manager [3]) = (Inr (), (n', b'))
    \<and> config_get (JStr (lit ''k'')) a' = Some JNull \<and> config_get (JStr (lit ''k'')) b' = Some (JBool True)
    \<and> config_get (JStr (lit ''k'')) a' \<noteq> config_get (JStr (lit ''k'')) b'"
proof -
  have "level (JStr (lit ''k'')) (new_config_manager x) = Inr 0" for x
    by (simp add: level_def version_of_def new_config_manager_def)
  moreover have "readable_update demo_cfglib (demo_update [3] JNull 1)"
    using demo_update_acceptable(1) by (simp add: acceptable_def)
  moreover have "stale (JStr (lit ''k'')) (0 + 1) (demo_update [3] JNull 1)"
    by (simp add: stale_def demo_update_def)
  ultimately show ?thesis by (intro concurrent_sets_diverge [where cur = 0]) simp_all
qed

end
