(* ===== verification/Zre_Ex_Feeds.thy ===== *)
theory Zre_Ex_Feeds
  imports Zre_Ex_Lock
begin

section \<open>Tasks, games and sensors\<close>

text \<open>
  Three programs that send JSON objects through a group: \<open>examples/task_queue.py\<close>, \<open>examples/game_sync.py\<close>
  and \<open>examples/sensor_network.py\<close>. What \<open>str\<close> makes of a value and the numbers that \<open>random\<close> draws are
  arguments.
\<close>

subsection \<open>The turns of a program with a task of its own\<close>

datatype 'x task_turn = Ran "unit nprog" | Aside "('x, unit) app" | Got event

definition gather_step :: "(event \<Rightarrow> ('x, unit) app) \<Rightarrow> 'x task_turn \<Rightarrow> ('x, unit) app" where
  "gather_step body t =
    (case t of
       Ran m \<Rightarrow> on_node m
     | Aside m \<Rightarrow> meanwhile m
     | Got e \<Rightarrow> thenDo (check_collision_event e) (body e))"

definition gather_steps :: "(event \<Rightarrow> ('x, unit) app) \<Rightarrow> 'x task_turn list \<Rightarrow> ('x, unit) app" where
  "gather_steps body ts = for_each (gather_step body) ts"

text \<open>A handler that logs what it raises, or passes over it.\<close>

definition guarded :: "('x, unit) prog \<Rightarrow> ('x, unit) app" where
  "guarded m = on_own (suppress any_exception m)"

subsection \<open>The task queue\<close>

definition TASKS :: bytes where
  "TASKS = blit ''TASKS''"

record task_table =
  tq_pending :: "(pystr \<times> bytes) list"
  tq_counter :: nat

text \<open>Both programs start alike: they wait for a peer before they join.\<close>

definition start_in_tasks :: "env \<Rightarrow> options \<Rightarrow> unit nprog \<Rightarrow> (nat \<Rightarrow> unit nprog) \<Rightarrow> unit nprog" where
  "start_in_tasks E opts headers others =
     thenDo (set_own_uuid opts)
     (thenDo headers
     (thenDo (set_options opts)
     (thenDo (start E)
     (thenDo (wait_until has_peers others 30)
       (api_join (PyBytes TASKS))))))"

text \<open>The events of the coordinator: an answer to a pending task ends it.\<close>

definition task_answer :: "jsonlib \<Rightarrow> bytes \<Rightarrow> (task_table, unit) prog" where
  "task_answer J payload =
     andThen (lift_exn (load_payload J payload)) (\<lambda>data.
     andThen (lift_exn (json_get data (lit ''task_id''))) (\<lambda>task_id.
     andThen (lift_exn (as_key task_id)) (\<lambda>key.
     modify (\<lambda>t. case key of
       JStr k \<Rightarrow> if k \<in> set (keys (tq_pending t)) then t\<lparr>tq_pending := dict_pop k (tq_pending t)\<rparr> else t
     | _ \<Rightarrow> t))))"

definition coordinator_event :: "jsonlib \<Rightarrow> event \<Rightarrow> (task_table, unit) app" where
  "coordinator_event J e =
    (case e of
       EvWhisper _ _ payload \<Rightarrow> guarded (task_answer J payload)
     | _ \<Rightarrow> ret ())"

definition task_json :: "pystr \<Rightarrow> nat \<Rightarrow> real \<Rightarrow> json" where
  "task_json task_id k now =
     JObj [(lit ''task_id'', JStr task_id), (lit ''op'', JStr (lit ''echo'')),
       (lit ''data'', JStr (lit ''hello-'' @ show_nat k)), (lit ''ts'', JNum now)]"

definition hand_out :: "jsonlib \<Rightarrow> (io list \<Rightarrow> real) \<Rightarrow> pystr \<Rightarrow> (task_table, unit) app" where
  "hand_out J wall task_id =
     andThen (on_own (gets tq_counter)) (\<lambda>k.
     andThen (on_node (gets w_hist)) (\<lambda>hist.
     let payload = j_dumps J (task_json task_id k (wall hist))
     in thenDo (on_own (modify (\<lambda>t. t\<lparr>tq_pending := dict_set task_id payload (tq_pending t), tq_counter := k + 1\<rparr>)))
          (on_node (api_shout (PyBytes TASKS) (PyBytes payload)))))"

text \<open>
  The rounds of the coordinator. For each: the first six digits of \<open>uuid4\<close>, and what the other tasks do in the
  sleep, among them the task of the event loop; nothing that they raise reaches this one. After the fifth task
  the next item is the long sleep.
\<close>

fun coordinate ::
  "jsonlib \<Rightarrow> (io list \<Rightarrow> real) \<Rightarrow> (pystr \<times> (task_table, unit) app) list \<Rightarrow> (task_table, unit) app" where
  "coordinate J wall [] = ret ()"
| "coordinate J wall ((task_id, others) # rounds) =
     thenDo (meanwhile others)
     (andThen (on_node (gets has_peers)) (\<lambda>any.
      if \<not> any then coordinate J wall rounds
      else thenDo (hand_out J wall task_id)
        (andThen (on_own (gets tq_counter)) (\<lambda>k.
         if 5 \<le> k then (case rounds of [] \<Rightarrow> ret () | (_, rest) # _ \<Rightarrow> meanwhile rest)
         else coordinate J wall rounds))))"

definition run_coordinator ::
  "env \<Rightarrow> jsonlib \<Rightarrow> options \<Rightarrow> (io list \<Rightarrow> real) \<Rightarrow> (nat \<Rightarrow> unit nprog) \<Rightarrow>
   (pystr \<times> (task_table, unit) app) list \<Rightarrow> (task_table, unit) app" where
  "run_coordinator E J opts wall others rounds =
     thenDo (on_node (start_in_tasks E opts (set_header (PyStr (lit ''X-ROLE'')) (PyStr (lit ''coordinator''))) others))
       (try_finally (coordinate J wall rounds) (on_node (stop E)))"

text \<open>The events of a worker. It sleeps half a second over a task; \<open>others\<close> is what the run loop does then.\<close>

definition show_value :: "(json \<Rightarrow> pystr) \<Rightarrow> json \<Rightarrow> pystr" where
  "show_value str v = (case v of JStr s \<Rightarrow> s | _ \<Rightarrow> str v)"

definition result_json :: "(json \<Rightarrow> pystr) \<Rightarrow> pystr \<Rightarrow> json \<Rightarrow> json \<Rightarrow> json" where
  "result_json str name task_id v =
     JObj [(lit ''task_id'', task_id), (lit ''result'', JStr (lit ''done-'' @ show_value str v)),
       (lit ''worker'', JStr name)]"

definition worker_event ::
  "jsonlib \<Rightarrow> (json \<Rightarrow> pystr) \<Rightarrow> pystr \<Rightarrow> unit nprog \<Rightarrow> event \<Rightarrow> unit nprog" where
  "worker_event J str name others e =
    (case e of
       EvShout peer_id _ g payload \<Rightarrow>
         only_if (g = lit ''TASKS'')
           (suppress any_exception
             (andThen (lift_exn (load_payload J payload)) (\<lambda>data.
              andThen (lift_exn (json_get data (lit ''task_id''))) (\<lambda>task_id.
              andThen (lift_exn (json_get data (lit ''data''))) (\<lambda>v.
              thenDo (meanwhile others)
                (api_whisper (PyStr peer_id) (PyBytes (j_dumps J (result_json str name task_id v)))))))))
     | _ \<Rightarrow> ret ())"

text \<open>What happens to a worker: the run loop has a turn, or an event arrives.\<close>

datatype worker_turn = Elsewhere "unit nprog" | Told event "unit nprog"

definition worker_step :: "jsonlib \<Rightarrow> (json \<Rightarrow> pystr) \<Rightarrow> pystr \<Rightarrow> worker_turn \<Rightarrow> unit nprog" where
  "worker_step J str name t =
    (case t of
       Elsewhere m \<Rightarrow> meanwhile m
     | Told e others \<Rightarrow> thenDo (check_collision_event e) (worker_event J str name others e))"

definition run_worker ::
  "env \<Rightarrow> jsonlib \<Rightarrow> (json \<Rightarrow> pystr) \<Rightarrow> options \<Rightarrow> pystr \<Rightarrow> (nat \<Rightarrow> unit nprog) \<Rightarrow> worker_turn list \<Rightarrow> unit nprog" where
  "run_worker E J str opts name others turns =
     thenDo (start_in_tasks E opts
         (thenDo (set_header (PyStr (lit ''X-ROLE'')) (PyStr (lit ''worker'')))
           (set_header (PyStr (lit ''X-WORKER'')) (PyStr name))) others)
       (try_finally (for_each (worker_step J str name) turns) (stop E))"

subsection \<open>The game\<close>

definition GAME_WORLD :: bytes where
  "GAME_WORLD = blit ''GAME_WORLD''"

text \<open>A state of a player; what arrives can have any values in its fields.\<close>

record player_state =
  pl_player_id :: json
  pl_x :: json
  pl_y :: json
  pl_rotation :: json
  pl_health :: json
  pl_score :: json
  pl_timestamp :: json

record game_client =
  gm_player_name :: pystr
  gm_player_id :: pystr
  gm_x :: real
  gm_y :: real
  gm_timestamp :: real
  gm_others :: "(json \<times> player_state) list"
  gm_running :: bool

definition new_game_client :: "pystr \<Rightarrow> real \<Rightarrow> game_client" where
  "new_game_client name now =
     \<lparr>gm_player_name = name, gm_player_id = lit ''player-'' @ name, gm_x = 0, gm_y = 0, gm_timestamp = now,
      gm_others = [], gm_running = True\<rparr>"

definition game_node_name :: "pystr \<Rightarrow> pystr" where
  "game_node_name name = lit ''game-'' @ name"

definition game_client_init :: "options \<Rightarrow> pystr \<Rightarrow> unit nprog" where
  "game_client_init opts name =
     thenDo (set_own_uuid opts)
     (thenDo (set_header (PyStr (lit ''X-GAME'')) (PyStr (lit ''demo'')))
       (set_header (PyStr (lit ''X-PLAYER'')) (PyStr name)))"

definition game_start :: "env \<Rightarrow> options \<Rightarrow> unit nprog" where
  "game_start E opts = thenDo (set_options opts) (thenDo (start E) (api_join (PyBytes GAME_WORLD)))"

definition game_move :: "real \<Rightarrow> real \<Rightarrow> game_client \<Rightarrow> game_client" where
  "game_move dx dy g = g\<lparr>gm_x := gm_x g + dx, gm_y := gm_y g + dy\<rparr>"

text \<open>\<open>asdict(self.state)\<close>; rotation, health and score never change.\<close>

definition player_json :: "game_client \<Rightarrow> json" where
  "player_json g =
     JObj [(lit ''player_id'', JStr (gm_player_id g)), (lit ''x'', JNum (gm_x g)), (lit ''y'', JNum (gm_y g)),
       (lit ''rotation'', JNum 0), (lit ''health'', JNum 100), (lit ''score'', JNum 0),
       (lit ''timestamp'', JNum (gm_timestamp g))]"

text \<open>One round of the task \<open>broadcaster\<close>.\<close>

definition game_broadcast :: "jsonlib \<Rightarrow> (io list \<Rightarrow> real) \<Rightarrow> (game_client, unit) app" where
  "game_broadcast J wall =
     andThen (on_own (gets gm_running)) (\<lambda>running.
     only_if running
       (andThen (on_node (gets w_hist)) (\<lambda>hist.
        thenDo (on_own (modify (\<lambda>g. g\<lparr>gm_timestamp := wall hist\<rparr>)))
          (andThen (on_own (gets player_json)) (\<lambda>v.
           on_node (api_shout (PyBytes GAME_WORLD) (PyBytes (j_dumps J v))))))))"

definition parse_player :: "json \<Rightarrow> exn + player_state" where
  "parse_player v =
     obind (keyword_args [''player_id'', ''x'', ''y'', ''rotation'', ''health'', ''score'', ''timestamp''] v) (\<lambda>field.
     Inr \<lparr>pl_player_id = field ''player_id'', pl_x = field ''x'', pl_y = field ''y'', pl_rotation = field ''rotation'',
       pl_health = field ''health'', pl_score = field ''score'', pl_timestamp = field ''timestamp''\<rparr>)"

text \<open>The line that is printed at the end can raise too, but nothing follows it.\<close>

definition handle_game_message :: "jsonlib \<Rightarrow> pystr \<Rightarrow> bytes \<Rightarrow> (game_client, unit) app" where
  "handle_game_message J peer_name payload =
     andThen (on_own (gets gm_player_name)) (\<lambda>me.
     only_if (peer_name \<noteq> me)
       (guarded
         (andThen (lift_exn (load_payload J payload)) (\<lambda>data.
          andThen (lift_exn (parse_player data)) (\<lambda>p.
          andThen (lift_exn (as_key (pl_player_id p))) (\<lambda>key.
          modify (\<lambda>g. g\<lparr>gm_others := dict_set key p (gm_others g)\<rparr>)))))))"

definition game_event :: "jsonlib \<Rightarrow> event \<Rightarrow> (game_client, unit) app" where
  "game_event J e =
    (case e of
       EvShout _ peer_name g payload \<Rightarrow> only_if (g = lit ''GAME_WORLD'') (handle_game_message J peer_name payload)
     | _ \<Rightarrow> ret ())"

text \<open>\<open>with asyncio.CancelledError, ...\<close>: the class is no context manager (\<open>with_class\<close>).\<close>

definition game_cleanup :: "env \<Rightarrow> (game_client, unit) app" where
  "game_cleanup E =
     thenDo (on_own (modify (\<lambda>g. g\<lparr>gm_running := False\<rparr>)))
     (thenDo (with_class (ret ()))
       (on_node (stop E)))"

definition game_run ::
  "env \<Rightarrow> jsonlib \<Rightarrow> options \<Rightarrow> game_client task_turn list \<Rightarrow> (game_client, unit) app" where
  "game_run E J opts ts =
     thenDo (on_node (game_start E opts))
       (try_finally (gather_steps (game_event J) ts) (game_cleanup E))"

text \<open>The server keeps the objects as they came.\<close>

definition server_message :: "jsonlib \<Rightarrow> bytes \<Rightarrow> ((json \<times> json) list, unit) prog" where
  "server_message J payload =
     andThen (lift_exn (load_payload J payload)) (\<lambda>data.
     andThen (lift_exn (json_get data (lit ''player_id''))) (\<lambda>player_id.
     andThen (lift_exn (as_key player_id)) (\<lambda>key.
     modify (dict_set key data))))"

definition server_event :: "jsonlib \<Rightarrow> event \<Rightarrow> ((json \<times> json) list, unit) app" where
  "server_event J e =
    (case e of
       EvShout _ _ g payload \<Rightarrow> only_if (g = lit ''GAME_WORLD'') (guarded (server_message J payload))
     | _ \<Rightarrow> ret ())"

definition game_server_init :: "options \<Rightarrow> unit nprog" where
  "game_server_init opts =
     thenDo (set_own_uuid opts) (set_header (PyStr (lit ''X-ROLE'')) (PyStr (lit ''server'')))"

definition game_server_run :: "env \<Rightarrow> jsonlib \<Rightarrow> options \<Rightarrow> turn list \<Rightarrow> ((json \<times> json) list, unit) app" where
  "game_server_run E J opts turns =
     thenDo (on_node (game_start E opts))
       (try_finally (gather_loop (server_event J) turns) (on_node (stop E)))"

subsection \<open>The sensors\<close>

record sensor =
  se_sensor_id :: pystr
  se_type :: pystr
  se_location :: pystr
  se_interval :: real

definition sensor_init :: "sensor \<Rightarrow> unit nprog" where
  "sensor_init s =
     thenDo (set_header (PyStr (lit ''X-SENSOR-TYPE'')) (PyStr (se_type s)))
       (set_header (PyStr (lit ''X-LOCATION'')) (PyStr (se_location s)))"

definition sensor_start :: "env \<Rightarrow> options \<Rightarrow> unit nprog" where
  "sensor_start E opts =
     thenDo (set_options opts)
     (thenDo (set_own_uuid opts)
     (thenDo (start E)
     (thenDo (api_join (PyBytes (blit ''SENSORS'')))
       (api_join (PyBytes (blit ''ALL''))))))"

text \<open>\<open>random.uniform(a, b)\<close> for the number that \<open>random()\<close> draws, and \<open>round(x, 1)\<close>, ties to even.\<close>

definition uniform :: "real \<Rightarrow> real \<Rightarrow> real \<Rightarrow> real" where
  "uniform a b r = a + (b - a) * r"

definition round_even :: "real \<Rightarrow> int" where
  "round_even y =
    (let k = \<lfloor>y\<rfloor>; d = y - of_int k
     in if d < 1 / 2 then k else if 1 / 2 < d then k + 1 else if even k then k else k + 1)"

definition round_1 :: "real \<Rightarrow> real" where
  "round_1 v = of_int (round_even (v * 10)) / 10"

definition generate_reading :: "pystr \<Rightarrow> real \<Rightarrow> real" where
  "generate_reading kind r =
    (if kind = lit ''temperature'' then round_1 (20 + uniform (-5) 10 r)
     else if kind = lit ''humidity'' then round_1 (40 + uniform (-10) 20 r)
     else if kind = lit ''pressure'' then round_1 (1013 + uniform (-20) 20 r)
     else if kind = lit ''motion'' then (if r < 1 / 10 then 1 else 0)
     else if kind = lit ''light'' then round_1 (uniform 0 1000 r)
     else round_1 (uniform 0 100 r))"

definition get_unit :: "pystr \<Rightarrow> pystr" where
  "get_unit kind =
    (case dict_get [(lit ''temperature'', lit ''celsius''), (lit ''humidity'', lit ''percent''),
         (lit ''pressure'', lit ''hPa''), (lit ''motion'', lit ''boolean''), (lit ''light'', lit ''lux'')] kind of
       None \<Rightarrow> lit ''units''
     | Some u \<Rightarrow> u)"

definition reading_json :: "sensor \<Rightarrow> real \<Rightarrow> real \<Rightarrow> json" where
  "reading_json s r now =
     JObj [(lit ''sensor_id'', JStr (se_sensor_id s)), (lit ''sensor_type'', JStr (se_type s)),
       (lit ''value'', JNum (generate_reading (se_type s) r)), (lit ''unit'', JStr (get_unit (se_type s))),
       (lit ''timestamp'', JNum now), (lit ''location'', JStr (se_location s))]"

text \<open>One round: a number is drawn, the reading shouted, and the run loop goes on in the sleep.\<close>

definition sensor_round :: "jsonlib \<Rightarrow> (io list \<Rightarrow> real) \<Rightarrow> sensor \<Rightarrow> real \<times> unit nprog \<Rightarrow> unit nprog" where
  "sensor_round J wall s = (\<lambda>(r, others).
     andThen (gets w_hist) (\<lambda>hist.
     thenDo (api_shout (PyBytes (blit ''SENSORS'')) (PyBytes (j_dumps J (reading_json s r (wall hist)))))
       (meanwhile others)))"

definition sensor_run ::
  "env \<Rightarrow> jsonlib \<Rightarrow> options \<Rightarrow> (io list \<Rightarrow> real) \<Rightarrow> sensor \<Rightarrow> (real \<times> unit nprog) list \<Rightarrow> unit nprog" where
  "sensor_run E J opts wall s rounds =
     thenDo (sensor_start E opts)
       (try_finally (for_each (sensor_round J wall s) rounds)
         (thenDo (with_class (ret ())) (stop E)))"

definition sensor_fleet :: "sensor list" where
  "sensor_fleet = map (\<lambda>(i, kind, place, dt).
       \<lparr>se_sensor_id = lit i, se_type = lit kind, se_location = lit place, se_interval = dt\<rparr>)
     [(''temp-001'', ''temperature'', ''room-101'', 3), (''temp-002'', ''temperature'', ''room-102'', 3),
      (''humid-001'', ''humidity'', ''room-101'', 5), (''pressure-001'', ''pressure'', ''outside'', 10),
      (''motion-001'', ''motion'', ''hallway'', 2), (''light-001'', ''light'', ''office'', 4)]"

text \<open>The aggregator: it stores the object before it looks for the value.\<close>

definition aggregator_init :: "unit nprog" where
  "aggregator_init = set_header (PyStr (lit ''X-ROLE'')) (PyStr (lit ''aggregator''))"

definition store_reading :: "jsonlib \<Rightarrow> bytes \<Rightarrow> ((json \<times> json) list, unit) prog" where
  "store_reading J payload =
     andThen (lift_exn (load_payload J payload)) (\<lambda>data.
     andThen (lift_exn (json_get data (lit ''sensor_id''))) (\<lambda>sensor_id.
     andThen (lift_exn (as_key sensor_id)) (\<lambda>key.
     modify (dict_set key data))))"

definition aggregator_event :: "jsonlib \<Rightarrow> event \<Rightarrow> ((json \<times> json) list, unit) app" where
  "aggregator_event J e =
    (case e of
       EvShout _ _ g payload \<Rightarrow>
         only_if (g = lit ''SENSORS'' \<or> g = lit ''ALL'') (guarded (store_reading J payload))
     | _ \<Rightarrow> ret ())"

definition aggregator_run :: "env \<Rightarrow> jsonlib \<Rightarrow> options \<Rightarrow> turn list \<Rightarrow> ((json \<times> json) list, unit) app" where
  "aggregator_run E J opts turns =
     thenDo (on_node (sensor_start E opts))
       (try_finally (gather_loop (aggregator_event J) turns) (on_node (stop E)))"

end
