(* ===== verification/Zre_Ex_Feeds_Properties.thy ===== *)
theory Zre_Ex_Feeds_Properties
  imports Zre_Ex_Feeds Zre_Ex_Properties
begin

section \<open>Properties of the task queue, the game and the sensors\<close>

subsection \<open>A task and its answer\<close>

lemma hand_out_run:
  "hand_out J wall task_id (n, t) =
    (let payload = j_dumps J (task_json task_id (tq_counter t) (wall (w_hist n)))
     in (Inr (), (n\<lparr>n_api := n_api n @ [CmdShout TASKS payload]\<rparr>,
          t\<lparr>tq_pending := dict_set task_id payload (tq_pending t), tq_counter := tq_counter t + 1\<rparr>)))"
  by (simp add: hand_out_def Let_def run_andThen run_thenDo run_on_own run_on_node api_shout_def put_api_def
      wire_string_def TASKS_def blit_def MAX_STRING_BYTES_def)

lemma worker_event_run:
  assumes "readable J (task_json task_id k now)" and "utf8_encode peer_id = Inr raw"
  shows "worker_event J str name others (EvShout peer_id nm (lit ''TASKS'') (j_dumps J (task_json task_id k now))) w =
    (Inr (), (snd (others w))\<lparr>n_api := n_api (snd (others w)) @ [CmdWhisper raw
      (j_dumps J (result_json str name (JStr task_id) (JStr (lit ''hello-'' @ show_nat k))))]\<rparr>)"
  using assms
  by (simp add: worker_event_def readable_def task_json_def suppress_def catch_def run_andThen run_thenDo
      api_whisper_def put_api_def lit_def)

lemma coordinator_event_run:
  assumes "readable J (result_json str name (JStr task_id) v)"
  shows "coordinator_event J (EvWhisper who nm (j_dumps J (result_json str name (JStr task_id) v))) (n, t) =
    (Inr (), (n, if task_id \<in> set (keys (tq_pending t)) then t\<lparr>tq_pending := dict_pop task_id (tq_pending t)\<rparr> else t))"
  using assms
  by (simp add: coordinator_event_def guarded_def readable_def result_json_def suppress_def catch_def run_andThen
      run_on_own task_answer_def lit_def)

text \<open>
  C34: a task that the coordinator hands out is done when a worker has answered it. The coordinator shouts the task
  and files it; a worker that gets this shout whispers one result to the sender, whatever happens in the half
  second it works; the coordinator that gets that whisper takes the task, and nothing else, off its table.
\<close>

theorem task_round_trip:
  assumes "readable J (task_json task_id (tq_counter t) (wall (w_hist n)))"
    and "readable J (result_json str name (JStr task_id) (JStr (lit ''hello-'' @ show_nat (tq_counter t))))"
    and "utf8_encode peer_id = Inr raw"
  shows "\<exists>task answer n' t'.
    hand_out J wall task_id (n, t) = (Inr (), (n', t')) \<and> n_api n' = n_api n @ [CmdShout TASKS task]
    \<and> dict_get (tq_pending t') task_id = Some task \<and> tq_counter t' = tq_counter t + 1
    \<and> worker_event J str name others (EvShout peer_id nm (lit ''TASKS'') task) w =
        (Inr (), (snd (others w))\<lparr>n_api := n_api (snd (others w)) @ [CmdWhisper raw answer]\<rparr>)
    \<and> (\<forall>n''. coordinator_event J (EvWhisper who nm' answer) (n'', t') =
        (Inr (), (n'', t'\<lparr>tq_pending := dict_pop task_id (tq_pending t')\<rparr>)))"
  by (intro exI conjI allI, (simp add: hand_out_run Let_def)+,
      (simp add: keys_update alist.get_put worker_event_run [OF assms(1,3)])+)
    (rule trans [OF coordinator_event_run [OF assms(2)]], simp add: keys_update)

text \<open>A library that reads back the two objects of one task.\<close>

definition task_lib :: jsonlib where
  "task_lib =
     \<lparr>j_dumps = (\<lambda>v. if v = task_json [116] 0 0 then [97] else [98]),
      j_loads = (\<lambda>s. Inr (if s = [97] then task_json [116] 0 0
        else result_json (\<lambda>_. []) [119] (JStr [116]) (JStr (lit ''hello-'' @ show_nat 0))))\<rparr>"

lemma task_round_trip_witness:
  "\<exists>task answer n' t'.
    hand_out task_lib (\<lambda>_. 0) [116] (example_node, \<lparr>tq_pending = [], tq_counter = 0\<rparr>) = (Inr (), (n', t'))
    \<and> n_api n' = n_api example_node @ [CmdShout TASKS task]
    \<and> dict_get (tq_pending t') [116] = Some task \<and> tq_counter t' = 0 + 1
    \<and> worker_event task_lib (\<lambda>_. []) [119] (ret ()) (EvShout [] [] (lit ''TASKS'') task) example_node =
        (Inr (), example_node\<lparr>n_api := n_api example_node @ [CmdWhisper [] answer]\<rparr>)
    \<and> (\<forall>n''. coordinator_event task_lib (EvWhisper [] [] answer) (n'', t') =
        (Inr (), (n'', t'\<lparr>tq_pending := dict_pop [116] (tq_pending t')\<rparr>)))"
proof -
  have decode: "utf8_decode [97] = Inr [97]" "utf8_decode [98] = Inr [98]" "utf8_encode [] = Inr []"
    by (simp_all add: utf8_decode_def utf8_encode_def)
  have "readable task_lib (task_json [116] 0 0)"
    "readable task_lib (result_json (\<lambda>_. []) [119] (JStr [116]) (JStr (lit ''hello-'' @ show_nat 0)))"
    by (simp_all add: readable_def task_lib_def load_payload_def decode task_json_def result_json_def)
  then show ?thesis
    using task_round_trip [of task_lib "[116]" "\<lparr>tq_pending = [], tq_counter = 0\<rparr>" "\<lambda>_. 0" example_node "\<lambda>_. []"
      "[119]" "[]" "[]" "ret ()" "[]" example_node "[]" "[]"] decode(3) by simp
qed

subsection \<open>Readings\<close>

lemma round_even_between:
  assumes "of_int a \<le> y" "y \<le> of_int b"
  shows "a \<le> round_even y \<and> round_even y \<le> b"
proof -
  have "a \<le> \<lfloor>y\<rfloor>" using assms(1) by (simp add: le_floor_iff)
  moreover have "\<lfloor>y\<rfloor> \<le> b" using assms(2) by (simp add: floor_le_iff)
  moreover have "y - of_int \<lfloor>y\<rfloor> = 0" if "\<not> \<lfloor>y\<rfloor> + 1 \<le> b"
    using assms(2) that of_int_floor_le [of y] by linarith
  ultimately show ?thesis by (cases "\<lfloor>y\<rfloor> + 1 \<le> b") (simp_all add: round_even_def Let_def)
qed

lemma round_1_between:
  assumes "of_int a \<le> v" "v \<le> of_int b"
  shows "of_int a \<le> round_1 v \<and> round_1 v \<le> of_int b"
proof -
  have "a * 10 \<le> round_even (v * 10) \<and> round_even (v * 10) \<le> b * 10"
    by (rule round_even_between) (use assms in simp_all)
  then have "of_int a * 10 \<le> (of_int (round_even (v * 10)) :: real)" "(of_int (round_even (v * 10)) :: real) \<le> of_int b * 10"
    by linarith+
  then show ?thesis by (simp add: round_1_def field_simps)
qed

lemma round_1_uniform:
  assumes "0 \<le> r" "r < 1" "a \<le> b"
  shows "of_int (m + a) \<le> round_1 (of_int m + uniform (of_int a) (of_int b) r)
    \<and> round_1 (of_int m + uniform (of_int a) (of_int b) r) \<le> of_int (m + b)"
proof (rule round_1_between)
  have "0 \<le> (of_int b - of_int a) * r" using assms by simp
  moreover have "(of_int b - of_int a) * r \<le> (of_int b - of_int a) * 1"
    by (rule mult_left_mono) (use assms in simp_all)
  ultimately show "of_int (m + a) \<le> of_int m + uniform (of_int a) (of_int b) r"
    "of_int m + uniform (of_int a) (of_int b) r \<le> of_int (m + b)"
    by (simp_all add: uniform_def)
qed

definition sensor_range :: "pystr \<Rightarrow> real \<times> real" where
  "sensor_range kind =
    (case dict_get [(lit ''temperature'', (15, 30)), (lit ''humidity'', (30, 60)), (lit ''pressure'', (993, 1033)),
         (lit ''motion'', (0, 1)), (lit ''light'', (0, 1000))] kind of
       None \<Rightarrow> (0, 100)
     | Some r \<Rightarrow> r)"

text \<open>
  A sensor reads within its range, to one decimal, whatever number is drawn: rounding never leaves the range,
  since its ends are whole numbers.
\<close>

theorem readings_in_range:
  assumes "0 \<le> r" "r < 1"
  shows "fst (sensor_range kind) \<le> generate_reading kind r \<and> generate_reading kind r \<le> snd (sensor_range kind)"
  using round_1_uniform [OF assms, of "-5" 10 20] round_1_uniform [OF assms, of "-10" 20 40]
    round_1_uniform [OF assms, of "-20" 20 1013] round_1_uniform [OF assms, of 0 1000 0] round_1_uniform [OF assms, of 0 100 0]
  by (auto simp: generate_reading_def sensor_range_def lit_def)

lemma readings_in_range_witness:
  "fst (sensor_range (lit ''light'')) \<le> generate_reading (lit ''light'') (1 / 2)
    \<and> generate_reading (lit ''light'') (1 / 2) \<le> snd (sensor_range (lit ''light''))"
  by (rule readings_in_range) simp_all

subsection \<open>How the game and a sensor end\<close>

text \<open>
  Neither a client of the game nor a sensor ever stops its node. Once it has started, however its loops end,
  the clean-up raises \<open>TypeError\<close> before it reaches \<open>stop\<close>; the node is left as the loops left it.
\<close>

lemma game_never_stops:
  assumes "game_start E opts n = (Inr (), n1)" and "gather_steps (game_event J) ts (n1, g) = (r, (n2, g2))"
  shows "game_run E J opts ts (n, g) = (Inl TypeError, (n2, g2\<lparr>gm_running := False\<rparr>))"
  using assms by (simp add: game_run_def game_cleanup_def run_thenDo run_on_node run_on_own try_finally_def with_class_def)

lemma sensor_never_stops:
  assumes "sensor_start E opts n = (Inr (), n1)" and "for_each (sensor_round J wall s) rounds n1 = (r, n2)"
  shows "sensor_run E J opts wall s rounds n = (Inl TypeError, n2)"
  using assms by (simp add: sensor_run_def run_thenDo try_finally_def with_class_def)

text \<open>
  A client means to pass over its own messages, but compares the name of the sender's node with the name of its
  player: it never knows itself, and the player whose name is that of another's node knows nothing of the other.
\<close>

lemma game_never_knows_itself: "game_node_name (gm_player_name g) \<noteq> gm_player_name g"
  by (simp add: game_node_name_def lit_def)

lemma game_passes_over:
  "gm_player_name g = game_node_name other \<Longrightarrow>
    handle_game_message J (game_node_name other) payload (n, g) = (Inr (), (n, g))"
  by (simp add: handle_game_message_def run_andThen run_on_own)

end
