(* ===== verification/Zre_Ex_Secure.thy ===== *)
theory Zre_Ex_Secure
  imports Zre_Ex_Trackers
begin

section \<open>The secure chat\<close>

text \<open>
  \<open>examples/secure_chat.py\<close>: a chat whose messages are encrypted with a key that all have. The cipher
  (\<open>ChaCha20Poly1305\<close>, a package of its own) is an argument, as are the bytes of \<open>os.urandom\<close>, given what has
  happened.
\<close>

record cipher =
  ci_check :: "bytes \<Rightarrow> exn + unit"    \<comment> \<open>the constructor: is this a key?\<close>
  ci_encrypt :: "bytes \<Rightarrow> bytes \<Rightarrow> bytes \<Rightarrow> bytes \<Rightarrow> bytes"   \<comment> \<open>key, nonce, data, associated data\<close>
  ci_decrypt :: "bytes \<Rightarrow> bytes \<Rightarrow> bytes \<Rightarrow> bytes \<Rightarrow> exn + bytes"

subsection \<open>The channel\<close>

text \<open>\<open>SecureChannel\<close>: its key. \<open>key or os.urandom(32)\<close> takes an empty key for none.\<close>

definition new_channel :: "cipher \<Rightarrow> bytes \<Rightarrow> bytes option \<Rightarrow> exn + bytes" where
  "new_channel C random32 key =
    (let k = (case key of None \<Rightarrow> random32 | Some k \<Rightarrow> if k = [] then random32 else k)
     in obind (ci_check C k) (\<lambda>_. Inr k))"

definition channel_encrypt :: "cipher \<Rightarrow> bytes \<Rightarrow> bytes \<Rightarrow> bytes \<Rightarrow> bytes \<Rightarrow> bytes" where
  "channel_encrypt C key nonce plaintext associated = nonce @ ci_encrypt C key nonce plaintext associated"

definition channel_decrypt :: "cipher \<Rightarrow> bytes \<Rightarrow> bytes \<Rightarrow> bytes \<Rightarrow> exn + bytes" where
  "channel_decrypt C key ciphertext associated =
     ci_decrypt C key (take 12 ciphertext) (drop 12 ciphertext) associated"

subsection \<open>The node of the chat\<close>

text \<open>\<open>sc_shown\<close> is what was printed of the others' messages: whether it was private, and the text.\<close>

record secure_chat =
  sc_name :: pystr
  sc_key :: bytes
  sc_shown :: "(bool \<times> pystr) list"

definition new_secure_chat :: "cipher \<Rightarrow> bytes \<Rightarrow> pystr \<Rightarrow> bytes option \<Rightarrow> exn + secure_chat" where
  "new_secure_chat C random32 name shared_key =
     obind (new_channel C random32 shared_key) (\<lambda>k. Inr \<lparr>sc_name = name, sc_key = k, sc_shown = []\<rparr>)"

definition secure_init :: "options \<Rightarrow> unit nprog" where
  "secure_init opts =
     thenDo (set_own_uuid opts) (set_header (PyStr (lit ''X-ENCRYPTED'')) (PyStr (lit ''true'')))"

definition SECURE_CHAT :: bytes where
  "SECURE_CHAT = blit ''SECURE_CHAT''"

definition ENCRYPTED :: bytes where
  "ENCRYPTED = blit ''ENCRYPTED:''"

definition secure_start :: "env \<Rightarrow> options \<Rightarrow> unit nprog" where
  "secure_start E opts = thenDo (set_options opts) (thenDo (start E) (api_join (PyBytes SECURE_CHAT)))"

text \<open>The payload for a text: encoded, encrypted under a fresh nonce, and marked.\<close>

definition sealed :: "cipher \<Rightarrow> (io list \<Rightarrow> bytes) \<Rightarrow> pystr \<Rightarrow> (secure_chat, bytes) app" where
  "sealed C urandom text =
     andThen (lift_exn (utf8_encode text)) (\<lambda>plaintext.
     andThen (on_own (gets sc_key)) (\<lambda>key.
     andThen (on_node (gets w_hist)) (\<lambda>hist.
     ret (ENCRYPTED @ channel_encrypt C key (urandom hist) plaintext []))))"

definition send_encrypted :: "cipher \<Rightarrow> (io list \<Rightarrow> bytes) \<Rightarrow> bytes \<Rightarrow> pystr \<Rightarrow> (secure_chat, unit) app" where
  "send_encrypted C urandom g message =
     andThen (on_own (gets sc_name)) (\<lambda>name.
     andThen (sealed C urandom (name @ lit '': '' @ message)) (\<lambda>payload.
     on_node (api_shout (PyBytes g) (PyBytes payload))))"

definition whisper_encrypted :: "cipher \<Rightarrow> (io list \<Rightarrow> bytes) \<Rightarrow> pystr \<Rightarrow> pystr \<Rightarrow> (secure_chat, unit) app" where
  "whisper_encrypted C urandom peer_hex message =
     andThen (on_own (gets sc_name)) (\<lambda>name.
     andThen (sealed C urandom (name @ lit '' (private): '' @ message)) (\<lambda>payload.
     on_node (api_whisper (PyStr peer_hex) (PyBytes payload))))"

subsection \<open>Events\<close>

definition show_sealed :: "cipher \<Rightarrow> bool \<Rightarrow> bytes \<Rightarrow> secure_chat \<Rightarrow> secure_chat" where
  "show_sealed C private payload c =
    (if starts_with ENCRYPTED payload then
       (case obind (channel_decrypt C (sc_key c) (drop 10 payload) []) utf8_decode of
          Inl e \<Rightarrow> c
        | Inr dec \<Rightarrow> c\<lparr>sc_shown := sc_shown c @ [(private, dec)]\<rparr>)
     else c)"

definition handle_secure_event :: "cipher \<Rightarrow> event \<Rightarrow> (secure_chat, unit) app" where
  "handle_secure_event C e =
    (case e of
       EvShout _ _ g payload \<Rightarrow> only_if (g = lit ''SECURE_CHAT'') (on_own (modify (show_sealed C False payload)))
     | EvWhisper _ _ payload \<Rightarrow> on_own (modify (show_sealed C True payload))
     | _ \<Rightarrow> ret ())"

subsection \<open>The input and the loops\<close>

definition secure_line :: "cipher \<Rightarrow> (io list \<Rightarrow> bytes) \<Rightarrow> bytes \<Rightarrow> (secure_chat, unit) app" where
  "secure_line C urandom raw =
    (let line = strip_bytes raw
     in if line = [] then ret ()
        else if starts_with (blit ''/w '') line then
          (let rest = drop 3 line; peer = takeWhile (\<lambda>b. b \<noteq> 32) rest
           in if 32 \<in> set rest
              then andThen (lift_exn (utf8_decode peer)) (\<lambda>peer_hex.
                whisper_encrypted C urandom peer_hex (utf8_decode_replace (drop (Suc (length peer)) rest)))
              else ret ())
        else send_encrypted C urandom SECURE_CHAT (utf8_decode_replace line))"

datatype secure_turn = SecLine bytes | SecRun "unit nprog" | SecEvent event

text \<open>Three coroutines, gathered: what one of them raises ends all. The input ends with an empty line.\<close>

fun secure_turns :: "cipher \<Rightarrow> (io list \<Rightarrow> bytes) \<Rightarrow> bool \<Rightarrow> secure_turn list \<Rightarrow> (secure_chat, unit) app" where
  "secure_turns C urandom reading [] = ret ()"
| "secure_turns C urandom reading (SecLine raw # ts) =
    (if reading \<and> raw \<noteq> [] then thenDo (secure_line C urandom raw) (secure_turns C urandom True ts)
     else secure_turns C urandom False ts)"
| "secure_turns C urandom reading (SecRun m # ts) = thenDo (on_node m) (secure_turns C urandom reading ts)"
| "secure_turns C urandom reading (SecEvent e # ts) =
     thenDo (check_collision_event e) (thenDo (handle_secure_event C e) (secure_turns C urandom reading ts))"

definition secure_run :: "env \<Rightarrow> cipher \<Rightarrow> options \<Rightarrow> (io list \<Rightarrow> bytes) \<Rightarrow> secure_turn list \<Rightarrow> (secure_chat, unit) app" where
  "secure_run E C opts urandom ts =
     thenDo (on_node (secure_start E opts))
       (try_finally (secure_turns C urandom True ts) (on_node (stop E)))"

end
