(* ===== verification/Zre_Ex_Mesh.thy ===== *)
theory Zre_Ex_Mesh
  imports Zre_Ex_Common
begin

section \<open>Meshes without broadcasts\<close>

text \<open>
  Three programs that bring nodes together: \<open>examples/gossip_mesh.py\<close> through a hub, \<open>examples/wan_direct.py\<close>
  through addresses that are given, \<open>examples/fast_tick.py\<close> through fast beacons. The first two share their event
  loop to the letter.
\<close>

subsection \<open>The loop of the events\<close>

record mesh_args =
  ma_opts :: options
  ma_group :: pystr
  ma_send :: "pystr option"

text \<open>
  \<open>args.send and not sent\<close>: the greeting goes out after the first peer has entered, once. The state is \<open>sent\<close>;
  \<open>pause\<close> is what the run loop does in the second before.
\<close>

definition mesh_greet :: "mesh_args \<Rightarrow> unit nprog \<Rightarrow> (bool, unit) app" where
  "mesh_greet A pause =
    (case ma_send A of
       None \<Rightarrow> ret ()
     | Some text \<Rightarrow>
         andThen (on_own (gets id)) (\<lambda>sent.
         only_if (text \<noteq> [] \<and> \<not> sent)
           (thenDo (on_node (meanwhile pause))
           (thenDo (on_node
              (andThen (lift_exn (utf8_encode (ma_group A))) (\<lambda>g.
               andThen (lift_exn (utf8_encode text)) (\<lambda>payload. api_shout (PyBytes g) (PyBytes payload)))))
             (on_own (modify (\<lambda>_. True)))))))"

datatype mesh_turn = MeshRun "unit nprog" | MeshEvent event "unit nprog"

definition mesh_step :: "mesh_args \<Rightarrow> mesh_turn \<Rightarrow> (bool, unit) app" where
  "mesh_step A t =
    (case t of
       MeshRun m \<Rightarrow> on_node (meanwhile m)
     | MeshEvent e pause \<Rightarrow>
         thenDo (check_collision_event e)
           (case e of EvEnter _ _ _ \<Rightarrow> mesh_greet A pause | _ \<Rightarrow> ret ()))"

text \<open>The loop ends with the list of its turns: by the time limit, or when the program is interrupted.\<close>

definition mesh_events :: "env \<Rightarrow> mesh_args \<Rightarrow> mesh_turn list \<Rightarrow> (bool, unit) app" where
  "mesh_events E A ts = try_finally (for_each (mesh_step A) ts) (on_node (stop E))"

definition join_named :: "pystr \<Rightarrow> unit nprog" where
  "join_named g = andThen (lift_exn (utf8_encode g)) (\<lambda>gb. api_join (PyBytes gb))"

subsection \<open>Through a hub\<close>

datatype mesh_role = HubRole int | JoinRole pystr

definition gossip_mesh_setup :: "mesh_args \<Rightarrow> mesh_role \<Rightarrow> unit nprog" where
  "gossip_mesh_setup A role =
     thenDo (set_own_uuid (ma_opts A))
     (thenDo (set_options (ma_opts A))
       (case role of
          HubRole port \<Rightarrow> gossip_bind (lit ''tcp://0.0.0.0:'' @ show_int port)
        | JoinRole hub \<Rightarrow> gossip_connect hub))"

definition run_gossip_mesh :: "env \<Rightarrow> mesh_args \<Rightarrow> mesh_role \<Rightarrow> mesh_turn list \<Rightarrow> (bool, unit) app" where
  "run_gossip_mesh E A role ts =
     thenDo (on_node
       (thenDo (gossip_mesh_setup A role)
       (thenDo (start E)
         (join_named (ma_group A)))))
     (mesh_events E A ts)"

subsection \<open>Through addresses\<close>

text \<open>
  \<open>parse_peer\<close>, for an option of the command line: what it raises and the \<open>ValueError\<close> of \<open>int\<close> are one to the
  parser of the options. A digit that is no decimal digit passes \<open>isdigit\<close>, but not \<open>int\<close>.
\<close>

definition parse_peer :: "pyrt \<Rightarrow> pystr \<Rightarrow> exn + (pystr \<times> int)" where
  "parse_peer R value =
    (let (host, port) = rpartition_at 58 value
     in if host = [] \<or> port = [] \<or> \<not> list_all is_digit (to_ascii_digits R port) then Inl ValueError
        else obind (py_int R port) (\<lambda>n. Inr (host, n)))"

record wan_args = mesh_args +
  wa_peers :: "(pystr \<times> int) list"
  wa_listen_port :: "int option"
  wa_advertised_endpoint :: "pystr option"

definition wan_setup :: "env \<Rightarrow> wan_args \<Rightarrow> unit nprog" where
  "wan_setup E A =
    (let opts = ma_opts A
     in thenDo (set_own_uuid opts)
       (thenDo (only_if (o_port opts \<noteq> 0) (set_port (o_port opts)))
       (thenDo (if_given (o_interface opts) set_interface)
       (thenDo (case wa_listen_port A of None \<Rightarrow> ret () | Some p \<Rightarrow> only_if (p \<noteq> 0) (set_beacon_peer_port p))
       (thenDo (if_given (wa_advertised_endpoint A) (set_advertised_endpoint E))
         (only_if (o_verbose opts) (set_verbose True)))))))"

text \<open>\<open>rest\<close> is what the run loop does in the half second before the first peer is dialled.\<close>

definition run_wan :: "env \<Rightarrow> wan_args \<Rightarrow> unit nprog \<Rightarrow> mesh_turn list \<Rightarrow> (bool, unit) app" where
  "run_wan E A rest ts =
     thenDo (on_node
       (thenDo (wan_setup E A)
       (thenDo (start E)
       (thenDo (meanwhile rest)
       (thenDo (for_each (\<lambda>(host, port). connect_peer E host port None) (wa_peers A))
         (join_named (ma_group A)))))))
     (mesh_events E (mesh_args.truncate A) ts)"

subsection \<open>Through fast beacons\<close>

text \<open>
  \<open>main\<close> of \<open>fast_tick.py\<close>. The task \<open>watch\<close> only prints, and what it raises stays in it; \<open>rests\<close> are the two sleeps.
\<close>

definition tick_setup :: "options \<Rightarrow> int \<Rightarrow> bool \<Rightarrow> unit nprog" where
  "tick_setup opts interval_ms service =
     thenDo (set_own_uuid opts)
     (thenDo (set_port (o_port opts))
     (thenDo (if_given (o_interface opts) set_interface)
     (thenDo (set_interval interval_ms)
     (thenDo (only_if (o_verbose opts) (set_verbose True))
       (only_if service (set_header (PyStr (lit ''X-SERVICE'')) (PyStr (lit ''tick''))))))))"

definition run_tick :: "env \<Rightarrow> options \<Rightarrow> int \<Rightarrow> bool \<Rightarrow> unit nprog \<times> unit nprog \<Rightarrow> unit nprog" where
  "run_tick E opts interval_ms service rests =
     thenDo (tick_setup opts interval_ms service)
     (thenDo (start E)
     (thenDo (meanwhile (fst rests))
     (thenDo (only_if service (api_join (PyStr (lit ''TICK''))))
     (thenDo (meanwhile (snd rests))
       (stop E)))))"

end
