(* ===== verification/Zre_Ex_Bench.thy ===== *)
theory Zre_Ex_Bench
  imports Zre_Ex_Feeds
begin

section \<open>The whiteboard and the benchmarks\<close>

text \<open>
  \<open>examples/whiteboard.py\<close>, where strokes are drawn together, and \<open>examples/benchmark.py\<close>, which runs several
  nodes at once and takes times. The reader of numbers, \<open>float\<close>, is an argument (infinite ones are not modelled),
  as are the draws of \<open>random\<close> and the clocks.
\<close>

subsection \<open>The whiteboard\<close>

definition STROKE_COLORS :: "pystr list" where
  "STROKE_COLORS = [lit ''red'', lit ''green'', lit ''blue'', lit ''black'', lit ''orange'']"

definition WHITEBOARD :: bytes where
  "WHITEBOARD = blit ''WHITEBOARD''"

record board =
  bo_peer_name :: pystr
  bo_strokes :: "json list"
  bo_reading :: bool

definition new_board :: "pystr \<Rightarrow> board" where
  "new_board name = \<lparr>bo_peer_name = name, bo_strokes = [], bo_reading = True\<rparr>"

definition board_start :: "env \<Rightarrow> options \<Rightarrow> pystr \<Rightarrow> (nat \<Rightarrow> unit nprog) \<Rightarrow> unit nprog" where
  "board_start E opts name others =
     thenDo (set_own_uuid opts)
     (thenDo (set_header (PyStr (lit ''X-ROLE'')) (PyStr (lit ''whiteboard'')))
     (thenDo (set_header (PyStr (lit ''X-PEER'')) (PyStr name))
     (thenDo (set_options opts)
     (thenDo (start E)
     (thenDo (wait_until has_peers others 30)
       (api_join (PyBytes WHITEBOARD)))))))"

definition stroke_json :: "real \<Rightarrow> real \<Rightarrow> pystr \<Rightarrow> pystr \<Rightarrow> real \<Rightarrow> json" where
  "stroke_json px py color name now =
     JObj [(lit ''x'', JNum px), (lit ''y'', JNum py), (lit ''color'', JStr color), (lit ''peer'', JStr name),
       (lit ''ts'', JNum now)]"

text \<open>A stroke of one's own is kept and shouted.\<close>

definition draw :: "jsonlib \<Rightarrow> (io list \<Rightarrow> real) \<Rightarrow> real \<Rightarrow> real \<Rightarrow> pystr \<Rightarrow> (board, unit) app" where
  "draw J wall px py color =
     andThen (on_own (gets bo_peer_name)) (\<lambda>name.
     andThen (on_node (gets w_hist)) (\<lambda>hist.
     let stroke = stroke_json px py color name (wall hist)
     in thenDo (on_own (modify (\<lambda>b. b\<lparr>bo_strokes := bo_strokes b @ [stroke]\<rparr>)))
          (on_node (api_shout (PyBytes WHITEBOARD) (PyBytes (j_dumps J stroke))))))"

text \<open>
  A stroke of another is any value that can be read. The values of an object are looked at after that, to print
  them; for anything but an object this raises, but the value has been kept.
\<close>

definition board_event :: "jsonlib \<Rightarrow> event \<Rightarrow> (board, unit) app" where
  "board_event J e =
    (case e of
       EvShout _ _ g payload \<Rightarrow>
         only_if (g = lit ''WHITEBOARD'')
           (guarded (andThen (lift_exn (load_payload J payload)) (\<lambda>data.
             modify (\<lambda>b. b\<lparr>bo_strokes := bo_strokes b @ [data]\<rparr>))))
     | _ \<Rightarrow> ret ())"

text \<open>A line of the input: two numbers, and a colour or one that is drawn.\<close>

definition board_line ::
  "jsonlib \<Rightarrow> pyrt \<Rightarrow> (pystr \<Rightarrow> exn + real) \<Rightarrow> (io list \<Rightarrow> real) \<Rightarrow> bytes \<Rightarrow> nat \<Rightarrow> (board, unit) app" where
  "board_line J R to_float wall raw pick =
     andThen (lift_exn (utf8_decode raw)) (\<lambda>line.
     case split_words R [] line of
       a # b # rest \<Rightarrow>
         (case (to_float a, to_float b) of
            (Inr px, Inr py) \<Rightarrow> draw J wall px py
              (case rest of [] \<Rightarrow> STROKE_COLORS ! (pick mod length STROKE_COLORS) | c # _ \<Rightarrow> c)
          | _ \<Rightarrow> ret ())
     | _ \<Rightarrow> ret ())"

text \<open>A board is demonstrated or reads its input, whose end is an empty line.\<close>

datatype board_turn = BoardRun "unit nprog" | BoardEvent event | BoardLine bytes nat | BoardDemo nat nat nat

definition board_step ::
  "jsonlib \<Rightarrow> pyrt \<Rightarrow> (pystr \<Rightarrow> exn + real) \<Rightarrow> (io list \<Rightarrow> real) \<Rightarrow> bool \<Rightarrow> board_turn \<Rightarrow> (board, unit) app" where
  "board_step J R to_float wall demo t =
    (case t of
       BoardRun m \<Rightarrow> on_node (meanwhile m)
     | BoardEvent e \<Rightarrow> thenDo (check_collision_event e) (board_event J e)
     | BoardLine raw pick \<Rightarrow>
         andThen (on_own (gets bo_reading)) (\<lambda>reading.
         if demo \<or> \<not> reading then ret ()
         else if raw = [] then on_own (modify (\<lambda>b. b\<lparr>bo_reading := False\<rparr>))
         else board_line J R to_float wall raw pick)
     | BoardDemo px py pick \<Rightarrow>
         only_if demo (draw J wall (real (px mod 801)) (real (py mod 601))
           (STROKE_COLORS ! (pick mod length STROKE_COLORS))))"

definition run_board ::
  "env \<Rightarrow> jsonlib \<Rightarrow> (pystr \<Rightarrow> exn + real) \<Rightarrow> options \<Rightarrow> (io list \<Rightarrow> real) \<Rightarrow> bool \<Rightarrow> pystr \<Rightarrow>
   (nat \<Rightarrow> unit nprog) \<Rightarrow> board_turn list \<Rightarrow> (board, unit) app" where
  "run_board E J to_float opts wall demo name others ts =
     thenDo (on_node (board_start E opts name others))
       (try_finally (for_each (board_step J (e_rt E) to_float wall demo) ts) (on_node (stop E)))"

subsection \<open>Several nodes\<close>

text \<open>The benchmarks run their nodes in one process; their state has them in a list.\<close>

type_synonym ('x, 'a) bench = "(node list \<times> 'x, 'a) prog"

definition on_nth :: "nat \<Rightarrow> 'a nprog \<Rightarrow> ('x, 'a) bench" where
  "on_nth i m = (\<lambda>(ns, x). case m (ns ! i) of (r, n) \<Rightarrow> (r, (ns[i := n], x)))"

definition bench_setup :: "int \<Rightarrow> pystr option \<Rightarrow> unit nprog" where
  "bench_setup port interface = thenDo (set_port port) (if_given interface set_interface)"

definition stop_all :: "env \<Rightarrow> nat \<Rightarrow> ('x, unit) bench" where
  "stop_all E k = for_each (\<lambda>i. on_nth i (stop E)) [0..<k]"

subsection \<open>Discovery\<close>

definition all_discovered :: "nat \<Rightarrow> node list \<Rightarrow> bool" where
  "all_discovered k ns \<longleftrightarrow> list_all (\<lambda>n. k \<le> length (peer_ids n) + 1) ns"

text \<open>
  The loop that waits, one item for each sleep of 0.1 s: what the run loops do in it, and the time after it. The
  result is whether the loop was left by its own; the list can end first.
\<close>

fun await_discovery :: "nat \<Rightarrow> real \<Rightarrow> ((unit, unit) bench \<times> real) list \<Rightarrow> (unit, bool) bench" where
  "await_discovery k begun rounds =
     andThen (gets (\<lambda>(ns, _). all_discovered k ns)) (\<lambda>found.
     if found then ret True
     else (case rounds of
         [] \<Rightarrow> ret False
       | (others, now) # rest \<Rightarrow>
           thenDo (meanwhile others)
             (if 30 < now - begun then ret True else await_discovery k begun rest)))"

definition start_benchmark :: "env \<Rightarrow> int \<Rightarrow> bool \<Rightarrow> pystr option \<Rightarrow> nat \<Rightarrow> ('x, unit) bench" where
  "start_benchmark E port verbose interface k =
     for_each (\<lambda>i. on_nth i
       (thenDo (bench_setup port interface) (thenDo (only_if verbose (set_verbose True)) (start E)))) [0..<k]"

text \<open>\<open>benchmark_discovery\<close>: the time elapsed, if the loop was left.\<close>

definition benchmark_discovery ::
  "env \<Rightarrow> nat \<Rightarrow> int \<Rightarrow> bool \<Rightarrow> pystr option \<Rightarrow> real \<Rightarrow> ((unit, unit) bench \<times> real) list \<Rightarrow> real \<Rightarrow> (unit, real option) bench" where
  "benchmark_discovery E k port verbose interface begun rounds ended =
     thenDo (start_benchmark E port verbose interface k)
       (try_finally
         (andThen (await_discovery k begun rounds) (\<lambda>left. ret (if left then Some (ended - begun) else None)))
         (stop_all E k))"

text \<open>
  \<open>benchmark_scalability\<close>: each size with its nodes and what happens to them; the first that raises ends it. The
  result is the list of the times.
\<close>

type_synonym trial = "nat \<times> node list \<times> real \<times> ((unit, unit) bench \<times> real) list \<times> real"

fun run_trials :: "env \<Rightarrow> int \<Rightarrow> pystr option \<Rightarrow> trial list \<Rightarrow> real option list" where
  "run_trials E port interface [] = []"
| "run_trials E port interface ((k, ns, begun, rounds, ended) # rest) =
    (case fst (benchmark_discovery E k port False interface begun rounds ended (ns, ())) of
       Inl _ \<Rightarrow> []
     | Inr t \<Rightarrow> t # run_trials E port interface rest)"

definition scalability_sizes :: "nat list" where
  "scalability_sizes = [5, 10, 15, 20]"

definition benchmark_scalability :: "env \<Rightarrow> int \<Rightarrow> pystr option \<Rightarrow> (nat \<Rightarrow> node list \<times> real \<times> ((unit, unit) bench \<times> real) list \<times> real) \<Rightarrow> real option list" where
  "benchmark_scalability E port interface trial =
     run_trials E port interface (map (\<lambda>k. (k, trial k)) scalability_sizes)"

subsection \<open>Throughput\<close>

text \<open>The receiver: how many shouts it has counted, and whether it is done.\<close>

record counter =
  co_received :: nat
  co_done :: bool

definition count_shout :: "nat \<Rightarrow> event \<Rightarrow> counter \<Rightarrow> counter" where
  "count_shout num_messages e c =
    (case e of
       EvShout _ _ _ _ \<Rightarrow>
         (if co_done c then c
          else c\<lparr>co_received := co_received c + 1, co_done := num_messages \<le> co_received c + 1\<rparr>)
     | _ \<Rightarrow> c)"

definition BENCH :: bytes where
  "BENCH = blit ''BENCH''"

definition start_pair :: "env \<Rightarrow> int \<Rightarrow> pystr option \<Rightarrow> ('x, unit) bench" where
  "start_pair E port interface =
     thenDo (on_nth 0 (set_port port))
     (thenDo (on_nth 1 (set_port port))
     (thenDo (on_nth 0 (if_given interface set_interface))
     (thenDo (on_nth 1 (if_given interface set_interface))
     (thenDo (on_nth 0 (start E))
       (on_nth 1 (start E))))))"

definition send_burst :: "nat \<Rightarrow> nat \<Rightarrow> (nat \<Rightarrow> (counter, unit) bench) \<Rightarrow> (counter, unit) bench" where
  "send_burst num_messages payload_size others =
     for_each (\<lambda>i.
       thenDo (on_nth 0 (api_shout (PyBytes BENCH) (PyBytes (replicate payload_size 120))))
         (only_if (i mod 500 = 0) (meanwhile (others i)))) [0..<num_messages]"

text \<open>
  \<open>benchmark_throughput\<close>. \<open>rests\<close> are the two sleeps at the start and the ten seconds at the end, \<open>others\<close> the short
  ones in between; all that happens to the nodes, the receiver with them, happens there.
\<close>

definition benchmark_throughput ::
  "env \<Rightarrow> nat \<Rightarrow> nat \<Rightarrow> int \<Rightarrow> pystr option \<Rightarrow> (nat \<Rightarrow> (counter, unit) bench) \<Rightarrow> (nat \<Rightarrow> (counter, unit) bench) \<Rightarrow>
   real \<Rightarrow> (counter, real) bench" where
  "benchmark_throughput E num_messages payload_size port interface rests others elapsed =
     thenDo (start_pair E port interface)
     (thenDo (meanwhile (rests 0))
     (thenDo (on_nth 0 (api_join (PyBytes BENCH)))
     (thenDo (on_nth 1 (api_join (PyBytes BENCH)))
     (thenDo (meanwhile (rests 1))
     (try_finally
       (thenDo (send_burst num_messages payload_size others)
       (thenDo (meanwhile (rests 2))
       (andThen (gets (\<lambda>(_, c). co_done c)) (\<lambda>fin.
        ret (if fin \<and> 0 < elapsed then real num_messages / elapsed else 0)))))
       (stop_all E 2))))))"

subsection \<open>Latency\<close>

definition answer_ping :: "event \<Rightarrow> unit nprog" where
  "answer_ping e =
    (case e of
       EvWhisper peer_id _ _ \<Rightarrow> api_whisper (PyStr peer_id) (PyBytes (blit ''PONG''))
     | _ \<Rightarrow> ret ())"

definition is_pong :: "event \<Rightarrow> bool" where
  "is_pong e \<longleftrightarrow> (case e of EvWhisper _ _ payload \<Rightarrow> payload = blit ''PONG'' | _ \<Rightarrow> False)"

text \<open>
  One ping: what happens until the answer or the end of the second, and the time taken, in seconds. The state is
  whether the answer is there; a ping that is lost has no latency.
\<close>

definition ping_once :: "pystr \<Rightarrow> (bool, unit) bench \<times> real \<Rightarrow> (bool, real option) bench" where
  "ping_once peer = (\<lambda>(others, seconds).
     thenDo (\<lambda>(ns, _). (Inr (), (ns, False)))
     (thenDo (on_nth 0 (api_whisper (PyStr peer) (PyBytes (blit ''PING''))))
     (thenDo (meanwhile others)
     (andThen (gets snd) (\<lambda>answered. ret (if answered then Some (seconds * 1000) else None))))))"

primrec ping_all :: "pystr \<Rightarrow> ((bool, unit) bench \<times> real) list \<Rightarrow> (bool, real option list) bench" where
  "ping_all peer [] = ret []"
| "ping_all peer (p # ps) =
     andThen (ping_once peer p) (\<lambda>t. andThen (ping_all peer ps) (\<lambda>ts. ret (t # ts)))"

text \<open>The loop that waits for a peer: while the time is not over and there is none, sleep.\<close>

fun await_peer :: "real \<Rightarrow> (real \<times> (bool, unit) bench) list \<Rightarrow> (bool, unit) bench" where
  "await_peer begun [] = ret ()"
| "await_peer begun ((now, others) # rounds) =
     andThen (on_nth 0 (gets has_peers)) (\<lambda>any.
     if now - begun < 5 \<and> \<not> any then thenDo (meanwhile others) (await_peer begun rounds) else ret ())"

definition benchmark_latency ::
  "env \<Rightarrow> int \<Rightarrow> pystr option \<Rightarrow> (bool, unit) bench \<Rightarrow> real \<Rightarrow> (real \<times> (bool, unit) bench) list \<Rightarrow>
   ((bool, unit) bench \<times> real) list \<Rightarrow> (bool, real option list) bench" where
  "benchmark_latency E port interface rest begun rounds pings =
     thenDo (start_pair E port interface)
     (thenDo (meanwhile rest)
     (thenDo (await_peer begun rounds)
     (andThen (on_nth 0 (gets peer_ids)) (\<lambda>peers.
      case peers of
        [] \<Rightarrow> thenDo (stop_all E 2) (ret [])
      | peer # _ \<Rightarrow> try_finally (ping_all peer pings) (stop_all E 2)))))"

text \<open>What is printed at the end, the quantiles left out.\<close>

record latencies =
  la_min :: real
  la_max :: real
  la_mean :: real
  la_lost :: nat

definition latency_report :: "real option list \<Rightarrow> latencies option" where
  "latency_report ts =
    (let valid = map the (filter (\<lambda>t. t \<noteq> None) ts)
     in if valid = [] then None
        else Some \<lparr>la_min = Min (set valid), la_max = Max (set valid), la_mean = sum_list valid / real (length valid),
          la_lost = length ts - length valid\<rparr>)"

end
