(* ===== verification/Zre_Ex_Talk_Properties.thy ===== *)
theory Zre_Ex_Talk_Properties
  imports Zre_Ex_Secure Zre_Ex_Mesh Zre_Ex_Bench Zre_Ex_Properties
begin

section \<open>Properties of the secure chat, the meshes, the whiteboard and the benchmarks\<close>

subsection \<open>Decoded text has an encoding\<close>

lemma scan_scalar_2: "b1 < 224 \<Longrightarrow> is_cont b2 \<Longrightarrow> is_scalar ((b1 - 192) * 64 + (b2 - 128))"
  unfolding is_cont_def is_scalar_def by linarith

lemma scan_scalar_3:
  assumes "224 \<le> b1" "b1 < 240" "second_ok b1 b2" "is_cont b3"
  shows "is_scalar ((b1 - 224) * 4096 + (b2 - 128) * 64 + (b3 - 128))"
proof -
  consider "b1 \<le> 236" | "b1 = 237" | "238 \<le> b1" by linarith
  then show ?thesis
    using assms by cases (auto simp: second_ok_def is_cont_def is_scalar_def)
qed

lemma scan_scalar_4:
  assumes "240 \<le> b1" "b1 < 245" "second_ok b1 b2" "is_cont b3" "is_cont b4"
  shows "is_scalar ((b1 - 240) * 262144 + (b2 - 128) * 4096 + (b3 - 128) * 64 + (b4 - 128))"
proof -
  consider "b1 = 240" | "241 \<le> b1" "b1 \<le> 243" | "b1 = 244" using assms(1,2) by linarith
  then show ?thesis
    using assms by cases (auto simp: second_ok_def is_cont_def is_scalar_def)
qed

lemma scan_scalar:
  assumes "\<not> is_scalar c"
  shows "Some c \<notin> set (utf8_scan bs)"
proof (induction bs rule: length_induct)
  case (1 bs)
  have ne: "c \<noteq> d" if "is_scalar d" for d using assms that by blast
  show ?case
  proof (cases bs)
    case Nil
    then show ?thesis by simp
  next
    case (Cons b1 r1)
    have IH: "Some c \<notin> set (utf8_scan cs)" if "length cs \<le> length r1" for cs
      using 1 that Cons by simp
    note step = IH ne scalar_ascii scan_scalar_2 scan_scalar_3 scan_scalar_4
    show ?thesis
    proof (cases r1)
      case Nil
      then show ?thesis by (simp add: Cons step)
    next
      case r1: (Cons b2 r2)
      show ?thesis
      proof (cases r2)
        case Nil
        with IH [unfolded r1] show ?thesis unfolding Cons r1 utf8_scan.simps(2) [of b1]
          by (simp add: step r1 del: utf8_scan.simps(2))
      next
        case r2: (Cons b3 r3)
        with IH [unfolded r1] show ?thesis unfolding Cons r1 utf8_scan.simps(2) [of b1]
          by (cases r3) (simp_all add: step r1 del: utf8_scan.simps(2))
      qed
    qed
  qed
qed

lemma decode_replace_scalar: "list_all is_scalar (utf8_decode_replace b)"
  using scan_scalar [of c "map unat b" for c]
  by (auto simp: utf8_decode_replace_def list_all_iff split: option.split) (simp add: is_scalar_def)

subsection \<open>Messages under a key\<close>

text \<open>What is asked of the cipher: it reads what it has written.\<close>

definition sound_cipher :: "cipher \<Rightarrow> bool" where
  "sound_cipher C \<longleftrightarrow> (\<forall>key nonce data a. ci_decrypt C key nonce (ci_encrypt C key nonce data a) a = Inr data)"

lemma channel_round_trip:
  "sound_cipher C \<Longrightarrow> length nonce = 12 \<Longrightarrow>
    channel_decrypt C key (channel_encrypt C key nonce data a) a = Inr data"
  by (simp add: sound_cipher_def channel_decrypt_def channel_encrypt_def)

lemma show_sealed_run:
  assumes "sound_cipher C" "length nonce = 12" "utf8_encode text = Inr plain"
  shows "show_sealed C private (ENCRYPTED @ channel_encrypt C (sc_key c) nonce plain []) c =
    c\<lparr>sc_shown := sc_shown c @ [(private, text)]\<rparr>"
proof -
  have "list_all is_scalar text" using assms(3) by (auto simp: utf8_encode_def split: if_splits)
  then have "utf8_decode plain = Inr text" using assms(3) by (rule utf8.dec_enc)
  then show ?thesis
    using assms(1,2) by (simp add: show_sealed_def starts_with_def channel_round_trip ENCRYPTED_def blit_def)
qed

lemma send_encrypted_run:
  assumes "list_all is_scalar (sc_name a)" "list_all is_scalar message"
  obtains plain where "utf8_encode (sc_name a @ lit '': '' @ message) = Inr plain"
    and "send_encrypted C urandom SECURE_CHAT message (n, a) =
      (Inr (), (n\<lparr>n_api := n_api n @ [CmdShout SECURE_CHAT
        (ENCRYPTED @ channel_encrypt C (sc_key a) (urandom (w_hist n)) plain [])]\<rparr>, a))"
proof -
  have "list_all is_scalar (sc_name a @ lit '': '' @ message)"
    using assms by (simp add: lit_def scalar_ascii)
  then obtain plain where "utf8_encode (sc_name a @ lit '': '' @ message) = Inr plain"
    using utf8.enc_defined by blast
  then show thesis
    by (intro that [of plain]) (simp_all add: send_encrypted_def sealed_def run_andThen run_on_own run_on_node
        api_shout_def put_api_def wire_string_def SECURE_CHAT_def blit_def MAX_STRING_BYTES_def)
qed

text \<open>
  C35: what is typed into the secure chat is read by everyone with the key. A line (that is no whisper) is shouted
  in encrypted form under a fresh nonce; a node with the same key that gets the shout shows the name of the writer and
  the text, bytes that are no UTF-8 replaced. The text is always one that can be encoded.
\<close>

theorem secure_message_read:
  assumes "sound_cipher C" and "\<forall>h. length (urandom h) = 12" and "list_all is_scalar (sc_name a)"
    and "sc_key b = sc_key a" and "strip_bytes raw \<noteq> []" and "\<not> starts_with (blit ''/w '') (strip_bytes raw)"
  shows "\<exists>n' payload. secure_line C urandom raw (n, a) = (Inr (), (n', a))
    \<and> n_api n' = n_api n @ [CmdShout SECURE_CHAT payload]
    \<and> (\<forall>k nm m. handle_secure_event C (EvShout k nm (lit ''SECURE_CHAT'') payload) (m, b) =
        (Inr (), (m, b\<lparr>sc_shown := sc_shown b @
          [(False, sc_name a @ lit '': '' @ utf8_decode_replace (strip_bytes raw))]\<rparr>)))"
proof -
  let ?message = "utf8_decode_replace (strip_bytes raw)"
  obtain plain where plain: "utf8_encode (sc_name a @ lit '': '' @ ?message) = Inr plain"
    and send: "send_encrypted C urandom SECURE_CHAT ?message (n, a) =
      (Inr (), (n\<lparr>n_api := n_api n @ [CmdShout SECURE_CHAT
        (ENCRYPTED @ channel_encrypt C (sc_key a) (urandom (w_hist n)) plain [])]\<rparr>, a))"
    using send_encrypted_run [OF assms(3) decode_replace_scalar] by blast
  have "secure_line C urandom raw (n, a) = send_encrypted C urandom SECURE_CHAT ?message (n, a)"
    using assms(5,6) by (simp add: secure_line_def)
  with send show ?thesis
    using show_sealed_run [OF assms(1) assms(2) [rule_format] plain, of False b "w_hist n"] assms(4)
    by (simp add: handle_secure_event_def run_on_own)
qed

text \<open>A cipher that only shifts every byte by the key's first.\<close>

definition shift_cipher :: cipher where
  "shift_cipher =
     \<lparr>ci_check = (\<lambda>key. Inr ()), ci_encrypt = (\<lambda>key nonce data a. map (\<lambda>b. b + hd key) data),
      ci_decrypt = (\<lambda>key nonce data a. Inr (map (\<lambda>b. b - hd key) data))\<rparr>"

lemma shift_cipher_sound: "sound_cipher shift_cipher"
  by (simp add: sound_cipher_def shift_cipher_def comp_def)

lemma secure_message_read_witness:
  "\<exists>n' payload. secure_line shift_cipher (\<lambda>_. replicate 12 0) [104, 105, 10]
      (example_node, \<lparr>sc_name = [98], sc_key = [7], sc_shown = []\<rparr>) =
        (Inr (), (n', \<lparr>sc_name = [98], sc_key = [7], sc_shown = []\<rparr>))
    \<and> n_api n' = n_api example_node @ [CmdShout SECURE_CHAT payload]
    \<and> (\<forall>k nm m. handle_secure_event shift_cipher (EvShout k nm (lit ''SECURE_CHAT'') payload)
          (m, \<lparr>sc_name = [99], sc_key = [7], sc_shown = []\<rparr>) =
        (Inr (), (m, \<lparr>sc_name = [99], sc_key = [7],
          sc_shown = [(False, [98] @ lit '': '' @ utf8_decode_replace (strip_bytes [104, 105, 10]))]\<rparr>)))"
  using secure_message_read [OF shift_cipher_sound, of "\<lambda>_. replicate 12 0" "\<lparr>sc_name = [98], sc_key = [7], sc_shown = []\<rparr>"
      "\<lparr>sc_name = [99], sc_key = [7], sc_shown = []\<rparr>" "[104, 105, 10]" example_node]
  by (simp add: scalar_ascii strip_bytes_def ascii_space_def starts_with_def blit_def)

subsection \<open>Peers on the command line\<close>

text \<open>
  The option \<open>--peer HOST:PORT\<close> gives the host and the port that were written, also for a host that has colons
  of its own.
\<close>

theorem parse_peer_round_trip:
  assumes "host \<noteq> []" and "0 \<le> port" and "digits_fit R port"
  shows "parse_peer R (host @ lit '':'' @ show_int port) = Inr (host, port)"
proof -
  have "rpartition_at 58 (host @ 58 # show_int port) = (host, show_int port)"
    by (rule rpartition_at_found) (simp add: show_int_no)
  moreover have "list_all is_digit (show_int port)" using assms(2) by (simp add: show_int_def show_nat_digits)
  moreover have "to_ascii_digits R (show_int port) = show_int port"
    using \<open>list_all is_digit (show_int port)\<close> by (auto simp: to_ascii_digits_def ascii_def list_all_iff is_digit_def)
  ultimately show ?thesis
    using assms(1) by (simp add: parse_peer_def lit_colon show_int_nonempty py_int_show [OF assms(3)])
qed

lemma parse_peer_round_trip_witness:
  "parse_peer plain_rt (lit ''::1'' @ lit '':'' @ show_int 19870) = Inr (lit ''::1'', 19870)"
proof (rule parse_peer_round_trip)
  have "length (show_nat 19870) \<le> 4300"
    by (simp add: show_nat.simps [of 19870] show_nat.simps [of 1987] show_nat.simps [of 198] show_nat.simps [of 19]
        show_nat.simps [of "Suc 0"] show_nat.simps [of 1])
  then show "digits_fit plain_rt 19870" by (simp add: digits_fit_def plain_rt_def)
qed (simp_all add: lit_def)

subsection \<open>Strokes\<close>

text \<open>Strokes are drawn at one board, and heard at another.\<close>

definition draw_all :: "jsonlib \<Rightarrow> (io list \<Rightarrow> real) \<Rightarrow> (real \<times> real \<times> pystr) list \<Rightarrow> (board, unit) app" where
  "draw_all J wall strokes = for_each (\<lambda>(px, py, color). draw J wall px py color) strokes"

definition see_all :: "jsonlib \<Rightarrow> bytes list \<Rightarrow> (board, unit) app" where
  "see_all J payloads = for_each (\<lambda>p. board_event J (EvShout [] [] (lit ''WHITEBOARD'') p)) payloads"

lemma draw_run:
  "draw J wall px py color (n, b) =
    (let v = stroke_json px py color (bo_peer_name b) (wall (w_hist n))
     in (Inr (), (n\<lparr>n_api := n_api n @ [CmdShout WHITEBOARD (j_dumps J v)]\<rparr>, b\<lparr>bo_strokes := bo_strokes b @ [v]\<rparr>)))"
  by (simp add: draw_def Let_def run_andThen run_thenDo run_on_own run_on_node api_shout_def put_api_def
      wire_string_def WHITEBOARD_def blit_def MAX_STRING_BYTES_def)

lemma draw_all_run:
  "draw_all J wall strokes (n, b) =
    (let vs = map (\<lambda>(px, py, color). stroke_json px py color (bo_peer_name b) (wall (w_hist n))) strokes
     in (Inr (), (n\<lparr>n_api := n_api n @ map (\<lambda>v. CmdShout WHITEBOARD (j_dumps J v)) vs\<rparr>,
          b\<lparr>bo_strokes := bo_strokes b @ vs\<rparr>)))"
  by (induction strokes arbitrary: n b) (auto simp: draw_all_def run_thenDo draw_run Let_def)

lemma see_all_run:
  "\<forall>v\<in>set vs. readable J v \<Longrightarrow>
    see_all J (map (j_dumps J) vs) (m, b) = (Inr (), (m, b\<lparr>bo_strokes := bo_strokes b @ vs\<rparr>))"
  by (induction vs arbitrary: b) (simp_all add: see_all_def run_thenDo board_event_def guarded_def run_on_own
      suppress_def catch_def run_andThen readable_def)

text \<open>
  Two whiteboards show the same strokes. What is drawn at one is shouted stroke by stroke, and a board that gets
  the shouts in that order adds exactly the strokes that the first has added.
\<close>

theorem strokes_shared:
  assumes "\<forall>(px, py, color)\<in>set strokes. readable J (stroke_json px py color (bo_peer_name a) (wall (w_hist n)))"
  shows "\<exists>payloads new n' a'. draw_all J wall strokes (n, a) = (Inr (), (n', a'))
    \<and> n_api n' = n_api n @ map (CmdShout WHITEBOARD) payloads \<and> length payloads = length strokes
    \<and> bo_strokes a' = bo_strokes a @ new
    \<and> (\<forall>m b. see_all J payloads (m, b) = (Inr (), (m, b\<lparr>bo_strokes := bo_strokes b @ new\<rparr>)))"
proof -
  define new where "new = map (\<lambda>(px, py, color). stroke_json px py color (bo_peer_name a) (wall (w_hist n))) strokes"
  have "\<forall>v\<in>set new. readable J v" using assms by (auto simp: new_def)
  then have "see_all J (map (j_dumps J) new) (m, b) = (Inr (), (m, b\<lparr>bo_strokes := bo_strokes b @ new\<rparr>))" for m b
    by (rule see_all_run)
  then show ?thesis
    by (intro exI [of _ "map (j_dumps J) new"] exI [of _ new] exI conjI)
      (simp_all add: draw_all_run new_def [symmetric] Let_def comp_def, simp_all add: new_def)
qed

definition stroke_lib :: jsonlib where
  "stroke_lib = \<lparr>j_dumps = (\<lambda>v. [97]), j_loads = (\<lambda>s. Inr (stroke_json 1 2 [114] [98] 0))\<rparr>"

lemma strokes_shared_witness:
  "\<exists>payloads new n' a'. draw_all stroke_lib (\<lambda>_. 0) [(1, 2, [114]), (1, 2, [114])] (example_node, new_board [98]) =
      (Inr (), (n', a'))
    \<and> n_api n' = n_api example_node @ map (CmdShout WHITEBOARD) payloads
    \<and> length payloads = length [(1 :: real, 2 :: real, [114 :: nat]), (1, 2, [114])]
    \<and> bo_strokes a' = bo_strokes (new_board [98]) @ new
    \<and> (\<forall>m b. see_all stroke_lib payloads (m, b) = (Inr (), (m, b\<lparr>bo_strokes := bo_strokes b @ new\<rparr>)))"
proof (rule strokes_shared)
  have "utf8_decode [97] = Inr [97]" by (simp add: utf8_decode_def)
  then show "\<forall>(px, py, color)\<in>set [(1, 2, [114]), (1, 2, [114])].
      readable stroke_lib (stroke_json px py color (bo_peer_name (new_board [98])) 0)"
    by (simp add: readable_def stroke_lib_def load_payload_def new_board_def)
qed

subsection \<open>The discovery benchmark\<close>

text \<open>
  The loop that waits for all nodes is left the same way when they have not found each other within 30 seconds; the
  benchmark then reports the time as that in which all were discovered.
\<close>

lemma timeout_counts_as_found:
  assumes "\<not> all_discovered k ns" and "30 < now - begun" and "others (ns, ()) = (r, (ns', ()))"
  shows "await_discovery k begun ((others, now) # rounds) (ns, ()) = (Inr True, (ns', ()))"
  using assms by (simp add: run_andThen run_thenDo)

text \<open>A mesh program greets once.\<close>

lemma mesh_greets_once: "mesh_greet A pause (n, True) = (Inr (), (n, True))"
  by (simp add: mesh_greet_def run_andThen run_on_own split: option.split)

end
