(* ===== verification/Zre_Ex_App.thy ===== *)
theory Zre_Ex_App
  imports Zre_Ex_Common
begin

section \<open>The application among sensors\<close>

text \<open>
  \<open>examples/ccalls/app.py\<close>: it greets every peer that enters and shouts a numbered command to the group every few
  seconds. Its loop waits for an event for half a second at most, and asks the clock twice in a round. What is
  printed is left out; \<open>main\<close>, which parses the options, is not modelled.
\<close>

text \<open>The variables of the loop: when the last command went out, and how many have.\<close>

record commander =
  cm_last :: real
  cm_counter :: nat

text \<open>
  One round: the clock at the head of the loop, what the other tasks do while \<open>recv\<close> waits, the clock afterwards, and
  the clock once a command has been sent.
\<close>

record app_round =
  ar_head :: real
  ar_others :: "unit nprog"
  ar_later :: real
  ar_sent :: real

definition app_setup :: "options \<Rightarrow> unit nprog" where
  "app_setup opts =
     thenDo (set_own_uuid opts)
     (thenDo (set_header (PyStr (lit ''X-ROLE'')) (PyStr (lit ''app'')))
       (set_options opts))"

definition app_event :: "event \<Rightarrow> (commander, unit) app" where
  "app_event e =
     thenDo (check_collision_event e)
       (case e of
          EvEnter peer_id _ _ \<Rightarrow> on_node (api_whispers (PyStr peer_id) (PyStr (lit ''hi-from-app'')))
        | _ \<Rightarrow> ret ())"

definition app_command :: "pystr \<Rightarrow> real \<Rightarrow> app_round \<Rightarrow> (commander, unit) app" where
  "app_command g every r =
     andThen (on_own (gets cm_last)) (\<lambda>last_cmd.
     only_if (every \<le> ar_later r - last_cmd)
       (thenDo (on_own (modify (\<lambda>c. c\<lparr>cm_counter := cm_counter c + 1\<rparr>)))
       (andThen (on_own (gets cm_counter)) (\<lambda>counter.
        thenDo (on_node (api_shouts (PyStr g) (PyStr (lit ''cmd-refresh #'' @ show_int (int counter)))))
          (on_own (modify (\<lambda>c. c\<lparr>cm_last := ar_sent r\<rparr>)))))))"

definition app_round_body :: "pystr \<Rightarrow> real \<Rightarrow> app_round \<Rightarrow> (commander, unit) app" where
  "app_round_body g every r =
     andThen (on_node (thenDo (meanwhile (ar_others r)) recv)) (\<lambda>event.
     thenDo (case event of None \<Rightarrow> ret () | Some e \<Rightarrow> app_event e)
       (app_command g every r))"

text \<open>The rounds end by the clock, or, when the program is interrupted, with the list.\<close>

primrec app_loop :: "pystr \<Rightarrow> real \<Rightarrow> real \<Rightarrow> real \<Rightarrow> app_round list \<Rightarrow> (commander, unit) app" where
  "app_loop g every started duration [] = ret ()"
| "app_loop g every started duration (r # rs) =
    (if ar_head r - started < duration
     then thenDo (app_round_body g every r) (app_loop g every started duration rs)
     else ret ())"

definition run_app ::
  "env \<Rightarrow> options \<Rightarrow> pystr \<Rightarrow> real \<Rightarrow> real \<Rightarrow> real \<Rightarrow> app_round list \<Rightarrow> (commander, unit) app" where
  "run_app E opts g every duration started rs =
     thenDo (on_node
       (thenDo (app_setup opts)
       (thenDo (start E)
         (api_join (PyStr g)))))
     (thenDo (on_own (modify (\<lambda>_. \<lparr>cm_last = started, cm_counter = 0\<rparr>)))
       (try_finally (app_loop g every started duration rs) (on_node (stop E))))"

subsection \<open>The pace of the commands\<close>

text \<open>If the clock does not run backwards while a command is sent, there is no more than one command in \<open>every\<close> seconds.\<close>

definition paced :: "real \<Rightarrow> real \<Rightarrow> node \<times> commander \<Rightarrow> bool" where
  "paced every started s \<longleftrightarrow> every * real (cm_counter (snd s)) \<le> cm_last (snd s) - started"

lemma app_command_paced:
  assumes "ar_later r \<le> ar_sent r" and "paced every started s"
    and "app_command g every r s = (Inr (), s')"
  shows "paced every started s'"
  using assms
  by (cases s)
    (auto simp: paced_def app_command_def run_andThen run_thenDo run_on_own run_on_node only_if_def
        algebra_simps split: prod.splits sum.splits if_splits)

lemma app_event_own: "snd (snd (app_event e s)) = snd s"
  by (cases s) (auto simp: app_event_def check_collision_event_def run_thenDo run_on_node split: event.splits)

lemma app_event_kept: "app_event e s = (r, s') \<Longrightarrow> snd s' = snd s"
  using app_event_own [of e s] by simp

lemma commands_paced:
  assumes "\<And>r. r \<in> set rs \<Longrightarrow> ar_later r \<le> ar_sent r" and "paced every started s"
    and "app_loop g every started duration rs s = (Inr (), s')"
  shows "paced every started s'"
  using assms
proof (induction rs arbitrary: s)
  case Nil
  then show ?case by simp
next
  case (Cons r rs)
  show ?case
  proof (cases "ar_head r - started < duration")
    case True
    obtain x s1 where body: "app_round_body g every r s = (Inr x, s1)"
      and rest: "app_loop g every started duration rs s1 = (Inr (), s')"
      using Cons.prems(3) True by (auto elim: thenDo_InrE)
    obtain v s2 where got: "on_node (thenDo (meanwhile (ar_others r)) recv) s = (Inr v, s2)"
      and tail: "thenDo (case v of None \<Rightarrow> ret () | Some e \<Rightarrow> app_event e) (app_command g every r) s2 = (Inr x, s1)"
      using body unfolding app_round_body_def by (rule andThen_InrE)
    have own2: "snd s2 = snd s"
      using got by (cases s) (auto simp: run_on_node)
    obtain y s3 where ev: "(case v of None \<Rightarrow> ret () | Some e \<Rightarrow> app_event e) s2 = (Inr y, s3)"
      and cmd: "app_command g every r s3 = (Inr x, s1)"
      using tail by (rule thenDo_InrE)
    have "snd s3 = snd s2"
      using ev by (cases v) (auto dest: app_event_kept)
    then have "paced every started s3"
      using own2 Cons.prems(2) by (simp add: paced_def)
    then have "paced every started s1"
      using app_command_paced [of r every started s3 g s1] Cons.prems(1) cmd by simp
    then show ?thesis
      using Cons.IH [OF _ _ rest] Cons.prems(1) by simp
  next
    case False
    then show ?thesis using Cons.prems by simp
  qed
qed

end
