(* ===== verification/Zre_Keys.thy ===== *)
theory Zre_Keys
  imports Zre_Ex_Transfer
begin

section \<open>The key tool\<close>

text \<open>
  \<open>scripts/ndk/curve_keys.py\<close>: it makes, checks and stages the pair of key files of a phone. The disk is the state.
  What the key libraries compute, the program of the neighbouring project, which it may call, and which paths the
  system keeps closed are arguments. Messages and the parsing of the options are left out.
\<close>

subsection \<open>The disk\<close>

record stored =
  f_data :: bytes
  f_mode :: nat

record disk =
  dk_files :: "path \<Rightarrow> stored option"
  dk_dirs :: "path \<Rightarrow> bool"

text \<open>
  \<open>z85.decode\<close>, \<open>z85.encode(...).decode("ascii")\<close>, the public key of X25519, the home directory of a user (its own for the
  empty name), paths that may not be written, paths that may not be read, the mode of a new file, and the tool of the
  other project, with its interpreter, the name and the directory.
\<close>

record keylib =
  ke_rt :: pyrt
  ke_decode :: "pystr \<Rightarrow> exn + bytes"
  ke_encode :: "bytes \<Rightarrow> exn + pystr"
  ke_public :: "bytes \<Rightarrow> exn + bytes"
  ke_home :: "pystr \<Rightarrow> path option"
  ke_denied :: "path \<Rightarrow> bool"
  ke_unreadable :: "path \<Rightarrow> bool"
  ke_new_mode :: nat
  ke_avedge :: "path \<Rightarrow> pystr \<Rightarrow> path \<Rightarrow> (disk, unit) prog"

definition parent :: "path \<Rightarrow> path" where
  "parent p = (fst p, butlast (snd p))"

definition is_dir :: "disk \<Rightarrow> path \<Rightarrow> bool" where
  "is_dir d p \<longleftrightarrow> snd p = [] \<or> dk_dirs d p"

definition path_exists :: "disk \<Rightarrow> path \<Rightarrow> bool" where
  "path_exists d p \<longleftrightarrow> dk_files d p \<noteq> None \<or> is_dir d p"

text \<open>\<open>mkdir(parents=True, exist_ok=True)\<close>.\<close>

definition above :: "path \<Rightarrow> path \<Rightarrow> bool" where
  "above q p \<longleftrightarrow> fst q = fst p \<and> starts_with (snd q) (snd p)"

definition ancestors :: "path \<Rightarrow> path list" where
  "ancestors p = map (\<lambda>k. (fst p, take k (snd p))) [0..<Suc (length (snd p))]"

definition make_dirs :: "keylib \<Rightarrow> path \<Rightarrow> (disk, unit) prog" where
  "make_dirs K p = andThen (gets (\<lambda>d. d)) (\<lambda>d.
     if is_dir d p then ret ()
     else if list_ex (\<lambda>q. dk_files d q \<noteq> None) (ancestors p) \<or> ke_denied K p then throw OSError
     else modify (\<lambda>d. d\<lparr>dk_dirs := (\<lambda>q. dk_dirs d q \<or> above q p)\<rparr>))"

definition set_file :: "path \<Rightarrow> stored \<Rightarrow> (disk, unit) prog" where
  "set_file p f = modify (\<lambda>d. d\<lparr>dk_files := (dk_files d)(p \<mapsto> f)\<rparr>)"

text \<open>\<open>open(p, "w")\<close>: the file is there and empty.\<close>

definition open_write :: "keylib \<Rightarrow> path \<Rightarrow> (disk, nat) prog" where
  "open_write K p = andThen (gets (\<lambda>d. d)) (\<lambda>d.
     if ke_denied K p \<or> is_dir d p \<or> \<not> is_dir d (parent p) then throw OSError
     else (let mode = (case dk_files d p of None \<Rightarrow> ke_new_mode K | Some f \<Rightarrow> f_mode f)
           in thenDo (set_file p \<lparr>f_data = [], f_mode = mode\<rparr>) (ret mode)))"

definition write_data :: "keylib \<Rightarrow> path \<Rightarrow> bytes \<Rightarrow> (disk, unit) prog" where
  "write_data K p b = andThen (open_write K p) (\<lambda>mode. set_file p \<lparr>f_data = b, f_mode = mode\<rparr>)"

definition write_text :: "keylib \<Rightarrow> path \<Rightarrow> pystr \<Rightarrow> (disk, unit) prog" where
  "write_text K p s =
     andThen (open_write K p) (\<lambda>mode.
     andThen (lift_exn (utf8_encode s)) (\<lambda>b. set_file p \<lparr>f_data = b, f_mode = mode\<rparr>))"

definition chmod :: "keylib \<Rightarrow> path \<Rightarrow> nat \<Rightarrow> (disk, unit) prog" where
  "chmod K p mode = andThen (gets (\<lambda>d. dk_files d p)) (\<lambda>f.
     case f of
       None \<Rightarrow> throw OSError
     | Some f \<Rightarrow> if ke_denied K p then throw OSError else set_file p (f\<lparr>f_mode := mode\<rparr>))"

definition read_data :: "keylib \<Rightarrow> path \<Rightarrow> (disk, bytes) prog" where
  "read_data K p = andThen (gets (\<lambda>d. dk_files d p)) (\<lambda>f.
     case f of
       None \<Rightarrow> throw OSError
     | Some f \<Rightarrow> if ke_unreadable K p then throw OSError else ret (f_data f))"

definition read_text :: "keylib \<Rightarrow> path \<Rightarrow> (disk, pystr) prog" where
  "read_text K p =
     andThen (read_data K p) (\<lambda>b.
     andThen (lift_exn (utf8_decode b)) (\<lambda>s. ret (universal_newlines s)))"

subsection \<open>One key file\<close>

definition z85_file :: "keylib \<Rightarrow> path \<Rightarrow> (disk, pystr) prog" where
  "z85_file K p =
     andThen (read_text K p) (\<lambda>raw.
     let text = py_strip (ke_rt K) raw
     in if length text \<noteq> 40 then throw ValueError
        else andThen (lift_exn (ke_decode K text)) (\<lambda>_. ret text))"

definition write_z85_file :: "keylib \<Rightarrow> path \<Rightarrow> pystr \<Rightarrow> bool \<Rightarrow> (disk, unit) prog" where
  "write_z85_file K p text private =
     thenDo (make_dirs K (parent p))
     (thenDo (write_text K p (text @ [10]))
       (only_if private (chmod K p 384)))"

definition derive_public :: "keylib \<Rightarrow> pystr \<Rightarrow> exn + pystr" where
  "derive_public K secret =
     obind (ke_decode K secret) (\<lambda>raw. obind (ke_public K raw) (ke_encode K))"

subsection \<open>The pair\<close>

definition priv_of :: "path \<Rightarrow> pystr \<Rightarrow> path" where
  "priv_of key_dir name = path_join key_dir (name @ lit ''.priv'')"

definition pub_of :: "path \<Rightarrow> pystr \<Rightarrow> path" where
  "pub_of key_dir name = path_join key_dir (name @ lit ''.pub'')"

text \<open>\<open>AVEDGE_REPO\<close> and, found when the module is loaded, \<open>AVEDGE_PY\<close>.\<close>

definition avedge_repo :: "path \<Rightarrow> path" where
  "avedge_repo home = (fst home, snd home @ [lit ''devcode'', lit ''avedge''])"

definition avedge_py :: "path \<Rightarrow> disk \<Rightarrow> path option" where
  "avedge_py home d =
     find (path_exists d)
       [(fst home, snd home @ [lit ''devcode'', lit ''.env'', lit ''avedge'', lit ''bin'', lit ''python3'']),
        (fst home, snd home @ [lit ''.env'', lit ''avedge'', lit ''bin'', lit ''python3''])]"

text \<open>\<open>AVEDGE_REPO.exists() and AVEDGE_PY.exists()\<close>, where \<open>AVEDGE_PY\<close> can be \<open>None\<close>.\<close>

definition delegates :: "path \<Rightarrow> path option \<Rightarrow> disk \<Rightarrow> exn + bool" where
  "delegates home py d =
    (if \<not> path_exists d (avedge_repo home) then Inr False
     else (case py of None \<Rightarrow> Inl AttributeError | Some p \<Rightarrow> Inr (path_exists d p)))"

text \<open>\<open>fresh\<close> is what \<open>zmq.curve_keypair()\<close> would give, public key first.\<close>

definition ensure_pair ::
  "keylib \<Rightarrow> path \<Rightarrow> path option \<Rightarrow> pystr \<times> pystr \<Rightarrow> pystr \<Rightarrow> path \<Rightarrow> (disk, pystr \<times> pystr) prog" where
  "ensure_pair K home py fresh name key_dir =
    (let priv = priv_of key_dir name; pub = pub_of key_dir name;
         both = andThen (z85_file K pub) (\<lambda>p. andThen (z85_file K priv) (\<lambda>s. ret (p, s)))
     in andThen (gets (\<lambda>d. d)) (\<lambda>d.
        if path_exists d priv \<and> path_exists d pub then both
        else if path_exists d priv \<or> path_exists d pub then throw RuntimeError
        else andThen (lift_exn (delegates home py d)) (\<lambda>delegated.
          if delegated then thenDo (ke_avedge K (the py) name key_dir) both
          else thenDo (write_z85_file K priv (snd fresh) True)
              (thenDo (write_z85_file K pub (fst fresh) False)
                (ret fresh)))))"

definition check_pair :: "keylib \<Rightarrow> pystr \<Rightarrow> path \<Rightarrow> (disk, unit) prog" where
  "check_pair K name key_dir =
     andThen (z85_file K (pub_of key_dir name)) (\<lambda>pub.
     andThen (z85_file K (priv_of key_dir name)) (\<lambda>sec.
     andThen (lift_exn (derive_public K sec)) (\<lambda>derived.
     if derived \<noteq> pub then throw ValueError else ret ())))"

text \<open>The text of the note that goes with a staged pair.\<close>

definition release_note :: "pystr \<Rightarrow> pystr" where
  "release_note name =
     lit ''Curve key files for the Android app ('' @ name @ lit '')'' @ [10] @
     lit ''============================================'' @ [10] @
     name @ lit ''.priv  the secret key (bare 40-char Z85, one line, 0600)'' @ [10] @
     name @ lit ''.pub   the public key (bare 40-char Z85, one line)'' @ [10, 10] @
     lit ''Both are consumed by ZreNative.create(name, pubZ85, secZ85)'' @ [10] @
     [8212] @ lit '' Bundle them as assets or fetch them from the operator'' @ [10] @
     lit ''(never commit the .priv to a public repository; rotate by'' @ [10] @
     lit ''regenerating the pair and re-granting its .pub on the PC).'' @ [10]"

definition release_pair :: "keylib \<Rightarrow> pystr \<Rightarrow> path \<Rightarrow> path \<Rightarrow> (disk, unit) prog" where
  "release_pair K name key_dir out =
     thenDo (check_pair K name key_dir)
     (thenDo (make_dirs K out)
     (andThen (read_data K (priv_of key_dir name)) (\<lambda>priv.
      thenDo (write_data K (priv_of out name) priv)
     (thenDo (chmod K (priv_of out name) 384)
     (andThen (read_data K (pub_of key_dir name)) (\<lambda>pub.
      thenDo (write_data K (pub_of out name) pub)
     (thenDo (chmod K (pub_of out name) 420)
       (write_text K (path_join out (lit ''README.txt'')) (release_note name)))))))))"

subsection \<open>The program\<close>

datatype key_action = Ensure | Check | Release "pystr option"

definition expand_user :: "keylib \<Rightarrow> path \<Rightarrow> exn + path" where
  "expand_user K p =
    (case snd p of
       [] \<Rightarrow> Inr p
     | w # rest \<Rightarrow>
         if fst p = 0 \<and> starts_with (lit ''~'') w
         then (case ke_home K (tl w) of None \<Rightarrow> Inl RuntimeError | Some h \<Rightarrow> Inr (fst h, snd h @ rest))
         else Inr p)"

definition curve_keys_main ::
  "keylib \<Rightarrow> path \<Rightarrow> path option \<Rightarrow> pystr \<times> pystr \<Rightarrow> key_action \<Rightarrow> pystr \<Rightarrow> pystr \<Rightarrow> (disk, unit) prog" where
  "curve_keys_main K home py fresh action name dir_text =
     andThen (lift_exn (expand_user K (path_of dir_text))) (\<lambda>key_dir.
     case action of
       Ensure \<Rightarrow> andThen (ensure_pair K home py fresh name key_dir) (\<lambda>_. check_pair K name key_dir)
     | Check \<Rightarrow> check_pair K name key_dir
     | Release out \<Rightarrow> release_pair K name key_dir
         (path_of (case out of Some s \<Rightarrow> if s = [] then lit ''dist/curve'' else s | None \<Rightarrow> lit ''dist/curve'')))"

text \<open>The exit status; another exception ends the program with a traceback.\<close>

definition key_status :: "exn + unit \<Rightarrow> exn + int" where
  "key_status r =
    (case r of Inr _ \<Rightarrow> Inr 0 | Inl e \<Rightarrow> if is_value_error e \<or> e = RuntimeError then Inr 1 else Inl e)"

definition curve_keys :: "keylib \<Rightarrow> pystr \<times> pystr \<Rightarrow> key_action \<Rightarrow> pystr \<Rightarrow> pystr \<Rightarrow> disk \<Rightarrow> (exn + int) \<times> disk" where
  "curve_keys K fresh action name dir_text d =
    (case ke_home K [] of
       None \<Rightarrow> (Inl RuntimeError, d)
     | Some home \<Rightarrow>
         (case curve_keys_main K home (avedge_py home d) fresh action name dir_text d of
            (r, d') \<Rightarrow> (key_status r, d')))"

end
