(* ===== verification/Zre_Ex_Trial.thy ===== *)
theory Zre_Ex_Trial
  imports Zre_Keys
begin

section \<open>The trial with a phone\<close>

text \<open>
  \<open>scripts/ndk/phone_trial.py\<close>: a node that waits for the peer on a phone and answers it, and the command line that
  starts the peer there. The authenticator of ZeroMQ is known only as running or not; what is printed is left out.
\<close>

subsection \<open>Options\<close>

datatype trial_mode = BeaconTrial | CurveTrial | GossipTrial | DialTrial

record trial_args =
  ta_peer_name :: pystr
  ta_phone_ip :: pystr
  ta_assisted_connect :: "pystr option"
  ta_curve_pub :: "pystr option"
  ta_curve_sec :: "pystr option"
  ta_avedge :: "pystr option"
  ta_avedge_dir :: pystr
  ta_plain :: bool
  ta_peer_port :: int
  ta_hub_port :: int
  ta_port :: int
  ta_wait :: real
  ta_phone_name :: pystr
  ta_args_file :: pystr
  ta_host_ip :: pystr

text \<open>The options that are not given.\<close>

definition trial_defaults :: trial_args where
  "trial_defaults =
     \<lparr>ta_peer_name = lit ''phone1'', ta_phone_ip = lit ''10.0.89.13'', ta_assisted_connect = None, ta_curve_pub = None,
      ta_curve_sec = None, ta_avedge = None, ta_avedge_dir = lit ''~/.avedge'', ta_plain = False, ta_peer_port = 19870,
      ta_hub_port = 19872, ta_port = 5670, ta_wait = 40, ta_phone_name = lit ''phone1'', ta_args_file = lit ''args.txt'',
      ta_host_ip = lit ''10.0.89.21''\<rparr>"

definition given :: "pystr option \<Rightarrow> bool" where
  "given v \<longleftrightarrow> (case v of None \<Rightarrow> False | Some s \<Rightarrow> s \<noteq> [])"

text \<open>The checks of \<open>main\<close> for a trial: whether the parser refuses the options, with exit status 2.\<close>

definition options_refused :: "trial_args \<Rightarrow> bool" where
  "options_refused A \<longleftrightarrow>
    (if ta_plain A then ta_avedge A \<noteq> None \<or> ta_curve_pub A \<noteq> None \<or> ta_curve_sec A \<noteq> None
     else if given (ta_curve_pub A) \<noteq> given (ta_curve_sec A) then True
     else ta_curve_pub A = None \<and> ta_avedge A = None)"

definition trial_dial :: "trial_args \<Rightarrow> trial_mode \<Rightarrow> (pystr \<times> int) option" where
  "trial_dial A mode = (case mode of DialTrial \<Rightarrow> Some (ta_phone_ip A, ta_peer_port A) | _ \<Rightarrow> None)"

subsection \<open>Keys\<close>

definition load_avedge_keys :: "keylib \<Rightarrow> path \<Rightarrow> pystr \<Rightarrow> (disk, pystr \<times> pystr) prog" where
  "load_avedge_keys K key_dir name =
     andThen (read_text K (priv_of key_dir name)) (\<lambda>priv_raw.
     andThen (read_text K (pub_of key_dir name)) (\<lambda>pub_raw.
     let priv = py_strip (ke_rt K) priv_raw; pub = py_strip (ke_rt K) pub_raw
     in andThen (lift_exn (ke_decode K pub)) (\<lambda>_.
        andThen (lift_exn (ke_decode K priv)) (\<lambda>_. ret (pub, priv)))))"

text \<open>\<open>f"{args.avedge}"\<close>, which is \<open>None\<close> without the option.\<close>

definition avedge_name :: "pystr option \<Rightarrow> pystr" where
  "avedge_name v = (case v of None \<Rightarrow> lit ''None'' | Some s \<Rightarrow> s)"

definition trial_keys :: "keylib \<Rightarrow> trial_args \<Rightarrow> (disk, pystr \<times> pystr) prog" where
  "trial_keys K A =
     andThen (lift_exn (expand_user K (path_of (ta_avedge_dir A)))) (\<lambda>key_dir.
       load_avedge_keys K key_dir (avedge_name (ta_avedge A)))"

subsection \<open>The command line for the phone\<close>

definition peer_place :: "trial_args \<Rightarrow> trial_mode \<Rightarrow> pystr" where
  "peer_place A mode =
    (if mode = BeaconTrial then lit ''--interface wlan0 ''
     else lit ''--endpoint tcp://'' @ ta_phone_ip A @ lit '':'' @ show_int (ta_peer_port A) @ lit '' '' @
       (if mode = GossipTrial
        then lit ''--gossip-connect tcp://'' @ ta_host_ip A @ lit '':'' @ show_int (ta_hub_port A) @ lit '' ''
        else []))"

definition peer_line :: "trial_args \<Rightarrow> trial_mode \<Rightarrow> pystr \<times> pystr \<Rightarrow> pystr" where
  "peer_line A mode pair =
     lit ''/data/local/tmp/zc_peer --name '' @ ta_phone_name A @ lit '' '' @
     peer_place A mode @
     lit ''--curve-pub '' @ fst pair @ lit '' --curve-sec '' @ snd pair @ lit '' --join CHAT '' @
     lit ''--shout CHAT:hello-secure-from-phone --shout-every 2 '' @
     lit ''--duration 120 --verbose''"

definition emit_args :: "keylib \<Rightarrow> trial_args \<Rightarrow> trial_mode \<Rightarrow> (disk, unit) prog" where
  "emit_args K A mode =
     andThen (trial_keys K A) (\<lambda>pair.
       write_text K (path_of (ta_args_file A)) (peer_line A mode pair @ [10]))"

subsection \<open>The trial\<close>

text \<open>The variables of \<open>run_trial\<close>, and whether the authenticator runs.\<close>

record trial_log =
  tl_enter :: bool
  tl_join :: bool
  tl_shout :: bool
  tl_announced :: pystr
  tl_zap :: bool

definition seen_all :: "trial_log \<Rightarrow> bool" where
  "seen_all l \<longleftrightarrow> tl_enter l \<and> tl_join l \<and> tl_shout l"

definition peer_headers :: "node \<Rightarrow> pystr \<Rightarrow> (pystr \<times> pystr) list" where
  "peer_headers s peer_id =
    (case dict_get (n_peers s) peer_id of
       None \<Rightarrow> []
     | Some a \<Rightarrow> fold (\<lambda>(k, v). dict_set (bdec k) (bdec v)) (p_headers (n_heap s a)) [])"

definition header_or :: "pystr \<Rightarrow> (pystr \<times> pystr) list \<Rightarrow> pystr \<Rightarrow> pystr" where
  "header_or other headers k = (case dict_get headers k of None \<Rightarrow> other | Some v \<Rightarrow> v)"

definition announcement_of :: "(pystr \<times> pystr) list \<Rightarrow> pystr" where
  "announcement_of headers =
     lit ''ip='' @ header_or (lit ''-'') headers (lit ''X-IP'') @
     lit '' mac='' @ header_or (lit ''-'') headers (lit ''X-MAC'')"

text \<open>\<open>rsplit(":", 2)\<close>, of which the last two parts are used.\<close>

definition assisted_target :: "pyrt \<Rightarrow> pystr \<Rightarrow> exn + (pystr \<times> int)" where
  "assisted_target R endpoint =
    (case rev (split_on 58 endpoint) of
       port # host # _ # _ \<Rightarrow> obind (py_int R port) (\<lambda>p. Inr (strip_chars (lit ''/ '') host, p))
     | _ \<Rightarrow> Inl IndexError)"

definition assisted_dial :: "env \<Rightarrow> trial_args \<Rightarrow> (pystr \<times> pystr) list \<Rightarrow> unit nprog" where
  "assisted_dial E A headers =
    (case ta_assisted_connect A of
       None \<Rightarrow> ret ()
     | Some endpoint \<Rightarrow>
         only_if (endpoint \<noteq> [])
           (andThen (lift_exn (assisted_target (e_rt E) endpoint)) (\<lambda>(host, port).
            let key = header_or [] headers (lit ''X-PUBLICKEY'')
            in connect_peer E host port (if key = [] then None else Some (PyStr key)))))"

definition ev_peer_name :: "event \<Rightarrow> pystr option" where
  "ev_peer_name e =
    (case e of
       EvEnter _ n _ \<Rightarrow> Some n | EvExit _ n \<Rightarrow> Some n | EvEvasive _ n \<Rightarrow> Some n | EvJoin _ n _ \<Rightarrow> Some n
     | EvLeave _ n _ \<Rightarrow> Some n | EvWhisper _ n _ \<Rightarrow> Some n | EvShout _ n _ _ \<Rightarrow> Some n | EvLeader _ n _ \<Rightarrow> Some n
     | EvCollision _ \<Rightarrow> None)"

definition trial_event :: "env \<Rightarrow> trial_args \<Rightarrow> event \<Rightarrow> (trial_log, unit) app" where
  "trial_event E A e =
    (case e of
       EvEnter peer_id _ _ \<Rightarrow>
         thenDo (on_own (modify (\<lambda>l. l\<lparr>tl_enter := True\<rparr>)))
         (andThen (on_node (gets (\<lambda>s. peer_headers s peer_id))) (\<lambda>headers.
          thenDo (on_own (modify (\<lambda>l. l\<lparr>tl_announced := announcement_of headers\<rparr>)))
         (thenDo (on_node (assisted_dial E A headers))
           (on_node (api_whispers (PyStr peer_id) (PyStr (lit ''hello-from-Python'')))))))
     | EvJoin _ _ _ \<Rightarrow> on_own (modify (\<lambda>l. l\<lparr>tl_join := True\<rparr>))
     | EvShout _ _ _ _ \<Rightarrow>
         thenDo (on_own (modify (\<lambda>l. l\<lparr>tl_shout := True\<rparr>)))
           (on_node (api_shouts (PyStr (lit ''CHAT'')) (PyStr (lit ''hello-back-from-Python''))))
     | _ \<Rightarrow> ret ())"

text \<open>The rounds, each with what the other tasks do while \<open>recv\<close> waits.\<close>

primrec trial_loop :: "env \<Rightarrow> trial_args \<Rightarrow> unit nprog list \<Rightarrow> (trial_log, unit) app" where
  "trial_loop E A [] = ret ()"
| "trial_loop E A (others # rest) =
     andThen (on_node (thenDo (meanwhile others) recv)) (\<lambda>event.
     case event of
       None \<Rightarrow> trial_loop E A rest
     | Some e \<Rightarrow>
         if ev_peer_name e \<noteq> Some (ta_peer_name A) then trial_loop E A rest
         else thenDo (trial_event E A e)
           (andThen (on_own (gets seen_all)) (\<lambda>finished. if finished then ret () else trial_loop E A rest)))"

text \<open>\<open>announced.split("ip=")[1].split()[0]\<close>, when \<open>"ip=" in announced\<close>.\<close>

definition announced_ip :: "pyrt \<Rightarrow> pystr \<Rightarrow> (exn + pystr) option" where
  "announced_ip R announced =
    (case split_once (lit ''ip='') announced of
       None \<Rightarrow> None
     | Some (_, rest) \<Rightarrow>
         (let part = (case split_once (lit ''ip='') rest of None \<Rightarrow> rest | Some (x, _) \<Rightarrow> x)
          in Some (case split_words R [] part of [] \<Rightarrow> Inl IndexError | w # _ \<Rightarrow> Inr w)))"

definition trial_ok :: "pyrt \<Rightarrow> trial_log \<Rightarrow> exn + bool" where
  "trial_ok R l =
    (if \<not> seen_all l then Inr False
     else (case announced_ip R (tl_announced l) of
             None \<Rightarrow> Inr False
           | Some ip \<Rightarrow> obind ip (\<lambda>w. Inr (45 \<notin> set w))))"

text \<open>The certificate: \<open>set_zcert\<close> with an option that is missing raises a \<open>TypeError\<close>.\<close>

definition trial_zcert :: "env \<Rightarrow> pystr option \<Rightarrow> pystr option \<Rightarrow> unit nprog" where
  "trial_zcert E pub sec =
    (case (pub, sec) of
       (Some p, Some s) \<Rightarrow> set_zcert E (PyStr p) (PyStr s)
     | (Some p, None) \<Rightarrow>
         andThen (lift_exn (curve_key_raw E (PyStr p))) (\<lambda>k.
         thenDo (upd_cfg (\<lambda>c. c\<lparr>c_curve_public := Some k\<rparr>)) (throw TypeError))
     | (None, _) \<Rightarrow> throw TypeError)"

definition trial_security :: "env \<Rightarrow> keylib \<Rightarrow> disk \<Rightarrow> trial_args \<Rightarrow> (trial_log, unit) app" where
  "trial_security E K d A =
     only_if (\<not> ta_plain A)
       (thenDo
         (if given (ta_avedge A)
          then andThen (lift_exn (fst (trial_keys K A d))) (\<lambda>(pub, sec).
            on_node (set_zcert E (PyStr pub) (PyStr sec)))
          else on_node (trial_zcert E (ta_curve_pub A) (ta_curve_sec A)))
         (on_own (modify (\<lambda>l. l\<lparr>tl_zap := True\<rparr>))))"

definition trial_start :: "env \<Rightarrow> trial_args \<Rightarrow> trial_mode \<Rightarrow> unit nprog" where
  "trial_start E A mode =
     thenDo (only_if (trial_dial A mode \<noteq> None) (set_port (ta_port A)))
     (thenDo (only_if (ta_hub_port A \<noteq> 0 \<and> mode = GossipTrial)
        (gossip_bind (lit ''tcp://*:'' @ show_int (ta_hub_port A))))
     (thenDo (start E)
     (thenDo (api_join (PyStr (lit ''CHAT'')))
       (case trial_dial A mode of None \<Rightarrow> ret () | Some (host, port) \<Rightarrow> connect_peer E host port None))))"

definition new_trial_log :: trial_log where
  "new_trial_log = \<lparr>tl_enter = False, tl_join = False, tl_shout = False, tl_announced = [], tl_zap = False\<rparr>"

text \<open>The \<open>finally\<close> part: first the authenticator, then the node.\<close>

definition trial_end :: "env \<Rightarrow> (trial_log, unit) app" where
  "trial_end E = thenDo (on_own (modify (\<lambda>l. l\<lparr>tl_zap := False\<rparr>))) (on_node (stop E))"

definition run_trial ::
  "env \<Rightarrow> keylib \<Rightarrow> disk \<Rightarrow> trial_args \<Rightarrow> trial_mode \<Rightarrow> unit nprog list \<Rightarrow> (trial_log, bool) app" where
  "run_trial E K d A mode rounds =
     thenDo (trial_security E K d A)
     (thenDo (on_node (trial_start E A mode))
       (try_finally
         (thenDo (trial_loop E A (take (nat \<lfloor>ta_wait A * 2\<rfloor>) rounds))
         (andThen (on_own (gets (trial_ok (e_rt E)))) lift_exn))
         (trial_end E)))"

text \<open>\<open>main\<close> for a trial: its exit status.\<close>

definition phone_trial ::
  "env \<Rightarrow> keylib \<Rightarrow> disk \<Rightarrow> trial_args \<Rightarrow> trial_mode \<Rightarrow> unit nprog list \<Rightarrow> (trial_log, int) app" where
  "phone_trial E K d A mode rounds =
    (if options_refused A then ret 2
     else andThen (run_trial E K d A mode rounds) (\<lambda>ok. ret (if ok then 0 else 1)))"

subsection \<open>Lemmas\<close>

text \<open>A trial in mode \<open>curve\<close> binds the peer to an endpoint as a dialled one, unlike the mode \<open>beacon\<close>.\<close>

lemma curve_line_is_dial_line: "emit_args K A CurveTrial = emit_args K A DialTrial"
  by (simp add: emit_args_def peer_line_def peer_place_def)

text \<open>Without options a trial is refused, and the keys for the phone are looked for under the name \<open>None\<close>.\<close>

lemma defaults_refused: "options_refused trial_defaults" "avedge_name (ta_avedge trial_defaults) = lit ''None''"
  by (simp_all add: options_refused_def trial_defaults_def given_def avedge_name_def)

lemma beacon_port_unused: "trial_start E A BeaconTrial = trial_start E (A\<lparr>ta_port := p\<rparr>) BeaconTrial"
  by (simp add: trial_start_def trial_dial_def)

lemma trial_end_own: "snd (snd (trial_end E s)) = (snd s)\<lparr>tl_zap := False\<rparr>"
  by (cases s) (simp add: trial_end_def run_thenDo run_on_own run_on_node)

lemma finally_end: "snd (try_finally m f s) = snd (f (snd (m s)))"
  by (simp add: try_finally_def split_beta split: sum.split)

text \<open>Once the node has started, the authenticator is off at the end, however the trial ends.\<close>

lemma zap_off:
  assumes "trial_security E K d A s = (Inr u, s1)" and "on_node (trial_start E A mode) s1 = (Inr v, s2)"
  shows "\<not> tl_zap (snd (snd (run_trial E K d A mode rounds s)))"
  by (simp add: run_trial_def thenDo_Inr [where m = "trial_security E K d A", OF assms(1)]
      thenDo_Inr [where m = "on_node (trial_start E A mode)", OF assms(2)] finally_end trial_end_own)

text \<open>A trial that succeeds has seen the peer enter, join and shout, and the authenticator is off.\<close>

lemma trial_ok_seen: "trial_ok R l = Inr True \<Longrightarrow> seen_all l"
  by (auto simp: trial_ok_def split: if_splits)

lemma finally_InrE:
  assumes "try_finally m f s = (Inr y, s')"
  obtains s1 where "m s = (Inr y, s1)" "s' = snd (f s1)"
  using assms by (auto simp: try_finally_def split: prod.splits sum.splits)

lemma trial_passes:
  assumes "run_trial E K d A mode rounds s = (Inr True, s')"
  shows "seen_all (snd s') \<and> \<not> tl_zap (snd s')"
proof -
  obtain s1 s2 s3 where "andThen (on_own (gets (trial_ok (e_rt E)))) lift_exn s1 = (Inr True, s2)"
    and "s3 = s2" "s' = snd (trial_end E s3)"
    using assms unfolding run_trial_def by (auto elim!: thenDo_InrE finally_InrE)
  then have "trial_ok (e_rt E) (snd s3) = Inr True" "snd s' = (snd s3)\<lparr>tl_zap := False\<rparr>"
    by (cases s1; auto simp: run_andThen run_on_own trial_end_own)+
  then show ?thesis using trial_ok_seen by (fastforce simp: seen_all_def)
qed

end
