(* ===== verification/Zre_Keys_Properties.thy ===== *)
theory Zre_Keys_Properties
  imports Zre_Keys
begin

section \<open>Properties of the key tool\<close>

text \<open>
  No file that is there is ever changed by \<open>ensure\<close> or \<open>check\<close>; a pair that \<open>ensure\<close> has made passes \<open>check\<close>, and
  \<open>release\<close> copies it.
\<close>

subsection \<open>Existing files are kept\<close>

definition holds_file :: "path \<Rightarrow> stored \<Rightarrow> disk \<Rightarrow> bool" where
  "holds_file p f d \<longleftrightarrow> dk_files d p = Some f"

lemma keeps_read_text [keeps_rules]: "keeps (holds_file p f) (read_text K q)"
  unfolding read_text_def read_data_def by (intro keeps_rules)

lemma keeps_z85_file [keeps_rules]: "keeps (holds_file p f) (z85_file K q)"
  unfolding z85_file_def Let_def by (intro keeps_rules)

lemma keeps_make_dirs [keeps_rules]: "keeps (holds_file p f) (make_dirs K q)"
  unfolding make_dirs_def by (intro keeps_rules keeps_modify) (auto simp: holds_file_def)

lemma keeps_set_file: "p \<noteq> q \<Longrightarrow> keeps (holds_file p f) (set_file q g)"
  unfolding set_file_def by (intro keeps_modify) (auto simp: holds_file_def)

lemma keeps_write_text: "p \<noteq> q \<Longrightarrow> keeps (holds_file p f) (write_text K q s)"
  unfolding write_text_def open_write_def Let_def by (intro keeps_rules keeps_set_file)

lemma keeps_chmod: "p \<noteq> q \<Longrightarrow> keeps (holds_file p f) (chmod K q m)"
  unfolding chmod_def by (intro keeps_rules keeps_set_file)

lemma keeps_write_z85: "p \<noteq> q \<Longrightarrow> keeps (holds_file p f) (write_z85_file K q s private)"
  unfolding write_z85_file_def by (intro keeps_rules keeps_write_text keeps_chmod)

lemma keeps_check [keeps_rules]: "keeps (holds_file p f) (check_pair K name key_dir)"
  unfolding check_pair_def by (intro keeps_rules)

lemma ensure_holds:
  assumes avedge: "\<And>py nm dir. keeps (holds_file p f) (ke_avedge K py nm dir)"
  shows "keeps (holds_file p f) (ensure_pair K home py fresh name key_dir)"
proof (rule keepsI)
  fix d assume held: "holds_file p f d"
  let ?priv = "priv_of key_dir name" and ?pub = "pub_of key_dir name"
  have both: "keeps (holds_file p f) (andThen (z85_file K ?pub) (\<lambda>p. andThen (z85_file K ?priv) (\<lambda>s. ret (p, s))))"
    by (intro keeps_rules)
  show "holds_file p f (snd (ensure_pair K home py fresh name key_dir d))"
  proof (cases "path_exists d ?priv \<or> path_exists d ?pub")
    case True
    then show ?thesis using both held by (simp add: ensure_pair_def Let_def keeps_def)
  next
    case False
    then have other: "p \<noteq> ?priv" "p \<noteq> ?pub"
      using held by (auto simp: holds_file_def path_exists_def)
    have "keeps (holds_file p f) (andThen (lift_exn (delegates home py d)) (\<lambda>delegated.
          if delegated then thenDo (ke_avedge K (the py) name key_dir)
              (andThen (z85_file K ?pub) (\<lambda>p. andThen (z85_file K ?priv) (\<lambda>s. ret (p, s))))
          else thenDo (write_z85_file K ?priv (snd fresh) True)
              (thenDo (write_z85_file K ?pub (fst fresh) False) (ret fresh))))"
      by (intro keeps_rules both avedge keeps_write_z85 other)
    then show ?thesis using False held by (simp add: ensure_pair_def Let_def keeps_def)
  qed
qed

text \<open>
  C37: whatever is on the disk, whatever may fail and however it ends, neither \<open>ensure\<close> nor \<open>check\<close> changes a file that
  exists, if the tool of the other project does not.
\<close>

theorem existing_files_kept:
  assumes "\<And>py nm dir. keeps (holds_file p f) (ke_avedge K py nm dir)"
    and "action = Ensure \<or> action = Check" and "dk_files d p = Some f"
  shows "dk_files (snd (curve_keys K fresh action name dir_text d)) p = Some f"
proof -
  have "keeps (holds_file p f) (curve_keys_main K home py fresh action name dir_text)" for home py
    using assms(2) unfolding curve_keys_main_def
    by (elim disjE; simp only: key_action.case; intro keeps_rules ensure_holds assms(1))
  then show ?thesis
    using assms(3) by (auto simp: curve_keys_def holds_file_def keeps_def split_beta split: option.split)
qed

subsection \<open>A new pair passes the check\<close>

text \<open>The name of a pair is one component of a path.\<close>

lemma path_of_one: "47 \<notin> set w \<Longrightarrow> w \<noteq> [] \<Longrightarrow> w \<noteq> lit ''.'' \<Longrightarrow> path_of w = (0, [w])"
  by (cases w) (auto simp: path_of_def Let_def split_on_none)

lemma path_join_one:
  assumes "47 \<notin> set name" "47 \<notin> set ext" "1 < length ext"
  shows "path_join dir (name @ ext) = (fst dir, snd dir @ [name @ ext])"
proof -
  have "name @ ext \<noteq> []" using assms(3) by auto
  moreover have "name @ ext \<noteq> lit ''.''"
  proof
    assume "name @ ext = lit ''.''"
    from arg_cong [where f = length, OF this] show False using assms(3) by (simp add: lit_def)
  qed
  ultimately have "path_of (name @ ext) = (0, [name @ ext])"
    using assms(1,2) by (intro path_of_one) auto
  then show ?thesis by (simp add: path_join_def)
qed

lemma pair_paths:
  assumes "47 \<notin> set name"
  shows "priv_of dir name = (fst dir, snd dir @ [name @ lit ''.priv''])"
    and "pub_of dir name = (fst dir, snd dir @ [name @ lit ''.pub''])"
  unfolding priv_of_def pub_of_def
  by (rule path_join_one [OF assms]; simp add: lit_def)+

lemma pair_paths_differ: "47 \<notin> set name \<Longrightarrow> priv_of dir name \<noteq> pub_of dir' name"
  by (simp add: pair_paths lit_def)

lemma pair_parent [simp]: "47 \<notin> set name \<Longrightarrow> parent (priv_of dir name) = dir"
  "47 \<notin> set name \<Longrightarrow> parent (pub_of dir name) = dir"
  by (simp_all add: pair_paths parent_def)

lemma not_above_own_dir: "47 \<notin> set name \<Longrightarrow> \<not> above (priv_of dir name) dir"
  "47 \<notin> set name \<Longrightarrow> \<not> above (pub_of dir name) dir"
  by (auto simp: pair_paths above_def starts_with_def)

lemma above_self: "above p p"
  by (simp add: above_def starts_with_def)

text \<open>A directory that can be made: no file is in the way, and the system allows it.\<close>

definition makeable :: "keylib \<Rightarrow> path \<Rightarrow> disk \<Rightarrow> bool" where
  "makeable K p d \<longleftrightarrow> \<not> list_ex (\<lambda>q. dk_files d q \<noteq> None) (ancestors p) \<and> \<not> ke_denied K p"

lemma make_dirs_run:
  assumes "is_dir d p \<or> makeable K p d"
  obtains D where "make_dirs K p d = (Inr (), d\<lparr>dk_dirs := D\<rparr>)" "is_dir (d\<lparr>dk_dirs := D\<rparr>) p"
    "\<And>q. \<not> is_dir d q \<Longrightarrow> \<not> above q p \<Longrightarrow> \<not> is_dir (d\<lparr>dk_dirs := D\<rparr>) q"
proof (cases "is_dir d p")
  case True
  then show ?thesis using that [of "dk_dirs d"] by (simp add: make_dirs_def)
next
  case False
  then show ?thesis
    using assms that [of "\<lambda>q. dk_dirs d q \<or> above q p"]
    by (simp add: make_dirs_def makeable_def is_dir_def above_self)
qed

text \<open>A key: forty printable characters that the library decodes.\<close>

definition good_key :: "keylib \<Rightarrow> pystr \<Rightarrow> bool" where
  "good_key K s \<longleftrightarrow> length s = 40 \<and> list_all (\<lambda>c. 33 \<le> c \<and> c \<le> 126) s \<and> (\<exists>b. ke_decode K s = Inr b)"

definition key_data :: "pystr \<Rightarrow> bytes" where
  "key_data s = map of_nat (s @ [10])"

lemma key_ascii: "good_key K s \<Longrightarrow> ascii (s @ [10])"
  by (auto simp: good_key_def ascii_def list_all_iff)

lemma newlines_id: "13 \<notin> set s \<Longrightarrow> universal_newlines s = s"
  by (induction s rule: universal_newlines.induct) auto

lemma key_no_space: "good_key K s \<Longrightarrow> c \<in> set s \<Longrightarrow> \<not> py_space R c"
  by (fastforce simp: good_key_def py_space_def ascii_space_def list_all_iff)

lemma strip_key:
  assumes "good_key K s"
  shows "py_strip R (s @ [10]) = s"
proof -
  obtain c rest where s: "s = c # rest" using assms by (cases s) (auto simp: good_key_def)
  have "\<not> py_space R c" using key_no_space [OF assms] s by simp
  then have front: "dropWhile (py_space R) (s @ [10]) = s @ [10]" by (simp add: s)
  have "\<And>x. x \<in> set (rev s) \<Longrightarrow> \<not> py_space R x" using key_no_space [OF assms] by simp
  then have behind: "dropWhile (py_space R) (rev s) = rev s" by (cases "rev s") simp_all
  have "py_space R 10" by (simp add: py_space_def ascii_space_def)
  then show ?thesis by (simp add: py_strip_def front behind)
qed

lemma read_key_text:
  assumes "dk_files d p = Some \<lparr>f_data = key_data s, f_mode = m\<rparr>" "\<not> ke_unreadable K p" "good_key K s"
  shows "read_text K p d = (Inr (s @ [10]), d)"
proof -
  have "utf8_decode (key_data s) = Inr (s @ [10])"
    unfolding key_data_def
    by (rule utf8.dec_enc [OF _ utf8_encode_ascii [OF key_ascii [OF assms(3)]]])
      (use key_ascii [OF assms(3)] in \<open>auto simp: ascii_def list_all_iff is_scalar_def\<close>)
  moreover have "13 \<notin> set (s @ [10])" using assms(3) by (auto simp: good_key_def list_all_iff)
  ultimately show ?thesis
    using assms(1,2) by (simp add: read_text_def read_data_def run_andThen newlines_id del: set_append)
qed

lemma read_key:
  assumes "dk_files d p = Some \<lparr>f_data = key_data s, f_mode = m\<rparr>" "\<not> ke_unreadable K p" "good_key K s"
  shows "z85_file K p d = (Inr s, d)"
  using read_key_text [OF assms] strip_key [OF assms(3)] assms(3)
  by (auto simp: z85_file_def run_andThen good_key_def)

lemma is_dir_files [simp]: "is_dir (d\<lparr>dk_files := F\<rparr>) p = is_dir d p"
  by (simp add: is_dir_def)

text \<open>Writing a key file that is not there.\<close>

lemma write_key:
  assumes "is_dir d (parent p) \<or> makeable K (parent p) d" "\<not> ke_denied K p" "\<not> path_exists d p"
    and "\<not> above p (parent p)" "good_key K s"
  obtains D where "write_z85_file K p s private d = (Inr (),
      d\<lparr>dk_dirs := D, dk_files := (dk_files d)(p \<mapsto> \<lparr>f_data = key_data s, f_mode = (if private then 384 else ke_new_mode K)\<rparr>)\<rparr>)"
    "is_dir (d\<lparr>dk_dirs := D\<rparr>) (parent p)"
    "\<And>q. \<not> is_dir d q \<Longrightarrow> \<not> above q (parent p) \<Longrightarrow> \<not> is_dir (d\<lparr>dk_dirs := D\<rparr>) q"
proof -
  obtain D where D: "make_dirs K (parent p) d = (Inr (), d\<lparr>dk_dirs := D\<rparr>)" "is_dir (d\<lparr>dk_dirs := D\<rparr>) (parent p)"
    "\<And>q. \<not> is_dir d q \<Longrightarrow> \<not> above q (parent p) \<Longrightarrow> \<not> is_dir (d\<lparr>dk_dirs := D\<rparr>) q"
    using make_dirs_run [OF assms(1)] by blast
  have "dk_files d p = None" "\<not> is_dir d p" using assms(3) by (auto simp: path_exists_def)
  then have "write_z85_file K p s private d = (Inr (),
      d\<lparr>dk_dirs := D, dk_files := (dk_files d)(p \<mapsto> \<lparr>f_data = key_data s, f_mode = (if private then 384 else ke_new_mode K)\<rparr>)\<rparr>)"
    using D assms(2,4) utf8_encode_ascii [OF key_ascii [OF assms(5)]]
    by (simp add: write_z85_file_def write_text_def open_write_def set_file_def chmod_def run_andThen run_thenDo
        Let_def key_data_def)
  then show ?thesis using D(2,3) by (rule that)
qed

text \<open>A place for a new pair: nothing there, nothing in the way, and no other project to delegate to.\<close>

definition place_for_pair :: "keylib \<Rightarrow> path \<Rightarrow> pystr \<Rightarrow> path \<Rightarrow> disk \<Rightarrow> bool" where
  "place_for_pair K home name key_dir d \<longleftrightarrow>
     \<not> path_exists d (avedge_repo home) \<and> (is_dir d key_dir \<or> makeable K key_dir d) \<and>
     list_all (\<lambda>p. \<not> path_exists d p \<and> \<not> ke_denied K p \<and> \<not> ke_unreadable K p) [priv_of key_dir name, pub_of key_dir name]"

lemma ensure_writes:
  assumes place: "place_for_pair K home name key_dir d" and name: "47 \<notin> set name"
    and keys: "good_key K pub" "good_key K sec"
  obtains D where "ensure_pair K home py (pub, sec) name key_dir d = (Inr (pub, sec),
     d\<lparr>dk_dirs := D, dk_files := (dk_files d)
         (priv_of key_dir name \<mapsto> \<lparr>f_data = key_data sec, f_mode = 384\<rparr>,
          pub_of key_dir name \<mapsto> \<lparr>f_data = key_data pub, f_mode = ke_new_mode K\<rparr>)\<rparr>)"
proof -
  let ?priv = "priv_of key_dir name" and ?pub = "pub_of key_dir name"
  have parts: "\<not> path_exists d ?priv" "\<not> path_exists d ?pub" "\<not> ke_denied K ?priv" "\<not> ke_denied K ?pub"
    "is_dir d key_dir \<or> makeable K key_dir d" "delegates home py d = Inr False"
    using place by (simp_all add: place_for_pair_def delegates_def)
  obtain D where w1: "write_z85_file K ?priv sec True d = (Inr (),
      d\<lparr>dk_dirs := D, dk_files := (dk_files d)(?priv \<mapsto> \<lparr>f_data = key_data sec, f_mode = 384\<rparr>)\<rparr>)" (is "_ = (_, ?d1)")
    "is_dir (d\<lparr>dk_dirs := D\<rparr>) key_dir"
    "\<And>q. \<not> is_dir d q \<Longrightarrow> \<not> above q key_dir \<Longrightarrow> \<not> is_dir (d\<lparr>dk_dirs := D\<rparr>) q"
    by (rule write_key [of d ?priv K sec True])
      (use parts keys name in \<open>simp_all add: not_above_own_dir\<close>)
  have fresh: "\<not> path_exists ?d1 ?pub"
    using parts(2) w1(3) [of ?pub] not_above_own_dir(2) [OF name] pair_paths_differ [OF name, of key_dir key_dir]
    by (auto simp: path_exists_def)
  obtain D' where w2: "write_z85_file K ?pub pub False ?d1 = (Inr (),
      ?d1\<lparr>dk_dirs := D', dk_files := (dk_files ?d1)(?pub \<mapsto> \<lparr>f_data = key_data pub, f_mode = ke_new_mode K\<rparr>)\<rparr>)"
    by (rule write_key [of ?d1 ?pub K pub False])
      (use fresh w1(2) parts(4) keys(1) name in \<open>simp_all add: not_above_own_dir\<close>)
  show ?thesis
    by (rule that [of D']) (use parts w1(1) w2 in \<open>simp add: ensure_pair_def Let_def run_andThen run_thenDo\<close>)
qed

text \<open>
  C38: where nothing stands in the way, \<open>ensure\<close> with a pair of the key library ends with status 0, leaves the secret
  key readable by the owner alone, and leaves a pair that \<open>check\<close> accepts, on that run and on the next.
\<close>

theorem ensured_pair_checks:
  assumes "ke_home K [] = Some home" and "expand_user K (path_of dir_text) = Inr key_dir"
    and "47 \<notin> set name" and "place_for_pair K home name key_dir d"
    and "good_key K pub" and "good_key K sec" and "derive_public K sec = Inr pub"
    and "curve_keys K (pub, sec) Ensure name dir_text d = (r, d')"
  shows "r = Inr 0 \<and>
    dk_files d' (priv_of key_dir name) = Some \<lparr>f_data = key_data sec, f_mode = 384\<rparr> \<and>
    curve_keys K other Check name dir_text d' = (Inr 0, d')"
proof -
  obtain D where written: "ensure_pair K home (avedge_py home d) (pub, sec) name key_dir d = (Inr (pub, sec),
     d\<lparr>dk_dirs := D, dk_files := (dk_files d)
         (priv_of key_dir name \<mapsto> \<lparr>f_data = key_data sec, f_mode = 384\<rparr>,
          pub_of key_dir name \<mapsto> \<lparr>f_data = key_data pub, f_mode = ke_new_mode K\<rparr>)\<rparr>)" (is "_ = (_, ?d)")
    by (rule ensure_writes [OF assms(4,3,5,6)])
  have files: "dk_files ?d (priv_of key_dir name) = Some \<lparr>f_data = key_data sec, f_mode = 384\<rparr>"
    "dk_files ?d (pub_of key_dir name) = Some \<lparr>f_data = key_data pub, f_mode = ke_new_mode K\<rparr>"
    using pair_paths_differ [OF assms(3)] by simp_all
  have "\<not> ke_unreadable K (priv_of key_dir name)" "\<not> ke_unreadable K (pub_of key_dir name)"
    using assms(4) by (simp_all add: place_for_pair_def)
  then have "z85_file K (pub_of key_dir name) ?d = (Inr pub, ?d)" "z85_file K (priv_of key_dir name) ?d = (Inr sec, ?d)"
    using read_key files assms(5,6) by blast+
  then have check: "check_pair K name key_dir ?d = (Inr (), ?d)"
    using assms(7) by (simp add: check_pair_def run_andThen)
  have "curve_keys K (pub, sec) Ensure name dir_text d = (Inr 0, ?d)"
    using assms(1,2) written check by (simp add: curve_keys_def curve_keys_main_def run_andThen key_status_def)
  moreover have "curve_keys K other Check name dir_text ?d = (Inr 0, ?d)"
    using assms(1,2) check by (simp add: curve_keys_def curve_keys_main_def run_andThen key_status_def)
  ultimately show ?thesis using assms(8) files(1) by simp
qed

subsection \<open>What is staged\<close>

lemma read_data_inv: "read_data K p d = (Inr b, d') \<Longrightarrow> d' = d \<and> (\<exists>f. dk_files d p = Some f \<and> f_data f = b)"
  by (auto simp: read_data_def split: option.splits if_splits)

lemma write_data_inv:
  "write_data K p b d = (Inr u, d') \<Longrightarrow> \<exists>m. dk_files d' = (dk_files d)(p \<mapsto> \<lparr>f_data = b, f_mode = m\<rparr>)"
  by (auto simp: write_data_def open_write_def set_file_def run_andThen Let_def split: if_splits)

lemma chmod_inv:
  "chmod K p m d = (Inr u, d') \<Longrightarrow> \<exists>f. dk_files d p = Some f \<and> dk_files d' = (dk_files d)(p \<mapsto> f\<lparr>f_mode := m\<rparr>)"
  by (auto simp: chmod_def set_file_def split: option.splits if_splits)

lemma make_dirs_inv: "make_dirs K p d = (Inr u, d') \<Longrightarrow> dk_files d' = dk_files d"
  by (auto simp: make_dirs_def split: if_splits)

lemma write_text_inv: "write_text K p s d = (r, d') \<Longrightarrow> q \<noteq> p \<Longrightarrow> dk_files d' q = dk_files d q"
  by (auto simp: write_text_def open_write_def set_file_def run_andThen Let_def split: if_splits sum.splits)

lemma check_pair_inv: "check_pair K name key_dir d = (r, d') \<Longrightarrow> dk_files d' = dk_files d"
  by (auto simp: check_pair_def z85_file_def read_text_def read_data_def run_andThen Let_def
      split: if_splits sum.splits option.splits)

lemma note_path: "47 \<notin> set name \<Longrightarrow> path_join out (lit ''README.txt'') \<noteq> priv_of out name"
  "47 \<notin> set name \<Longrightarrow> path_join out (lit ''README.txt'') \<noteq> pub_of out name"
  using path_join_one [of "lit ''README''" "lit ''.txt''" out] by (auto simp: pair_paths lit_def append_eq_append_conv2 append_eq_Cons_conv)

lemma release_copies:
  assumes "release_pair K name key_dir out d = (Inr (), d')" and name: "47 \<notin> set name"
  shows "\<exists>fs fp. dk_files d (priv_of key_dir name) = Some fs \<and> dk_files d (pub_of key_dir name) = Some fp \<and>
    dk_files d' (priv_of out name) = Some \<lparr>f_data = f_data fs, f_mode = 384\<rparr> \<and>
    dk_files d' (pub_of out name) = Some \<lparr>f_data = f_data fp, f_mode = 420\<rparr>"
proof -
  obtain d1 d2 d2a d3 d4 d4a d5 d6 bs bp where
    steps: "check_pair K name key_dir d = (Inr (), d1)" "make_dirs K out d1 = (Inr (), d2)"
      "read_data K (priv_of key_dir name) d2 = (Inr bs, d2a)" "write_data K (priv_of out name) bs d2a = (Inr (), d3)"
      "chmod K (priv_of out name) 384 d3 = (Inr (), d4)" "read_data K (pub_of key_dir name) d4 = (Inr bp, d4a)"
      "write_data K (pub_of out name) bp d4a = (Inr (), d5)" "chmod K (pub_of out name) 420 d5 = (Inr (), d6)"
      "write_text K (path_join out (lit ''README.txt'')) (release_note name) d6 = (Inr (), d')"
    using assms(1) unfolding release_pair_def
    by (auto elim!: thenDo_InrE andThen_InrE)
  have "dk_files d2 = dk_files d" using check_pair_inv [OF steps(1)] make_dirs_inv [OF steps(2)] by simp
  then show ?thesis
    using read_data_inv [OF steps(3)] write_data_inv [OF steps(4)] chmod_inv [OF steps(5)] read_data_inv [OF steps(6)]
      write_data_inv [OF steps(7)] chmod_inv [OF steps(8)] write_text_inv [OF steps(9)]
      note_path [OF name, of out] pair_paths_differ [OF name, of out out] pair_paths_differ [OF name, of out key_dir]
    by (auto simp: fun_upd_def split: if_splits)
qed

subsection \<open>Examples\<close>

text \<open>A library that decodes a key to its characters and takes the reverse as the public key; one file of a pair.\<close>

definition demo_keylib :: keylib where
  "demo_keylib =
     \<lparr>ke_rt = plain_rt, ke_decode = (\<lambda>s. Inr (map of_nat s)), ke_encode = (\<lambda>b. Inr (map unat b)),
      ke_public = (\<lambda>b. Inr (rev b)), ke_home = (\<lambda>_. Some (1, [lit ''home''])), ke_denied = (\<lambda>_. False),
      ke_unreadable = (\<lambda>_. False), ke_new_mode = 420, ke_avedge = (\<lambda>_ _ _. ret ())\<rparr>"

definition bare_disk :: disk where
  "bare_disk = \<lparr>dk_files = (\<lambda>_. None), dk_dirs = (\<lambda>_. False)\<rparr>"

definition half_pair :: disk where
  "half_pair = bare_disk\<lparr>dk_files := [(1, [lit ''k'', lit ''a.priv'']) \<mapsto> \<lparr>f_data = [1, 2], f_mode = 384\<rparr>]\<rparr>"

theorem existing_files_kept_witness:
  "dk_files (snd (curve_keys demo_keylib ([], []) Ensure (lit ''a'') (lit ''/k'') half_pair)) (1, [lit ''k'', lit ''a.priv'']) =
     Some \<lparr>f_data = [1, 2], f_mode = 384\<rparr>"
proof (rule existing_files_kept)
  show "keeps (holds_file (1, [lit ''k'', lit ''a.priv'']) \<lparr>f_data = [1, 2], f_mode = 384\<rparr>) (ke_avedge demo_keylib py nm dir)" for py nm dir
    by (simp add: demo_keylib_def keeps_ret)
qed (simp_all add: half_pair_def)

definition demo_secret :: pystr where
  "demo_secret = replicate 20 65 @ replicate 20 66"

theorem ensured_pair_checks_witness:
  "dk_files (snd (curve_keys demo_keylib (rev demo_secret, demo_secret) Ensure (lit ''a'') (lit ''/k'') bare_disk))
     (priv_of (1, [lit ''k'']) (lit ''a'')) = Some \<lparr>f_data = key_data demo_secret, f_mode = 384\<rparr>"
proof -
  obtain r d' where run: "curve_keys demo_keylib (rev demo_secret, demo_secret) Ensure (lit ''a'') (lit ''/k'') bare_disk = (r, d')"
    by fastforce
  have "place_for_pair demo_keylib (1, [lit ''home'']) (lit ''a'') (1, [lit ''k'']) bare_disk"
    by (simp add: place_for_pair_def makeable_def bare_disk_def demo_keylib_def path_exists_def is_dir_def avedge_repo_def
        pair_paths lit_def list_ex_iff)
  moreover have "expand_user demo_keylib (path_of (lit ''/k'')) = Inr (1, [lit ''k''])"
    by (simp add: expand_user_def path_of_def Let_def lit_def)
  moreover have "derive_public demo_keylib demo_secret = Inr (rev demo_secret)"
    by (simp add: derive_public_def demo_keylib_def demo_secret_def)
  ultimately show ?thesis
    using ensured_pair_checks [OF _ _ _ _ _ _ _ run, of "(1, [lit ''home''])" "(1, [lit ''k''])"] run
    by (simp add: demo_keylib_def good_key_def demo_secret_def list_all_iff lit_def)
qed

text \<open>With the other project's directory, but none of its interpreters, \<open>ensure\<close> ends with a traceback.\<close>

lemma ensure_without_interpreter:
  assumes "ke_home K [] = Some home" and "expand_user K (path_of dir_text) = Inr key_dir"
    and "path_exists d (avedge_repo home)" and "avedge_py home d = None"
    and "\<not> path_exists d (priv_of key_dir name)" and "\<not> path_exists d (pub_of key_dir name)"
  shows "curve_keys K fresh Ensure name dir_text d = (Inl AttributeError, d)"
  using assms by (simp add: curve_keys_def curve_keys_main_def ensure_pair_def Let_def delegates_def run_andThen key_status_def)

end
