(* ===== verification/Zre_Identity.thy ===== *)
theory Zre_Identity
  imports Zre_Keys
begin

section \<open>The identity file of the app\<close>

text \<open>
  \<open>scripts/ndk/make_identity_xml.py\<close>: the two keys of a pair as the preferences file of the app. A \<open>SystemExit\<close> with a message
  ends the program with status 1; here it is the value \<open>None\<close>. The directory of the keys is given, without its default.
\<close>

definition PUB_KEY :: pystr where "PUB_KEY = lit ''curve_pub''"
definition SEC_KEY :: pystr where "SEC_KEY = lit ''curve_sec''"

definition read_z85 :: "keylib \<Rightarrow> path \<Rightarrow> (disk, pystr option) prog" where
  "read_z85 K p =
     andThen (read_text K p) (\<lambda>raw.
     let text = py_strip (ke_rt K) raw
     in if length text \<noteq> 40 then ret None
        else (case ke_decode K text of
                Inr _ \<Rightarrow> ret (Some text)
              | Inl e \<Rightarrow> if is_value_error e then ret None else throw e))"

text \<open>\<open>xml.sax.saxutils.escape\<close>.\<close>

definition escaped_char :: "nat \<Rightarrow> pystr" where
  "escaped_char c =
    (if c = 38 then lit ''&amp;'' else if c = 62 then lit ''&gt;'' else if c = 60 then lit ''&lt;'' else [c])"

definition xml_escape :: "pystr \<Rightarrow> pystr" where
  "xml_escape s = concat (map escaped_char s)"

definition xml_entry :: "pystr \<times> pystr \<Rightarrow> pystr" where
  "xml_entry = (\<lambda>(name, v).
     lit ''    <string name='' @ [34] @ name @ [34] @ lit ''>'' @ xml_escape v @ lit ''</string>'')"

text \<open>Every line with the newline that ends it.\<close>

definition build_xml :: "(pystr \<times> pystr) list \<Rightarrow> pystr" where
  "build_xml pairs =
     concat (map (\<lambda>l. l @ [10])
       ((lit ''<?xml version='' @ [39] @ lit ''1.0'' @ [39] @ lit '' encoding='' @ [39] @ lit ''utf-8'' @ [39] @
         lit '' standalone='' @ [39] @ lit ''yes'' @ [39] @ lit '' ?>'') #
        lit ''<map>'' # map xml_entry pairs @ [lit ''</map>'']))"

definition write_identity :: "keylib \<Rightarrow> path \<Rightarrow> pystr \<Rightarrow> pystr \<Rightarrow> (disk, unit) prog" where
  "write_identity K out pub sec =
     thenDo (make_dirs K (parent out))
     (thenDo (write_text K out (build_xml [(PUB_KEY, pub), (SEC_KEY, sec)]))
       (chmod K out 384))"

text \<open>\<open>main\<close>, with its exit status.\<close>

definition make_identity :: "keylib \<Rightarrow> pystr \<Rightarrow> pystr \<Rightarrow> pystr \<Rightarrow> (disk, int) prog" where
  "make_identity K name dir_text out_text =
     andThen (lift_exn (expand_user K (path_of dir_text))) (\<lambda>key_dir.
     andThen (read_z85 K (pub_of key_dir name)) (\<lambda>pub.
     case pub of
       None \<Rightarrow> ret 1
     | Some pub \<Rightarrow>
         andThen (read_z85 K (priv_of key_dir name)) (\<lambda>sec.
         case sec of
           None \<Rightarrow> ret 1
         | Some sec \<Rightarrow> thenDo (write_identity K (path_of out_text) pub sec) (ret 0))))"

end
