(* ===== verification/Zre_Identity_Properties.thy ===== *)
theory Zre_Identity_Properties
  imports Zre_Identity Zre_Keys_Properties
begin

section \<open>Properties of the identity file\<close>

text \<open>The app reads from the file the keys that the key files hold.\<close>

subsection \<open>Reading the file back\<close>

text \<open>
  A reader of such files: the entries of the map, one in a line, with the three references of the escape resolved. Another
  reference, or an ampersand on its own, has no reading.
\<close>

fun xml_unescape :: "pystr \<Rightarrow> pystr option" where
  "xml_unescape [] = Some []"
| "xml_unescape (c # s) =
    (if c \<noteq> 38 then map_option ((#) c) (xml_unescape s)
     else if starts_with (lit ''amp;'') s then map_option ((#) 38) (xml_unescape (drop 4 s))
     else if starts_with (lit ''gt;'') s then map_option ((#) 62) (xml_unescape (drop 3 s))
     else if starts_with (lit ''lt;'') s then map_option ((#) 60) (xml_unescape (drop 3 s))
     else None)"

definition read_entry :: "pystr \<Rightarrow> (pystr \<times> pystr) option" where
  "read_entry line =
    (let front = lit ''    <string name='' @ [34]
     in if \<not> starts_with front line then None
        else (let rest = drop (length front) line;
                  name = takeWhile (\<lambda>c. c \<noteq> 34) rest;
                  body = drop (length name + 2) rest
              in if dropWhile (\<lambda>c. c \<noteq> 60) body \<noteq> lit ''</string>'' then None
                 else map_option (Pair name) (xml_unescape (takeWhile (\<lambda>c. c \<noteq> 60) body))))"

definition read_prefs :: "pystr \<Rightarrow> (pystr \<times> pystr) list" where
  "read_prefs xml = List.map_filter read_entry (split_on 10 xml)"

lemma starts_with_own: "starts_with p (p @ s)"
  by (simp add: starts_with_def)

lemma unescape_char: "xml_unescape (escaped_char c @ s) = map_option ((#) c) (xml_unescape s)"
  by (simp add: escaped_char_def lit_def starts_with_def)

lemma unescape_escape: "xml_unescape (xml_escape v) = Some v"
  by (induction v) (simp_all add: xml_escape_def unescape_char)

lemma escape_chars: "60 \<notin> set (xml_escape v)" "10 \<notin> set v \<Longrightarrow> 10 \<notin> set (xml_escape v)"
  by (induction v) (auto simp: xml_escape_def escaped_char_def lit_def split: if_splits)

lemma read_entry_entry: "34 \<notin> set name \<Longrightarrow> read_entry (xml_entry (name, v)) = Some (name, v)"
proof -
  assume name: "34 \<notin> set name"
  let ?front = "lit ''    <string name='' @ [34]"
  have line: "xml_entry (name, v) = ?front @ name @ 34 # 62 # xml_escape v @ lit ''</string>''"
    by (simp add: xml_entry_def lit_def)
  have "takeWhile (\<lambda>c. c \<noteq> 34) (name @ 34 # 62 # xml_escape v @ lit ''</string>'') = name"
    using name by (auto simp: takeWhile_append)
  moreover have "lit ''</string>'' = 60 # lit ''/string>''" by (simp add: lit_def)
  moreover have "takeWhile (\<lambda>c. c \<noteq> 60) (xml_escape v @ 60 # lit ''/string>'') = xml_escape v"
    "dropWhile (\<lambda>c. c \<noteq> 60) (xml_escape v @ 60 # lit ''/string>'') = 60 # lit ''/string>''"
    using escape_chars(1) [of v] by (auto simp: takeWhile_append dropWhile_append)
  ultimately show ?thesis
    unfolding line read_entry_def Let_def by (simp add: starts_with_def unescape_escape)
qed

lemma split_lines:
  "\<forall>l \<in> set ls. 10 \<notin> set l \<Longrightarrow> split_on 10 (concat (map (\<lambda>l. l @ [10]) ls)) = ls @ [[]]"
  by (induction ls) (auto simp: split_on_sep)

lemma entry_line: "10 \<notin> set name \<Longrightarrow> 10 \<notin> set v \<Longrightarrow> 10 \<notin> set (xml_entry (name, v))"
  using escape_chars(2) [of v] by (simp add: xml_entry_def lit_def)

lemma map_filter_both: "List.map_filter f (xs @ ys) = List.map_filter f xs @ List.map_filter f ys"
  by (simp add: List.map_filter_def)

lemma read_build:
  assumes "\<forall>(name, v) \<in> set pairs. 34 \<notin> set name \<and> 10 \<notin> set name \<and> 10 \<notin> set v"
  shows "read_prefs (build_xml pairs) = pairs"
proof -
  have entries: "List.map_filter read_entry (map xml_entry ps) = ps"
    if "\<forall>(name, v) \<in> set ps. 34 \<notin> set name" for ps
    using that by (induction ps) (auto simp: read_entry_entry List.map_filter_simps)
  have others: "read_entry (lit ''<?xml version='' @ s) = None" "read_entry (lit ''<map>'') = None"
    "read_entry (lit ''</map>'') = None" "read_entry [] = None" for s
    by (simp_all add: read_entry_def starts_with_def lit_def)
  have "split_on 10 (build_xml pairs) =
     ((lit ''<?xml version='' @ [39] @ lit ''1.0'' @ [39] @ lit '' encoding='' @ [39] @ lit ''utf-8'' @ [39] @
         lit '' standalone='' @ [39] @ lit ''yes'' @ [39] @ lit '' ?>'') #
        lit ''<map>'' # map xml_entry pairs @ [lit ''</map>'']) @ [[]]"
    unfolding build_xml_def
    by (rule split_lines) (use assms entry_line in \<open>auto simp: lit_def\<close>)
  then show ?thesis
    using entries [of pairs] assms
    by (simp add: read_prefs_def List.map_filter_simps others map_filter_both split_beta)
qed

text \<open>The file that is written: its text and its mode.\<close>

lemma write_text_kept:
  "write_text K p s d = (Inr u, d') \<Longrightarrow> \<exists>b m. utf8_encode s = Inr b \<and> dk_files d' p = Some \<lparr>f_data = b, f_mode = m\<rparr>"
  by (auto simp: write_text_def open_write_def set_file_def run_andThen Let_def split: if_splits sum.splits)

lemma write_identity_kept:
  assumes "write_identity K out pub sec d = (Inr u, d')"
  shows "\<exists>b. utf8_encode (build_xml [(PUB_KEY, pub), (SEC_KEY, sec)]) = Inr b \<and>
    dk_files d' out = Some \<lparr>f_data = b, f_mode = 384\<rparr>"
proof -
  obtain d1 d2 v w where "write_text K out (build_xml [(PUB_KEY, pub), (SEC_KEY, sec)]) d1 = (Inr v, d2)"
    and "chmod K out 384 d2 = (Inr w, d')"
    using assms unfolding write_identity_def by (auto elim!: thenDo_InrE)
  then obtain b m f where "utf8_encode (build_xml [(PUB_KEY, pub), (SEC_KEY, sec)]) = Inr b"
    "dk_files d2 out = Some \<lparr>f_data = b, f_mode = m\<rparr>"
    "dk_files d2 out = Some f" "dk_files d' = (dk_files d2)(out \<mapsto> f\<lparr>f_mode := 384\<rparr>)"
    using write_text_kept [of K out _ d1 v d2] chmod_inv [of K out 384 d2 w d'] by blast
  then show ?thesis by auto
qed

lemma utf8_decode_encoded: "utf8_encode s = Inr b \<Longrightarrow> utf8_decode b = Inr s"
  using utf8.dec_enc [of s b] by (auto simp: utf8_encode_def split: if_splits)

text \<open>
  C39: if no text that the key library decodes holds a newline, and the program ends with status 0, the file it leaves is readable
  by its owner alone, and a reader of it finds under the two names the two keys, whatever characters of Z85 they hold.
\<close>

theorem identity_read_back:
  assumes "\<And>t b. ke_decode K t = Inr b \<Longrightarrow> 10 \<notin> set t"
    and "make_identity K name dir_text out_text d = (Inr 0, d')"
  shows "\<exists>key_dir pub sec data content. expand_user K (path_of dir_text) = Inr key_dir \<and>
    read_z85 K (pub_of key_dir name) d = (Inr (Some pub), d) \<and> read_z85 K (priv_of key_dir name) d = (Inr (Some sec), d) \<and>
    dk_files d' (path_of out_text) = Some \<lparr>f_data = data, f_mode = 384\<rparr> \<and> utf8_decode data = Inr content \<and>
    read_prefs content = [(PUB_KEY, pub), (SEC_KEY, sec)]"
proof -
  have same: "read_z85 K p s = (r, s') \<Longrightarrow> s' = s" for p s r s'
    by (auto simp: read_z85_def read_text_def read_data_def run_andThen Let_def split: if_splits sum.splits option.splits)
  have no_newline: "read_z85 K p s = (Inr (Some t), s') \<Longrightarrow> 10 \<notin> set t" for p s t s'
    using assms(1)
    by (auto simp: read_z85_def run_andThen Let_def split: if_splits sum.splits prod.splits)
  obtain key_dir pub sec s1 s2 where dir: "expand_user K (path_of dir_text) = Inr key_dir"
    and pub: "read_z85 K (pub_of key_dir name) d = (Inr (Some pub), s1)"
    and sec: "read_z85 K (priv_of key_dir name) s1 = (Inr (Some sec), s2)"
    and written: "write_identity K (path_of out_text) pub sec s2 = (Inr (), d')"
    using assms(2) unfolding make_identity_def
    by (auto elim!: andThen_InrE thenDo_InrE split: option.splits)
  have "read_prefs (build_xml [(PUB_KEY, pub), (SEC_KEY, sec)]) = [(PUB_KEY, pub), (SEC_KEY, sec)]"
    using no_newline [OF pub] no_newline [OF sec] by (intro read_build) (simp add: PUB_KEY_def SEC_KEY_def lit_def)
  then show ?thesis
    using dir pub sec same [OF pub] same [OF sec] write_identity_kept [OF written] utf8_decode_encoded by metis
qed

text \<open>A library whose keys are of the characters that XML escapes, and a disk with a pair.\<close>

definition odd_keylib :: keylib where
  "odd_keylib = demo_keylib\<lparr>ke_decode := (\<lambda>s. if 10 \<in> set s then Inl ValueError else Inr [])\<rparr>"

definition odd_pair :: disk where
  "odd_pair = bare_disk\<lparr>dk_files :=
     [(1, [lit ''k'', lit ''a.pub'']) \<mapsto> \<lparr>f_data = key_data (replicate 40 38), f_mode = 420\<rparr>,
      (1, [lit ''k'', lit ''a.priv'']) \<mapsto> \<lparr>f_data = key_data (replicate 40 60), f_mode = 384\<rparr>]\<rparr>"

lemma read_odd:
  assumes "c = 38 \<or> c = 60" "dk_files d p = Some \<lparr>f_data = key_data (replicate 40 c), f_mode = m\<rparr>"
  shows "read_z85 odd_keylib p d = (Inr (Some (replicate 40 c)), d)"
proof -
  have key: "good_key odd_keylib (replicate 40 c)"
    using assms(1) by (auto simp: good_key_def odd_keylib_def list_all_iff)
  have "read_text odd_keylib p d = (Inr (replicate 40 c @ [10]), d)"
    using read_key_text [OF assms(2) _ key] by (simp add: odd_keylib_def demo_keylib_def)
  then show ?thesis
    using assms(1) strip_key [OF key] by (auto simp: read_z85_def run_andThen odd_keylib_def Let_def)
qed

theorem identity_read_back_witness:
  "\<exists>data content.
    dk_files (snd (make_identity odd_keylib (lit ''a'') (lit ''/k'') (lit ''out.xml'') odd_pair)) (path_of (lit ''out.xml'')) =
      Some \<lparr>f_data = data, f_mode = 384\<rparr> \<and> utf8_decode data = Inr content \<and>
    read_prefs content = [(PUB_KEY, replicate 40 38), (SEC_KEY, replicate 40 60)]"
proof -
  have paths: "expand_user odd_keylib (path_of (lit ''/k'')) = Inr (1, [lit ''k''])"
    "pub_of (1, [lit ''k'']) (lit ''a'') = (1, [lit ''k'', lit ''a.pub''])"
    "priv_of (1, [lit ''k'']) (lit ''a'') = (1, [lit ''k'', lit ''a.priv''])"
    "path_of (lit ''out.xml'') = (0, [lit ''out.xml''])"
    by (simp_all add: expand_user_def path_of_def Let_def pair_paths path_of_one lit_def)
  have reads: "read_z85 odd_keylib (1, [lit ''k'', lit ''a.pub'']) odd_pair = (Inr (Some (replicate 40 38)), odd_pair)"
    "read_z85 odd_keylib (1, [lit ''k'', lit ''a.priv'']) odd_pair = (Inr (Some (replicate 40 60)), odd_pair)"
    by (rule read_odd; simp add: odd_pair_def lit_def)+
  have "ascii (build_xml [(PUB_KEY, replicate 40 38), (SEC_KEY, replicate 40 60)])"
    by (simp add: build_xml_def xml_entry_def PUB_KEY_def SEC_KEY_def xml_escape_def escaped_char_def lit_def ascii_def
        list_all_iff)
  then have "\<exists>d'. write_identity odd_keylib (0, [lit ''out.xml'']) (replicate 40 38) (replicate 40 60) odd_pair = (Inr (), d')"
    using utf8_encode_ascii
    by (simp add: write_identity_def make_dirs_def is_dir_def parent_def write_text_def open_write_def chmod_def set_file_def
        run_andThen run_thenDo odd_keylib_def demo_keylib_def odd_pair_def bare_disk_def Let_def)
  then obtain d' where run: "make_identity odd_keylib (lit ''a'') (lit ''/k'') (lit ''out.xml'') odd_pair = (Inr 0, d')"
    using paths reads by (auto simp: make_identity_def run_andThen run_thenDo)
  have "\<And>t b. ke_decode odd_keylib t = Inr b \<Longrightarrow> 10 \<notin> set t" by (auto simp: odd_keylib_def split: if_splits)
  from identity_read_back [OF this run] show ?thesis
    using paths reads run by auto
qed

end
