(* ===== verification/Zre_Smoke.thy ===== *)
theory Zre_Smoke
  imports Zre_Ex_Common
begin

section \<open>The driver of the cross-network test: its two machines\<close>

text \<open>
  \<open>scripts/cross_smoke.py\<close> runs every example between the local machine and one that it reaches by \<open>ssh\<close>, with both
  distributions of the roles. This theory holds the commands it builds and what it does on a machine.

  The state is the list of what the driver has done so far, newest first, the clock and the counter of the example names. How
  the machines answer is an argument: a function of what has been done. What is printed is left out.
\<close>

subsection \<open>Quoting for the shell\<close>

text \<open>\<open>shlex.quote\<close>: a word of harmless characters is left alone, another goes between single quotes.\<close>

definition shell_safe :: "nat \<Rightarrow> bool" where
  "shell_safe c \<longleftrightarrow>
     48 \<le> c \<and> c \<le> 57 \<or> 65 \<le> c \<and> c \<le> 90 \<or> 97 \<le> c \<and> c \<le> 122 \<or> c \<in> set (lit ''_@%+=:,./-'')"

definition quoted_char :: "nat \<Rightarrow> pystr" where
  "quoted_char c = (if c = 39 then [39, 34, 39, 34, 39] else [c])"

definition sh_quote :: "pystr \<Rightarrow> pystr" where
  "sh_quote s =
    (if s = [] then [39, 39]
     else if list_all shell_safe s then s
     else 39 # concat (map quoted_char s) @ [39])"

text \<open>\<open>sep.join(ws)\<close>.\<close>

fun join_words :: "pystr \<Rightarrow> pystr list \<Rightarrow> pystr" where
  "join_words sep [] = []"
| "join_words sep [w] = w"
| "join_words sep (w # ws) = w @ sep @ join_words sep ws"

definition argv_str :: "pystr list \<Rightarrow> pystr" where
  "argv_str argv = join_words (lit '' '') (map sh_quote argv)"

subsection \<open>What the driver does\<close>

datatype act =
    ShellRun pystr int                      \<comment> \<open>\<open>subprocess.run(cmd, shell=True, timeout=...)\<close>\<close>
  | ArgvRun "pystr list" "int option"       \<comment> \<open>\<open>subprocess.run([...], timeout=...)\<close>\<close>
  | Spawn pystr pystr                       \<comment> \<open>\<open>subprocess.Popen\<close> with the log it writes to\<close>
  | ReadText pystr
  | HashFile pystr
  | Urandom nat
  | WriteFile pystr bytes
  | Unlink pystr
  | KillChild nat                           \<comment> \<open>by its place among the children\<close>
  | MakeLogDir pystr
  | Sleep real

text \<open>
  The outside: a command ends with a status, its output and its errors, or raises; a file has its bytes, or cannot be
  opened. Every action takes its time.
\<close>

record smoke_env =
  sx_rt :: pyrt
  sx_sha256 :: "bytes \<Rightarrow> bytes"
  sx_executable :: pystr
  sx_home :: "pystr \<Rightarrow> pystr option"
  sx_run :: "act list \<Rightarrow> act \<Rightarrow> exn + (int \<times> pystr \<times> pystr)"
  sx_file :: "act list \<Rightarrow> act \<Rightarrow> bytes option"
  sx_random :: "act list \<Rightarrow> nat \<Rightarrow> bytes"
  sx_took :: "act list \<Rightarrow> act \<Rightarrow> real"

record driver =
  dr_acts :: "act list"
  dr_now :: real
  dr_children :: nat       \<comment> \<open>\<open>Local.procs\<close>: how many there are\<close>
  dr_rid :: nat            \<comment> \<open>\<open>Ctx.rid_counter\<close>\<close>

text \<open>Time goes on by what the action takes, and does not run backwards.\<close>

definition act_time :: "smoke_env \<Rightarrow> act \<Rightarrow> driver \<Rightarrow> real" where
  "act_time X a s = (case a of Sleep t \<Rightarrow> max 0 t | _ \<Rightarrow> max 0 (sx_took X (dr_acts s) a))"

definition perform :: "smoke_env \<Rightarrow> act \<Rightarrow> (driver, unit) prog" where
  "perform X a = modify (\<lambda>s. s\<lparr>dr_acts := a # dr_acts s, dr_now := dr_now s + act_time X a s\<rparr>)"

definition run_act :: "smoke_env \<Rightarrow> act \<Rightarrow> (driver, int \<times> pystr \<times> pystr) prog" where
  "run_act X a = andThen (gets dr_acts) (\<lambda>past. thenDo (perform X a) (lift_exn (sx_run X past a)))"

definition file_act :: "smoke_env \<Rightarrow> act \<Rightarrow> (driver, bytes option) prog" where
  "file_act X a = andThen (gets dr_acts) (\<lambda>past. thenDo (perform X a) (ret (sx_file X past a)))"

definition sleep :: "smoke_env \<Rightarrow> real \<Rightarrow> (driver, unit) prog" where
  "sleep X t = perform X (Sleep t)"

subsection \<open>The two sides\<close>

text \<open>\<open>Local(iface, log_dir)\<close> and \<open>Remote(peer, password, remote_dir, iface, remote_log_dir)\<close>.\<close>

datatype side =
    LocalSide "pystr option" pystr
  | RemoteSide pystr pystr pystr "pystr option" pystr

fun side_name :: "side \<Rightarrow> pystr" where
  "side_name (LocalSide _ _) = lit ''local''"
| "side_name (RemoteSide _ _ _ _ _) = lit ''remote''"

fun side_iface :: "side \<Rightarrow> pystr option" where
  "side_iface (LocalSide iface _) = iface"
| "side_iface (RemoteSide _ _ _ iface _) = iface"

fun side_log_dir :: "side \<Rightarrow> pystr" where
  "side_log_dir (LocalSide _ log_dir) = log_dir"
| "side_log_dir (RemoteSide _ _ _ _ log_dir) = log_dir"

fun side_python :: "smoke_env \<Rightarrow> side \<Rightarrow> pystr" where
  "side_python X (LocalSide _ _) = sx_executable X"
| "side_python X (RemoteSide _ _ remote_dir _ _) = remote_dir @ lit ''/.venv/bin/python''"

text \<open>\<open>os.path.expanduser\<close>, applied to the directory on the other machine.\<close>

definition expanduser :: "smoke_env \<Rightarrow> pystr \<Rightarrow> pystr" where
  "expanduser X s =
    (if \<not> starts_with (lit ''~'') s then s
     else (let user = takeWhile (\<lambda>c. c \<noteq> 47) (tl s); rest = dropWhile (\<lambda>c. c \<noteq> 47) (tl s)
           in case sx_home X user of
                None \<Rightarrow> s
              | Some home \<Rightarrow>
                  (let whole = rev (dropWhile (\<lambda>c. c = 47) (rev home)) @ rest
                   in if whole = [] then lit ''/'' else whole)))"

definition new_remote :: "smoke_env \<Rightarrow> pystr \<Rightarrow> pystr \<Rightarrow> pystr \<Rightarrow> pystr option \<Rightarrow> side" where
  "new_remote X peer password remote_dir iface =
     RemoteSide peer password (expanduser X remote_dir) iface (lit ''/tmp'')"

definition ssh_base :: "pystr \<Rightarrow> pystr \<Rightarrow> pystr list" where
  "ssh_base peer password =
     [lit ''sshpass'', lit ''-p'', password, lit ''ssh'', lit ''-o'', lit ''StrictHostKeyChecking=no'',
      lit ''-o'', lit ''ConnectTimeout=10'', peer]"

definition in_remote_dir :: "pystr \<Rightarrow> pystr \<Rightarrow> pystr" where
  "in_remote_dir remote_dir cmd = lit ''cd '' @ sh_quote remote_dir @ lit '' && '' @ cmd"

fun run_fg :: "smoke_env \<Rightarrow> side \<Rightarrow> pystr \<Rightarrow> int \<Rightarrow> (driver, int \<times> pystr) prog" where
  "run_fg X (LocalSide _ _) cmd timeout =
     andThen (run_act X (ShellRun cmd (timeout + 10))) (\<lambda>(rc, out, err). ret (rc, out @ err))"
| "run_fg X (RemoteSide peer password remote_dir _ _) cmd timeout =
     andThen (run_act X (ArgvRun (ssh_base peer password @ [in_remote_dir remote_dir cmd]) (Some (timeout + 15))))
       (\<lambda>(rc, out, err). ret (rc, out @ err))"

definition detached :: "pystr \<Rightarrow> pystr \<Rightarrow> pystr" where
  "detached cmd log_path =
     lit ''(nohup bash -c '' @ sh_quote cmd @ lit '' > '' @ sh_quote log_path @
     lit '' 2>&1 < /dev/null &); sleep 0.3; echo started''"

text \<open>A child that cannot be started, or a log that cannot be opened, is an exception of the answer.\<close>

fun run_bg :: "smoke_env \<Rightarrow> side \<Rightarrow> pystr \<Rightarrow> pystr \<Rightarrow> (driver, unit) prog" where
  "run_bg X (LocalSide _ log_dir) cmd logname =
     andThen (run_act X (Spawn cmd (log_dir @ lit ''/'' @ logname))) (\<lambda>_.
       modify (\<lambda>s. s\<lparr>dr_children := dr_children s + 1\<rparr>))"
| "run_bg X (RemoteSide peer password remote_dir _ log_dir) cmd logname =
     andThen (run_act X (ArgvRun
       (ssh_base peer password @ [in_remote_dir remote_dir (detached cmd (log_dir @ lit ''/'' @ logname))]) (Some 30)))
       (\<lambda>_. ret ())"

fun pkill :: "smoke_env \<Rightarrow> side \<Rightarrow> pystr \<Rightarrow> (driver, unit) prog" where
  "pkill X (LocalSide _ _) regex =
     andThen (run_act X (ArgvRun [lit ''pkill'', lit ''-f'', lit ''--'', regex] None)) (\<lambda>_. ret ())"
| "pkill X (RemoteSide peer password _ _ _) regex =
     andThen (run_act X (ArgvRun (ssh_base peer password @ [lit ''pkill -f -- '' @ sh_quote regex]) (Some 20))) (\<lambda>_. ret ())"

fun read_file :: "smoke_env \<Rightarrow> side \<Rightarrow> pystr \<Rightarrow> (driver, pystr) prog" where
  "read_file X (LocalSide _ _) file_path =
     andThen (file_act X (ReadText file_path)) (\<lambda>b. ret (case b of None \<Rightarrow> [] | Some b \<Rightarrow> universal_newlines (utf8_decode_replace b)))"
| "read_file X (RemoteSide peer password _ _ _) file_path =
     catch (\<lambda>e. e = TimeoutExpired)
       (andThen (run_act X (ArgvRun (ssh_base peer password @ [lit ''cat '' @ sh_quote file_path @ lit '' 2>/dev/null'']) (Some 20)))
         (\<lambda>(rc, out, err). ret out))
       (\<lambda>_. ret [])"

fun sha256_of :: "smoke_env \<Rightarrow> side \<Rightarrow> pystr \<Rightarrow> (driver, pystr) prog" where
  "sha256_of X (LocalSide _ _) file_path =
     andThen (file_act X (HashFile file_path)) (\<lambda>b. ret (case b of None \<Rightarrow> [] | Some b \<Rightarrow> bytes_hex (sx_sha256 X b)))"
| "sha256_of X (RemoteSide peer password dir iface log_dir) file_path =
     andThen (run_fg X (RemoteSide peer password dir iface log_dir) (lit ''sha256sum '' @ sh_quote file_path @ lit '' 2>/dev/null'') 20)
       (\<lambda>(rc, out). ret (case split_words (sx_rt X) [] out of [] \<Rightarrow> [] | w # _ \<Rightarrow> w))"

definition urandom :: "smoke_env \<Rightarrow> nat \<Rightarrow> (driver, bytes) prog" where
  "urandom X count = andThen (gets dr_acts) (\<lambda>past. thenDo (perform X (Urandom count)) (ret (sx_random X past count)))"

text \<open>\<open>write_bytes\<close>: a random file, on the other machine by way of a copy; its digest.\<close>

fun write_random :: "smoke_env \<Rightarrow> side \<Rightarrow> pystr \<Rightarrow> nat \<Rightarrow> (driver, pystr) prog" where
  "write_random X (LocalSide _ _) file_path count =
     andThen (urandom X count) (\<lambda>data.
     andThen (run_act X (WriteFile file_path data)) (\<lambda>_. ret (bytes_hex (sx_sha256 X data))))"
| "write_random X (RemoteSide peer password _ _ _) file_path count =
    (let tmp = lit ''/tmp/xsmoke-payload.bin''
     in andThen (urandom X count) (\<lambda>data.
        andThen (run_act X (WriteFile tmp data)) (\<lambda>_.
        andThen (run_act X (ArgvRun [lit ''sshpass'', lit ''-p'', password, lit ''scp'', lit ''-o'',
            lit ''StrictHostKeyChecking=no'', tmp, peer @ lit '':'' @ file_path] (Some 60))) (\<lambda>(rc, _, _).
        if rc \<noteq> 0 then throw CalledProcessError
        else andThen (run_act X (Unlink tmp)) (\<lambda>_. ret (bytes_hex (sx_sha256 X data)))))))"

definition kill_all :: "smoke_env \<Rightarrow> side \<Rightarrow> (driver, unit) prog" where
  "kill_all X S =
    (case S of
       LocalSide _ _ \<Rightarrow>
         andThen (gets dr_children) (\<lambda>n.
         thenDo (for_each (\<lambda>i. perform X (KillChild i)) [0..<n])
           (modify (\<lambda>s. s\<lparr>dr_children := 0\<rparr>)))
     | RemoteSide _ _ _ _ _ \<Rightarrow> ret ())"

definition rm_rf :: "smoke_env \<Rightarrow> side \<Rightarrow> pystr \<Rightarrow> (driver, unit) prog" where
  "rm_rf X S file_path = andThen (run_fg X S (lit ''rm -rf '' @ sh_quote file_path) 15) (\<lambda>_. ret ())"

subsection \<open>Examples\<close>

definition UUID_PREFIX :: pystr where
  "UUID_PREFIX = lit ''xsmoke-''"

definition label_hex :: "smoke_env \<Rightarrow> pystr \<Rightarrow> exn + pystr" where
  "label_hex X label = obind (utf8_encode label) (\<lambda>b. Inr (take 32 (bytes_hex (sx_sha256 X b))))"

text \<open>The arguments of an example; the timeouts are not scaled on either side.\<close>

definition example_argv :: "side \<Rightarrow> pystr list \<Rightarrow> pystr \<Rightarrow> pystr list" where
  "example_argv S argv rid =
    (let iface = (case side_iface S of None \<Rightarrow> [] | Some i \<Rightarrow> i);
         argv' = (if iface \<noteq> [] \<and> lit ''--interface'' \<notin> set argv then argv @ [lit ''--interface'', iface] else argv)
     in argv' @ [lit ''--uuid'', UUID_PREFIX @ rid])"

definition example_cmd :: "smoke_env \<Rightarrow> side \<Rightarrow> pystr \<Rightarrow> pystr list \<Rightarrow> pystr \<Rightarrow> nat \<Rightarrow> pystr" where
  "example_cmd X S example argv rid timeout =
     lit ''timeout '' @ show_nat timeout @ lit '' '' @ side_python X S @ lit '' -u examples/'' @ example @ lit ''.py '' @
     argv_str (example_argv S argv rid)"

definition log_name :: "pystr \<Rightarrow> pystr" where
  "log_name rid = lit ''xsmoke-'' @ rid @ lit ''.log''"

definition log_path :: "side \<Rightarrow> pystr \<Rightarrow> pystr" where
  "log_path S rid = side_log_dir S @ lit ''/xsmoke-'' @ rid @ lit ''.log''"

definition pkill_marker :: "smoke_env \<Rightarrow> side \<Rightarrow> pystr \<Rightarrow> (driver, unit) prog" where
  "pkill_marker X S rid = pkill X S (lit ''--uui[d] '' @ UUID_PREFIX @ rid)"

definition start_example :: "smoke_env \<Rightarrow> side \<Rightarrow> pystr \<Rightarrow> pystr list \<Rightarrow> pystr \<Rightarrow> nat \<Rightarrow> (driver, unit) prog" where
  "start_example X S example argv rid timeout =
     thenDo (rm_rf X S (log_path S rid))
       (run_bg X S (example_cmd X S example argv rid timeout) (log_name rid))"

text \<open>\<open>pattern in text\<close>.\<close>

definition occurs_in :: "pystr \<Rightarrow> pystr \<Rightarrow> bool" where
  "occurs_in pat s \<longleftrightarrow> split_once pat s \<noteq> None"

text \<open>\<open>wait_log\<close>: read the log every half second until the pattern is there or the time is over.\<close>

lemma act_time_nonneg: "0 \<le> act_time X a s"
  by (simp add: act_time_def split: act.split)

lemma run_perform: "perform X a s = (Inr (), s\<lparr>dr_acts := a # dr_acts s, dr_now := dr_now s + act_time X a s\<rparr>)"
  by (simp add: perform_def)

lemma keeps_now [keeps_rules]: "keeps (\<lambda>s. t \<le> dr_now s) (perform X a)"
  using act_time_nonneg by (auto simp: keeps_def run_perform add_increasing2)

lemma keeps_read_file:
  assumes "\<And>a. keeps I (perform X a)"
  shows "keeps I (read_file X S f)"
  by (cases S) (auto simp: file_act_def run_act_def intro!: keeps_rules assms)

lemma read_file_now: "read_file X S f s = (r, s') \<Longrightarrow> dr_now s \<le> dr_now s'"
  using keepsD [OF keeps_read_file [of "\<lambda>u. dr_now s \<le> dr_now u", OF keeps_now]] by blast

lemma ceiling_drops:
  fixes a b :: real
  assumes "b + 1 \<le> a" "0 < a"
  shows "nat \<lceil>b\<rceil> < nat \<lceil>a\<rceil>"
proof -
  have "\<lceil>b\<rceil> + 1 \<le> \<lceil>a\<rceil>" using ceiling_mono [OF assms(1)] by simp
  then show ?thesis using assms(2) by linarith
qed

function poll_log :: "smoke_env \<Rightarrow> side \<Rightarrow> pystr \<Rightarrow> pystr \<Rightarrow> real \<Rightarrow> (driver, bool) prog" where
  "poll_log X S file_path pat deadline s =
    (if dr_now s < deadline
     then (case read_file X S file_path s of
         (Inl e, s') \<Rightarrow> (Inl e, s')
       | (Inr content, s') \<Rightarrow>
           if occurs_in pat content then (Inr True, s')
           else poll_log X S file_path pat deadline (snd (sleep X (1/2) s')))
     else (Inr False, s))"
  by pat_completeness auto
termination
proof (relation "measure (\<lambda>(X, S, file_path, pat, deadline, s). nat \<lceil>2 * (deadline - dr_now s)\<rceil>)")
  fix X S file_path pat deadline and s s' :: driver and r w
  assume now: "dr_now s < deadline" and read: "(r, s') = read_file X S file_path s"
  then have "dr_now s + 1/2 \<le> dr_now (snd (sleep X (1/2) s'))"
    using read_file_now [of X S file_path s r s'] by (simp add: sleep_def run_perform act_time_def)
  then have "nat \<lceil>2 * (deadline - dr_now (snd (sleep X (1/2) s')))\<rceil> < nat \<lceil>2 * (deadline - dr_now s)\<rceil>"
    using now by (intro ceiling_drops) auto
  then show "((X, S, file_path, pat, deadline, snd (sleep X (1/2) s')), X, S, file_path, pat, deadline, s)
      \<in> measure (\<lambda>(X, S, file_path, pat, deadline, s). nat \<lceil>2 * (deadline - dr_now s)\<rceil>)"
    by simp
qed simp

declare poll_log.simps [simp del]

definition wait_log :: "smoke_env \<Rightarrow> side \<Rightarrow> pystr \<Rightarrow> pystr \<Rightarrow> real \<Rightarrow> (driver, bool) prog" where
  "wait_log X S file_path pat timeout = (\<lambda>s. poll_log X S file_path pat (dr_now s + timeout) s)"

end
