(* ===== verification/Zre_Smoke_Tests.thy ===== *)
theory Zre_Smoke_Tests
  imports Zre_Smoke
begin

section \<open>The driver of the cross-network test: its tests\<close>

text \<open>
  The functions
      that \<open>@test\<close>
      collects in \<open>scripts/cross_smoke.py\<close>. Each starts an example on the two sides, waits for
  what must appear in their logs, stops them and says what is missing.
\<close>

subsection \<open>What the tests share\<close>

text \<open>\<open>ctx.ports\<close>.\<close>

record ports =
  po_udp :: "(pystr \<times> int) list"
  po_wan_listen :: int
  po_gossip_listen :: int
  po_first_addr :: pystr
  po_remote_addr :: pystr

definition port_of :: "ports \<Rightarrow> pystr \<Rightarrow> (driver, int) prog" where
  "port_of P name = lift_exn (case dict_get (po_udp P)
      name of None \<Rightarrow> Inl KeyError | Some p \<Rightarrow> Inr p)"

text \<open>\<open>Ctx.rid\<close>.\<close>

definition new_rid :: "pystr \<Rightarrow> side \<Rightarrow> pystr \<Rightarrow> (driver, pystr) prog" where
  "new_rid base S role =
     thenDo (modify (\<lambda>s. s\<lparr>dr_rid := dr_rid s + 1\<rparr>))
     (andThen (gets dr_rid) (\<lambda>n.
       ret (base @ lit ''-'' @ side_name S @ lit ''-'' @ role @ lit ''-'' @ show_nat n)))"

text \<open>The result of a test: whether it passed, and the text that goes with it, here before it is formatted.\<close>

datatype detail =
    NoDetail
  | Missing "pystr list"
  | Note pystr
  | Mismatch pystr pystr
  | NoLeader "pystr list" "pystr list"
  | Disagree "pystr list" "pystr list"
  | Raised exn

type_synonym outcome = "bool \<times> detail"

definition verdict :: "pystr list \<Rightarrow> bool list \<Rightarrow> outcome" where
  "verdict names oks =
    (let misses = map fst (filter (\<lambda>(_, ok). \<not> ok) (zip names oks))
     in (misses = [], if misses \<noteq> [] then Missing misses else NoDetail))"

definition passes :: "bool \<Rightarrow> pystr \<Rightarrow> outcome" where
  "passes ok complaint = (ok, if ok then NoDetail else Note complaint)"

text \<open>A row of \<open>wait_log\<close>, on the log of a side's example.\<close>

primrec await_logs :: "smoke_env \<Rightarrow> (side \<times> pystr \<times> pystr \<times> real) list \<Rightarrow> (driver, bool list) prog" where
  "await_logs X [] = ret []"
| "await_logs X (c # cs) =
     (case c of (S, rid, pat, timeout) \<Rightarrow>
       andThen (wait_log X S (log_path S rid) pat timeout) (\<lambda>ok.
       andThen (await_logs X cs) (\<lambda>oks. ret (ok # oks))))"

text \<open>The delays are given as they are printed.\<close>

definition stdin_feeder :: "(pystr \<times> pystr) list \<Rightarrow> pystr \<Rightarrow> pystr" where
  "stdin_feeder ls tail_delay =
     lit ''( '' @
     concat (map (\<lambda>(delay, line). lit ''sleep '' @ delay @ lit ''; echo '' @ sh_quote line @ lit ''; '') ls) @
     lit ''sleep '' @ tail_delay @ lit '') ''"

definition fed_command :: "smoke_env \<Rightarrow> side \<Rightarrow> pystr \<Rightarrow> pystr \<Rightarrow> pystr list \<Rightarrow> pystr \<Rightarrow> nat \<Rightarrow> pystr" where
  "fed_command X S feeder example argv rid timeout =
     feeder @ lit ''| '' @ example_cmd X S example argv rid timeout @
     lit '' > '' @ sh_quote (log_path S rid) @ lit '' 2>&1''"

type_synonym smoke_test = "smoke_env \<Rightarrow> ports \<Rightarrow> side \<Rightarrow> side \<Rightarrow> (driver, outcome) prog"

text \<open>What the last two groups of tests dial and say.\<close>

definition wan_target :: "ports \<Rightarrow> pystr" where
  "wan_target P = po_first_addr P @ lit '':'' @ show_int (po_wan_listen P)"

definition wan_text :: "side \<Rightarrow> side \<Rightarrow> pystr" where
  "wan_text first second = lit ''wan-'' @ side_name first @ lit ''-to-'' @ side_name second"

definition gossip_hub :: "ports \<Rightarrow> side \<Rightarrow> pystr" where
  "gossip_hub P first =
     (if side_name first = lit ''local'' then po_first_addr P else po_remote_addr P) @ lit '':'' @
     show_int (po_gossip_listen P)"

definition gossip_text :: "side \<Rightarrow> side \<Rightarrow> pystr" where
  "gossip_text first second = lit ''gossip-'' @ side_name first @ lit ''-to-'' @ side_name second"

text \<open>\<open>re.findall(r"LEADER \S+ (\S{8}) in XWORK", text)\<close>. No part of the pattern can match in two ways.\<close>

definition leader_line :: "pyrt \<Rightarrow> pystr \<Rightarrow> (pystr \<times> pystr) option" where
  "leader_line R s =
    (if \<not> starts_with (lit ''LEADER '') s then None
     else (let name = takeWhile (\<lambda>c. \<not> py_space R c) (drop 7 s);
               rest = dropWhile (\<lambda>c. \<not> py_space R c) (drop 7 s);
               found = take 8 (drop 1 rest)
           in if name \<noteq> [] \<and> starts_with (lit '' '') rest \<and> length found = 8 \<and>
                 list_all (\<lambda>c. \<not> py_space R c) found \<and> starts_with (lit '' in XWORK'') (drop 9 rest)
              then Some (found, drop 18 rest) else None))"

lemma leader_line_shorter: "leader_line R s = Some (h, rest) \<Longrightarrow> length rest < length s"
proof -
  assume "leader_line R s = Some (h, rest)"
  then have "s \<noteq> []" "rest = drop 18 (dropWhile (\<lambda>c. \<not> py_space R c) (drop 7 s))"
    by (auto simp: leader_line_def Let_def starts_with_def lit_def split: if_splits)
  moreover have "length (dropWhile (\<lambda>c. \<not> py_space R c) (drop 7 s)) \<le> length (drop 7 s)"
    by (rule length_dropWhile_le)
  ultimately show ?thesis by (cases s) auto
qed

function leaders_in :: "pyrt \<Rightarrow> pystr \<Rightarrow> pystr list" where
  "leaders_in R [] = []"
| "leaders_in R (c # cs) =
    (case leader_line R (c # cs) of
       None \<Rightarrow> leaders_in R cs
     | Some (found, rest) \<Rightarrow> found # leaders_in R rest)"
  by pat_completeness auto
termination
  by (relation "measure (\<lambda>(R, s). length s)") (auto dest: leader_line_shorter)

definition same_leader :: "pystr list \<Rightarrow> pystr list \<Rightarrow> outcome" where
  "same_leader ls1 ls2 =
    (if ls1 = [] \<or> ls2 = [] then (False, NoLeader ls1 ls2)
     else if set ls1 \<inter> set ls2 = {} then (False, Disagree ls1 ls2)
     else (True, NoDetail))"

subsection \<open>The tests\<close>

definition test_presence :: smoke_test where
  "test_presence X P first second =
     andThen (port_of P (lit ''presence'')) (\<lambda>port.
     andThen (new_rid (lit ''pres'') first (lit ''1'')) (\<lambda>rid1.
     andThen (new_rid (lit ''pres'') second (lit ''2'')) (\<lambda>rid2.
     thenDo (start_example X first (lit ''presence'') [lit ''alpha'', lit ''--port'', show_int port] rid1 60)
     (thenDo (sleep X 3)
     (thenDo (start_example X second (lit ''presence'') [lit ''beta'', lit ''--port'', show_int port] rid2 40)
     (andThen (await_logs X [(second, rid2, lit ''ENTER alpha'', 25), (first, rid1, lit ''ENTER beta'', 25)])
         (\<lambda>oks.
     thenDo (pkill_marker X first rid1)
     (thenDo (pkill_marker X second rid2)
     (ret (verdict [lit ''second-sees-first'', lit ''first-sees-second''] oks))))))))))"

definition test_chat :: smoke_test where
  "test_chat X P first second =
     andThen (port_of P (lit ''chat'')) (\<lambda>port.
     andThen (new_rid (lit ''chat'') first (lit ''1'')) (\<lambda>rid1.
     andThen (new_rid (lit ''chat'') second (lit ''2'')) (\<lambda>rid2.
     andThen (lift_exn (label_hex X (UUID_PREFIX @ rid1))) (\<lambda>uid1.
     andThen (lift_exn (label_hex X (UUID_PREFIX @ rid2))) (\<lambda>uid2.
     thenDo (run_bg X first (fed_command X first (stdin_feeder [(lit ''6.0'', lit ''hello-from-'' @ side_name first),
         (lit ''3.0'', lit ''/w '' @ uid2 @ lit '' psst-'' @ side_name first)] (lit ''8'')) (lit ''chat'')
         [lit ''alpha'', lit ''--port'', show_int port] rid1 45) (log_name rid1))
     (thenDo (run_bg X second (fed_command X second (stdin_feeder [(lit ''6.0'', lit ''hello-from-'' @
         side_name second), (lit ''3.0'', lit ''/w '' @ uid1 @ lit '' psst-'' @ side_name second)] (lit ''8''))
         (lit ''chat'') [lit ''beta'', lit ''--port'', show_int port] rid2 45) (log_name rid2))
     (andThen (await_logs X [(second, rid2, (lit ''alpha: hello-from-'' @ side_name first), 25), (first, rid1,
         (lit ''beta: hello-from-'' @ side_name second), 25), (second, rid2, (lit ''(private): psst-'' @
         side_name first), 10), (first, rid1, (lit ''(private): psst-'' @ side_name second), 10)]) (\<lambda>oks.
     thenDo (sleep X 1)
     (thenDo (pkill_marker X first rid1)
     (thenDo (pkill_marker X second rid2)
     (ret (verdict [lit ''shout1'', lit ''shout2'', lit ''whisper1'', lit ''whisper2''] oks))))))))))))"

definition test_secure_chat :: smoke_test where
  "test_secure_chat X P first second =
     andThen (port_of P (lit ''secure_chat'')) (\<lambda>port.
     andThen (new_rid (lit ''sc'') first (lit ''1'')) (\<lambda>rid1.
     andThen (new_rid (lit ''sc'') second (lit ''2'')) (\<lambda>rid2.
     thenDo (run_bg X first (fed_command X first (stdin_feeder [(lit ''6.0'', lit ''secret-from-'' @
         side_name first)] (lit ''5''))
       (lit ''secure_chat'') [lit ''alpha'', lit ''--port'', show_int port, lit ''--shared-key'',
           bytes_hex (sx_sha256 X (blit ''xsmoke-key''))] rid1 40) (log_name rid1))
     (thenDo (run_bg X second (fed_command X second (stdin_feeder [(lit ''6.0'', lit ''secret-from-'' @
         side_name second)] (lit ''5''))
       (lit ''secure_chat'') [lit ''beta'', lit ''--port'', show_int port, lit ''--shared-key'',
           bytes_hex (sx_sha256 X (blit ''xsmoke-key''))] rid2 40) (log_name rid2))
     (andThen (await_logs X [(second, rid2, (lit ''alpha: secret-from-'' @ side_name first), 25), (first, rid1,
         (lit ''beta: secret-from-'' @ side_name second), 25)]) (\<lambda>oks.
     thenDo (sleep X 1)
     (andThen (read_file X first (log_path first rid1)) (\<lambda>log1.
     andThen (read_file X second (log_path second rid2)) (\<lambda>log2.
     thenDo (pkill_marker X first rid1)
     (thenDo (pkill_marker X second rid2)
     (ret (verdict [lit ''a->b'', lit ''b->a'', lit ''no-decrypt-fail''] (oks @
         [\<not> occurs_in (lit ''Decrypt failed'') (log1 @ log2)])))))))))))))"

definition test_whiteboard :: smoke_test where
  "test_whiteboard X P first second =
     andThen (port_of P (lit ''whiteboard'')) (\<lambda>port.
     andThen (new_rid (lit ''wb'') first (lit ''1'')) (\<lambda>rid1.
     andThen (new_rid (lit ''wb'') second (lit ''2'')) (\<lambda>rid2.
     thenDo (start_example X first (lit ''whiteboard'') [lit ''a'', lit ''--port'', show_int port, lit ''--demo'']
         rid1 60)
     (thenDo (sleep X 3)
     (thenDo (start_example X second (lit ''whiteboard'') [lit ''b'', lit ''--port'', show_int port, lit ''--demo'']
         rid2 40)
     (andThen (await_logs X [(second, rid2, lit ''stroke from board-a:'', 30), (first, rid1,
         lit ''stroke from board-b:'', 25)]) (\<lambda>oks.
     thenDo (pkill_marker X first rid1)
     (thenDo (pkill_marker X second rid2)
     (ret (verdict [lit ''a->b'', lit ''b->a''] oks))))))))))"

definition test_fast_tick :: smoke_test where
  "test_fast_tick X P first second =
     andThen (port_of P (lit ''fast_tick'')) (\<lambda>port.
     andThen (new_rid (lit ''ft'') first (lit ''1'')) (\<lambda>rid1.
     andThen (new_rid (lit ''ft'') second (lit ''2'')) (\<lambda>rid2.
     thenDo (start_example X first (lit ''fast_tick'') [lit ''--role'', lit ''registry'', lit ''--port'',
         show_int port, lit ''--run-seconds'', lit ''12''] rid1 40)
     (thenDo (sleep X 2)
     (thenDo (start_example X second (lit ''fast_tick'') [lit ''--role'', lit ''service'', lit ''--port'',
         show_int port, lit ''--run-seconds'', lit ''10''] rid2 35)
     (andThen (await_logs X [(first, rid1, lit ''ENTER peer='', 25), (second, rid2, lit ''ENTER peer='', 25)])
         (\<lambda>oks.
     thenDo (pkill_marker X first rid1)
     (thenDo (pkill_marker X second rid2)
     (ret (verdict [lit ''a'', lit ''b''] oks))))))))))"

definition test_sensor_network :: smoke_test where
  "test_sensor_network X P first second =
     andThen (port_of P (lit ''sensor_network'')) (\<lambda>port.
     andThen (new_rid (lit ''sens'') first (lit ''agg'')) (\<lambda>rid1.
     andThen (new_rid (lit ''sens'') second (lit ''sensors'')) (\<lambda>rid2.
     thenDo (start_example X first (lit ''sensor_network'') [lit ''aggregator'', lit ''--port'', show_int port]
         rid1 60)
     (andThen (wait_log X first (log_path first rid1) (lit ''Aggregator started'') 20) (\<lambda>started.
     if \<not> started then ret (False, Note (lit ''aggregator never started''))
     else thenDo (start_example X second (lit ''sensor_network'') [lit ''sensors'', lit ''--port'', show_int port]
         rid2 40)
     (andThen (wait_log X first (log_path first rid1) (lit ''Reading from temp-001'') 30) (\<lambda>ok.
     thenDo (pkill_marker X first rid1)
     (thenDo (pkill_marker X second rid2)
     (ret (passes ok (lit ''aggregator saw no readings'')))))))))))"

definition test_health_monitor :: smoke_test where
  "test_health_monitor X P first second =
     andThen (port_of P (lit ''health_monitor'')) (\<lambda>port.
     andThen (new_rid (lit ''hm'') first (lit ''1'')) (\<lambda>rid1.
     andThen (new_rid (lit ''hm'') second (lit ''2'')) (\<lambda>rid2.
     thenDo (start_example X first (lit ''health_monitor'') [lit ''mon-1'', lit ''--port'', show_int port] rid1 60)
     (thenDo (sleep X 3)
     (thenDo (start_example X second (lit ''health_monitor'') [lit ''mon-2'', lit ''--port'', show_int port] rid2 40)
     (andThen (await_logs X [(second, rid2, lit ''Peer joined: mon-1'', 25), (first, rid1,
         lit ''Peer joined: mon-2'', 25)]) (\<lambda>oks.
     thenDo (pkill_marker X first rid1)
     (thenDo (pkill_marker X second rid2)
     (ret (verdict [lit ''a'', lit ''b''] oks))))))))))"

definition test_task_queue :: smoke_test where
  "test_task_queue X P first second =
     andThen (port_of P (lit ''task_queue'')) (\<lambda>port.
     andThen (new_rid (lit ''tq'') first (lit ''coord'')) (\<lambda>rid1.
     andThen (new_rid (lit ''tq'') second (lit ''worker'')) (\<lambda>rid2.
     thenDo (start_example X first (lit ''task_queue'') [lit ''coordinator'', lit ''--port'', show_int port] rid1 80)
     (andThen (wait_log X first (log_path first rid1) (lit ''waiting for workers'') 20) (\<lambda>started.
     if \<not> started then ret (False, Note (lit ''coordinator never started''))
     else thenDo (start_example X second (lit ''task_queue'') [lit ''worker'', lit ''w1'', lit ''--port'',
         show_int port] rid2 50)
     (andThen (await_logs X [(first, rid1, lit ''done by worker-w1'', 45), (second, rid2, lit ''got task '', 45)])
         (\<lambda>oks.
     thenDo (pkill_marker X first rid1)
     (thenDo (pkill_marker X second rid2)
     (ret (verdict [lit ''coord-result'', lit ''worker-task''] oks))))))))))"

definition test_service_discovery :: smoke_test where
  "test_service_discovery X P first second =
     andThen (port_of P (lit ''service_discovery'')) (\<lambda>port.
     andThen (new_rid (lit ''svc'') first (lit ''reg'')) (\<lambda>rid1.
     andThen (new_rid (lit ''svc'') first (lit ''svc'')) (\<lambda>rid2.
     andThen (new_rid (lit ''svc'') second (lit ''cli'')) (\<lambda>rid3.
     thenDo (start_example X first (lit ''service_discovery'') [lit ''registry'', lit ''--port'', show_int port]
         rid1 70)
     (thenDo (sleep X 1)
     (thenDo (start_example X first (lit ''service_discovery'') [lit ''service'', lit ''my-svc'', lit ''api'',
         lit ''8080'', lit ''--port'', show_int port] rid2 60)
     (thenDo (sleep X 3)
     (thenDo (start_example X second (lit ''service_discovery'') [lit ''client'', lit ''--port'', show_int port]
         rid3 45)
     (andThen (await_logs X [(second, rid3, lit ''Service: my-svc (api) on port 8080'', 30), (first, rid1,
         lit ''DISCOVERED: '', 25)]) (\<lambda>oks.
     thenDo (pkill_marker X first rid1)
     (thenDo (pkill_marker X first rid2)
     (thenDo (pkill_marker X second rid3)
     (ret (verdict [lit ''client-found'', lit ''registry-saw''] oks))))))))))))))"

definition test_config_sync :: smoke_test where
  "test_config_sync X P first second =
     andThen (port_of P (lit ''config_sync'')) (\<lambda>port.
     andThen (new_rid (lit ''cfg'') first (lit ''writer'')) (\<lambda>rid1.
     andThen (new_rid (lit ''cfg'') second (lit ''watcher'')) (\<lambda>rid2.
     thenDo (start_example X first (lit ''config_sync'') [lit ''node-1'', lit ''--port'', show_int port] rid1 70)
     (thenDo (sleep X 6)
     (thenDo (start_example X second (lit ''config_sync'') [lit ''node-2'', lit ''--port'', show_int port] rid2 60)
     (andThen (wait_log X second (log_path second rid2) (lit ''Config updated: cache_ttl'') 45) (\<lambda>ok.
     thenDo (pkill_marker X first rid1)
     (thenDo (pkill_marker X second rid2)
     (ret (passes ok (lit ''late watcher missed rebroadcast'')))))))))))"

definition test_distributed_lock :: smoke_test where
  "test_distributed_lock X P first second =
     andThen (port_of P (lit ''distributed_lock'')) (\<lambda>port.
     andThen (new_rid (lit ''lk'') first (lit ''1'')) (\<lambda>rid1.
     andThen (new_rid (lit ''lk'') second (lit ''2'')) (\<lambda>rid2.
     thenDo (start_example X first (lit ''distributed_lock'') [lit ''n1'', lit ''--port'', show_int port] rid1 70)
     (thenDo (sleep X 2)
     (thenDo (start_example X second (lit ''distributed_lock'') [lit ''n2'', lit ''--port'', show_int port] rid2 60)
     (andThen (await_logs X [(first, rid1, lit ''Got lock!'', 45), (second, rid2, lit ''Got lock!'', 45)])
         (\<lambda>oks.
     thenDo (pkill_marker X first rid1)
     (thenDo (pkill_marker X second rid2)
     (ret (verdict [lit ''a'', lit ''b''] oks))))))))))"

definition test_game_sync :: smoke_test where
  "test_game_sync X P first second =
     andThen (port_of P (lit ''game_sync'')) (\<lambda>port.
     andThen (new_rid (lit ''gm'') first (lit ''srv'')) (\<lambda>rid1.
     andThen (new_rid (lit ''gm'') second (lit ''client'')) (\<lambda>rid2.
     thenDo (start_example X first (lit ''game_sync'') [lit ''server'', lit ''--port'', show_int port] rid1 60)
     (thenDo (sleep X 3)
     (thenDo (start_example X second (lit ''game_sync'') [lit ''client'', lit ''Alice'', lit ''--port'',
         show_int port] rid2 45)
     (andThen (wait_log X first (log_path first rid1) (lit ''player-Alice joined the world'') 30) (\<lambda>ok.
     thenDo (pkill_marker X first rid1)
     (thenDo (pkill_marker X second rid2)
     (ret (passes ok (lit ''server saw no player'')))))))))))"

definition test_file_transfer :: smoke_test where
  "test_file_transfer X P first second =
     andThen (port_of P (lit ''file_transfer'')) (\<lambda>port.
     andThen (new_rid (lit ''ftrx'') first (lit ''rx'')) (\<lambda>rid_rx.
     andThen (new_rid (lit ''fttx'') second (lit ''tx'')) (\<lambda>rid_tx.
     thenDo (rm_rf X first (lit ''/tmp/xsmoke-ft-out-'' @ side_name first))
     (thenDo (start_example X first (lit ''file_transfer'') [lit ''receive'', lit ''/tmp/xsmoke-ft-out-'' @
         side_name first, lit ''--port'', show_int port] rid_rx 80)
     (andThen (wait_log X first (log_path first rid_rx) (lit ''UUID:'') 20) (\<lambda>ready.
     if \<not> ready then ret (False, Note (lit ''receiver never printed its UUID''))
     else andThen (write_random X second (lit ''/tmp/xsmoke-ft-'' @ side_name first @ lit ''.bin'') 1500000)
         (\<lambda>src_sha.
     thenDo (start_example X second (lit ''file_transfer'') [lit ''send'', UUID_PREFIX @ rid_rx,
         lit ''/tmp/xsmoke-ft-'' @ side_name first @ lit ''.bin'', lit ''--port'', show_int port] rid_tx 60)
     (andThen (wait_log X first (log_path first rid_rx) (lit ''Transfer complete'') 60) (\<lambda>ok.
     thenDo (sleep X 2)
     (andThen (sha256_of X first (lit ''/tmp/xsmoke-ft-out-'' @ side_name first @ lit ''/xsmoke-ft-'' @
         side_name first @ lit ''.bin'')) (\<lambda>got.
     thenDo (pkill_marker X first rid_rx)
     (thenDo (pkill_marker X second rid_tx)
     (ret (if \<not> ok then (False, Note (lit ''no Transfer complete''))
       else if got \<noteq> src_sha then (False, Mismatch (take 12 got) (take 12 src_sha)) else (True,
           NoDetail)))))))))))))))"

definition test_media_stream :: smoke_test where
  "test_media_stream X P first second =
     andThen (port_of P (lit ''media_stream'')) (\<lambda>port.
     andThen (new_rid (lit ''mdrx'') first (lit ''rx'')) (\<lambda>rid_rx.
     andThen (new_rid (lit ''mdtx'') second (lit ''tx'')) (\<lambda>rid_tx.
     thenDo (rm_rf X first (lit ''/tmp/xsmoke-md-out-'' @ side_name first))
     (thenDo (start_example X first (lit ''media_stream'') [lit ''recv'', lit ''--out'',
         lit ''/tmp/xsmoke-md-out-'' @ side_name first, lit ''--port'', show_int port] rid_rx 80)
     (andThen (wait_log X first (log_path first rid_rx) (lit ''waiting'') 20) (\<lambda>ready.
     if \<not> ready then ret (False, Note (lit ''receiver never started''))
     else andThen (write_random X second (lit ''/tmp/xsmoke-md-'' @ side_name first @ lit ''.mp4'') 1200000)
         (\<lambda>src_sha.
     thenDo (start_example X second (lit ''media_stream'') [lit ''send'', lit ''--file'', lit ''/tmp/xsmoke-md-'' @
         side_name first @ lit ''.mp4'', lit ''--port'', show_int port] rid_tx 60)
     (andThen (wait_log X first (log_path first rid_rx) (lit ''MEDIA_END'') 60) (\<lambda>ok.
     thenDo (sleep X 2)
     (andThen (sha256_of X first (lit ''/tmp/xsmoke-md-out-'' @ side_name first @ lit ''/xsmoke-md-'' @
         side_name first @ lit ''.mp4'')) (\<lambda>got.
     thenDo (pkill_marker X first rid_rx)
     (thenDo (pkill_marker X second rid_tx)
     (ret (if \<not> ok then (False, Note (lit ''no MEDIA_END''))
       else if got \<noteq> src_sha then (False, Mismatch (take 12 got) (take 12 src_sha)) else (True,
           NoDetail)))))))))))))))"

definition test_wan_direct :: smoke_test where
  "test_wan_direct X P first second =
     andThen (port_of P (lit ''wan_direct'')) (\<lambda>port.
     if po_first_addr P = [] then ret (True, Note (lit ''skipped: pass --first-addr IP to enable''))
     else andThen (new_rid (lit ''wan'') first (lit ''remote'')) (\<lambda>rid1.
     andThen (new_rid (lit ''wan'') second (lit ''local'')) (\<lambda>rid2.
     thenDo (start_example X first (lit ''wan_direct'') [lit ''wan-remote'', lit ''--listen-port'',
         show_int (po_wan_listen P), lit ''--port'', show_int port] rid1 70)
     (thenDo (sleep X 3)
     (thenDo (start_example X second (lit ''wan_direct'') [lit ''wan-local'', lit ''--peer'', wan_target P,
         lit ''--send'', wan_text first second, lit ''--wait'', lit ''20'', lit ''--port'', show_int port] rid2 50)
     (andThen (await_logs X [(second, rid2, lit ''ENTER wan-remote'', 35), (first, rid1,
         (lit ''SHOUT from wan-local: '' @ wan_text first second), 35)]) (\<lambda>oks.
     thenDo (pkill_marker X first rid1)
     (thenDo (pkill_marker X second rid2)
     (ret (verdict [lit ''dial'', lit ''shout''] oks))))))))))"

definition test_gossip_mesh :: smoke_test where
  "test_gossip_mesh X P first second =
     andThen (port_of P (lit ''gossip_mesh'')) (\<lambda>port.
     if po_first_addr P = [] then ret (True, Note (lit ''skipped: pass --first-addr IP to enable''))
     else andThen (new_rid (lit ''gossip'') first (lit ''hub'')) (\<lambda>rid1.
     andThen (new_rid (lit ''gossip'') second (lit ''join'')) (\<lambda>rid2.
     thenDo (start_example X first (lit ''gossip_mesh'') [lit ''hub'', lit ''hub-node'', lit ''--port'',
         show_int port, lit ''--hub-port'', show_int (po_gossip_listen P)] rid1 70)
     (thenDo (sleep X 3)
     (thenDo (start_example X second (lit ''gossip_mesh'') [lit ''join'', lit ''join-node'', lit ''--port'',
         show_int port, lit ''--hub'', gossip_hub P first, lit ''--send'', gossip_text first second, lit ''--wait'',
         lit ''20''] rid2 50)
     (andThen (await_logs X [(second, rid2, lit ''ENTER hub-node'', 35), (first, rid1,
         (lit ''SHOUT from join-node: '' @ gossip_text first second), 35)]) (\<lambda>oks.
     thenDo (pkill_marker X first rid1)
     (thenDo (pkill_marker X second rid2)
     (ret (verdict [lit ''discover'', lit ''shout''] oks))))))))))"

definition test_leader_election :: smoke_test where
  "test_leader_election X P first second =
     andThen (port_of P (lit ''leader_election'')) (\<lambda>port.
     andThen (new_rid (lit ''lead'') first (lit ''1'')) (\<lambda>rid1.
     andThen (new_rid (lit ''lead'') second (lit ''2'')) (\<lambda>rid2.
     thenDo (start_example X first (lit ''leader_election'') [lit ''voter-1'', lit ''--port'', show_int port,
         lit ''--group'', lit ''XWORK'', lit ''--wait'', lit ''30''] rid1 60)
     (thenDo (sleep X 3)
     (thenDo (start_example X second (lit ''leader_election'') [lit ''voter-2'', lit ''--port'', show_int port,
         lit ''--group'', lit ''XWORK'', lit ''--wait'', lit ''25''] rid2 50)
     (thenDo (sleep X 18)
     (andThen (read_file X first (log_path first rid1)) (\<lambda>log1.
     andThen (read_file X second (log_path second rid2)) (\<lambda>log2.
     thenDo (pkill_marker X first rid1)
     (thenDo (pkill_marker X second rid2)
     (ret (same_leader (leaders_in (sx_rt X) log1) (leaders_in (sx_rt X) log2)))))))))))))"

definition test_uuid_collision :: smoke_test where
  "test_uuid_collision X P first second =
     andThen (port_of P (lit ''uuid_collision'')) (\<lambda>port.
     andThen (new_rid (lit ''uc'') first (lit ''a'')) (\<lambda>rid_a.
     andThen (new_rid (lit ''uc'') first (lit ''b'')) (\<lambda>rid_b.
     thenDo (start_example X first (lit ''presence'') [lit ''coll-a'', lit ''--port'', show_int port] rid_a 30)
     (thenDo (sleep X 3)
     (thenDo (run_bg X first (example_cmd X first (lit ''presence'') [lit ''coll-b'', lit ''--port'', show_int port]
         rid_a 25) (log_name rid_b))
     (andThen (wait_log X first (log_path first rid_b) (lit ''ERROR: another node with uuid'') 20) (\<lambda>seen_b.
     andThen (if seen_b then ret True else wait_log X first (log_path first rid_a)
         (lit ''ERROR: another node with uuid'') 8) (\<lambda>ok.
     thenDo (pkill_marker X first rid_a)
     (thenDo (pkill_marker X first rid_b)
     (ret (passes ok (lit ''collision guard did not fire''))))))))))))"

text \<open>\<open>TESTS\<close>, in the order of the decorators: name, group, function.\<close>

definition TESTS :: "(pystr \<times> pystr \<times> smoke_test) list" where
  "TESTS =
    [(lit ''presence'', lit ''lan'', test_presence),
     (lit ''chat'', lit ''lan'', test_chat),
     (lit ''secure_chat'', lit ''lan'', test_secure_chat),
     (lit ''whiteboard'', lit ''lan'', test_whiteboard),
     (lit ''fast_tick'', lit ''lan'', test_fast_tick),
     (lit ''sensor_network'', lit ''coord'', test_sensor_network),
     (lit ''health_monitor'', lit ''coord'', test_health_monitor),
     (lit ''task_queue'', lit ''coord'', test_task_queue),
     (lit ''service_discovery'', lit ''coord'', test_service_discovery),
     (lit ''config_sync'', lit ''coord'', test_config_sync),
     (lit ''distributed_lock'', lit ''coord'', test_distributed_lock),
     (lit ''game_sync'', lit ''coord'', test_game_sync),
     (lit ''file_transfer'', lit ''data'', test_file_transfer),
     (lit ''media_stream'', lit ''data'', test_media_stream),
     (lit ''wan_direct'', lit ''wan'', test_wan_direct),
     (lit ''gossip_mesh'', lit ''wan'', test_gossip_mesh),
     (lit ''leader_election'', lit ''coord'', test_leader_election),
     (lit ''uuid_collision'', lit ''lan'', test_uuid_collision)]"

end
