(* ===== verification/Zre_Smoke_Run.thy ===== *)
theory Zre_Smoke_Run
  imports Zre_Smoke_Tests
begin

section \<open>The driver of the cross-network test: its program\<close>

text \<open>
  \<open>main\<close> of \<open>scripts/cross_smoke.py\<close>: the checks before the tests, the choice of the tests, every test in both directions, the
  clean-up and the exit status.
\<close>

definition PORT_ORDER :: "pystr list" where
  "PORT_ORDER =
     [lit ''presence'', lit ''chat'', lit ''secure_chat'', lit ''whiteboard'', lit ''fast_tick'', lit ''sensor_network'',
      lit ''task_queue'', lit ''service_discovery'', lit ''config_sync'', lit ''health_monitor'', lit ''distributed_lock'',
      lit ''game_sync'', lit ''file_transfer'', lit ''media_stream'', lit ''gossip_mesh'', lit ''leader_election'',
      lit ''wan_direct'', lit ''uuid_collision'']"

definition LOG_DIR :: pystr where
  "LOG_DIR = lit ''/tmp/zre-cross-smoke''"

record smoke_args =
  sa_peer :: pystr
  sa_password :: pystr
  sa_remote_dir :: pystr
  sa_host_iface :: "pystr option"
  sa_remote_iface :: "pystr option"
  sa_base_port :: int
  sa_first_addr :: pystr
  sa_groups :: pystr
  sa_filter :: pystr
  sa_list_tests :: bool
  sa_keep_logs :: bool

text \<open>The options that are not given; the password then comes from the environment.\<close>

definition smoke_defaults :: "pystr \<Rightarrow> pystr \<Rightarrow> smoke_args" where
  "smoke_defaults peer password =
     \<lparr>sa_peer = peer, sa_password = password, sa_remote_dir = lit ''~/buffy-zre'', sa_host_iface = None,
      sa_remote_iface = None, sa_base_port = 24800, sa_first_addr = [], sa_groups = lit ''all'', sa_filter = [],
      sa_list_tests = False, sa_keep_logs = False\<rparr>"

definition host_side :: "smoke_args \<Rightarrow> side" where
  "host_side A = LocalSide (sa_host_iface A) LOG_DIR"

definition remote_side :: "smoke_env \<Rightarrow> smoke_args \<Rightarrow> side" where
  "remote_side X A = new_remote X (sa_peer A) (sa_password A) (sa_remote_dir A) (sa_remote_iface A)"

subsection \<open>Ports\<close>

definition port_probe :: "smoke_env \<Rightarrow> side \<Rightarrow> int \<Rightarrow> bool \<Rightarrow> (driver, bool) prog" where
  "port_probe X S port tcp =
     andThen (run_fg X S
       (lit ''ss '' @ (if tcp then lit ''-tlnp'' else lit ''-ulnp'') @ lit '' 2>/dev/null | grep -q '' @ [39] @ lit '':'' @
        show_int port @ lit '' '' @ [39] @ lit '' && echo BUSY || echo FREE'') 15)
       (\<lambda>(_, out). ret (occurs_in (lit ''FREE'') out))"

text \<open>\<open>not port_probe(host, ...) or not port_probe(remote, ...)\<close>.\<close>

definition port_busy :: "smoke_env \<Rightarrow> side \<Rightarrow> side \<Rightarrow> int \<Rightarrow> bool \<Rightarrow> (driver, bool) prog" where
  "port_busy X host remote port tcp =
     andThen (port_probe X host port tcp) (\<lambda>free_here.
     if \<not> free_here then ret True
     else andThen (port_probe X remote port tcp) (\<lambda>free_there. ret (\<not> free_there)))"

primrec busy_ports :: "smoke_env \<Rightarrow> side \<Rightarrow> side \<Rightarrow> bool \<Rightarrow> (pystr \<times> int) list \<Rightarrow> (driver, pystr list) prog" where
  "busy_ports X host remote tcp [] = ret []"
| "busy_ports X host remote tcp (np # rest) =
     andThen (port_busy X host remote (snd np) tcp) (\<lambda>busy.
     andThen (busy_ports X host remote tcp rest) (\<lambda>others. ret (if busy then fst np # others else others)))"

definition udp_ports :: "int \<Rightarrow> (pystr \<times> int) list" where
  "udp_ports base = map (\<lambda>(i, name). (name, base + int i * 10)) (enumerate 0 PORT_ORDER)"

definition tcp_ports :: "int \<Rightarrow> (pystr \<times> int) list" where
  "tcp_ports base = [(lit ''wan'', base + 200), (lit ''gossip'', base + 201)]"

definition smoke_ports :: "smoke_args \<Rightarrow> ports" where
  "smoke_ports A =
     \<lparr>po_udp = udp_ports (sa_base_port A), po_wan_listen = sa_base_port A + 200, po_gossip_listen = sa_base_port A + 201,
      po_first_addr = sa_first_addr A, po_remote_addr = last (split_on 64 (sa_peer A))\<rparr>"

subsection \<open>The tests that are run\<close>

definition selected :: "pyrt \<Rightarrow> smoke_args \<Rightarrow> (pystr \<times> pystr \<times> smoke_test) list" where
  "selected R A =
     filter (\<lambda>(name, g, _).
       (sa_groups A = lit ''all'' \<or> g \<in> set (split_on 44 (sa_groups A))) \<and>
       (sa_filter A = [] \<or> list_ex (\<lambda>s. occurs_in (py_strip R s) name) (split_on 44 (sa_filter A)))) TESTS"

definition cleanup_all :: "smoke_env \<Rightarrow> side \<Rightarrow> side \<Rightarrow> (driver, unit) prog" where
  "cleanup_all X host remote =
    (let pat = lit ''--uui[d] '' @ UUID_PREFIX
     in thenDo (pkill X host pat) (pkill X remote pat))"

text \<open>One test in one direction, with a context of its own; an exception is a failure.\<close>

definition run_direction :: "smoke_env \<Rightarrow> ports \<Rightarrow> smoke_test \<Rightarrow> side \<Rightarrow> side \<Rightarrow> (driver, outcome) prog" where
  "run_direction X P fn first second =
     thenDo (modify (\<lambda>s. s\<lparr>dr_rid := 0\<rparr>))
       (catch any_exception (fn X P first second) (\<lambda>e. ret (False, Raised e)))"

definition direction_name :: "pystr \<Rightarrow> side \<Rightarrow> pystr" where
  "direction_name name first = name @ lit '' ['' @ side_name first @ lit ''-first]''"

primrec run_tests ::
  "smoke_env \<Rightarrow> ports \<Rightarrow> side \<Rightarrow> side \<Rightarrow> (pystr \<times> pystr \<times> smoke_test) list \<Rightarrow> (driver, (pystr \<times> outcome) list) prog" where
  "run_tests X P host remote [] = ret []"
| "run_tests X P host remote (t # ts) =
     (case t of (name, _, fn) \<Rightarrow>
       andThen (run_direction X P fn host remote) (\<lambda>a.
       thenDo (sleep X 2)
       (andThen (run_direction X P fn remote host) (\<lambda>b.
       thenDo (sleep X 2)
       (andThen (run_tests X P host remote ts) (\<lambda>rest.
         ret ((direction_name name host, a) # (direction_name name remote, b) # rest)))))))"

subsection \<open>The program\<close>

text \<open>The two checks that the other machine answers and has its environment.\<close>

definition preflight :: "smoke_env \<Rightarrow> side \<Rightarrow> (driver, bool) prog" where
  "preflight X remote =
     andThen (run_fg X remote (lit ''echo ok'') 20) (\<lambda>(_, out).
     if \<not> occurs_in (lit ''ok'') out then ret False
     else andThen (run_fg X remote (lit ''test -x .venv/bin/python && echo venv-ok'') 20) (\<lambda>(_, out).
       ret (occurs_in (lit ''venv-ok'') out)))"

definition run_selected :: "smoke_env \<Rightarrow> smoke_args \<Rightarrow> (driver, (pystr \<times> outcome) list) prog" where
  "run_selected X A =
    (let host = host_side A; remote = remote_side X A
     in try_finally (run_tests X (smoke_ports A) host remote (selected (sx_rt X) A))
          (thenDo (cleanup_all X host remote) (kill_all X host)))"

definition exit_status :: "(pystr \<times> outcome) list \<Rightarrow> int" where
  "exit_status results = (if length (filter (fst \<circ> snd) results) = length results then 0 else 1)"

definition smoke_main :: "smoke_env \<Rightarrow> smoke_args \<Rightarrow> (driver, int) prog" where
  "smoke_main X A =
    (let host = host_side A; remote = remote_side X A
     in if sa_list_tests A then ret 0
        else if sa_password A = [] then ret 2
        else
          thenDo (andThen (run_act X (MakeLogDir LOG_DIR)) (\<lambda>_. ret ()))
          (andThen (preflight X remote) (\<lambda>reached.
           if \<not> reached then ret 2
           else
             andThen (busy_ports X host remote False (udp_ports (sa_base_port A))) (\<lambda>busy_udp.
             andThen (busy_ports X host remote True (tcp_ports (sa_base_port A))) (\<lambda>busy_tcp.
             if busy_udp @ busy_tcp \<noteq> [] then ret 2
             else
               thenDo (cleanup_all X host remote)
               (thenDo (sleep X 1)
                 (if selected (sx_rt X) A = [] then ret 2
                  else
                    andThen (run_selected X A) (\<lambda>results.
                    thenDo (only_if (\<not> sa_keep_logs A)
                        (andThen (run_fg X host (lit ''rm -rf '' @ sh_quote LOG_DIR) 15) (\<lambda>_. ret ())))
                      (ret (exit_status results))))))))))"

end
