(* ===== verification/Zre_Smoke_Properties.thy ===== *)
theory Zre_Smoke_Properties
  imports Zre_Smoke_Run
begin

section \<open>Properties of the driver of the cross-network test\<close>

text \<open>
  The shell reads back the words that were quoted; every process that is started in the background carries the marker by which
  the clean-up finds it; and the exit status 0 means that every chosen test has passed in both directions.
\<close>

subsection \<open>How a shell reads a line\<close>

text \<open>
  The words of a simple command, by the rules of POSIX: blanks separate, single quotes keep everything, double quotes keep
  what has no meaning there. A character with a meaning to the shell, or a quote that is not closed, has no reading here.
\<close>

datatype quoting = Bare | Single | Double

fun sh_scan :: "quoting \<Rightarrow> pystr option \<Rightarrow> pystr \<Rightarrow> pystr list option" where
  "sh_scan Bare w [] = Some (case w of None \<Rightarrow> [] | Some w \<Rightarrow> [w])"
| "sh_scan q w [] = None"
| "sh_scan Bare w (c # cs) =
    (if c = 32 then map_option (\<lambda>ws. (case w of None \<Rightarrow> ws | Some w \<Rightarrow> w # ws)) (sh_scan Bare None cs)
     else if c = 39 then sh_scan Single (Some (case w of None \<Rightarrow> [] | Some w \<Rightarrow> w)) cs
     else if c = 34 then sh_scan Double (Some (case w of None \<Rightarrow> [] | Some w \<Rightarrow> w)) cs
     else if shell_safe c then sh_scan Bare (Some (case w of None \<Rightarrow> [c] | Some w \<Rightarrow> w @ [c])) cs
     else None)"
| "sh_scan Single w (c # cs) =
    (if c = 39 then sh_scan Bare w cs else sh_scan Single (Some (case w of None \<Rightarrow> [c] | Some w \<Rightarrow> w @ [c])) cs)"
| "sh_scan Double w (c # cs) =
    (if c = 34 then sh_scan Bare w cs
     else if c \<in> set (lit ''$`!'') \<or> c = 92 then None
     else sh_scan Double (Some (case w of None \<Rightarrow> [c] | Some w \<Rightarrow> w @ [c])) cs)"

definition sh_words :: "pystr \<Rightarrow> pystr list option" where
  "sh_words s = sh_scan Bare None s"

lemma scan_safe:
  "list_all shell_safe s \<Longrightarrow> s \<noteq> [] \<Longrightarrow>
   sh_scan Bare w (s @ rest) = sh_scan Bare (Some (case w of None \<Rightarrow> s | Some w \<Rightarrow> w @ s)) rest"
proof (induction s arbitrary: w)
  case (Cons c s)
  then have "c \<noteq> 32" "c \<noteq> 39" "c \<noteq> 34" "shell_safe c" by (auto simp: shell_safe_def lit_def)
  with Cons show ?case by (cases "s = []") (auto split: option.split)
qed simp

lemma scan_single:
  "sh_scan Single (Some w) (concat (map quoted_char s) @ 39 # rest) = sh_scan Bare (Some (w @ s)) rest"
proof (induction s arbitrary: w)
  case Nil
  then show ?case by simp
next
  case (Cons c s)
  then show ?case
    by (cases "c = 39") (simp_all add: quoted_char_def lit_def)
qed

lemma scan_quoted:
  "sh_scan Bare None (sh_quote s @ rest) = sh_scan Bare (Some s) rest"
  using scan_single [of "[]" s rest]
  by (auto simp: sh_quote_def scan_safe)

lemma sh_words_quote: "sh_words (sh_quote s) = Some [s]"
  using scan_quoted [of s "[]"] by (simp add: sh_words_def)

lemma sh_words_argv: "sh_words (argv_str argv) = Some argv"
proof (induction argv)
  case Nil
  then show ?case by (simp add: sh_words_def argv_str_def)
next
  case (Cons a argv)
  show ?case
  proof (cases argv)
    case Nil
    then show ?thesis by (simp add: argv_str_def sh_words_quote)
  next
    case (Cons b bs)
    then have "argv_str (a # argv) = sh_quote a @ 32 # argv_str argv"
      by (simp add: argv_str_def lit_def)
    then show ?thesis using Cons.IH scan_quoted [of a "32 # argv_str argv"] by (simp add: sh_words_def)
  qed
qed

lemma scan_word:
  "list_all shell_safe w \<Longrightarrow> w \<noteq> [] \<Longrightarrow>
   sh_scan Bare None (w @ 32 # rest) = map_option ((#) w) (sh_scan Bare None rest)"
  by (simp add: scan_safe)

lemma show_nat_safe: "list_all shell_safe (show_nat n)"
  using show_nat_digits [of n] by (auto simp: list_all_iff is_digit_def shell_safe_def)

text \<open>
  C40: the shell reads the command of an example as the program and exactly the arguments that the test meant, whatever
  characters they hold, if the path of the interpreter needs no quotes.
\<close>

theorem example_words:
  assumes "list_all shell_safe (side_python X S)" and "side_python X S \<noteq> []" and "list_all shell_safe example"
  shows "sh_words (example_cmd X S example argv rid timeout) =
    Some ([lit ''timeout'', show_nat timeout, side_python X S, lit ''-u'', lit ''examples/'' @ example @ lit ''.py''] @
      example_argv S argv rid)"
proof -
  have line: "example_cmd X S example argv rid timeout =
      lit ''timeout'' @ 32 # show_nat timeout @ 32 # side_python X S @ 32 # lit ''-u'' @ 32 #
      (lit ''examples/'' @ example @ lit ''.py'') @ 32 # argv_str (example_argv S argv rid)"
    by (simp add: example_cmd_def lit_def)
  have safe: "list_all shell_safe (lit ''timeout'')" "list_all shell_safe (lit ''-u'')"
    "list_all shell_safe (lit ''examples/'' @ example @ lit ''.py'')" "lit ''timeout'' \<noteq> []" "lit ''-u'' \<noteq> []"
    "lit ''examples/'' @ example @ lit ''.py'' \<noteq> []" "show_nat timeout \<noteq> []"
    using assms(3) by (simp_all add: lit_def shell_safe_def show_nat.simps [of timeout])
  show ?thesis
    unfolding sh_words_def line
    by (simp only: scan_word safe assms show_nat_safe sh_words_argv [unfolded sh_words_def] option.map append.simps simp_thms)
qed

subsection \<open>Every launch is marked\<close>

definition marker :: pystr where
  "marker = lit ''--uuid xsmoke-''"

text \<open>
  A process in the background is a child of the driver, or a line for the other machine that detaches one. It is marked if the
  marker is on its command line.
\<close>

definition marked :: "pystr \<Rightarrow> act \<Rightarrow> bool" where
  "marked remote_dir a =
    (case a of
       Spawn cmd _ \<Rightarrow> occurs_in marker cmd
     | ArgvRun argv _ \<Rightarrow>
         3 < length argv \<and> hd argv = lit ''sshpass'' \<and> argv ! 3 = lit ''ssh'' \<and>
         starts_with (in_remote_dir remote_dir (lit ''(nohup bash -c '')) (last argv) \<longrightarrow>
         occurs_in marker (last argv)
     | _ \<Rightarrow> True)"

definition all_marked :: "pystr \<Rightarrow> driver \<Rightarrow> bool" where
  "all_marked remote_dir s \<longleftrightarrow> list_all (marked remote_dir) (dr_acts s)"

lemma starts_with_append: "starts_with p (p @ s)"
  by (simp add: starts_with_def)

lemma occurs_inI: "occurs_in p (a @ p @ b)"
proof (induction a)
  case Nil
  have "take (length p) (p @ b) = p" by simp
  then show ?case by (cases "p @ b") (auto simp: occurs_in_def)
next
  case (Cons c a)
  then show ?case by (auto simp: occurs_in_def)
qed

lemma occurs_inE:
  assumes "occurs_in p s"
  obtains a b where "s = a @ p @ b"
  using assms
proof (induction s arbitrary: thesis)
  case Nil
  then show ?case by (auto simp: occurs_in_def split: if_splits)
next
  case (Cons c s)
  show ?case
  proof (cases "take (length p) (c # s) = p")
    case True
    then have "c # s = [] @ p @ drop (length p) (c # s)" by (metis append_Nil append_take_drop_id)
    then show ?thesis by (rule Cons.prems(1))
  next
    case False
    then have "occurs_in p s" using Cons.prems(2) by (auto simp: occurs_in_def split: option.splits)
    then obtain a b where "s = a @ p @ b" using Cons.IH by blast
    then have "c # s = (c # a) @ p @ b" by simp
    then show ?thesis by (rule Cons.prems(1))
  qed
qed

lemma occurs_in_append: "occurs_in p s \<Longrightarrow> occurs_in p (a @ s @ b)"
  by (elim occurs_inE) (metis append.assoc occurs_inI)

lemma quoted_chars_id: "39 \<notin> set s \<Longrightarrow> concat (map quoted_char s) = s"
  by (induction s) (auto simp: quoted_char_def)

text \<open>Quoting a command keeps the marker in it.\<close>

lemma marker_quoted:
  assumes "occurs_in marker cmd"
  shows "occurs_in marker (sh_quote cmd)"
proof -
  obtain a b where cmd: "cmd = a @ marker @ b" using assms by (rule occurs_inE)
  have unsafe: "\<not> list_all shell_safe marker" "marker \<noteq> []" by (simp_all add: marker_def lit_def shell_safe_def)
  have "concat (map quoted_char marker) = marker" by (rule quoted_chars_id) (simp add: marker_def lit_def)
  then have "concat (map quoted_char cmd) = concat (map quoted_char a) @ marker @ concat (map quoted_char b)"
    by (simp add: cmd)
  moreover have "sh_quote cmd = 39 # concat (map quoted_char cmd) @ [39]"
    using unsafe by (simp add: sh_quote_def cmd)
  ultimately have "sh_quote cmd = (39 # concat (map quoted_char a)) @ marker @ (concat (map quoted_char b) @ [39])"
    by simp
  then show ?thesis using occurs_inI by metis
qed

lemma argv_str_Cons: "argv_str (a # argv) = (if argv = [] then sh_quote a else sh_quote a @ lit '' '' @ argv_str argv)"
  by (cases argv) (simp_all add: argv_str_def)

lemma argv_str_tail: "ws \<noteq> [] \<Longrightarrow> \<exists>front. argv_str (argv @ ws) = front @ argv_str ws"
  by (induction argv) (auto simp: argv_str_Cons)

text \<open>The marker is on the command line of every example: its own words need no quotes.\<close>

lemma example_marked:
  assumes "list_all shell_safe rid"
  shows "occurs_in marker (example_cmd X S example argv rid timeout)"
proof -
  obtain front where front: "argv_str (example_argv S argv rid) = front @ argv_str [lit ''--uuid'', UUID_PREFIX @ rid]"
    using argv_str_tail [of "[lit ''--uuid'', UUID_PREFIX @ rid]"] by (auto simp: example_argv_def Let_def)
  have "argv_str [lit ''--uuid'', UUID_PREFIX @ rid] = marker @ rid"
    using assms by (simp add: argv_str_def sh_quote_def marker_def UUID_PREFIX_def lit_def shell_safe_def)
  then have "example_cmd X S example argv rid timeout = (lit ''timeout '' @ show_nat timeout @ lit '' '' @ side_python X S @
      lit '' -u examples/'' @ example @ lit ''.py '' @ front) @ marker @ rid"
    using front by (simp add: example_cmd_def)
  then show ?thesis using occurs_inI by metis
qed

lemma fed_marked:
  "list_all shell_safe rid \<Longrightarrow> occurs_in marker (fed_command X S feeder example argv rid timeout)"
  using occurs_in_append [OF example_marked, of rid "feeder @ lit ''| ''" X S example argv timeout
      "lit '' > '' @ sh_quote (log_path S rid) @ lit '' 2>&1''"]
  by (simp add: fed_command_def)

text \<open>A side of a run, and what every operation on it keeps.\<close>

definition side_of_run :: "pystr \<Rightarrow> side \<Rightarrow> bool" where
  "side_of_run D S \<longleftrightarrow> (case S of LocalSide _ _ \<Rightarrow> True | RemoteSide _ _ d _ _ \<Rightarrow> d = D)"

lemma keeps_perform: "(\<And>s. all_marked D s \<Longrightarrow> marked D a) \<Longrightarrow> keeps (all_marked D) (perform X a)"
  by (auto simp: keeps_def run_perform all_marked_def)

lemma keeps_run_act: "marked D a \<Longrightarrow> keeps (all_marked D) (run_act X a)"
  unfolding run_act_def by (intro keeps_rules keeps_perform)

lemma keeps_other_line:
  assumes "cmd \<noteq> []" "hd cmd \<noteq> 40"
  shows "marked D (ArgvRun (ssh_base peer pw @ [in_remote_dir D cmd]) timeout)"
proof -
  have "\<not> starts_with (in_remote_dir D (lit ''(nohup bash -c '')) (in_remote_dir D cmd)"
    using assms by (cases cmd) (auto simp: in_remote_dir_def starts_with_def lit_def)
  then show ?thesis by (simp add: marked_def)
qed

lemma keeps_run_fg:
  assumes "side_of_run D S" "cmd \<noteq> []" "hd cmd \<noteq> 40"
  shows "keeps (all_marked D) (run_fg X S cmd timeout)"
proof (cases S)
  case (LocalSide i l)
  then show ?thesis by (auto intro!: keeps_rules keeps_run_act simp: marked_def)
next
  case (RemoteSide p w d i l)
  then show ?thesis using assms keeps_other_line
    by (auto intro!: keeps_rules keeps_run_act simp: side_of_run_def)
qed

lemma keeps_run_bg:
  assumes "side_of_run D S" "occurs_in marker cmd"
  shows "keeps (all_marked D) (run_bg X S cmd logname)"
proof (cases S)
  case (LocalSide i l)
  then show ?thesis using assms(2)
    by (auto intro!: keeps_rules keeps_run_act keeps_modify simp: marked_def all_marked_def)
next
  case (RemoteSide p w d i l)
  have "occurs_in marker (in_remote_dir D (detached cmd (l @ lit ''/'' @ logname)))"
    using occurs_in_append [OF marker_quoted [OF assms(2)]]
    by (simp add: in_remote_dir_def detached_def) (metis append.assoc)
  then show ?thesis using assms(1) RemoteSide
    by (auto intro!: keeps_rules keeps_run_act simp: marked_def side_of_run_def)
qed

lemma other_line_marked: "take 3 line \<noteq> lit ''cd '' \<Longrightarrow> marked D (ArgvRun (ssh_base peer pw @ [line]) timeout)"
  by (cases line; cases "tl line"; cases "tl (tl line)")
    (auto simp: marked_def in_remote_dir_def starts_with_def lit_def)

lemma keeps_pkill [keeps_rules]: "keeps (all_marked D) (pkill X S regex)"
  by (cases S) (auto intro!: keeps_rules keeps_run_act other_line_marked simp: marked_def lit_def)

lemma keeps_pkill_marker [keeps_rules]: "keeps (all_marked D) (pkill_marker X S rid)"
  unfolding pkill_marker_def by (rule keeps_pkill)

lemma keeps_read [keeps_rules]: "keeps (all_marked D) (read_file X S f)"
  by (cases S)
    (auto intro!: keeps_rules keeps_run_act keeps_perform other_line_marked simp: file_act_def, simp_all add: marked_def lit_def)

lemma keeps_sleep [keeps_rules]: "keeps (all_marked D) (sleep X t)"
  unfolding sleep_def by (rule keeps_perform) (simp add: marked_def)

lemma keeps_sha256 [keeps_rules]: "side_of_run D S \<Longrightarrow> keeps (all_marked D) (sha256_of X S f)"
  by (cases S)
    (auto intro!: keeps_rules keeps_perform keeps_run_fg simp: file_act_def marked_def simp del: run_fg.simps, simp_all add: lit_def)

lemma keeps_write_random [keeps_rules]: "keeps (all_marked D) (write_random X S f count)"
  by (cases S)
    (auto intro!: keeps_rules keeps_run_act keeps_perform simp: urandom_def marked_def Let_def, simp_all add: lit_def)

lemma keeps_rm_rf [keeps_rules]: "side_of_run D S \<Longrightarrow> keeps (all_marked D) (rm_rf X S f)"
  unfolding rm_rf_def by (intro keeps_rules keeps_run_fg) (simp_all add: lit_def)

lemma keeps_kill_all [keeps_rules]: "keeps (all_marked D) (kill_all X S)"
  by (cases S)
    (auto intro!: keeps_rules keeps_perform keeps_modify simp: kill_all_def marked_def all_marked_def)

lemma keeps_start [keeps_rules]:
  "side_of_run D S \<Longrightarrow> list_all shell_safe rid \<Longrightarrow> keeps (all_marked D) (start_example X S example argv rid timeout)"
  unfolding start_example_def by (intro keeps_rules keeps_run_bg example_marked)

lemma poll_log_keeps: "all_marked D s \<Longrightarrow> all_marked D (snd (poll_log X S f pat deadline s))"
proof (induction X S f pat deadline s rule: poll_log.induct)
  case (1 X S f pat deadline s)
  obtain r s' where read: "read_file X S f s = (r, s')" by fastforce
  have kept: "all_marked D s'" using keepsD [OF keeps_read 1(2) read] .
  then have "all_marked D (snd (sleep X (1/2) s'))" using keeps_sleep by (auto simp: keeps_def)
  then show ?case
    using 1 read kept by (subst poll_log.simps) (auto split: sum.split)
qed

lemma keeps_wait_log [keeps_rules]: "keeps (all_marked D) (wait_log X S f pat timeout)"
  by (auto simp: keeps_def wait_log_def poll_log_keeps)

lemma keeps_await [keeps_rules]: "keeps (all_marked D) (await_logs X cs)"
  by (induction cs; simp only: await_logs.simps; intro keeps_rules)

text \<open>The names that the tests give their examples need no quotes.\<close>

lemma keeps_new_rid:
  assumes "list_all shell_safe base" "list_all shell_safe role"
    and "\<And>rid. list_all shell_safe rid \<Longrightarrow> keeps (all_marked D) (k rid)"
  shows "keeps (all_marked D) (andThen (new_rid base S role) k)"
proof (rule keepsI)
  fix s assume "all_marked D s"
  moreover have "list_all shell_safe (side_name S)" by (cases S) (simp_all add: lit_def shell_safe_def)
  ultimately show "all_marked D (snd (andThen (new_rid base S role) k s))"
    using assms show_nat_safe
    by (simp add: new_rid_def run_andThen run_thenDo keeps_def all_marked_def lit_def shell_safe_def)
qed

lemmas test_rules = keeps_new_rid keeps_run_bg fed_marked example_marked

lemma test_marked:
  assumes "side_of_run D first" and "side_of_run D second"
  shows "keeps (all_marked D) (test_presence X P first second)"
    and "keeps (all_marked D) (test_chat X P first second)"
    and "keeps (all_marked D) (test_secure_chat X P first second)"
    and "keeps (all_marked D) (test_whiteboard X P first second)"
    and "keeps (all_marked D) (test_fast_tick X P first second)"
    and "keeps (all_marked D) (test_sensor_network X P first second)"
    and "keeps (all_marked D) (test_health_monitor X P first second)"
    and "keeps (all_marked D) (test_task_queue X P first second)"
    and "keeps (all_marked D) (test_service_discovery X P first second)"
    and "keeps (all_marked D) (test_config_sync X P first second)"
    and "keeps (all_marked D) (test_distributed_lock X P first second)"
    and "keeps (all_marked D) (test_game_sync X P first second)"
    and "keeps (all_marked D) (test_file_transfer X P first second)"
    and "keeps (all_marked D) (test_media_stream X P first second)"
    and "keeps (all_marked D) (test_wan_direct X P first second)"
    and "keeps (all_marked D) (test_gossip_mesh X P first second)"
    and "keeps (all_marked D) (test_leader_election X P first second)"
    and "keeps (all_marked D) (test_uuid_collision X P first second)"
  unfolding test_presence_def test_chat_def test_secure_chat_def test_whiteboard_def test_fast_tick_def test_sensor_network_def test_health_monitor_def test_task_queue_def test_service_discovery_def test_config_sync_def test_distributed_lock_def test_game_sync_def test_file_transfer_def test_media_stream_def test_wan_direct_def test_gossip_mesh_def test_leader_election_def test_uuid_collision_def port_of_def
  by (intro test_rules keeps_rules assms; assumption?; simp add: lit_def shell_safe_def)+

lemma chosen_marked:
  assumes "t \<in> set TESTS" "t = (name, g, fn)" "side_of_run D first" "side_of_run D second"
  shows "keeps (all_marked D) (fn X P first second)"
proof -
  have "list_all (\<lambda>(_, _, fn). keeps (all_marked D) (fn X P first second)) TESTS"
    unfolding TESTS_def by (simp only: list.pred_inject prod.case test_marked [OF assms(3,4)] simp_thms)
  then show ?thesis using assms(1,2) by (auto simp: list_all_iff)
qed

lemma keeps_direction:
  assumes "t \<in> set TESTS" "t = (name, g, fn)" "side_of_run D first" "side_of_run D second"
  shows "keeps (all_marked D) (run_direction X P fn first second)"
  unfolding run_direction_def
  by (intro keeps_rules keeps_modify chosen_marked [OF assms]) (simp add: all_marked_def)

lemma keeps_run_tests:
  assumes "set ts \<subseteq> set TESTS" "side_of_run D host" "side_of_run D remote"
  shows "keeps (all_marked D) (run_tests X P host remote ts)"
  using assms(1)
proof (induction ts)
  case Nil
  show ?case unfolding run_tests.simps by (rule keeps_ret)
next
  case (Cons t ts)
  obtain name g fn where t: "t = (name, g, fn)" by (cases t)
  have "t \<in> set TESTS" using Cons.prems by simp
  then have "keeps (all_marked D) (run_direction X P fn host remote)" "keeps (all_marked D) (run_direction X P fn remote host)"
    using keeps_direction [OF _ t] assms(2,3) by blast+
  moreover have "keeps (all_marked D) (run_tests X P host remote ts)" using Cons by simp
  ultimately show ?case unfolding run_tests.simps t prod.case by (intro keeps_rules)
qed

lemma run_sides: "side_of_run (expanduser X (sa_remote_dir A)) (host_side A)"
  "side_of_run (expanduser X (sa_remote_dir A)) (remote_side X A)"
  by (simp_all add: side_of_run_def host_side_def remote_side_def new_remote_def)

lemma keeps_probe [keeps_rules]: "side_of_run D S \<Longrightarrow> keeps (all_marked D) (port_probe X S port tcp)"
  unfolding port_probe_def by (intro keeps_rules keeps_run_fg) (simp_all add: lit_def)

lemma keeps_busy [keeps_rules]:
  "side_of_run D host \<Longrightarrow> side_of_run D remote \<Longrightarrow> keeps (all_marked D) (busy_ports X host remote tcp nps)"
proof (induction nps)
  case Nil
  show ?case unfolding busy_ports.simps by (rule keeps_ret)
next
  case (Cons np nps)
  then show ?case unfolding busy_ports.simps port_busy_def by (intro keeps_rules) auto
qed

lemma keeps_cleanup [keeps_rules]: "keeps (all_marked D) (cleanup_all X host remote)"
  unfolding cleanup_all_def Let_def by (intro keeps_rules)

lemma keeps_smoke_main: "keeps (all_marked (expanduser X (sa_remote_dir A))) (smoke_main X A)"
  unfolding smoke_main_def preflight_def run_selected_def Let_def
  by (intro keeps_rules keeps_run_act keeps_run_fg keeps_run_tests run_sides)
    (auto simp: marked_def selected_def lit_def)

text \<open>
  C36: whatever the machines answer, every process that the driver starts in the background has the marker on its command
  line, by which the clean-up of this and of later runs finds it.
\<close>

theorem launches_marked:
  assumes "dr_acts s = []" and "a \<in> set (dr_acts (snd (smoke_main X A s)))"
  shows "marked (expanduser X (sa_remote_dir A)) a"
proof -
  have "all_marked (expanduser X (sa_remote_dir A)) s" using assms(1) by (simp add: all_marked_def)
  then show ?thesis
    using keeps_smoke_main [of X A] assms(2) by (simp add: keeps_def all_marked_def list_all_iff)
qed

subsection \<open>What the exit status says\<close>

lemma run_tests_names:
  "run_tests X P host remote ts s = (Inr results, s') \<Longrightarrow>
   map fst results = concat (map (\<lambda>(name, _, _). [direction_name name host, direction_name name remote]) ts)"
  by (induction ts arbitrary: s results)
    (auto elim!: andThen_InrE thenDo_InrE split: prod.splits)

lemma exit_status_0: "exit_status results = 0 \<longleftrightarrow> list_all (fst \<circ> snd) results"
proof -
  have "length (filter p xs) = length xs \<longleftrightarrow> list_all p xs" for p and xs :: "(pystr \<times> outcome) list"
    by (metis filter_True filter_id_conv length_filter_less list_all_iff nat_less_le)
  then show ?thesis by (simp add: exit_status_def)
qed

text \<open>
  When the driver ends with status 0, and was not asked for the list of its tests, at least one test was chosen, and every
  chosen test has passed in both directions.
\<close>

theorem smoke_success:
  assumes "smoke_main X A s = (Inr 0, s')" and "\<not> sa_list_tests A"
  shows "\<exists>results s1 s2.
    run_tests X (smoke_ports A) (host_side A) (remote_side X A) (selected (sx_rt X) A) s1 = (Inr results, s2) \<and>
    selected (sx_rt X) A \<noteq> [] \<and> list_all (fst \<circ> snd) results \<and>
    map fst results = concat (map (\<lambda>(name, _, _).
      [direction_name name (host_side A), direction_name name (remote_side X A)]) (selected (sx_rt X) A))"
proof -
  obtain results s0 s3 where chosen: "selected (sx_rt X) A \<noteq> []"
    and run: "run_selected X A s0 = (Inr results, s3)" and status: "exit_status results = 0"
    using assms unfolding smoke_main_def Let_def
    by (auto elim!: andThen_InrE thenDo_InrE split: if_splits)
  from run obtain s2 where tests:
    "run_tests X (smoke_ports A) (host_side A) (remote_side X A) (selected (sx_rt X) A) s0 = (Inr results, s2)"
    unfolding run_selected_def Let_def try_finally_def by (auto split: prod.splits sum.splits)
  show ?thesis
    using tests chosen status run_tests_names [OF tests] by (auto simp: exit_status_0)
qed

subsection \<open>Examples\<close>

text \<open>Machines that answer every command with success and the text that the checks look for, and never open a file.\<close>

definition demo_machines :: smoke_env where
  "demo_machines =
     \<lparr>sx_rt = plain_rt, sx_sha256 = (\<lambda>b. b), sx_executable = lit ''/usr/bin/python3'', sx_home = (\<lambda>_. Some (lit ''/home/a'')),
      sx_run = (\<lambda>_ _. Inr (0, lit ''ok venv-ok FREE'', [])), sx_file = (\<lambda>_ _. None), sx_random = (\<lambda>_ n. replicate n 0),
      sx_took = (\<lambda>_ _. 1)\<rparr>"

definition demo_options :: smoke_args where
  "demo_options = (smoke_defaults (lit ''b@h'') (lit ''x''))\<lparr>sa_remote_dir := lit ''~/zre'', sa_groups := lit ''wan'', sa_keep_logs := True\<rparr>"

definition idle_driver :: driver where
  "idle_driver = \<lparr>dr_acts = [], dr_now = 0, dr_children = 0, dr_rid = 0\<rparr>"

theorem example_words_witness:
  "sh_words (example_cmd demo_machines (LocalSide None (lit ''/tmp'')) (lit ''chat'') [lit ''it is'', [39, 36]] (lit ''r'') 45) =
    Some ([lit ''timeout'', show_nat 45, lit ''/usr/bin/python3'', lit ''-u'', lit ''examples/'' @ lit ''chat'' @ lit ''.py''] @
      example_argv (LocalSide None (lit ''/tmp'')) [lit ''it is'', [39, 36]] (lit ''r''))"
proof -
  have "side_python demo_machines (LocalSide None (lit ''/tmp'')) = lit ''/usr/bin/python3''" by (simp add: demo_machines_def)
  then show ?thesis
    using example_words [of demo_machines "LocalSide None (lit ''/tmp'')" "lit ''chat''" "[lit ''it is'', [39, 36]]" "lit ''r''" 45]
    by (simp add: lit_def shell_safe_def)
qed

text \<open>A program that ends with the same value from every state.\<close>

definition yields :: "(driver, 'a) prog \<Rightarrow> 'a \<Rightarrow> bool" where
  "yields m x \<longleftrightarrow> (\<forall>s. \<exists>s'. m s = (Inr x, s'))"

lemma yields_basic: "yields (ret x) x" "yields (modify f) ()" "yields (perform X a) ()" "yields (sleep X t) ()"
  by (simp_all add: yields_def sleep_def run_perform)

lemma yields_andThen: "yields m x \<Longrightarrow> yields (k x) y \<Longrightarrow> yields (andThen m k) y"
  unfolding yields_def by (metis andThen_Inr)

lemma yields_thenDo: "yields m x \<Longrightarrow> yields k y \<Longrightarrow> yields (thenDo m k) y"
  unfolding thenDo_def by (rule yields_andThen)

lemma yields_run_act: "yields (run_act demo_machines a) (0, lit ''ok venv-ok FREE'', [])"
  by (simp add: yields_def run_act_def run_andThen run_thenDo run_perform demo_machines_def)

lemma yields_run_fg: "yields (run_fg demo_machines S cmd t) (0, lit ''ok venv-ok FREE'')"
  by (cases S; simp; rule yields_andThen [OF yields_run_act]; simp add: yields_basic)

lemma yields_pkill: "yields (pkill demo_machines S regex) ()"
  by (cases S; simp; rule yields_andThen [OF yields_run_act]; simp add: yields_basic)

lemma demo_answers: "occurs_in (lit ''ok'') (lit ''ok venv-ok FREE'')" "occurs_in (lit ''venv-ok'') (lit ''ok venv-ok FREE'')"
  "occurs_in (lit ''FREE'') (lit ''ok venv-ok FREE'')"
  by (simp_all add: occurs_in_def lit_def)

lemma demo_preflight: "yields (preflight demo_machines S) True"
  unfolding preflight_def
  by (rule yields_andThen [OF yields_run_fg]; simp add: demo_answers)
    (rule yields_andThen [OF yields_run_fg]; simp add: demo_answers yields_def)

lemma demo_ports: "yields (busy_ports demo_machines S T tcp nps) []"
proof (induction nps)
  case Nil
  show ?case unfolding busy_ports.simps by (rule yields_basic)
next
  case (Cons np nps)
  have probe: "yields (port_probe demo_machines U p tcp) True" for U p
    unfolding port_probe_def by (rule yields_andThen [OF yields_run_fg]) (simp add: demo_answers yields_def)
  have "yields (port_busy demo_machines S T (snd np) tcp) False"
    unfolding port_busy_def
    by (rule yields_andThen [OF probe], simp, rule yields_andThen [OF probe]) (simp add: yields_def)
  then show ?case
    unfolding busy_ports.simps
    by (rule yields_andThen, intro yields_andThen [OF Cons]) (simp add: yields_basic)
qed

lemma demo_selected:
  "selected plain_rt demo_options =
    [(lit ''wan_direct'', lit ''wan'', test_wan_direct), (lit ''gossip_mesh'', lit ''wan'', test_gossip_mesh)]"
  by (simp add: selected_def TESTS_def demo_options_def smoke_defaults_def lit_def)

lemma demo_wan: "yields (test_wan_direct X (smoke_ports demo_options) S T)
    (True, Note (lit ''skipped: pass --first-addr IP to enable''))"
  "yields (test_gossip_mesh X (smoke_ports demo_options) S T)
    (True, Note (lit ''skipped: pass --first-addr IP to enable''))"
  by (simp_all add: test_wan_direct_def test_gossip_mesh_def smoke_ports_def demo_options_def smoke_defaults_def port_of_def udp_ports_def
      PORT_ORDER_def yields_def run_andThen lit_def)

lemma yieldsE: "yields m x \<Longrightarrow> (\<And>s'. m s = (Inr x, s') \<Longrightarrow> thesis) \<Longrightarrow> thesis"
  unfolding yields_def by blast

lemma yields_catch:
  assumes "yields m x"
  shows "yields (catch p m h) x"
  unfolding yields_def
proof
  fix s
  obtain s' where "m s = (Inr x, s')" by (rule yieldsE [OF assms])
  then show "\<exists>s'. catch p m h s = (Inr x, s')" by (simp add: catch_def)
qed

lemma yields_finally:
  assumes "yields m x" "yields f ()"
  shows "yields (try_finally m f) x"
  unfolding yields_def
proof
  fix s
  obtain s' where m: "m s = (Inr x, s')" by (rule yieldsE [OF assms(1)])
  obtain s'' where "f s' = (Inr (), s'')" by (rule yieldsE [OF assms(2)])
  with m show "\<exists>s'. try_finally m f s = (Inr x, s')" by (simp add: try_finally_def)
qed

lemma yields_for_each: "(\<And>x. yields (f x) ()) \<Longrightarrow> yields (for_each f xs) ()"
  by (induction xs) (simp_all only: for_each.simps, auto intro: yields_basic yields_thenDo)

lemma yields_gets: "(\<And>v. yields (k v) x) \<Longrightarrow> yields (andThen (gets f) k) x"
  by (auto simp: yields_def run_andThen)

lemma demo_direction:
  assumes "fn = test_wan_direct \<or> fn = test_gossip_mesh"
  shows "yields (run_direction demo_machines (smoke_ports demo_options) fn S T)
    (True, Note (lit ''skipped: pass --first-addr IP to enable''))"
  unfolding run_direction_def
  by (rule yields_thenDo, rule yields_basic, rule yields_catch) (use assms demo_wan in blast)

lemma demo_clean_up: "yields (thenDo (cleanup_all demo_machines S T) (kill_all demo_machines (LocalSide i l))) ()"
proof -
  have "yields (kill_all demo_machines (LocalSide i l)) ()"
    unfolding kill_all_def side.case
    by (intro yields_gets yields_thenDo [OF yields_for_each]) (rule yields_basic)+
  then show ?thesis
    unfolding cleanup_all_def Let_def by (intro yields_thenDo [OF yields_thenDo [OF yields_pkill yields_pkill]])
qed

lemma demo_tests:
  "\<exists>results. exit_status results = 0 \<and>
     yields (run_tests demo_machines (smoke_ports demo_options) S T (selected plain_rt demo_options)) results"
proof -
  let ?skip = "(True, Note (lit ''skipped: pass --first-addr IP to enable''))"
  let ?wan = "lit ''wan_direct''" and ?gossip = "lit ''gossip_mesh''"
  have step: "yields (run_tests demo_machines (smoke_ports demo_options) S T ((name, g, fn) # ts))
      ((direction_name name S, ?skip) # (direction_name name T, ?skip) # rs)"
    if "fn = test_wan_direct \<or> fn = test_gossip_mesh" "yields (run_tests demo_machines (smoke_ports demo_options) S T ts) rs"
    for name g fn ts rs
    unfolding run_tests.simps prod.case
    by (rule yields_andThen [OF demo_direction [OF that(1)]], rule yields_thenDo, rule yields_basic,
        rule yields_andThen [OF demo_direction [OF that(1)]], rule yields_thenDo, rule yields_basic,
        rule yields_andThen [OF that(2)], rule yields_basic)
  have "yields (run_tests demo_machines (smoke_ports demo_options) S T (selected plain_rt demo_options))
     [(direction_name ?wan S, ?skip), (direction_name ?wan T, ?skip), (direction_name ?gossip S, ?skip), (direction_name ?gossip T, ?skip)]"
    unfolding demo_selected by (intro step) (simp_all add: yields_def)
  moreover have "exit_status [(direction_name ?wan S, ?skip), (direction_name ?wan T, ?skip), (direction_name ?gossip S, ?skip),
      (direction_name ?gossip T, ?skip)] = 0"
    by (simp add: exit_status_def)
  ultimately show ?thesis by blast
qed

lemma demo_run: "yields (smoke_main demo_machines demo_options) 0"
proof -
  let ?host = "host_side demo_options" and ?remote = "remote_side demo_machines demo_options"
  have rt: "sx_rt demo_machines = plain_rt" by (simp add: demo_machines_def)
  have options: "\<not> sa_list_tests demo_options" "sa_password demo_options \<noteq> []" "sa_keep_logs demo_options"
    by (simp_all add: demo_options_def smoke_defaults_def lit_def)
  obtain results where tests: "exit_status results = 0"
    "yields (run_tests demo_machines (smoke_ports demo_options) ?host ?remote (selected plain_rt demo_options)) results"
    using demo_tests by blast
  have "yields (run_selected demo_machines demo_options) results"
    unfolding run_selected_def Let_def rt
    by (rule yields_finally [OF tests(2)], unfold host_side_def, rule demo_clean_up)
  then have last_part: "yields (andThen (run_selected demo_machines demo_options) (\<lambda>results.
      thenDo (only_if (\<not> sa_keep_logs demo_options)
         (andThen (run_fg demo_machines ?host (lit ''rm -rf '' @ sh_quote LOG_DIR) 15) (\<lambda>_. ret ())))
        (ret (exit_status results)))) 0"
    by (rule yields_andThen) (simp add: options tests(1) yields_def)
  have made: "yields (andThen (run_act demo_machines (MakeLogDir LOG_DIR)) (\<lambda>_. ret ())) ()"
    by (rule yields_andThen [OF yields_run_act]) (rule yields_basic)
  show ?thesis
    unfolding smoke_main_def Let_def rt
    by (simp only: options(1,2) if_False if_True not_False_eq_True simp_thms,
        rule yields_thenDo [OF made], rule yields_andThen [OF demo_preflight], simp only: simp_thms if_False,
        rule yields_andThen [OF demo_ports], rule yields_andThen [OF demo_ports], simp only: append_Nil simp_thms if_False,
        rule yields_thenDo, unfold cleanup_all_def Let_def, rule yields_thenDo [OF yields_pkill yields_pkill],
        rule yields_thenDo, rule yields_basic(4))
      (simp only: demo_selected list.distinct if_False, rule last_part)
qed

theorem smoke_success_witness:
  "\<exists>results s1 s2.
    run_tests demo_machines (smoke_ports demo_options) (host_side demo_options) (remote_side demo_machines demo_options)
      (selected plain_rt demo_options) s1 = (Inr results, s2) \<and> results \<noteq> [] \<and> list_all (fst \<circ> snd) results"
proof -
  obtain s' where run: "smoke_main demo_machines demo_options idle_driver = (Inr 0, s')" by (rule yieldsE [OF demo_run])
  have rt: "sx_rt demo_machines = plain_rt" "\<not> sa_list_tests demo_options" by (simp_all add: demo_machines_def demo_options_def smoke_defaults_def)
  from smoke_success [OF run rt(2)] show ?thesis
    unfolding rt(1) by (auto simp: demo_selected)
qed

text \<open>With a machine that cannot be reached, what has been done is the attempt.\<close>

definition silent_machines :: smoke_env where
  "silent_machines = demo_machines\<lparr>sx_run := (\<lambda>_ _. Inr (0, [], []))\<rparr>"

theorem launches_marked_witness:
  "list_all (marked (expanduser silent_machines (sa_remote_dir demo_options)))
     (dr_acts (snd (smoke_main silent_machines demo_options idle_driver))) \<and>
   length (dr_acts (snd (smoke_main silent_machines demo_options idle_driver))) = 2"
proof -
  have acts: "dr_acts (snd (smoke_main silent_machines demo_options idle_driver)) =
      [ArgvRun (ssh_base (lit ''b@h'') (lit ''x'') @ [in_remote_dir (lit ''/home/a/zre'') (lit ''echo ok'')]) (Some 35),
       MakeLogDir LOG_DIR]"
    by (simp add: smoke_main_def silent_machines_def demo_machines_def demo_options_def smoke_defaults_def idle_driver_def preflight_def run_andThen
        run_thenDo run_act_def run_perform remote_side_def new_remote_def occurs_in_def expanduser_def starts_with_def lit_def Let_def)
  have "list_all (marked (expanduser silent_machines (sa_remote_dir demo_options)))
     (dr_acts (snd (smoke_main silent_machines demo_options idle_driver)))"
    using launches_marked [of idle_driver _ silent_machines demo_options] by (simp add: list_all_iff idle_driver_def)
  then show ?thesis using acts by simp
qed

end
