(* ===== verification/Spec2Isabelle.thy ===== *)
theory Spec2Isabelle
  imports Zre_Wire_Properties Zre_Hub_Properties Zre_Peer_Properties Zre_Run_Properties
    Zre_Life_Properties Zre_Election_Properties Zre_Beacon_Properties
    Zre_Setup_Properties Zre_Gossip_Properties Zre_Mirror_Properties Zre_Delivery_Properties Zre_Meeting_Properties
    Zre_Ex_Transfer_Properties Zre_Ex_Properties Zre_Ex_Config_Properties Zre_Ex_Feeds_Properties
    Zre_Ex_Talk_Properties Zre_Ex_App Zre_Ex_Trial Zre_Keys_Properties Zre_Identity_Properties Zre_Smoke_Properties
begin

text \<open>
  \<^bold>\<open>zre, modelled and verified.\<close> \<open>zre\<close> is a Python implementation of ZRE, the ZeroMQ realtime exchange
  protocol: nodes of a network find each other by UDP beacons or through a gossip hub, connect by ZeroMQ
  sockets, form groups, send each other messages and elect leaders of groups.

  \<^bold>\<open>The parts of the program and how they interact.\<close> A \<open>ZreNode\<close> (\<open>src/zre/node.py\<close>) is one state
  object with a run loop. The application configures it, calls \<open>start\<close>, queues commands (\<open>join\<close>,
  \<open>leave\<close>, \<open>whisper\<close>, \<open>shout\<close>, \<open>connect_peer\<close>) and reads events. Each pass of \<open>run\<close> executes the
  queued commands, sends the beacon when it is due, serves the sockets that are ready and, once a
  second, reaps silent peers. A \<open>Peer\<close> owns the DEALER socket to one other node; a \<open>Group\<close> holds the
  members of a group and its election. The class \<open>Codec\<close> makes and reads the frames. A \<open>GossipHub\<close>
  (\<open>src/zre/gossip.py\<close>) is a key-value store that a node can host or be a client of; it is also a
  program of its own. The programs of \<open>src/examples/\<close> are applications of a node; those of \<open>src/scripts/\<close> make the keys of
  a phone, run a node against it, and drive the examples between two machines.

  \<^bold>\<open>Shape of the model.\<close> A method is a statement \<open>('s, 'a) prog\<close>: a function from the state to a
  result, an exception (\<open>Inl\<close>) or a value (\<open>Inr\<close>), and the state it leaves behind. The
  combinators \<open>andThen\<close>, \<open>thenDo\<close>, \<open>for_each\<close>, \<open>catch\<close>, \<open>suppress\<close> and \<open>try_finally\<close> follow the
  control flow of the code. Every exception that the code raises or lets escape is a value of \<open>exn\<close>;
  changes made before a raise stay. Bytes are 8-bit words, text is a list of code points, sequence
  numbers are 16-bit words as in \<open>Peer._next_seq\<close>, addresses are 32-bit words, dictionaries are
  association lists in the order of insertion. Peers are mutable objects shared by several tables, so
  they live in a heap and the tables hold addresses.

  \<^bold>\<open>Theories of the model, in the order of the code.\<close>

  \<^item> \<open>Zre_Prelude\<close>: statements, the judgements \<open>keeps\<close>, \<open>triple\<close> and \<open>never_raises\<close> with their rules,
    dictionaries (the locale \<open>dict\<close>), lists. \<open>Zre_Text\<close>: what the code uses of \<open>str\<close>, \<open>bytes\<close> and
    \<open>int\<close>: UTF-8, strict and with replacement, hexadecimal and decimal numbers.
  \<^item> \<open>Zre_Endpoint\<close>: the module-level helpers on names and addresses. \<open>Zre_Codec\<close>: the class \<open>Codec\<close>,
    field by field through the locale \<open>wire_field\<close>. \<open>Zre_Gossip_Codec\<close>: \<open>zgs_encode\<close> and
    \<open>zgs_decode\<close> of \<open>gossip.py\<close>.
  \<^item> \<open>Zre_World\<close>: sockets, clock, interfaces. \<open>Zre_Hub\<close>: the class \<open>GossipHub\<close> and \<open>_run_hub\<close>.
  \<^item> \<open>Zre_State\<close>: the records of a node. \<open>Zre_Peer\<close>: the classes \<open>Peer\<close> and \<open>Group\<close>.
    \<open>Zre_Election\<close>: the election methods. \<open>Zre_Connect\<close>: own addresses, keys, dialling.
    \<open>Zre_Beacon\<close>: beacons, sent and received. \<open>Zre_Messages\<close>: \<open>_handle_peer_msg\<close>, \<open>_handle_hello\<close> and
    what the commands do. \<open>Zre_Gossip_Client\<close>: the node as a client of hubs. \<open>Zre_Node\<close>: \<open>start\<close>, the
    run loop, reaping, collision, \<open>stop\<close>. \<open>Zre_Api\<close>: constructor, setters, commands, events, queries.
  \<^item> \<open>Zre_Ex_Common\<close> (\<open>_common.py\<close>), \<open>Zre_Ex_Transfer\<close> (\<open>file_transfer.py\<close>, \<open>media_stream.py\<close>),
    \<open>Zre_Ex_Trackers\<close> (\<open>health_monitor.py\<close>, \<open>presence.py\<close>, \<open>service_discovery.py\<close>,
    \<open>leader_election.py\<close>, \<open>chat.py\<close>), \<open>Zre_Ex_Lock\<close> (\<open>distributed_lock.py\<close>), \<open>Zre_Ex_Config\<close>
    (\<open>config_sync.py\<close>), \<open>Zre_Ex_Feeds\<close> (\<open>task_queue.py\<close>, \<open>game_sync.py\<close>, \<open>sensor_network.py\<close>),
    \<open>Zre_Ex_Mesh\<close> (\<open>gossip_mesh.py\<close>, \<open>wan_direct.py\<close>, \<open>fast_tick.py\<close>), \<open>Zre_Ex_Secure\<close>
    (\<open>secure_chat.py\<close>), \<open>Zre_Ex_Bench\<close> (\<open>whiteboard.py\<close>, \<open>benchmark.py\<close>) and \<open>Zre_Ex_App\<close>
    (\<open>ccalls/app.py\<close>): the example programs.
    Their state is a pair of the node, or the list of nodes, and what the program keeps itself.
  \<^item> \<open>Zre_Keys\<close> (\<open>curve_keys.py\<close>) and \<open>Zre_Identity\<close> (\<open>make_identity_xml.py\<close>): programs on a disk, a map from
    paths to files with their modes. \<open>Zre_Ex_Trial\<close> (\<open>phone_trial.py\<close>): a node against a phone. \<open>Zre_Smoke\<close>,
    \<open>Zre_Smoke_Tests\<close>, \<open>Zre_Smoke_Run\<close> (\<open>cross_smoke.py\<close>): the two machines, the tests, and \<open>main\<close>. The state of this
    driver is the list of what it has done, and the clock.

  \<^bold>\<open>What the lemmas show.\<close>

  \<^item> \<open>Zre_Wire_Properties\<close>: round trips of all frames and of endpoints, with the exact conditions under
    which encoding succeeds; the decoders are total and stay inside the datagram, with the one exception
    of \<open>zgs_decode\<close>.
  \<^item> \<open>Zre_Hub_Properties\<close>: a round of the hub refines an abstract store (the locale \<open>tuple_store\<close>); what
    a client is sent; the tuple that disables the hub.
  \<^item> \<open>Zre_Peer_Properties\<close>: the outcomes of sending, connecting and disconnecting.
  \<^item> \<open>Zre_Session\<close>, \<open>Zre_Roster\<close>, \<open>Zre_Handlers\<close>, \<open>Zre_Steps\<close>, \<open>Zre_Run\<close>: the invariant of the
    node's tables. The \<open>roster\<close> abstracts a node to who is there and in which groups. The locales
    \<open>chatter\<close>, \<open>session\<close>, \<open>bystander\<close> and \<open>observer\<close> are the contracts under which an invariant survives
    everything that only talks, everything that reports no change of peers or groups, and everything; \<open>leads\<close> says which rosters a statement may lead to and that the tables still agree
    (\<open>orderly\<close>). \<open>Zre_Run\<close> has the steps of a node as an inductive relation, its reachable states and
    the locale \<open>invariant\<close> with its interpretations.
  \<^item> \<open>Zre_Run_Properties\<close>, \<open>Zre_Life_Properties\<close>, \<open>Zre_Beacon_Properties\<close>: what holds in every
    reachable state; the effect of one message, one HELLO, one beacon and one reap on the roster; how a
    node and a hub end; that a beacon is read as it was built; that no queued event is lost.
  \<^item> \<open>Zre_Setup_Properties\<close>: the constructor and the setters leave a well-typed configuration, from which the
    reachable states start.
  \<^item> \<open>Zre_Mirror\<close>, \<open>Zre_Mirror_Properties\<close>: whoever reads the events knows the peers and the groups. \<open>see\<close> is
    the reader, \<open>told\<close> the invariant that ties what it has seen to the node's tables.
  \<^item> \<open>Zre_Delivery_Properties\<close>, \<open>Zre_Meeting_Properties\<close>: two nodes together. What one shouts or whispers is
    what the other posts; a beacon, the HELLO that it causes and the HELLO that answers it make two nodes
    list each other with their groups. \<open>Zre_Gossip_Properties\<close>: the same introduction by way of a hub, over the
    newcomer, the hub and a client that was there.
  \<^item> \<open>Zre_Election_Properties\<close>: an election step by step, and a whole election between two nodes that
    handle each other's frames.
  \<^item> \<open>Zre_Ex_Transfer_Properties\<close>, \<open>Zre_Ex_Properties\<close>: files arrive as they were sent (the locale
    \<open>chunk_sink\<close> for both receivers), and what goes wrong in the file transfer and the lock example.
    \<open>Zre_Ex_Config_Properties\<close>: when configuration tables converge and when they part.
    \<open>Zre_Ex_Feeds_Properties\<close>, \<open>Zre_Ex_Talk_Properties\<close>: a task and its answer, readings in range, messages
    under a key, strokes, addresses of peers; the clean-up that never stops its node.
  \<^item> \<open>Zre_Keys_Properties\<close>, \<open>Zre_Identity_Properties\<close>: no key file is written over, a new pair passes the check, and the app
    reads back the keys. \<open>Zre_Smoke_Properties\<close>: the shell reads the words that were quoted (\<open>sh_words\<close> is its
    rule), every process in the background carries the marker of the clean-up, status 0 means that every chosen test
    passed. \<open>Zre_Ex_App\<close> and \<open>Zre_Ex_Trial\<close> end with the pace of the commands and the order of the tear-down.

  \<^bold>\<open>What is a parameter.\<close> The record \<open>env\<close> stands for pyzmq, the operating system and the clock. Each of
  its functions sees the history of all that the program did and observed, so that nothing is assumed
  about their answers unless a property names it: that sends succeed (\<open>reliable\<close>), that a connect
  succeeds. The record \<open>pyrt\<close> is the part of Unicode that the interpreter decides: case mapping of
  non-ASCII text, digits and white space. What the two machines answer the smoke driver (\<open>smoke_env\<close>) and which paths the
  system opens (\<open>keylib\<close>) are arguments of the same kind. Z85, X25519, SHA-256, the text of JSON, the
  cipher of the secure chat and what \<open>random\<close> and \<open>os.urandom\<close> draw are parameters too. The answers
  of the poller, the reads of the sockets, and the turns of other asyncio tasks are arguments: a list of
  polls for \<open>run_loop\<close> and for the hub program, a list of turns or waits for the loops of the
  examples and for \<open>events\<close>. No fuel is needed beyond these lists: a loop that runs until it is
  cancelled is modelled for every finite list, so the properties hold at each of its passes, and every
  other loop of the code runs over a list. Three loops end by themselves: \<open>stop\<close>, the drained event queue, and \<open>poll_log\<close>, which the clock ends.

  \<^bold>\<open>Liberties of the model.\<close> Time is real where Python has floats, so rounding of deadlines is not
  seen. A Python set is the list of its elements in the order of insertion, and is iterated in an
  order that \<open>env\<close> chooses. \<open>_maintain_elections\<close> and \<open>_handle_elect\<close> compare ids as lists of code
  points, which is Python's order on \<open>str\<close>.

  \<^bold>\<open>Not modelled.\<close> Logging and printing, which change no state of the program; the parsing of command
  lines, and \<open>main\<close> of the examples where it does no more than that; ZAP authentication inside libzmq; the
  quantiles that the benchmark prints; what the processes do that the smoke driver starts; the tests and the
  programs in C and Kotlin.
\<close>

end
